(* ===== verification/Prelude.thy ===== *)
theory Prelude
  imports Main "HOL-Library.Char_ord"
begin

text \<open>
  Shared vocabulary: the Python string operations the code calls, decimal rendering of
  integers, association-list dictionaries, and lists used as database tables with a primary
  key. Strings are lists of bytes; case mapping and white space follow Python on the ASCII
  range, which is the range of every identifier, status, prefix and email the code compares.
\<close>

named_theorems prog \<open>unfolding of the primitives a service function is built from\<close>
named_theorems row_frame \<open>columns that a row operation leaves alone\<close>

section \<open>Python strings\<close>

definition lower_char :: "char \<Rightarrow> char" where
  "lower_char c = (if CHR ''A'' \<le> c \<and> c \<le> CHR ''Z'' then char_of (of_char c + 32 :: nat) else c)"

definition upper_char :: "char \<Rightarrow> char" where
  "upper_char c = (if CHR ''a'' \<le> c \<and> c \<le> CHR ''z'' then char_of (of_char c - 32 :: nat) else c)"

definition str_lower :: "string \<Rightarrow> string" where
  "str_lower s = map lower_char s"

definition str_upper :: "string \<Rightarrow> string" where
  "str_upper s = map upper_char s"

text \<open>ASCII white space of \<open>str.split()\<close> and \<open>str.strip()\<close>: 9..13, 28..31 and 32.\<close>

definition is_space :: "char \<Rightarrow> bool" where
  "is_space c = (let n = of_char c :: nat in (9 \<le> n \<and> n \<le> 13) \<or> (28 \<le> n \<and> n \<le> 32))"

definition str_strip :: "string \<Rightarrow> string" where
  "str_strip s = rev (dropWhile is_space (rev (dropWhile is_space s)))"

fun split_words :: "string \<Rightarrow> string \<Rightarrow> string list" where
  "split_words cur [] = (if cur = [] then [] else [rev cur])"
| "split_words cur (c # cs) =
     (if is_space c then (if cur = [] then split_words [] cs else rev cur # split_words [] cs)
      else split_words (c # cur) cs)"

definition str_split :: "string \<Rightarrow> string list" where
  "str_split s = split_words [] s"

fun split_on :: "char \<Rightarrow> string \<Rightarrow> string list" where
  "split_on sep [] = [[]]"
| "split_on sep (c # cs) =
     (if c = sep then [] # split_on sep cs
      else (case split_on sep cs of [] \<Rightarrow> [[c]] | w # ws \<Rightarrow> (c # w) # ws))"

definition str_replace_char :: "char \<Rightarrow> string \<Rightarrow> string \<Rightarrow> string" where
  "str_replace_char a b s = concat (map (\<lambda>c. if c = a then b else [c]) s)"

definition starts_with :: "string \<Rightarrow> string \<Rightarrow> bool" where
  "starts_with s p = (take (length p) s = p)"

fun contains_sub :: "string \<Rightarrow> string \<Rightarrow> bool" where
  "contains_sub [] p = (p = [])"
| "contains_sub (c # cs) p = (starts_with (c # cs) p \<or> contains_sub cs p)"

text \<open>Python's \<open>x or y\<close> on an optional string: both \<open>None\<close> and the empty string are false.\<close>

definition truthy :: "string option \<Rightarrow> bool" where
  "truthy x = (case x of None \<Rightarrow> False | Some s \<Rightarrow> s \<noteq> [])"

text \<open>The dash \<open>U+2014\<close> that marks a missing value, in UTF-8.\<close>

definition em_dash :: string where
  "em_dash = [char_of (226::nat), char_of (128::nat), char_of (148::nat)]"

section \<open>Decimal rendering\<close>

fun show_nat :: "nat \<Rightarrow> string" where
  "show_nat n = (if n < 10 then [char_of (48 + n)] else show_nat (n div 10) @ [char_of (48 + n mod 10)])"

declare show_nat.simps [simp del]

definition show_int :: "int \<Rightarrow> string" where
  "show_int i = (if i < 0 then ''-'' @ show_nat (nat (- i)) else show_nat (nat i))"

definition digit_val :: "char \<Rightarrow> nat" where
  "digit_val c = of_char c - 48"

definition read_nat :: "string \<Rightarrow> nat" where
  "read_nat s = foldl (\<lambda>a c. 10 * a + digit_val c) 0 s"

lemma digit_val_char: "n < 10 \<Longrightarrow> digit_val (char_of (48 + n)) = n"
  by (simp add: digit_val_def)

lemma read_show_nat [simp]: "read_nat (show_nat n) = n"
proof (induction n rule: show_nat.induct)
  case (1 n)
  show ?case
  proof (cases "n < 10")
    case True
    then show ?thesis by (simp add: show_nat.simps [of n] read_nat_def digit_val_char)
  next
    case False
    with 1 have "read_nat (show_nat (n div 10)) = n div 10" by simp
    with False show ?thesis
      by (simp add: show_nat.simps [of n] read_nat_def digit_val_char)
  qed
qed

lemma show_nat_inject [simp]: "show_nat m = show_nat n \<longleftrightarrow> m = n"
  by (metis read_show_nat)

lemma show_nat_nonempty [simp]: "show_nat n \<noteq> []"
  by (simp add: show_nat.simps [of n])

section \<open>Case folding\<close>

lemma lower_char_idem [simp]: "lower_char (lower_char c) = lower_char c"
proof (cases "CHR ''A'' \<le> c \<and> c \<le> CHR ''Z''")
  case True
  then have b: "65 \<le> (of_char c :: nat)" "(of_char c :: nat) \<le> 90"
    by (simp_all add: less_eq_char_def)
  then have "(of_char (char_of (of_char c + 32 :: nat) :: char) :: nat) = of_char c + 32"
    by simp
  moreover have "lower_char c = char_of (of_char c + 32 :: nat)"
    using True by (simp add: lower_char_def)
  ultimately show ?thesis using b by (simp add: lower_char_def less_eq_char_def)
next
  case False
  then have "lower_char c = c" by (simp only: lower_char_def if_False)
  then show ?thesis by simp
qed

lemma str_lower_idem [simp]: "str_lower (str_lower s) = str_lower s"
  by (simp add: str_lower_def)

lemma str_lower_simps [simp]:
  "str_lower [] = []" "str_lower (c # s) = lower_char c # str_lower s"
  by (simp_all add: str_lower_def)

lemma length_str_lower [simp]: "length (str_lower s) = length s"
  by (simp add: str_lower_def)

section \<open>Dictionaries as association lists\<close>

type_synonym 'v dict = "(string \<times> 'v) list"

text \<open>
  \<open>d[k] = v\<close>: an existing key keeps its place, a new key goes to the end, as in Python.
\<close>

fun dict_set :: "string \<Rightarrow> 'v \<Rightarrow> 'v dict \<Rightarrow> 'v dict" where
  "dict_set k v [] = [(k, v)]"
| "dict_set k v ((k', v') # d) = (if k' = k then (k, v) # d else (k', v') # dict_set k v d)"

definition dict_update :: "'v dict \<Rightarrow> 'v dict \<Rightarrow> 'v dict" where
  "dict_update d e = foldl (\<lambda>a (k, v). dict_set k v a) d e"

lemma map_of_dict_set [simp]: "map_of (dict_set k v d) = (map_of d)(k \<mapsto> v)"
  by (induction k v d rule: dict_set.induct) (auto simp: fun_eq_iff)

section \<open>Lists as tables\<close>

definition update_where :: "('r \<Rightarrow> bool) \<Rightarrow> ('r \<Rightarrow> 'r) \<Rightarrow> 'r list \<Rightarrow> 'r list" where
  "update_where p f rs = map (\<lambda>r. if p r then f r else r) rs"

definition page :: "nat \<Rightarrow> nat \<Rightarrow> 'r list \<Rightarrow> 'r list" where
  "page limit offset rs = take limit (drop offset rs)"

text \<open>
  \<open>ORDER BY key DESC\<close>. SQL leaves the order of equal keys open; the model keeps table order.
\<close>

definition order_desc :: "('r \<Rightarrow> int) \<Rightarrow> 'r list \<Rightarrow> 'r list" where
  "order_desc key rs = sort_key (\<lambda>r. - key r) rs"

lemma length_update_where [simp]: "length (update_where p f rs) = length rs"
  by (simp add: update_where_def)

lemma update_where_Nil [simp]: "update_where p f [] = []"
  by (simp add: update_where_def)

lemma update_where_Cons [simp]:
  "update_where p f (r # rs) = (if p r then f r else r) # update_where p f rs"
  by (simp add: update_where_def)

lemma map_update_where:
  "(\<And>r. p r \<Longrightarrow> key (f r) = key r) \<Longrightarrow> map key (update_where p f rs) = map key rs"
  by (simp add: update_where_def)

lemma set_update_where:
  "set (update_where p f rs) = (f ` {r \<in> set rs. p r}) \<union> {r \<in> set rs. \<not> p r}"
  by (auto simp: update_where_def)

lemma update_where_none: "(\<And>r. r \<in> set rs \<Longrightarrow> \<not> p r) \<Longrightarrow> update_where p f rs = rs"
  by (simp add: update_where_def map_idI)

lemma set_order_desc [simp]: "set (order_desc key rs) = set rs"
  by (simp add: order_desc_def)

lemma length_order_desc [simp]: "length (order_desc key rs) = length rs"
  by (simp add: order_desc_def)

lemma length_page_le: "length (page l off rs) \<le> l"
  by (simp add: page_def)

lemma filter_key_unique:
  "distinct (map key rs) \<Longrightarrow> r \<in> set rs \<Longrightarrow> filter (\<lambda>x. key x = key r) rs = [r]"
proof (induction rs)
  case Nil
  then show ?case by simp
next
  case (Cons a rs)
  show ?case
  proof (cases "a = r")
    case True
    with Cons.prems have "filter (\<lambda>x. key x = key r) rs = []"
      by (auto simp: filter_empty_conv image_iff)
    with True show ?thesis by simp
  next
    case False
    with Cons.prems have "key a \<noteq> key r" by auto
    with Cons False show ?thesis by simp
  qed
qed

lemma filter_key_cases:
  assumes "distinct (map key rs)"
  obtains "filter (\<lambda>x. key x = k) rs = []" "k \<notin> key ` set rs"
  | r where "filter (\<lambda>x. key x = k) rs = [r]" "r \<in> set rs" "key r = k"
  using assms filter_key_unique [OF assms]
  by (cases "k \<in> key ` set rs") (auto simp: filter_empty_conv)

end
