(* ===== verification/Tables.thy ===== *)
theory Tables
  imports Prelude
begin

text \<open>
  The contract between the services and the tables they read and write: a table is a component
  \<open>tab\<close> of the store with an updater \<open>upd\<close> and a primary key. The services insert rows, change
  the rows of a key, and select by key; the lemmas say what a select finds afterwards. Each table
  of \<open>Models\<close> interprets the locale.
\<close>

definition by_key :: "('r \<Rightarrow> 'k) \<Rightarrow> 'k \<Rightarrow> 'r list \<Rightarrow> 'r list" where
  "by_key key k rs = filter (\<lambda>r. key r = k) rs"

definition insert_row :: "'r \<Rightarrow> 'r list \<Rightarrow> 'r list" where
  "insert_row r rs = rs @ [r]"

definition change_row :: "('r \<Rightarrow> 'k) \<Rightarrow> 'k \<Rightarrow> ('r \<Rightarrow> 'r) \<Rightarrow> 'r list \<Rightarrow> 'r list" where
  "change_row key k f rs = update_where (\<lambda>r. key r = k) f rs"

definition keys_unique :: "('r \<Rightarrow> 'k) \<Rightarrow> 'r list \<Rightarrow> bool" where
  "keys_unique key rs = distinct (map key rs)"

lemma by_key_Nil [simp]: "by_key key k [] = []"
  by (simp add: by_key_def)

lemma by_key_insert: "by_key key k (insert_row r rs) = by_key key k rs @ (if key r = k then [r] else [])"
  by (simp add: by_key_def insert_row_def)

lemma by_key_change:
  "(\<And>r. key (f r) = key r) \<Longrightarrow>
   by_key key k' (change_row key k f rs) = (if k' = k then map f (by_key key k rs) else by_key key k' rs)"
  by (induction rs) (auto simp: by_key_def change_row_def)

lemma keys_unique_insert:
  "keys_unique key (insert_row r rs) \<longleftrightarrow> keys_unique key rs \<and> key r \<notin> key ` set rs"
  by (auto simp: keys_unique_def insert_row_def)

lemma map_change_row:
  "(\<And>r. key (f r) = key r) \<Longrightarrow> map key (change_row key' k f rs) = map key rs"
  by (induction rs) (auto simp: change_row_def)

lemma keys_unique_change:
  "(\<And>r. key (f r) = key r) \<Longrightarrow> keys_unique key (change_row key' k f rs) = keys_unique key rs"
  by (simp add: keys_unique_def map_change_row)

lemma by_key_cases:
  assumes "keys_unique key rs"
  obtains (absent) "by_key key k rs = []" "k \<notin> key ` set rs"
  | (present) r where "by_key key k rs = [r]" "r \<in> set rs" "key r = k"
  using assms unfolding keys_unique_def by_key_def by (rule filter_key_cases)

lemma by_key_unique: "keys_unique key rs \<Longrightarrow> r \<in> set rs \<Longrightarrow> by_key key (key r) rs = [r]"
  unfolding keys_unique_def by_key_def by (rule filter_key_unique)

lemma in_by_key [simp]: "r \<in> set (by_key key k rs) \<longleftrightarrow> r \<in> set rs \<and> key r = k"
  by (auto simp: by_key_def)

lemma by_key_Cons: "by_key key k rs = r # xs \<Longrightarrow> r \<in> set rs \<and> key r = k"
  by (metis in_by_key list.set_intros(1))

lemma by_key_empty_iff: "by_key key k rs = [] \<longleftrightarrow> k \<notin> key ` set rs"
  by (auto simp: by_key_def filter_empty_conv)

locale keyed_table =
  fixes key :: "'r \<Rightarrow> 'k"
    and tab :: "'s \<Rightarrow> 'r list"
    and upd :: "('r list \<Rightarrow> 'r list) \<Rightarrow> 's \<Rightarrow> 's"
  assumes tab_upd: "tab (upd g s) = g (tab s)"
begin

lemma select_after_insert:
  assumes "keys_unique key (tab s)" and "key r \<notin> key ` set (tab s)"
  shows "by_key key (key r) (tab (upd (insert_row r) s)) = [r]"
  using assms by (simp add: tab_upd by_key_insert by_key_empty_iff)

lemma select_other_after_insert:
  "k \<noteq> key r \<Longrightarrow> by_key key k (tab (upd (insert_row r) s)) = by_key key k (tab s)"
  by (simp add: tab_upd by_key_insert)

lemma select_after_change:
  assumes "by_key key k (tab s) = [r]" and "\<And>x. key (f x) = key x"
  shows "by_key key k (tab (upd (change_row key k f) s)) = [f r]"
  using assms by (simp add: tab_upd by_key_change)

lemma select_other_after_change:
  assumes "k' \<noteq> k" and "\<And>x. key (f x) = key x"
  shows "by_key key k' (tab (upd (change_row key k f) s)) = by_key key k' (tab s)"
  using assms by (simp add: tab_upd by_key_change)

lemma unique_after_insert:
  "keys_unique key (tab (upd (insert_row r) s)) \<longleftrightarrow>
   keys_unique key (tab s) \<and> key r \<notin> key ` set (tab s)"
  by (simp add: tab_upd keys_unique_insert)

lemma unique_after_change:
  "(\<And>x. key (f x) = key x) \<Longrightarrow>
   keys_unique key (tab (upd (change_row key k f) s)) = keys_unique key (tab s)"
  by (simp add: tab_upd keys_unique_change)

end

end
