(* ===== verification/Rbac.thy ===== *)
theory Rbac
  imports Prelude
begin

text \<open>
  Role-based access control, \<open>app/core/rbac.py\<close>: role slugs, permission keys, the default
  matrices, the fallback for unknown roles and the test \<open>has_permission\<close> that every guarded
  route goes through.
\<close>

section \<open>Enumerations\<close>

datatype role_slug = ADMIN | RA_LEAD | ANALYST | VIEWER

primrec slug_value :: "role_slug \<Rightarrow> string" where
  "slug_value ADMIN = ''admin''"
| "slug_value RA_LEAD = ''ra_lead''"
| "slug_value ANALYST = ''analyst''"
| "slug_value VIEWER = ''viewer''"

datatype perm_key =
    DASHBOARD
  | REPORTS
  | WORKBENCH
  | CASE_MANAGEMENT
  | PIPELINES
  | USER_MANAGEMENT
  | ROLE_MANAGEMENT
  | SETTINGS

primrec key_value :: "perm_key \<Rightarrow> string" where
  "key_value DASHBOARD = ''dashboard''"
| "key_value REPORTS = ''reports''"
| "key_value WORKBENCH = ''workbench''"
| "key_value CASE_MANAGEMENT = ''caseManagement''"
| "key_value PIPELINES = ''pipelines''"
| "key_value USER_MANAGEMENT = ''userManagement''"
| "key_value ROLE_MANAGEMENT = ''roleManagement''"
| "key_value SETTINGS = ''settings''"

datatype perm_action = View | Edit

primrec action_value :: "perm_action \<Rightarrow> string" where
  "action_value View = ''view''"
| "action_value Edit = ''edit''"

text \<open>Iterating an \<open>StrEnum\<close> visits its members in the order of their declaration.\<close>

instantiation perm_key :: enum
begin

definition enum_perm_key :: "perm_key list" where
  "enum_perm_key =
     [DASHBOARD, REPORTS, WORKBENCH, CASE_MANAGEMENT, PIPELINES, USER_MANAGEMENT, ROLE_MANAGEMENT, SETTINGS]"

definition enum_all_perm_key :: "(perm_key \<Rightarrow> bool) \<Rightarrow> bool" where
  "enum_all_perm_key P = list_all P enum_class.enum"

definition enum_ex_perm_key :: "(perm_key \<Rightarrow> bool) \<Rightarrow> bool" where
  "enum_ex_perm_key P = list_ex P enum_class.enum"

instance proof
  have every: "k \<in> set enum_class.enum" for k :: perm_key
    by (cases k) (simp_all add: enum_perm_key_def)
  then show "UNIV = set (enum_class.enum :: perm_key list)" by blast
  show "distinct (enum_class.enum :: perm_key list)" by (simp add: enum_perm_key_def)
  fix P :: "perm_key \<Rightarrow> bool"
  show "enum_class.enum_all P \<longleftrightarrow> Ball UNIV P"
    using every by (auto simp: enum_all_perm_key_def list_all_iff)
  show "enum_class.enum_ex P \<longleftrightarrow> Bex UNIV P"
    using every by (auto simp: enum_ex_perm_key_def list_ex_iff)
qed

end

lemma key_value_inject [simp]: "key_value a = key_value b \<longleftrightarrow> a = b"
  by (cases a; cases b) simp_all

lemma slug_value_inject [simp]: "slug_value a = slug_value b \<longleftrightarrow> a = b"
  by (cases a; cases b) simp_all

section \<open>Permission matrices\<close>

type_synonym permission_map = "bool dict dict"

definition ROLE_LABELS :: "string dict" where
  "ROLE_LABELS =
     [(slug_value ADMIN, ''Administrator''),
      (slug_value RA_LEAD, ''RA Manager''),
      (slug_value ANALYST, ''RA Analyst''),
      (slug_value VIEWER, ''Report Viewer'')]"

definition entry :: "bool \<Rightarrow> bool \<Rightarrow> bool dict" where
  "entry v e = [(''view'', v), (''edit'', e)]"

definition full_permissions :: permission_map where
  "full_permissions = map (\<lambda>k. (key_value k, entry True True)) enum_class.enum"

definition DEFAULT_ROLE_PERMISSIONS :: "permission_map dict" where
  "DEFAULT_ROLE_PERMISSIONS =
     [(slug_value ADMIN, full_permissions),
      (slug_value RA_LEAD,
        [(key_value DASHBOARD, entry True True),
         (key_value REPORTS, entry True True),
         (key_value WORKBENCH, entry True True),
         (key_value CASE_MANAGEMENT, entry True True),
         (key_value PIPELINES, entry True True),
         (key_value USER_MANAGEMENT, entry False False),
         (key_value ROLE_MANAGEMENT, entry False False),
         (key_value SETTINGS, entry True False)]),
      (slug_value ANALYST,
        [(key_value DASHBOARD, entry True False),
         (key_value REPORTS, entry True False),
         (key_value WORKBENCH, entry True True),
         (key_value CASE_MANAGEMENT, entry True True),
         (key_value PIPELINES, entry True False),
         (key_value USER_MANAGEMENT, entry False False),
         (key_value ROLE_MANAGEMENT, entry False False),
         (key_value SETTINGS, entry False False)]),
      (slug_value VIEWER,
        [(key_value DASHBOARD, entry True False),
         (key_value REPORTS, entry True False),
         (key_value WORKBENCH, entry False False),
         (key_value CASE_MANAGEMENT, entry False False),
         (key_value PIPELINES, entry True False),
         (key_value USER_MANAGEMENT, entry False False),
         (key_value ROLE_MANAGEMENT, entry False False),
         (key_value SETTINGS, entry False False)])]"

definition default_permissions_for :: "string \<Rightarrow> permission_map" where
  "default_permissions_for role =
     (case map_of DEFAULT_ROLE_PERMISSIONS role of Some m \<Rightarrow> m | None \<Rightarrow> full_permissions)"

text \<open>\<open>bool(entry and entry.get(action, False))\<close>: an absent or empty entry denies.\<close>

definition has_permission :: "permission_map \<Rightarrow> perm_key \<Rightarrow> perm_action \<Rightarrow> bool" where
  "has_permission perms key action =
     (case map_of perms (key_value key) of
        None \<Rightarrow> False
      | Some e \<Rightarrow> e \<noteq> [] \<and> (case map_of e (action_value action) of None \<Rightarrow> False | Some b \<Rightarrow> b))"

section \<open>Correctness\<close>

definition grants_at_most :: "permission_map \<Rightarrow> permission_map \<Rightarrow> bool" where
  "grants_at_most a b =
     (\<forall>k. (has_permission a k View \<longrightarrow> has_permission b k View) \<and>
          (has_permission a k Edit \<longrightarrow> has_permission b k Edit))"

definition edit_implies_view :: "permission_map \<Rightarrow> bool" where
  "edit_implies_view m = (\<forall>k. has_permission m k Edit \<longrightarrow> has_permission m k View)"

lemma all_perm_key: "(\<forall>k. P k) \<longleftrightarrow>
  P DASHBOARD \<and> P REPORTS \<and> P WORKBENCH \<and> P CASE_MANAGEMENT \<and>
  P PIPELINES \<and> P USER_MANAGEMENT \<and> P ROLE_MANAGEMENT \<and> P SETTINGS"
  by (metis perm_key.exhaust)

lemmas matrix_simps =
  default_permissions_for_def DEFAULT_ROLE_PERMISSIONS_def full_permissions_def
  enum_perm_key_def entry_def has_permission_def

lemma has_permission_empty [simp]: "\<not> has_permission [] k a"
  by (simp add: has_permission_def)

lemma full_permissions_grant [simp]: "has_permission full_permissions k a"
  by (cases k; cases a) (simp_all add: matrix_simps)

lemma full_permissions_nonempty [simp]: "full_permissions \<noteq> []"
  by (simp add: matrix_simps)

lemma default_admin [simp]: "default_permissions_for ''admin'' = full_permissions"
  by (simp add: default_permissions_for_def DEFAULT_ROLE_PERMISSIONS_def)

lemma default_unknown:
  "role \<notin> slug_value ` UNIV \<Longrightarrow> default_permissions_for role = full_permissions"
proof -
  assume "role \<notin> slug_value ` UNIV"
  then have "role \<noteq> slug_value s" for s by blast
  then show ?thesis
    by (simp add: default_permissions_for_def DEFAULT_ROLE_PERMISSIONS_def del: slug_value.simps)
qed

lemma default_edit_implies_view:
  "has_permission (default_permissions_for (slug_value s)) k Edit \<Longrightarrow>
   has_permission (default_permissions_for (slug_value s)) k View"
  by (cases s; cases k) (simp_all add: matrix_simps)

lemma default_chain:
  "grants_at_most (default_permissions_for ''viewer'') (default_permissions_for ''analyst'')"
  "grants_at_most (default_permissions_for ''analyst'') (default_permissions_for ''ra_lead'')"
  "grants_at_most (default_permissions_for ''ra_lead'') (default_permissions_for ''admin'')"
  by (simp_all add: grants_at_most_def all_perm_key matrix_simps)

lemma default_no_admin_rights:
  "s \<noteq> ADMIN \<Longrightarrow> k \<in> {USER_MANAGEMENT, ROLE_MANAGEMENT} \<Longrightarrow>
   \<not> has_permission (default_permissions_for (slug_value s)) k a"
  by (cases s; cases a) (auto simp: matrix_simps)

text \<open>
  The shipped matrices are a chain of increasing rights (viewer, analyst, lead, admin), edit
  comes with view in each of them, the administrator holds every right, and user management, role
  management and the editing of settings belong to the administrator alone.
\<close>

theorem default_matrices_sound:
  "grants_at_most (default_permissions_for ''viewer'') (default_permissions_for ''analyst'') \<and>
   grants_at_most (default_permissions_for ''analyst'') (default_permissions_for ''ra_lead'') \<and>
   grants_at_most (default_permissions_for ''ra_lead'') (default_permissions_for ''admin'') \<and>
   has_permission (default_permissions_for ''admin'') k a \<and>
   (has_permission (default_permissions_for (slug_value s)) USER_MANAGEMENT a \<longleftrightarrow> s = ADMIN) \<and>
   (has_permission (default_permissions_for (slug_value s)) ROLE_MANAGEMENT a \<longleftrightarrow> s = ADMIN) \<and>
   (has_permission (default_permissions_for (slug_value s)) SETTINGS Edit \<longleftrightarrow> s = ADMIN) \<and>
   edit_implies_view (default_permissions_for (slug_value s))"
proof -
  have "has_permission (default_permissions_for (slug_value s)) SETTINGS Edit \<longleftrightarrow> s = ADMIN"
    by (cases s) (simp_all add: matrix_simps)
  then show ?thesis
    using default_chain default_edit_implies_view [of s] default_no_admin_rights [of s]
    by (cases "s = ADMIN") (auto simp: edit_implies_view_def)
qed

end
