(* ===== verification/Errors.thy ===== *)
theory Errors
  imports Prelude
begin

text \<open>
  The exception hierarchy and the global exception handlers of \<open>app/core/errors.py\<close>: every
  exception a request can end with is a value of \<open>exn\<close>, and \<open>handle_exn\<close> is the HTTP answer
  the handlers registered by \<open>register_exception_handlers\<close> give for it.
\<close>

section \<open>JSON values\<close>

datatype json = JNull | JBool bool | JInt int | JStr string | JArr "json list" | JObj "(string \<times> json) list"

section \<open>Domain exceptions\<close>

datatype app_class =
    AppError
  | NotFoundError
  | ConflictError
  | AuthenticationError
  | PermissionDeniedError
  | ValidationFailedError
  | UpstreamUnavailableError

text \<open>The class attributes \<open>status_code\<close> and \<open>code\<close>.\<close>

primrec status_code :: "app_class \<Rightarrow> nat" where
  "status_code AppError = 400"
| "status_code NotFoundError = 404"
| "status_code ConflictError = 409"
| "status_code AuthenticationError = 401"
| "status_code PermissionDeniedError = 403"
| "status_code ValidationFailedError = 422"
| "status_code UpstreamUnavailableError = 503"

primrec error_code :: "app_class \<Rightarrow> string" where
  "error_code AppError = ''app_error''"
| "error_code NotFoundError = ''not_found''"
| "error_code ConflictError = ''conflict''"
| "error_code AuthenticationError = ''unauthorized''"
| "error_code PermissionDeniedError = ''forbidden''"
| "error_code ValidationFailedError = ''validation_failed''"
| "error_code UpstreamUnavailableError = ''upstream_unavailable''"

text \<open>
  Everything a request can raise. \<open>App\<close> carries the message and the details dictionary;
  \<open>IntegrityError\<close> carries the class name of the DBAPI exception in \<open>exc.orig\<close>; every other
  Python exception is \<open>OtherExn\<close> with its class name and text.
\<close>

datatype exn =
    App app_class string "(string \<times> json) list"
  | RequestValidationError "json list"
  | HTTPException nat string "(string \<times> string) list"
  | IntegrityError string
  | OtherExn string string

section \<open>The error envelope and the handlers\<close>

definition envelope :: "string \<Rightarrow> string \<Rightarrow> (string \<times> json) list \<Rightarrow> json" where
  "envelope code message details =
     JObj [(''error'', JObj [(''code'', JStr code), (''message'', JStr message), (''details'', JObj details)])]"

record response =
  rs_status :: nat
  rs_content :: json
  rs_headers :: "(string \<times> string) list"

text \<open>\<open>_integrity\<close>: the DBAPI class name decides between conflict and validation failure.\<close>

definition integrity_answer :: "string \<Rightarrow> response" where
  "integrity_answer orig_class =
     (let origin = str_lower orig_class in
      if contains_sub origin ''unique'' then
        \<lparr>rs_status = 409, rs_content = envelope ''conflict'' ''A record with these values already exists.'' [],
         rs_headers = []\<rparr>
      else if contains_sub origin ''foreignkey'' then
        \<lparr>rs_status = 409, rs_content = envelope ''conflict'' ''Referenced record does not exist.'' [],
         rs_headers = []\<rparr>
      else
        \<lparr>rs_status = 422,
         rs_content = envelope ''validation_failed'' ''A field value violates a database constraint.'' [],
         rs_headers = []\<rparr>)"

fun handle_exn :: "exn \<Rightarrow> response" where
  "handle_exn (App c message details) =
     \<lparr>rs_status = status_code c, rs_content = envelope (error_code c) message details, rs_headers = []\<rparr>"
| "handle_exn (RequestValidationError errors) =
     \<lparr>rs_status = 422,
      rs_content = envelope ''validation_failed'' ''Request validation failed.'' [(''errors'', JArr errors)],
      rs_headers = []\<rparr>"
| "handle_exn (HTTPException status detail headers) =
     \<lparr>rs_status = status, rs_content = envelope ''http_error'' detail [], rs_headers = headers\<rparr>"
| "handle_exn (IntegrityError orig_class) = integrity_answer orig_class"
| "handle_exn (OtherExn cls text) =
     \<lparr>rs_status = 500, rs_content = envelope ''internal_error'' ''An unexpected error occurred.'' [],
      rs_headers = []\<rparr>"

section \<open>Correctness\<close>

text \<open>Reading an envelope back: the code and message a client finds in an answer.\<close>

fun envelope_fields :: "json \<Rightarrow> (string \<times> string) option" where
  "envelope_fields (JObj [(e, JObj [(c, JStr code), (m, JStr message), (d, JObj details)])]) =
     (if e = ''error'' \<and> c = ''code'' \<and> m = ''message'' \<and> d = ''details'' then Some (code, message) else None)"
| "envelope_fields _ = None"

lemma envelope_fields_envelope [simp]: "envelope_fields (envelope c m d) = Some (c, m)"
  by (simp add: envelope_def)

lemma integrity_answer_status: "rs_status (integrity_answer o1) \<in> {409, 422}"
  by (simp add: integrity_answer_def Let_def)

definition is_http :: "exn \<Rightarrow> bool" where
  "is_http e = (case e of HTTPException _ _ _ \<Rightarrow> True | _ \<Rightarrow> False)"

lemma handle_exn_envelope: "\<exists>c m. envelope_fields (rs_content (handle_exn e)) = Some (c, m)"
  by (cases e rule: handle_exn.cases) (simp_all add: integrity_answer_def Let_def)

lemma handle_exn_is_error:
  "\<not> is_http e \<Longrightarrow> 400 \<le> rs_status (handle_exn e) \<and> rs_status (handle_exn e) < 600"
proof (cases e)
  case (App c m d)
  then show ?thesis by (cases c) simp_all
next
  case (IntegrityError o1)
  then show ?thesis using integrity_answer_status [of o1] by auto
qed (simp_all add: is_http_def)

lemma handle_exn_500: "rs_status (handle_exn e) = 500 \<longleftrightarrow>
  (\<exists>c t. e = OtherExn c t) \<or> (\<exists>d h. e = HTTPException 500 d h)"
proof (cases e)
  case (App c m d)
  then show ?thesis by (cases c) simp_all
next
  case (IntegrityError o1)
  then show ?thesis using integrity_answer_status [of o1] by auto
qed simp_all

text \<open>
  Every failure a request can end with is answered with the one documented envelope, an
  internal text never reaches the client, and a domain error never answers 500.
\<close>

theorem error_envelope_uniform:
  "(\<exists>c m. envelope_fields (rs_content (handle_exn e)) = Some (c, m)) \<and>
   rs_content (handle_exn (OtherExn cls t)) = rs_content (handle_exn (OtherExn cls' t')) \<and>
   rs_status (handle_exn (App k m d)) = status_code k \<and>
   rs_status (handle_exn (App k m d)) \<noteq> 500"
  using handle_exn_envelope [of e] by (cases k) simp_all

end
