(* ===== verification/Models.thy ===== *)
theory Models
  imports Tables Rbac Errors Complex_Main
begin

text \<open>
  The ORM models: one record per table with the columns of the mapped class, the store of all
  tables, and the constraints the column definitions declare (widths, primary keys, unique
  indexes, foreign keys, NOT NULL and CHECK). Rows of a table are a list in insertion order.
  A column the code can set to NULL although it is declared NOT NULL (the fields of a case that
  PATCH sends as null) is optional here, and the constraint is part of the check.
\<close>

section \<open>Identity\<close>

record role =
  r_id :: string
  r_name :: string
  r_description :: string
  r_status :: string
  r_permissions :: permission_map
  r_is_system :: bool
  r_created_at :: int
  r_updated_at :: int

record user =
  u_id :: string
  u_full_name :: string
  u_email :: string
  u_phone :: "string option"
  u_department :: "string option"
  u_hashed_password :: string
  u_role_id :: string
  u_status :: string
  u_avatar :: "string option"
  u_last_login :: "int option"
  u_failed_login_count :: int
  u_locked_until :: "int option"
  u_must_reset_password :: bool
  u_password_changed_at :: "int option"
  u_created_at :: int
  u_updated_at :: int

definition is_active :: "user \<Rightarrow> bool" where
  "is_active u = (str_lower (u_status u) = ''active'')"

record user_session =
  s_id :: string
  s_user_id :: string
  s_refresh_jti :: string
  s_user_agent :: "string option"
  s_ip_address :: "string option"
  s_issued_at :: int
  s_expires_at :: int
  s_revoked_at :: "int option"
  s_last_seen_at :: "int option"

record audit_log =
  a_id :: string
  a_actor :: string
  a_actor_id :: "string option"
  a_action :: string
  a_target :: "string option"
  a_ip_address :: "string option"
  a_user_agent :: "string option"
  a_request_id :: "string option"
  a_meta :: json
  a_at :: int

section \<open>Assurance\<close>

definition CASE_SEVERITIES :: "string list" where
  "CASE_SEVERITIES = [''low'', ''medium'', ''high'', ''critical'']"

definition CASE_STATUSES :: "string list" where
  "CASE_STATUSES = [''Open'', ''In Progress'', ''Resolved'', ''Closed'', ''Cancelled'']"

record case_row =
  c_id :: string
  c_reference :: string
  c_title :: "string option"
  c_description :: "string option"
  c_severity :: "string option"
  c_status :: "string option"
  c_owner :: "string option"
  c_owner_id :: "string option"
  c_linked_txn_id :: "string option"
  c_estimated_impact :: "rat option"
  c_created_at :: int
  c_updated_at :: int

record case_comment =
  cc_id :: string
  cc_case_id :: string
  cc_author :: string
  cc_body :: string
  cc_created_at :: int

record saved_query =
  q_id :: string
  q_reference :: string
  q_name :: string
  q_owner :: "string option"
  q_definition :: json
  q_last_count :: int
  q_created_at :: int
  q_updated_at :: int

section \<open>Operations\<close>

record decoder =
  d_id :: string
  d_name :: string
  d_version :: string
  d_status :: string
  d_throughput :: "string option"
  d_config :: json
  d_created_at :: int
  d_updated_at :: int

record system_config =
  sc_id :: string
  sc_environment :: string
  sc_retention_days :: int
  sc_sla_minutes :: int
  sc_alert_email :: "string option"
  sc_maintenance_mode :: bool
  sc_extra :: json
  sc_created_at :: int
  sc_updated_at :: int

record pipeline_alert =
  al_id :: string
  al_severity :: string
  al_stage :: string
  al_message :: string
  al_status :: string
  al_acknowledged_by :: "string option"
  al_created_at :: int

section \<open>Reporting\<close>

record report =
  rp_id :: string
  rp_reference :: string
  rp_name :: string
  rp_report_type :: string
  rp_period :: "string option"
  rp_status :: string
  rp_size_bytes :: "int option"
  rp_file_path :: "string option"
  rp_checksum_sha256 :: "string option"
  rp_requested_by :: "string option"
  rp_params :: json
  rp_error :: "string option"
  rp_completed_at :: "int option"
  rp_created_at :: int
  rp_updated_at :: int

section \<open>The store\<close>

record store =
  roles :: "role list"
  users :: "user list"
  user_sessions :: "user_session list"
  audit_logs :: "audit_log list"
  cases :: "case_row list"
  case_comments :: "case_comment list"
  saved_queries :: "saved_query list"
  decoders :: "decoder list"
  configs :: "system_config list"
  alerts :: "pipeline_alert list"
  reports :: "report list"

definition empty_store :: store where
  "empty_store =
     \<lparr>roles = [], users = [], user_sessions = [], audit_logs = [], cases = [], case_comments = [],
      saved_queries = [], decoders = [], configs = [], alerts = [], reports = []\<rparr>"

interpretation role_tab: keyed_table r_id roles roles_update
  by unfold_locales simp

interpretation user_tab: keyed_table u_id users users_update
  by unfold_locales simp

interpretation session_tab: keyed_table s_id user_sessions user_sessions_update
  by unfold_locales simp

interpretation audit_tab: keyed_table a_id audit_logs audit_logs_update
  by unfold_locales simp

interpretation case_tab: keyed_table c_id cases cases_update
  by unfold_locales simp

interpretation comment_tab: keyed_table cc_id case_comments case_comments_update
  by unfold_locales simp

interpretation query_tab: keyed_table q_id saved_queries saved_queries_update
  by unfold_locales simp

interpretation decoder_tab: keyed_table d_id decoders decoders_update
  by unfold_locales simp

interpretation config_tab: keyed_table sc_id configs configs_update
  by unfold_locales simp

interpretation alert_tab: keyed_table al_id alerts alerts_update
  by unfold_locales simp

interpretation report_tab: keyed_table rp_id reports reports_update
  by unfold_locales simp

section \<open>Constraints\<close>

definition fits :: "nat \<Rightarrow> string \<Rightarrow> bool" where
  "fits n s = (length s \<le> n)"

definition fits_opt :: "nat \<Rightarrow> string option \<Rightarrow> bool" where
  "fits_opt n s = (case s of None \<Rightarrow> True | Some x \<Rightarrow> length x \<le> n)"

definition fits_int4 :: "int \<Rightarrow> bool" where
  "fits_int4 i = (- (2 ^ 31) \<le> i \<and> i < 2 ^ 31)"

definition inet_opt :: "(string \<Rightarrow> bool) \<Rightarrow> string option \<Rightarrow> bool" where
  "inet_opt inet s = (case s of None \<Rightarrow> True | Some x \<Rightarrow> inet x)"

definition role_fits :: "role \<Rightarrow> bool" where
  "role_fits r = (fits 64 (r_id r) \<and> fits 128 (r_name r) \<and> fits 32 (r_status r))"

definition user_fits :: "user \<Rightarrow> bool" where
  "user_fits u =
     (fits 36 (u_id u) \<and> fits 255 (u_full_name u) \<and> fits 255 (u_email u) \<and> fits_opt 64 (u_phone u) \<and>
      fits_opt 128 (u_department u) \<and> fits 255 (u_hashed_password u) \<and> fits 32 (u_status u) \<and>
      fits_opt 16 (u_avatar u) \<and> fits_int4 (u_failed_login_count u))"

definition session_fits :: "(string \<Rightarrow> bool) \<Rightarrow> user_session \<Rightarrow> bool" where
  "session_fits inet s =
     (fits 36 (s_id s) \<and> fits 64 (s_refresh_jti s) \<and> fits_opt 512 (s_user_agent s) \<and>
      inet_opt inet (s_ip_address s))"

definition audit_fits :: "(string \<Rightarrow> bool) \<Rightarrow> audit_log \<Rightarrow> bool" where
  "audit_fits inet a =
     (fits 36 (a_id a) \<and> fits 128 (a_actor a) \<and> fits 255 (a_action a) \<and> fits_opt 255 (a_target a) \<and>
      inet_opt inet (a_ip_address a) \<and> fits_opt 512 (a_user_agent a) \<and> fits_opt 64 (a_request_id a))"

definition case_fits :: "case_row \<Rightarrow> bool" where
  "case_fits c =
     (fits 36 (c_id c) \<and> fits 32 (c_reference c) \<and> fits_opt 512 (c_title c) \<and> fits_opt 16 (c_severity c) \<and>
      fits_opt 32 (c_status c) \<and> fits_opt 128 (c_owner c) \<and> fits_opt 36 (c_owner_id c) \<and>
      fits_opt 128 (c_linked_txn_id c))"

definition comment_fits :: "case_comment \<Rightarrow> bool" where
  "comment_fits c = (fits 36 (cc_id c) \<and> fits 128 (cc_author c))"

definition query_fits :: "saved_query \<Rightarrow> bool" where
  "query_fits q = (fits 36 (q_id q) \<and> fits 32 (q_reference q) \<and> fits 512 (q_name q) \<and> fits_opt 128 (q_owner q))"

definition decoder_fits :: "decoder \<Rightarrow> bool" where
  "decoder_fits d =
     (fits 64 (d_id d) \<and> fits 255 (d_name d) \<and> fits 32 (d_version d) \<and> fits 32 (d_status d) \<and>
      fits_opt 32 (d_throughput d))"

definition config_fits :: "system_config \<Rightarrow> bool" where
  "config_fits c =
     (fits 32 (sc_id c) \<and> fits 32 (sc_environment c) \<and> fits_int4 (sc_retention_days c) \<and>
      fits_int4 (sc_sla_minutes c) \<and> fits_opt 255 (sc_alert_email c))"

definition alert_fits :: "pipeline_alert \<Rightarrow> bool" where
  "alert_fits a =
     (fits 64 (al_id a) \<and> fits 16 (al_severity a) \<and> fits 64 (al_stage a) \<and> fits 32 (al_status a) \<and>
      fits_opt 128 (al_acknowledged_by a))"

definition report_fits :: "report \<Rightarrow> bool" where
  "report_fits r =
     (fits 36 (rp_id r) \<and> fits 32 (rp_reference r) \<and> fits 255 (rp_name r) \<and> fits 64 (rp_report_type r) \<and>
      fits_opt 32 (rp_period r) \<and> fits 32 (rp_status r) \<and> fits_opt 1024 (rp_file_path r) \<and>
      fits_opt 64 (rp_checksum_sha256 r) \<and> fits_opt 128 (rp_requested_by r))"

definition widths_ok :: "(string \<Rightarrow> bool) \<Rightarrow> store \<Rightarrow> bool" where
  "widths_ok inet s =
     (list_all role_fits (roles s) \<and> list_all user_fits (users s) \<and>
      list_all (session_fits inet) (user_sessions s) \<and> list_all (audit_fits inet) (audit_logs s) \<and>
      list_all case_fits (cases s) \<and> list_all comment_fits (case_comments s) \<and>
      list_all query_fits (saved_queries s) \<and> list_all decoder_fits (decoders s) \<and>
      list_all config_fits (configs s) \<and> list_all alert_fits (alerts s) \<and> list_all report_fits (reports s))"

definition uniques_ok :: "store \<Rightarrow> bool" where
  "uniques_ok s =
     (keys_unique r_id (roles s) \<and> keys_unique u_id (users s) \<and> keys_unique u_email (users s) \<and>
      keys_unique s_id (user_sessions s) \<and> keys_unique s_refresh_jti (user_sessions s) \<and>
      keys_unique a_id (audit_logs s) \<and> keys_unique c_id (cases s) \<and> keys_unique c_reference (cases s) \<and>
      keys_unique cc_id (case_comments s) \<and> keys_unique q_id (saved_queries s) \<and>
      keys_unique q_reference (saved_queries s) \<and> keys_unique d_id (decoders s) \<and>
      keys_unique sc_id (configs s) \<and> keys_unique al_id (alerts s) \<and> keys_unique rp_id (reports s) \<and>
      keys_unique rp_reference (reports s))"

definition refers :: "('r \<Rightarrow> string) \<Rightarrow> 'r list \<Rightarrow> string \<Rightarrow> bool" where
  "refers key rs k = list_ex (\<lambda>r. key r = k) rs"

definition foreign_keys_ok :: "store \<Rightarrow> bool" where
  "foreign_keys_ok s =
     (list_all (\<lambda>u. refers r_id (roles s) (u_role_id u)) (users s) \<and>
      list_all (\<lambda>x. refers u_id (users s) (s_user_id x)) (user_sessions s) \<and>
      list_all (\<lambda>a. case a_actor_id a of None \<Rightarrow> True | Some i \<Rightarrow> refers u_id (users s) i) (audit_logs s) \<and>
      list_all (\<lambda>c. refers c_id (cases s) (cc_case_id c)) (case_comments s))"

definition not_nulls_ok :: "store \<Rightarrow> bool" where
  "not_nulls_ok s =
     list_all (\<lambda>c. c_title c \<noteq> None \<and> c_description c \<noteq> None \<and> c_severity c \<noteq> None \<and> c_status c \<noteq> None)
       (cases s)"

definition in_list :: "string list \<Rightarrow> string option \<Rightarrow> bool" where
  "in_list vs x = (case x of None \<Rightarrow> True | Some v \<Rightarrow> v \<in> set vs)"

definition checks_ok :: "store \<Rightarrow> bool" where
  "checks_ok s =
     list_all (\<lambda>c. in_list CASE_SEVERITIES (c_severity c) \<and> in_list CASE_STATUSES (c_status c)) (cases s)"

datatype violation = DataViolation | UniqueViolation | ForeignKeyViolation | NotNullViolation | CheckViolation

text \<open>What the server reports for a store that breaks a constraint, \<open>None\<close> if it breaks none.\<close>

definition violation_of :: "(string \<Rightarrow> bool) \<Rightarrow> store \<Rightarrow> violation option" where
  "violation_of inet s =
     (if \<not> widths_ok inet s then Some DataViolation
      else if \<not> not_nulls_ok s then Some NotNullViolation
      else if \<not> checks_ok s then Some CheckViolation
      else if \<not> uniques_ok s then Some UniqueViolation
      else if \<not> foreign_keys_ok s then Some ForeignKeyViolation
      else None)"

definition store_ok :: "(string \<Rightarrow> bool) \<Rightarrow> store \<Rightarrow> bool" where
  "store_ok inet s =
     (widths_ok inet s \<and> not_nulls_ok s \<and> checks_ok s \<and> uniques_ok s \<and> foreign_keys_ok s)"

lemma violation_None [simp]: "violation_of inet s = None \<longleftrightarrow> store_ok inet s"
  by (simp add: violation_of_def store_ok_def)

lemma violation_ok: "store_ok inet s \<Longrightarrow> violation_of inet s = None"
  by simp

lemma empty_store_ok [simp]: "store_ok inet empty_store"
  by (simp add: store_ok_def empty_store_def widths_ok_def not_nulls_ok_def checks_ok_def uniques_ok_def
      foreign_keys_ok_def keys_unique_def)

lemmas constraint_defs =
  widths_ok_def uniques_ok_def foreign_keys_ok_def not_nulls_ok_def checks_ok_def

lemma list_all_insert_row [simp]: "list_all P (insert_row r rs) \<longleftrightarrow> list_all P rs \<and> P r"
  by (simp add: insert_row_def)

lemma refers_insert [simp]: "refers key (insert_row r rs) k \<longleftrightarrow> refers key rs k \<or> key r = k"
  by (auto simp: refers_def insert_row_def)

lemma refers_change:
  "(\<And>r. key (f r) = key r) \<Longrightarrow> refers key (change_row key' k f rs) i = refers key rs i"
  by (auto simp: refers_def change_row_def update_where_def list_ex_iff)

lemma refers_iff: "refers key rs k \<longleftrightarrow> k \<in> key ` set rs"
  by (auto simp: refers_def list_ex_iff)

lemma list_all_change_row:
  "list_all P rs \<Longrightarrow> (\<And>r. r \<in> set rs \<Longrightarrow> key r = k \<Longrightarrow> P r \<Longrightarrow> P (f r)) \<Longrightarrow> list_all P (change_row key k f rs)"
  by (auto simp: list_all_iff change_row_def update_where_def)

end
