(* ===== verification/Config.thy ===== *)
theory Config
  imports Prelude
begin

text \<open>
  Settings, \<open>app/core/config.py\<close>: the fields of \<open>Settings\<close> with their defaults, the list of CORS
  origins and the production test. The two database URLs hand their parts to a builder.
\<close>

datatype environment_name = Development | Staging | Production

record settings =
  environment :: environment_name
  debug :: bool
  project_name :: string
  api_prefix :: string
  log_level :: string
  log_json :: bool
  cors_origins :: string
  jwt_secret :: string
  jwt_algorithm :: string
  access_token_expire_minutes :: int
  refresh_token_expire_minutes :: int
  max_failed_logins :: int
  lockout_minutes :: int
  bootstrap_admin_email :: string
  bootstrap_admin_password :: string
  app_db_host :: string
  app_db_port :: int
  app_db_name :: string
  app_db_user :: string
  app_db_password :: string
  app_db_schema :: string
  db_pool_size :: int
  db_max_overflow :: int
  db_echo :: bool
  redis_url :: string
  celery_broker_url :: string
  celery_result_backend :: string
  clickhouse_enabled :: bool
  clickhouse_host :: string
  clickhouse_port :: int
  clickhouse_user :: string
  clickhouse_password :: string
  clickhouse_database :: string
  ra_pg_enabled :: bool
  ra_pg_host :: string
  ra_pg_port :: int
  ra_pg_name :: string
  ra_pg_user :: string
  ra_pg_password :: string
  airflow_enabled :: bool
  airflow_base_url :: string
  airflow_username :: string
  airflow_password :: string
  reports_dir :: string

definition default_settings :: settings where
  "default_settings =
     \<lparr>environment = Development, debug = False,
      project_name = ''RADONAIX Revenue Assurance API'', api_prefix = ''/api'',
      log_level = ''INFO'', log_json = True,
      cors_origins = ''http://localhost:3000,http://localhost:5173,http://localhost:8080'',
      jwt_secret = ''change-me-in-production'', jwt_algorithm = ''HS256'',
      access_token_expire_minutes = 60 * 12, refresh_token_expire_minutes = 60 * 24 * 14,
      max_failed_logins = 5, lockout_minutes = 15,
      bootstrap_admin_email = ''admin@radonaix.io'', bootstrap_admin_password = ''ChangeMe!123'',
      app_db_host = ''localhost'', app_db_port = 5432, app_db_name = ''radonaix_app'',
      app_db_user = ''radonaix'', app_db_password = ''radonaix'', app_db_schema = ''administration'',
      db_pool_size = 10, db_max_overflow = 20, db_echo = False,
      redis_url = ''redis://localhost:6379/0'', celery_broker_url = ''redis://localhost:6379/1'',
      celery_result_backend = ''redis://localhost:6379/2'',
      clickhouse_enabled = True, clickhouse_host = ''localhost'', clickhouse_port = 8123,
      clickhouse_user = ''default'', clickhouse_password = [], clickhouse_database = ''rafms'',
      ra_pg_enabled = True, ra_pg_host = ''localhost'', ra_pg_port = 5432, ra_pg_name = ''rafms'',
      ra_pg_user = ''postgres'', ra_pg_password = ''postgres'',
      airflow_enabled = False, airflow_base_url = ''http://localhost:8081/api/v1'',
      airflow_username = ''airflow'', airflow_password = ''airflow'',
      reports_dir = ''/var/lib/radonaix/reports''\<rparr>"

definition cors_origin_list :: "settings \<Rightarrow> string list" where
  "cors_origin_list st =
     (let raw = str_strip (cors_origins st) in
      if raw = ''*'' then [''*'']
      else map str_strip (filter (\<lambda>o1. str_strip o1 \<noteq> []) (split_on (CHR '','') raw)))"

definition is_production :: "settings \<Rightarrow> bool" where
  "is_production st = (environment st = Production)"

text \<open>The \<open>min_length\<close> of the signing secret, which pydantic enforces at start-up.\<close>

definition settings_valid :: "settings \<Rightarrow> bool" where
  "settings_valid st = (8 \<le> length (jwt_secret st))"

lemma default_settings_valid: "settings_valid default_settings"
  by (simp add: settings_valid_def default_settings_def)

lemma cors_origins_nonempty: "o1 \<in> set (cors_origin_list st) \<Longrightarrow> o1 \<noteq> []"
  by (auto simp: cors_origin_list_def Let_def split: if_splits)

text \<open>
  The two connection strings of the application database; \<open>PostgresDsn.build\<close> is the argument, from
  scheme, user, password, host, port and path.
\<close>

type_synonym dsn_build = "string \<Rightarrow> string \<Rightarrow> string \<Rightarrow> string \<Rightarrow> int \<Rightarrow> string \<Rightarrow> string"

definition app_database_url :: "dsn_build \<Rightarrow> settings \<Rightarrow> string" where
  "app_database_url build st =
     build ''postgresql+asyncpg'' (app_db_user st) (app_db_password st) (app_db_host st) (app_db_port st) (app_db_name st)"

definition app_database_url_sync :: "dsn_build \<Rightarrow> settings \<Rightarrow> string" where
  "app_database_url_sync build st =
     build ''postgresql+psycopg2'' (app_db_user st) (app_db_password st) (app_db_host st) (app_db_port st) (app_db_name st)"

end
