(* ===== verification/Security.thy ===== *)
theory Security
  imports Config Errors
begin

text \<open>
  Password hashing and JWT issuance, \<open>app/core/security.py\<close>. The three libraries (argon2-cffi,
  bcrypt, PyJWT) are the fields of the record \<open>crypto\<close>; what the code relies on of them is
  \<open>hash_laws\<close> and \<open>jwt_law\<close>. Tokens are values of a type \<open>'t\<close>, because the code never looks
  inside an encoded token. Times are microseconds since the epoch.
\<close>

section \<open>The libraries\<close>

datatype lib_exn = VerifyMismatchError | InvalidHashError | VerificationError | ValueErr | TypeErr | LibOther string

datatype jwt_exn = ExpiredSignatureError | InvalidTokenError string

type_synonym claims = "json dict"

record 't crypto =
  ph_hash :: "nat \<Rightarrow> string \<Rightarrow> string"
  ph_verify :: "string \<Rightarrow> string \<Rightarrow> lib_exn + bool"
  ph_check_needs_rehash :: "string \<Rightarrow> lib_exn + bool"
  bcrypt_checkpw :: "string \<Rightarrow> string \<Rightarrow> lib_exn + bool"
  jwt_encode :: "claims \<Rightarrow> string \<Rightarrow> string \<Rightarrow> 't"
  jwt_decode :: "int \<Rightarrow> 't \<Rightarrow> string \<Rightarrow> string list \<Rightarrow> jwt_exn + claims"

section \<open>Passwords\<close>

definition BCRYPT_PREFIXES :: "string list" where
  "BCRYPT_PREFIXES = [''$2a$'', ''$2b$'', ''$2y$'']"

text \<open>\<open>hash_password\<close>: the salt argon2 draws is the number of the draw.\<close>

definition hash_password :: "'t crypto \<Rightarrow> nat \<Rightarrow> string \<Rightarrow> string" where
  "hash_password cr salt plain = ph_hash cr salt plain"

text \<open>The two \<open>except\<close> clauses of \<open>verify_password\<close>.\<close>

fun verify_caught :: "lib_exn \<Rightarrow> bool" where
  "verify_caught (LibOther n) = False"
| "verify_caught e = True"

definition verify_password :: "'t crypto \<Rightarrow> string \<Rightarrow> string \<Rightarrow> lib_exn + bool" where
  "verify_password cr plain hashed =
     (if hashed = [] then Inr False
      else case (if starts_with hashed ''$argon2'' then ph_verify cr hashed plain
                 else if list_ex (starts_with hashed) BCRYPT_PREFIXES then bcrypt_checkpw cr plain hashed
                 else Inr False) of
        Inl e \<Rightarrow> (if verify_caught e then Inr False else Inl e)
      | Inr b \<Rightarrow> Inr b)"

definition needs_rehash :: "'t crypto \<Rightarrow> string \<Rightarrow> lib_exn + bool" where
  "needs_rehash cr hashed =
     (if hashed = [] then Inr True
      else if starts_with hashed ''$argon2'' then
        (case ph_check_needs_rehash cr hashed of
           Inl InvalidHashError \<Rightarrow> Inr True
         | Inl e \<Rightarrow> Inl e
         | Inr b \<Rightarrow> Inr b)
      else Inr True)"

section \<open>Tokens\<close>

definition usec_per_minute :: int where
  "usec_per_minute = 60000000"

text \<open>\<open>timedelta(minutes = m)\<close> and \<open>int(d.timestamp())\<close> for a time after the epoch.\<close>

definition minutes :: "int \<Rightarrow> int" where
  "minutes m = m * usec_per_minute"

definition timestamp :: "int \<Rightarrow> int" where
  "timestamp t = t div 1000000"

text \<open>\<open>expires_minutes or default\<close>: \<open>None\<close> and 0 select the default.\<close>

definition or_default :: "int option \<Rightarrow> int \<Rightarrow> int" where
  "or_default m d = (case m of None \<Rightarrow> d | Some x \<Rightarrow> if x = 0 then d else x)"

definition access_payload :: "settings \<Rightarrow> int \<Rightarrow> string \<Rightarrow> claims \<Rightarrow> int option \<Rightarrow> claims" where
  "access_payload st now subject extra_claims expires_minutes =
     dict_update
       [(''sub'', JStr subject),
        (''iat'', JInt (timestamp now)),
        (''exp'', JInt (timestamp (now + minutes (or_default expires_minutes (access_token_expire_minutes st))))),
        (''type'', JStr ''access'')]
       extra_claims"

definition create_access_token :: "'t crypto \<Rightarrow> settings \<Rightarrow> int \<Rightarrow> string \<Rightarrow> claims \<Rightarrow> int option \<Rightarrow> 't" where
  "create_access_token cr st now subject extra_claims expires_minutes =
     jwt_encode cr (access_payload st now subject extra_claims expires_minutes) (jwt_secret st) (jwt_algorithm st)"

definition refresh_payload :: "settings \<Rightarrow> int \<Rightarrow> string \<Rightarrow> string \<Rightarrow> string \<Rightarrow> int option \<Rightarrow> claims" where
  "refresh_payload st now subject session_id jti expires_minutes =
     [(''sub'', JStr subject),
      (''iat'', JInt (timestamp now)),
      (''exp'', JInt (timestamp (now + minutes (or_default expires_minutes (refresh_token_expire_minutes st))))),
      (''type'', JStr ''refresh''),
      (''sid'', JStr session_id),
      (''jti'', JStr jti)]"

definition create_refresh_token :: "'t crypto \<Rightarrow> settings \<Rightarrow> int \<Rightarrow> string \<Rightarrow> string \<Rightarrow> string \<Rightarrow> int option \<Rightarrow> 't" where
  "create_refresh_token cr st now subject session_id jti expires_minutes =
     jwt_encode cr (refresh_payload st now subject session_id jti expires_minutes) (jwt_secret st) (jwt_algorithm st)"

definition decode_token :: "'t crypto \<Rightarrow> settings \<Rightarrow> int \<Rightarrow> 't \<Rightarrow> jwt_exn + claims" where
  "decode_token cr st now token = jwt_decode cr now token (jwt_secret st) [jwt_algorithm st]"

section \<open>What the code relies on of the libraries\<close>

text \<open>
  argon2-cffi: a fresh hash starts with \<open>$argon2id$\<close>, verifies its own password, raises
  \<open>VerifyMismatchError\<close> on another one, and does not need rehashing.
\<close>

definition hash_laws :: "'t crypto \<Rightarrow> bool" where
  "hash_laws cr =
     (\<forall>n p. starts_with (ph_hash cr n p) ''$argon2id$'' \<and>
        ph_verify cr (ph_hash cr n p) p = Inr True \<and>
        (\<forall>q. q \<noteq> p \<longrightarrow> ph_verify cr (ph_hash cr n p) q = Inl VerifyMismatchError) \<and>
        ph_check_needs_rehash cr (ph_hash cr n p) = Inr False)"

text \<open>
  PyJWT: \<open>decode\<close> under the key that signed gives the payload back, unless its \<open>exp\<close> second is
  not after the present time (\<open>ExpiredSignatureError\<close>). The payloads concerned hold a string
  \<open>sub\<close>, an \<open>iat\<close> that is not in the future, a string \<open>jti\<close> if any, and none of the claims
  \<open>decode\<close> would check further.
\<close>

definition plain_payload :: "int \<Rightarrow> claims \<Rightarrow> bool" where
  "plain_payload now p =
     ((\<exists>s. map_of p ''sub'' = Some (JStr s)) \<and>
      (\<exists>i. map_of p ''iat'' = Some (JInt i) \<and> i * 1000000 \<le> now) \<and>
      (case map_of p ''jti'' of None \<Rightarrow> True | Some j \<Rightarrow> (\<exists>s. j = JStr s)) \<and>
      map_of p ''nbf'' = None \<and> map_of p ''aud'' = None \<and> map_of p ''iss'' = None)"

definition jwt_law :: "'t crypto \<Rightarrow> bool" where
  "jwt_law cr =
     (\<forall>now p key alg e. plain_payload now p \<and> map_of p ''exp'' = Some (JInt e) \<longrightarrow>
        jwt_decode cr now (jwt_encode cr p key alg) key [alg] =
          (if e * 1000000 \<le> now then Inl ExpiredSignatureError else Inr p))"

section \<open>Correctness of the password functions\<close>

lemma starts_with_argon2: "starts_with h ''$argon2id$'' \<Longrightarrow> starts_with h ''$argon2'' \<and> h \<noteq> []"
proof -
  assume a: "starts_with h ''$argon2id$''"
  have "take (length ''$argon2'') h = take (length ''$argon2'') (take (length ''$argon2id$'') h)"
    by (simp add: min_def)
  also have "\<dots> = ''$argon2''" using a by (simp add: starts_with_def)
  finally show ?thesis using a by (auto simp: starts_with_def)
qed

lemma verify_hash_password:
  assumes "hash_laws cr"
  shows "verify_password cr q (hash_password cr n p) = Inr (q = p)"
proof -
  have "starts_with (ph_hash cr n p) ''$argon2'' \<and> ph_hash cr n p \<noteq> []"
    using assms starts_with_argon2 by (simp add: hash_laws_def)
  then show ?thesis
    using assms by (cases "q = p") (simp_all add: verify_password_def hash_password_def hash_laws_def)
qed

lemma needs_rehash_hash_password:
  assumes "hash_laws cr"
  shows "needs_rehash cr (hash_password cr n p) = Inr False"
proof -
  have "starts_with (ph_hash cr n p) ''$argon2'' \<and> ph_hash cr n p \<noteq> []"
    using assms starts_with_argon2 by (simp add: hash_laws_def)
  then show ?thesis
    using assms by (simp add: needs_rehash_def hash_password_def hash_laws_def)
qed

definition raises_only_documented :: "'t crypto \<Rightarrow> bool" where
  "raises_only_documented cr =
     (\<forall>h p n. ph_verify cr h p \<noteq> Inl (LibOther n) \<and> bcrypt_checkpw cr p h \<noteq> Inl (LibOther n))"

lemma verify_password_total:
  "raises_only_documented cr \<Longrightarrow> \<exists>b. verify_password cr p h = Inr b"
proof -
  assume r: "raises_only_documented cr"
  have "verify_caught e" if "ph_verify cr h p = Inl e \<or> bcrypt_checkpw cr p h = Inl e" for e
    using r that by (cases e) (auto simp: raises_only_documented_def)
  then show ?thesis
    by (cases "ph_verify cr h p"; cases "bcrypt_checkpw cr p h") (auto simp: verify_password_def ex_bool_eq)
qed

lemma verify_unknown_prefix:
  "\<not> starts_with h ''$argon2'' \<Longrightarrow> \<not> list_ex (starts_with h) BCRYPT_PREFIXES \<Longrightarrow>
   verify_password cr p h = Inr False"
  by (simp add: verify_password_def)

lemma needs_rehash_not_argon2: "\<not> starts_with h ''$argon2'' \<Longrightarrow> needs_rehash cr h = Inr True"
  by (simp add: needs_rehash_def)

section \<open>Correctness of the tokens\<close>

lemma access_payload_claims [simp]:
  "map_of (access_payload st now s [(''email'', e), (''role'', r), (''sid'', i)] m) =
   [''sub'' \<mapsto> JStr s, ''iat'' \<mapsto> JInt (timestamp now),
    ''exp'' \<mapsto> JInt (timestamp (now + minutes (or_default m (access_token_expire_minutes st)))),
    ''type'' \<mapsto> JStr ''access'', ''email'' \<mapsto> e, ''role'' \<mapsto> r, ''sid'' \<mapsto> i]"
  by (auto simp: access_payload_def dict_update_def fun_eq_iff)

lemma refresh_payload_claims [simp]:
  "map_of (refresh_payload st now s i j m) =
   [''sub'' \<mapsto> JStr s, ''iat'' \<mapsto> JInt (timestamp now),
    ''exp'' \<mapsto> JInt (timestamp (now + minutes (or_default m (refresh_token_expire_minutes st)))),
    ''type'' \<mapsto> JStr ''refresh'', ''sid'' \<mapsto> JStr i, ''jti'' \<mapsto> JStr j]"
  by (auto simp: refresh_payload_def fun_eq_iff)

lemma timestamp_le: "timestamp t * 1000000 \<le> t"
  by (simp add: timestamp_def) 

lemma decode_refresh_token:
  assumes "jwt_law cr" "now \<le> later"
  shows "decode_token cr st later (create_refresh_token cr st now s i j m) =
     (if timestamp (now + minutes (or_default m (refresh_token_expire_minutes st))) * 1000000 \<le> later
      then Inl ExpiredSignatureError else Inr (refresh_payload st now s i j m))"
proof -
  have "plain_payload later (refresh_payload st now s i j m)"
    using assms(2) timestamp_le [of now] by (simp add: plain_payload_def)
  then show ?thesis
    using assms(1) by (simp add: decode_token_def create_refresh_token_def jwt_law_def)
qed

lemma decode_access_token:
  assumes "jwt_law cr" "now \<le> later"
  shows "decode_token cr st later
       (create_access_token cr st now s [(''email'', e), (''role'', r), (''sid'', i)] m) =
     (if timestamp (now + minutes (or_default m (access_token_expire_minutes st))) * 1000000 \<le> later
      then Inl ExpiredSignatureError
      else Inr (access_payload st now s [(''email'', e), (''role'', r), (''sid'', i)] m))"
proof -
  have "plain_payload later (access_payload st now s [(''email'', e), (''role'', r), (''sid'', i)] m)"
    using assms(2) timestamp_le [of now] by (simp add: plain_payload_def)
  then show ?thesis
    using assms(1) by (simp add: decode_token_def create_access_token_def jwt_law_def)
qed

section \<open>A concrete library\<close>

text \<open>
  An instance of \<open>crypto\<close> that obeys the laws, on which the concrete runs of the development
  evaluate: a hash is the prefix and the password, a token is the signed triple itself.
\<close>

type_synonym demo_token = "claims \<times> string \<times> string"

definition demo_verify :: "string \<Rightarrow> string \<Rightarrow> lib_exn + bool" where
  "demo_verify h p = (if drop 10 h = p then Inr True else Inl VerifyMismatchError)"

definition demo_decode :: "int \<Rightarrow> demo_token \<Rightarrow> string \<Rightarrow> string list \<Rightarrow> jwt_exn + claims" where
  "demo_decode now t key algs =
     (case t of (p, k, a) \<Rightarrow>
        if k \<noteq> key \<or> a \<notin> set algs then Inl (InvalidTokenError ''Signature verification failed'')
        else case map_of p ''exp'' of
          Some (JInt e) \<Rightarrow> (if e * 1000000 \<le> now then Inl ExpiredSignatureError else Inr p)
        | _ \<Rightarrow> Inr p)"

definition demo_crypto :: "demo_token crypto" where
  "demo_crypto =
     \<lparr>ph_hash = (\<lambda>n p. ''$argon2id$'' @ p),
      ph_verify = demo_verify,
      ph_check_needs_rehash = (\<lambda>h. Inr (\<not> starts_with h ''$argon2id$'')),
      bcrypt_checkpw = (\<lambda>p h. Inr (drop 4 h = p)),
      jwt_encode = (\<lambda>p key alg. (p, key, alg)),
      jwt_decode = demo_decode\<rparr>"

lemma demo_hash_laws: "hash_laws demo_crypto"
  by (simp add: hash_laws_def demo_crypto_def demo_verify_def starts_with_def)

lemma demo_jwt_law: "jwt_law demo_crypto"
  by (auto simp: jwt_law_def demo_crypto_def demo_decode_def)

lemma demo_raises_only_documented: "raises_only_documented demo_crypto"
  by (simp add: raises_only_documented_def demo_crypto_def demo_verify_def)

section \<open>Properties\<close>

text \<open>
  \<open>verify_password\<close> never raises when the libraries raise what they document, accepts exactly
  the password a stored hash was made from, and rejects every hash of an unknown format.
\<close>

theorem verify_password_correct:
  assumes "hash_laws cr" and "raises_only_documented cr"
  shows "(\<exists>b. verify_password cr p h = Inr b) \<and>
    verify_password cr q (hash_password cr n p) = Inr (q = p) \<and>
    verify_password cr p (''plain:'' @ h) = Inr False"
  using assms verify_password_total [OF assms(2)]
  by (auto simp: verify_hash_password verify_unknown_prefix starts_with_def BCRYPT_PREFIXES_def)

theorem verify_password_correct_witness:
  "verify_password demo_crypto ''Test1234!'' (hash_password demo_crypto 0 ''Test1234!'') = Inr True \<and>
   verify_password demo_crypto ''WrongPassword'' (hash_password demo_crypto 0 ''Test1234!'') = Inr False"
  using verify_password_correct [OF demo_hash_laws demo_raises_only_documented,
      where q = "''Test1234!''" and p = "''Test1234!''" and n = 0]
    verify_password_correct [OF demo_hash_laws demo_raises_only_documented,
      where q = "''WrongPassword''" and p = "''Test1234!''" and n = 0]
  by simp

text \<open>
  A refresh token decodes, until its expiry, to the subject, session and token id it was issued
  for, with type refresh; from its expiry second on it is rejected as expired.
\<close>

theorem refresh_token_roundtrip:
  assumes "jwt_law cr" and "now \<le> later"
  shows "(case decode_token cr st later (create_refresh_token cr st now s i j None) of
      Inl e \<Rightarrow> e = ExpiredSignatureError \<and>
        timestamp (now + minutes (refresh_token_expire_minutes st)) * 1000000 \<le> later
    | Inr p \<Rightarrow> later < timestamp (now + minutes (refresh_token_expire_minutes st)) * 1000000 \<and>
        map_of p ''type'' = Some (JStr ''refresh'') \<and> map_of p ''sub'' = Some (JStr s) \<and>
        map_of p ''sid'' = Some (JStr i) \<and> map_of p ''jti'' = Some (JStr j))"
  using decode_refresh_token [OF assms, of st s i j None] by (simp add: or_default_def)

theorem refresh_token_roundtrip_witness:
  "(case decode_token demo_crypto default_settings 5000000
       (create_refresh_token demo_crypto default_settings 1000000 ''user-9'' ''sess-1'' ''jti-abc'' None) of
      Inl e \<Rightarrow> False
    | Inr p \<Rightarrow> map_of p ''sid'' = Some (JStr ''sess-1''))"
  using refresh_token_roundtrip [OF demo_jwt_law, of 1000000 5000000 default_settings
      "''user-9''" "''sess-1''" "''jti-abc''"]
  by (simp add: default_settings_def minutes_def usec_per_minute_def timestamp_def split: sum.splits)

end
