(* ===== verification/Floats.thy ===== *)
theory Floats
  imports Prelude Complex_Main "HOL-Library.Log_Nat"
begin

text \<open>
  Python's floats as the code uses them: a finite double is the rational it denotes, and \<open>dbl\<close>
  rounds an exact result to the nearest double, ties to even (overflow and subnormal results do
  not occur for the quantities of this program). Formatting with \<open>.1f\<close> and \<open>.2f\<close> and
  \<open>round(x, 2)\<close> round the exact value of the double, ties to even. \<open>f"{n:,}"\<close> groups digits.
\<close>

section \<open>Rounding\<close>

definition rnd_even :: "rat \<Rightarrow> int" where
  "rnd_even x =
     (let f = \<lfloor>x\<rfloor>; d = x - of_int f in
      if d < 1 / 2 then f else if 1 / 2 < d then f + 1 else if even f then f else f + 1)"

text \<open>The binary exponent of a positive rational: \<open>2 ^ e \<le> x < 2 ^ (e + 1)\<close>.\<close>

definition pow2 :: "int \<Rightarrow> rat" where
  "pow2 e = (if 0 \<le> e then 2 ^ nat e else 1 / 2 ^ nat (- e))"

definition binary_exponent :: "rat \<Rightarrow> int" where
  "binary_exponent x =
     (let p = quotient_of x; e = bitlen (fst p) - bitlen (snd p) in if pow2 e \<le> x then e else e - 1)"

definition dbl :: "rat \<Rightarrow> rat" where
  "dbl x =
     (if x = 0 then 0
      else let e = binary_exponent \<bar>x\<bar> in of_int (rnd_even (x * pow2 (52 - e))) * pow2 (e - 52))"

definition py_round :: "nat \<Rightarrow> rat \<Rightarrow> rat" where
  "py_round n x = dbl (of_int (rnd_even (x * 10 ^ n)) / 10 ^ n)"

text \<open>\<open>int(x)\<close> truncates.\<close>

definition trunc :: "rat \<Rightarrow> int" where
  "trunc x = (if 0 \<le> x then \<lfloor>x\<rfloor> else \<lceil>x\<rceil>)"

section \<open>Formatting\<close>

definition pad_left :: "nat \<Rightarrow> string \<Rightarrow> string" where
  "pad_left n s = replicate (n - length s) (CHR ''0'') @ s"

definition show_fixed :: "nat \<Rightarrow> rat \<Rightarrow> string" where
  "show_fixed n x =
     (let i = rnd_even (\<bar>x\<bar> * 10 ^ n); m = 10 ^ n in
      (if x < 0 then ''-'' else []) @ show_int (i div m) @ ''.'' @ pad_left n (show_int (i mod m)))"

text \<open>Groups of three digits, from the right.\<close>

fun group3 :: "string \<Rightarrow> string" where
  "group3 (a # b # c # d # ds) = a # b # c # CHR '','' # group3 (d # ds)"
| "group3 ds = ds"

definition show_commas :: "int \<Rightarrow> string" where
  "show_commas i = (if i < 0 then ''-'' else []) @ rev (group3 (rev (show_nat (nat \<bar>i\<bar>))))"

section \<open>Facts\<close>

lemma rnd_even_int [simp]: "rnd_even (of_int n) = n"
  by (simp add: rnd_even_def)

lemma rnd_even_error: "\<bar>of_int (rnd_even x) - x\<bar> \<le> 1 / 2"
proof -
  define f where "f = \<lfloor>x\<rfloor>"
  have "of_int f \<le> x" "x < of_int f + 1" unfolding f_def by linarith+
  then show ?thesis unfolding rnd_even_def Let_def f_def [symmetric] by (simp add: abs_if)
qed

lemma filter_group3: "CHR '','' \<notin> set ds \<Longrightarrow> filter (\<lambda>c. c \<noteq> CHR '','') (group3 ds) = ds"
  by (induction ds rule: group3.induct) auto

lemma pow2_simps [simp]: "0 \<le> e \<Longrightarrow> pow2 e = 2 ^ nat e" "0 < pow2 e"
  by (simp_all add: pow2_def)

lemma pow2_inverse: "pow2 e * pow2 (- e) = 1"
  by (auto simp: pow2_def)

lemma binary_exponent_int_le:
  assumes "0 < n"
  shows "binary_exponent (of_int n) \<le> bitlen n - 1 \<and> 0 \<le> binary_exponent (of_int n)"
proof -
  have q: "quotient_of (of_int n) = (n, 1)" by simp
  have b: "bitlen 1 = 1" by (simp add: bitlen_def floorlog_def)
  have "1 \<le> bitlen n" using assms by (simp add: bitlen_bounds bitlen_ge_iff_power)
  moreover have "2 ^ nat (bitlen n - 1) \<le> n" using bitlen_bounds [of n] assms by simp
  then have "(2::rat) ^ nat (bitlen n - 1) \<le> of_int n"
    by (metis of_int_le_iff of_int_numeral of_int_power)
  ultimately show ?thesis by (simp add: binary_exponent_def q b Let_def)
qed

text \<open>Integers of up to 53 bits are doubles.\<close>

lemma dbl_int:
  assumes "\<bar>n\<bar> < 2 ^ 53"
  shows "dbl (of_int n) = of_int n"
proof (cases "n = 0")
  case False
  let ?e = "binary_exponent (of_int \<bar>n\<bar>)"
  have "bitlen \<bar>n\<bar> \<le> 53" using assms False by (simp add: bitlen_le_iff_power)
  then have e: "0 \<le> ?e" "?e \<le> 52" using binary_exponent_int_le [of "\<bar>n\<bar>"] False by auto
  define k where "k = nat (52 - ?e)"
  have up: "pow2 (52 - ?e) = of_int (2 ^ k)" using e by (simp add: k_def)
  then have "rnd_even (of_int n * pow2 (52 - ?e)) = n * 2 ^ k"
    by (metis of_int_mult rnd_even_int)
  moreover have "of_int (n * 2 ^ k) * pow2 (?e - 52) = of_int n"
    using up pow2_inverse [of "52 - ?e"] by (simp add: mult.assoc)
  ultimately show ?thesis
    using False by (simp add: dbl_def Let_def)
qed (simp add: dbl_def)

end
