(* ===== verification/Upstream.thy ===== *)
theory Upstream
  imports Floats Errors
begin

text \<open>
  The services the backend only talks to: ClickHouse (clickhouse-connect), ra-platform's Postgres,
  Airflow (httpx), Redis and the application database's ping. They are the record \<open>upstream\<close>; what they
  answer depends on the number of the call, so they may change their mind. A failure is the text of
  the exception. The file system answers a write with success or with the error and what is left
  of the file, and \<open>sha256_hex\<close> is hashlib's hex digest after a list of updates. SQL texts are values of
  \<open>sql_query\<close>: one constructor per statement of the code with the values spliced into it.
\<close>

text \<open>A value of a result row. \<open>CFloat\<close> is a finite float or a \<open>Decimal\<close>.\<close>

datatype cell = CNull | CInt int | CFloat rat | CNaN | CStr string | CTime int

type_synonym row = "cell dict"

datatype sql_query =
    KpiTotals string
  | AvgLatency string
  | SlaBreaches string int
  | StageTotals string
  | RecentRuns string int
  | ReconTotals string int
  | ReconRows string string nat nat
  | ReportRows string "string list"

record ch_result =
  column_names :: "string list"
  result_rows :: "cell list list"

datatype http_answer = HttpError string | OtherHttpExn string | HttpResponse int bool

record upstream =
  ch_connect :: "nat \<Rightarrow> string option"
  ch_run :: "nat \<Rightarrow> sql_query \<Rightarrow> (string \<times> string) list \<Rightarrow> string + ch_result"
  ch_command :: "nat \<Rightarrow> string option"
  ch_close :: "nat \<Rightarrow> string option"
  pg_run :: "nat \<Rightarrow> string \<Rightarrow> (string \<times> string) list \<Rightarrow> string + row list"
  af_post :: "nat \<Rightarrow> string \<Rightarrow> (string \<times> string) list \<Rightarrow> http_answer"
  af_health :: "nat \<Rightarrow> http_answer"
  app_db_ping :: "nat \<Rightarrow> string option"
  redis_open :: "string \<Rightarrow> string option"
  redis_close :: "nat \<Rightarrow> string option"
  redis_get :: "nat \<Rightarrow> string \<Rightarrow> string + string option"
  redis_set :: "nat \<Rightarrow> string \<Rightarrow> string \<Rightarrow> int \<Rightarrow> string option"
  py_str :: "cell \<Rightarrow> string"
  fs_write :: "nat \<Rightarrow> string \<Rightarrow> string \<Rightarrow> (string \<times> string option) option"
  sha256_hex :: "string list \<Rightarrow> string"

text \<open>hashlib: the digest is that of the bytes fed so far, however they were split.\<close>

definition digest_law :: "upstream \<Rightarrow> bool" where
  "digest_law U = (\<forall>xs ys. concat xs = concat ys \<longrightarrow> sha256_hex U xs = sha256_hex U ys)"

section \<open>Python on the values of a row\<close>

fun cell_truthy :: "cell \<Rightarrow> bool" where
  "cell_truthy CNull = False"
| "cell_truthy (CInt i) = (i \<noteq> 0)"
| "cell_truthy (CFloat r) = (r \<noteq> 0)"
| "cell_truthy CNaN = True"
| "cell_truthy (CStr s) = (s \<noteq> [])"
| "cell_truthy (CTime t) = True"

text \<open>\<open>row.get(name)\<close> and \<open>x or y\<close>.\<close>

definition get_cell :: "row \<Rightarrow> string \<Rightarrow> cell" where
  "get_cell r k = (case map_of r k of None \<Rightarrow> CNull | Some c \<Rightarrow> c)"

definition cell_or :: "cell \<Rightarrow> cell \<Rightarrow> cell" where
  "cell_or a b = (if cell_truthy a then a else b)"

text \<open>\<open>int(s)\<close> on a string: white space, a sign, digits with single underscores between them.\<close>

definition all_digits :: "string \<Rightarrow> bool" where
  "all_digits s = (s \<noteq> [] \<and> list_all (\<lambda>c. CHR ''0'' \<le> c \<and> c \<le> CHR ''9'') s)"

definition int_of_str :: "string \<Rightarrow> int option" where
  "int_of_str s =
     (let t = str_strip s;
          neg = starts_with t ''-'';
          u = (if neg \<or> starts_with t ''+'' then drop 1 t else t);
          parts = split_on (CHR ''_'') u in
      if list_all all_digits parts then Some ((if neg then -1 else 1) * int (read_nat (concat parts)))
      else None)"

definition value_error :: "string \<Rightarrow> exn" where
  "value_error m = OtherExn ''ValueError'' m"

fun py_int :: "cell \<Rightarrow> exn + int" where
  "py_int CNull = Inl (OtherExn ''TypeError'' ''int() argument must be a number, not NoneType'')"
| "py_int (CInt i) = Inr i"
| "py_int (CFloat r) = Inr (trunc r)"
| "py_int CNaN = Inl (value_error ''cannot convert float NaN to integer'')"
| "py_int (CStr s) =
     (case int_of_str s of
        Some i \<Rightarrow> Inr i
      | None \<Rightarrow> Inl (value_error ''invalid literal for int() with base 10''))"
| "py_int (CTime t) = Inl (OtherExn ''TypeError'' ''int() argument must be a number, not datetime'')"

text \<open>The idiom \<open>int(x or 0)\<close>.\<close>

definition int_or_0 :: "cell \<Rightarrow> exn + int" where
  "int_or_0 c = py_int (cell_or c (CInt 0))"

lemma int_or_0_simps [simp]:
  "int_or_0 CNull = Inr 0" "int_or_0 (CInt i) = Inr i"
  "int_or_0 CNaN = Inl (value_error ''cannot convert float NaN to integer'')"
  by (simp_all add: int_or_0_def cell_or_def)

text \<open>\<open>str(x)\<close>; how Python prints floats and datetimes is left to \<open>py_str\<close>.\<close>

fun str_cell :: "upstream \<Rightarrow> cell \<Rightarrow> string" where
  "str_cell U CNull = ''None''"
| "str_cell U (CInt i) = show_int i"
| "str_cell U (CStr s) = s"
| "str_cell U c = py_str U c"

text \<open>\<open>dict(zip(cols, row, strict=False))\<close>.\<close>

definition row_dict :: "string list \<Rightarrow> cell list \<Rightarrow> row" where
  "row_dict cols vals = dict_update [] (zip cols vals)"

section \<open>Quoted identifiers\<close>

text \<open>\<open>_db_ident\<close> and \<open>_ident\<close>: the database name in backticks, backticks doubled.\<close>

definition quote_ident :: "string \<Rightarrow> string" where
  "quote_ident s = [CHR 0x60] @ str_replace_char (CHR 0x60) [CHR 0x60, CHR 0x60] s @ [CHR 0x60]"

text \<open>
  How ClickHouse reads a quoted identifier at the front of a text: up to the first backtick that
  is not doubled; the result is the identifier and the rest of the text.
\<close>

fun read_quoted :: "string \<Rightarrow> (string \<times> string) option" where
  "read_quoted [] = None"
| "read_quoted (c # cs) =
     (if c = CHR 0x60 then
        (case cs of
           d # ds \<Rightarrow>
             (if d = CHR 0x60 then map_option (\<lambda>(i, r). (CHR 0x60 # i, r)) (read_quoted ds)
              else Some ([], cs))
         | [] \<Rightarrow> Some ([], []))
      else map_option (\<lambda>(i, r). (c # i, r)) (read_quoted cs))"

definition read_ident :: "string \<Rightarrow> (string \<times> string) option" where
  "read_ident s = (case s of [] \<Rightarrow> None | c # cs \<Rightarrow> if c = CHR 0x60 then read_quoted cs else None)"

lemma read_quoted_replace:
  assumes "rest = [] \<or> hd rest \<noteq> CHR 0x60"
  shows "read_quoted (str_replace_char (CHR 0x60) [CHR 0x60, CHR 0x60] s @ CHR 0x60 # rest) = Some (s, rest)"
  using assms by (induction s) (auto simp: str_replace_char_def split: list.splits)

end
