(* ===== verification/Session.thy ===== *)
theory Session
  imports Models Security Upstream
begin

text \<open>
  The database session of a request (\<open>app/core/database.py\<close>) and the primitives service
  functions are built from. A service function is an \<open>act\<close>: it takes the world, answers a value
  or an exception, and returns the new world. The world holds the committed store, the session's
  own view of it, how many clock readings and random draws have been used, the tasks sent to the
  broker, whether the process holds a cached ClickHouse or Redis client, how many calls it has made to other
  services, the DAG runs Airflow has accepted, and the file system. What the process
  reads from outside (settings, libraries, clock, random source, request context) is the
  environment, an argument of every function that uses it: \<open>email_of\<close> is what pydantic's
  \<open>EmailStr\<close> makes of a string, the normalised address or a rejection.

  A flush sends the pending rows to the server, which checks its constraints; a commit flushes and
  publishes; a rollback goes back to the committed store. The session runs with
  \<open>autoflush=False\<close>, so a constraint can only fail at a flush or a commit.
\<close>

section \<open>Environment and world\<close>

record 't env =
  cfg :: settings
  crypt :: "'t crypto"
  services :: upstream
  clock :: "nat \<Rightarrow> int"
  uuid_hex :: "nat \<Rightarrow> string"
  tx_now :: int
  inet_ok :: "string \<Rightarrow> bool"
  email_of :: "string \<Rightarrow> string option"
  dbapi_class :: "violation \<Rightarrow> string"
  ctx_client_ip :: "string option"
  ctx_user_agent :: "string option"
  ctx_request_id :: "string option"
  broker_up :: bool

record world =
  committed :: store
  pending :: store
  reads :: nat
  draws :: nat
  tasks :: "string list"
  ch_client :: bool
  pg_engine :: bool
  ext_calls :: nat
  dag_runs :: "(string \<times> (string \<times> string) list) list"
  files :: "string \<rightharpoonup> string"
  redis_client :: bool

type_synonym 'a act = "world \<Rightarrow> (exn + 'a) \<times> world"

section \<open>Primitives\<close>

definition ret :: "'a \<Rightarrow> 'a act" where
  "ret x w = (Inr x, w)"

definition raise :: "exn \<Rightarrow> 'a act" where
  "raise e w = (Inl e, w)"

definition andthen :: "'a act \<Rightarrow> ('a \<Rightarrow> 'b act) \<Rightarrow> 'b act" where
  "andthen m k w = (case m w of (Inl e, w') \<Rightarrow> (Inl e, w') | (Inr x, w') \<Rightarrow> k x w')"

text \<open>\<open>datetime.now(UTC)\<close>, \<open>uuid.uuid4().hex\<close>, \<open>str(uuid.uuid4())\<close> and a hash with a fresh salt.\<close>

definition now_utc :: "'t env \<Rightarrow> int act" where
  "now_utc E w = (Inr (clock E (reads w)), w\<lparr>reads := Suc (reads w)\<rparr>)"

definition uuid4_hex :: "'t env \<Rightarrow> string act" where
  "uuid4_hex E w = (Inr (uuid_hex E (draws w)), w\<lparr>draws := Suc (draws w)\<rparr>)"

definition uuid_dashed :: "string \<Rightarrow> string" where
  "uuid_dashed h = take 8 h @ ''-'' @ take 4 (drop 8 h) @ ''-'' @ take 4 (drop 12 h) @ ''-'' @
     take 4 (drop 16 h) @ ''-'' @ drop 20 h"

definition uuid4_str :: "'t env \<Rightarrow> string act" where
  "uuid4_str E = andthen (uuid4_hex E) (\<lambda>h. ret (uuid_dashed h))"

definition hash_act :: "'t env \<Rightarrow> string \<Rightarrow> string act" where
  "hash_act E plain w = (Inr (hash_password (crypt E) (draws w) plain), w\<lparr>draws := Suc (draws w)\<rparr>)"

text \<open>A library call that may raise inside the request.\<close>

definition lib_call :: "lib_exn + 'a \<Rightarrow> 'a act" where
  "lib_call r w = (case r of Inl e \<Rightarrow> (Inl (OtherExn ''library'' (case e of LibOther n \<Rightarrow> n | _ \<Rightarrow> [])), w) | Inr x \<Rightarrow> (Inr x, w))"

definition query :: "(store \<Rightarrow> 'a) \<Rightarrow> 'a act" where
  "query f w = (Inr (f (pending w)), w)"

definition modify :: "(store \<Rightarrow> store) \<Rightarrow> unit act" where
  "modify f w = (Inr (), w\<lparr>pending := f (pending w)\<rparr>)"

text \<open>\<open>scalar_one_or_none()\<close>: no row, one row, or \<open>MultipleResultsFound\<close>.\<close>

definition one_or_none :: "'r list \<Rightarrow> 'r option act" where
  "one_or_none rs =
     (case rs of
        [] \<Rightarrow> ret None
      | [r] \<Rightarrow> ret (Some r)
      | _ \<Rightarrow> raise (OtherExn ''MultipleResultsFound'' ''Multiple rows were found when one or none was required''))"

definition select_one :: "(store \<Rightarrow> 'r list) \<Rightarrow> 'r option act" where
  "select_one f = andthen (query f) one_or_none"

definition violation_exn :: "'t env \<Rightarrow> violation \<Rightarrow> exn" where
  "violation_exn E v =
     (if v = DataViolation then OtherExn ''DBAPIError'' ''invalid data for a column''
      else IntegrityError (dbapi_class E v))"

definition flush :: "'t env \<Rightarrow> unit act" where
  "flush E w =
     (case violation_of (inet_ok E) (pending w) of
        None \<Rightarrow> (Inr (), w)
      | Some v \<Rightarrow> (Inl (violation_exn E v), w))"

definition publish :: "unit act" where
  "publish w = (Inr (), w\<lparr>committed := pending w\<rparr>)"

definition commit :: "'t env \<Rightarrow> unit act" where
  "commit E = andthen (flush E) (\<lambda>_. publish)"

definition rollback :: "world \<Rightarrow> world" where
  "rollback w = w\<lparr>pending := committed w\<rparr>"

text \<open>The dependency \<open>get_session\<close> around a handler: commit on success, roll back on any exception.\<close>

definition get_session :: "'t env \<Rightarrow> 'a act \<Rightarrow> 'a act" where
  "get_session E body w =
     (case body (rollback w) of
        (Inl e, w1) \<Rightarrow> (Inl e, rollback w1)
      | (Inr x, w1) \<Rightarrow>
          (case commit E w1 of
             (Inl e, w2) \<Rightarrow> (Inl e, rollback w2)
           | (Inr _, w2) \<Rightarrow> (Inr x, w2)))"

text \<open>\<open>try ... except\<close>: the handler sees the exception and the world at the raise.\<close>

definition catch :: "'a act \<Rightarrow> (exn \<Rightarrow> 'a act) \<Rightarrow> 'a act" where
  "catch m h w = (case m w of (Inl e, w') \<Rightarrow> h e w' | (Inr x, w') \<Rightarrow> (Inr x, w'))"

text \<open>A value or an exception that was computed without effects.\<close>

definition lift_res :: "exn + 'a \<Rightarrow> 'a act" where
  "lift_res r w = (r, w)"

text \<open>
  Effects on what lies outside the database. They leave the stores alone.
\<close>

definition ext_call :: "nat act" where
  "ext_call w = (Inr (ext_calls w), w\<lparr>ext_calls := Suc (ext_calls w)\<rparr>)"

definition has_ch_client :: "bool act" where
  "has_ch_client w = (Inr (ch_client w), w)"

definition set_ch_client :: "bool \<Rightarrow> unit act" where
  "set_ch_client b w = (Inr (), w\<lparr>ch_client := b\<rparr>)"

definition has_redis_client :: "bool act" where
  "has_redis_client w = (Inr (redis_client w), w)"

definition set_redis_client :: "bool \<Rightarrow> unit act" where
  "set_redis_client b w = (Inr (), w\<lparr>redis_client := b\<rparr>)"

definition set_pg_engine :: "bool \<Rightarrow> unit act" where
  "set_pg_engine b w = (Inr (), w\<lparr>pg_engine := b\<rparr>)"

definition accept_dag_run :: "string \<Rightarrow> (string \<times> string) list \<Rightarrow> unit act" where
  "accept_dag_run d conf w = (Inr (), w\<lparr>dag_runs := dag_runs w @ [(d, conf)]\<rparr>)"

text \<open>Writing a file, with what a failed write leaves behind, and reading one.\<close>

definition write_file :: "'t env \<Rightarrow> string \<Rightarrow> string \<Rightarrow> unit act" where
  "write_file E path content w =
     (case fs_write (services E) (ext_calls w) path content of
        None \<Rightarrow> (Inr (), w\<lparr>ext_calls := Suc (ext_calls w), files := (files w)(path \<mapsto> content)\<rparr>)
      | Some (m, left_over) \<Rightarrow>
          (Inl (OtherExn ''OSError'' m), w\<lparr>ext_calls := Suc (ext_calls w), files := (files w)(path := left_over)\<rparr>))"

definition read_file :: "string \<Rightarrow> string act" where
  "read_file path w =
     (case files w path of
        None \<Rightarrow> (Inl (OtherExn ''OSError'' ''No such file or directory''), w)
      | Some content \<Rightarrow> (Inr content, w))"

definition path_exists :: "string \<Rightarrow> bool act" where
  "path_exists path w = (Inr (path \<in> dom (files w)), w)"

definition send_task :: "string \<Rightarrow> unit act" where
  "send_task i w = (Inr (), w\<lparr>tasks := tasks w @ [i]\<rparr>)"

declare ret_def [prog] raise_def [prog] andthen_def [prog] now_utc_def [prog] uuid4_hex_def [prog]
  uuid4_str_def [prog] hash_act_def [prog] lib_call_def [prog] query_def [prog] modify_def [prog]
  one_or_none_def [prog] select_one_def [prog] catch_def [prog] lift_res_def [prog] ext_call_def [prog]
  has_ch_client_def [prog] set_ch_client_def [prog] has_redis_client_def [prog] set_redis_client_def [prog] set_pg_engine_def [prog] accept_dag_run_def [prog]
  send_task_def [prog] write_file_def [prog] read_file_def [prog] path_exists_def [prog]

text \<open>
  ORM attribute writes: the row is changed in the session, and \<open>onupdate=func.now()\<close> stamps it
  only when the flush finds a net change.
\<close>

definition stamp :: "('r \<Rightarrow> 'r) \<Rightarrow> ('r \<Rightarrow> 'r) \<Rightarrow> 'r \<Rightarrow> 'r" where
  "stamp touch f r = (if f r = r then r else touch (f r))"

lemma stamp_field: "g (touch (f r)) = g r \<Longrightarrow> g (stamp touch f r) = g r"
  by (simp add: stamp_def)

lemma uuid_dashed_inject:
  assumes "CHR ''-'' \<notin> set h" "CHR ''-'' \<notin> set h'" "uuid_dashed h = uuid_dashed h'"
  shows "h = h'"
proof -
  have strip: "filter (\<lambda>c. c \<noteq> CHR ''-'') (uuid_dashed x) = x" if "CHR ''-'' \<notin> set x" for x
  proof -
    have keep: "filter (\<lambda>c. c \<noteq> CHR ''-'') y = y" if "set y \<subseteq> set x" for y
      using \<open>CHR ''-'' \<notin> set x\<close> that by (auto intro: filter_True)
    have d: "take n (drop m x) @ drop (n + m) x = drop m x" for n m
      by (metis append_take_drop_id drop_drop)
    have "filter (\<lambda>c. c \<noteq> CHR ''-'') (uuid_dashed x) =
        take 8 x @ take 4 (drop 8 x) @ take 4 (drop 12 x) @ take 4 (drop 16 x) @ drop 20 x"
      unfolding uuid_dashed_def filter_append
      by (simp add: keep set_take_subset set_drop_subset
          order.trans [OF set_take_subset set_drop_subset])
    also have "\<dots> = x"
      using d [of 4 16] d [of 4 12] d [of 4 8] by simp
    finally show ?thesis .
  qed
  from assms show ?thesis by (metis strip)
qed

end
