(* ===== verification/Frames.thy ===== *)
theory Frames
  imports Session
begin

text \<open>
  What a service function may do to the store, proved once per primitive and carried through
  sequencing: \<open>silent\<close> functions never commit, \<open>checked\<close> ones only ever commit a store that
  satisfies every constraint, and \<open>grows R\<close> ones relate the stores before and after by a preorder
  \<open>R\<close>. The locale \<open>store_order\<close> is the contract of such an \<open>R\<close>; an invariant is a special case.
\<close>

named_theorems silent_intro \<open>rules for functions that never commit\<close>
named_theorems checked_intro \<open>rules for functions that only commit checked stores\<close>
named_theorems grows_intro \<open>rules for functions that move the store along a preorder\<close>

named_theorems runs \<open>what a successful run of a primitive means\<close>
named_theorems fails \<open>what a failing run of a primitive means\<close>

section \<open>Successful and failing runs\<close>

lemma andthen_runs [runs]:
  "andthen m k w = (Inr y, w') \<longleftrightarrow> (\<exists>x w1. m w = (Inr x, w1) \<and> k x w1 = (Inr y, w'))"
  by (auto simp: andthen_def split: sum.splits prod.splits)

lemma primitive_runs [runs]:
  "ret x w = (Inr y, w') \<longleftrightarrow> y = x \<and> w' = w"
  "raise e w = (Inr y, w') \<longleftrightarrow> False"
  "now_utc E w = (Inr i, w') \<longleftrightarrow> i = clock E (reads w) \<and> w' = w\<lparr>reads := Suc (reads w)\<rparr>"
  "uuid4_hex E w = (Inr s, w') \<longleftrightarrow> s = uuid_hex E (draws w) \<and> w' = w\<lparr>draws := Suc (draws w)\<rparr>"
  "uuid4_str E w = (Inr s, w') \<longleftrightarrow> s = uuid_dashed (uuid_hex E (draws w)) \<and> w' = w\<lparr>draws := Suc (draws w)\<rparr>"
  "hash_act E p w = (Inr s, w') \<longleftrightarrow>
     s = hash_password (crypt E) (draws w) p \<and> w' = w\<lparr>draws := Suc (draws w)\<rparr>"
  "query f w = (Inr z, w') \<longleftrightarrow> z = f (pending w) \<and> w' = w"
  "modify g w = (Inr u, w') \<longleftrightarrow> w' = w\<lparr>pending := g (pending w)\<rparr>"
  "flush E w = (Inr u, w') \<longleftrightarrow> store_ok (inet_ok E) (pending w) \<and> w' = w"
  "publish w = (Inr u, w') \<longleftrightarrow> w' = w\<lparr>committed := pending w\<rparr>"
  by (auto simp: ret_def raise_def now_utc_def uuid4_hex_def uuid4_str_def andthen_def hash_act_def
      query_def modify_def flush_def publish_def split: option.splits simp flip: violation_None)

lemma lib_call_runs [runs]: "lib_call r w = (Inr y, w') \<longleftrightarrow> r = Inr y \<and> w' = w"
  by (auto simp: lib_call_def split: sum.splits)

lemma one_or_none_runs [runs]:
  "one_or_none rs w = (Inr z, w') \<longleftrightarrow> w' = w \<and> (z = None \<and> rs = [] \<or> (\<exists>r. z = Some r \<and> rs = [r]))"
  by (auto simp: one_or_none_def ret_def raise_def split: list.splits)

lemma select_one_runs [runs]:
  "select_one f w = (Inr z, w') \<longleftrightarrow>
   w' = w \<and> (z = None \<and> f (pending w) = [] \<or> (\<exists>r. z = Some r \<and> f (pending w) = [r]))"
  by (auto simp: select_one_def runs)

lemma outside_runs [runs]:
  "ext_call w = (Inr n, w') \<longleftrightarrow> n = ext_calls w \<and> w' = w\<lparr>ext_calls := Suc (ext_calls w)\<rparr>"
  "has_ch_client w = (Inr b, w') \<longleftrightarrow> b = ch_client w \<and> w' = w"
  "set_ch_client c w = (Inr u, w') \<longleftrightarrow> w' = w\<lparr>ch_client := c\<rparr>"
  "has_redis_client w = (Inr b, w') \<longleftrightarrow> b = redis_client w \<and> w' = w"
  "set_redis_client c w = (Inr u, w') \<longleftrightarrow> w' = w\<lparr>redis_client := c\<rparr>"
  "set_pg_engine c w = (Inr u, w') \<longleftrightarrow> w' = w\<lparr>pg_engine := c\<rparr>"
  "accept_dag_run d conf w = (Inr u, w') \<longleftrightarrow> w' = w\<lparr>dag_runs := dag_runs w @ [(d, conf)]\<rparr>"
  "send_task i w = (Inr u, w') \<longleftrightarrow> w' = w\<lparr>tasks := tasks w @ [i]\<rparr>"
  "lift_res r w = (Inr y, w') \<longleftrightarrow> r = Inr y \<and> w' = w"
  "read_file p w = (Inr txt, w') \<longleftrightarrow> files w p = Some txt \<and> w' = w"
  "path_exists p w = (Inr b, w') \<longleftrightarrow> b = (p \<in> dom (files w)) \<and> w' = w"
  by (auto simp: ext_call_def has_ch_client_def set_ch_client_def has_redis_client_def set_redis_client_def set_pg_engine_def accept_dag_run_def
      send_task_def lift_res_def read_file_def path_exists_def split: option.splits)

lemma catch_runs [runs]:
  "catch m h w = (Inr y, w') \<longleftrightarrow>
   m w = (Inr y, w') \<or> (\<exists>e w1. m w = (Inl e, w1) \<and> h e w1 = (Inr y, w'))"
  by (auto simp: catch_def split: prod.splits sum.splits)

lemma commit_runs [runs]:
  "commit E w = (Inr u, w') \<longleftrightarrow> store_ok (inet_ok E) (pending w) \<and> w' = w\<lparr>committed := pending w\<rparr>"
  by (auto simp: commit_def runs)

lemma flush_ok: "store_ok (inet_ok E) (pending w) \<Longrightarrow> flush E w = (Inr (), w)"
  by (simp add: runs)

lemma commit_ok: "store_ok (inet_ok E) (pending w) \<Longrightarrow> commit E w = (Inr (), w\<lparr>committed := pending w\<rparr>)"
  by (simp add: runs)

lemma rollback_fields [simp]:
  "committed (rollback w) = committed w" "pending (rollback w) = committed w"
  "reads (rollback w) = reads w" "draws (rollback w) = draws w" "tasks (rollback w) = tasks w"
  "ch_client (rollback w) = ch_client w" "pg_engine (rollback w) = pg_engine w"
  "ext_calls (rollback w) = ext_calls w" "dag_runs (rollback w) = dag_runs w" "files (rollback w) = files w"
  "redis_client (rollback w) = redis_client w"
  by (simp_all add: rollback_def)

lemma get_session_runs:
  "get_session E m w = (Inr y, w') \<longleftrightarrow>
   (\<exists>w1. m (rollback w) = (Inr y, w1) \<and> store_ok (inet_ok E) (pending w1) \<and>
         w' = w1\<lparr>committed := pending w1\<rparr>)"
  by (auto simp: get_session_def runs split: sum.splits prod.splits)
     (simp_all add: commit_def andthen_def flush_def publish_def violation_ok)

lemma get_session_fails:
  "m (rollback w) = (Inl e, w1) \<Longrightarrow> get_session E m w = (Inl e, rollback w1)"
  by (simp add: get_session_def)

section \<open>Functions that never commit\<close>

definition silent :: "'a act \<Rightarrow> bool" where
  "silent m = (\<forall>w. committed (snd (m w)) = committed w)"

lemma silent_primitives [silent_intro]:
  "silent (ret x)" "silent (raise e)" "silent (now_utc E)" "silent (uuid4_hex E)" "silent (hash_act E p)"
  "silent (lib_call r)" "silent (query f)" "silent (modify g)" "silent (one_or_none rs)" "silent (flush E)"
  by (auto simp: silent_def ret_def raise_def now_utc_def uuid4_hex_def hash_act_def lib_call_def query_def
      modify_def one_or_none_def flush_def split: list.splits option.splits sum.splits)

lemma silent_andthen [silent_intro]:
  assumes "silent m" and "\<And>x. silent (k x)"
  shows "silent (andthen m k)"
  unfolding silent_def
proof
  fix w :: world
  show "committed (snd (andthen m k w)) = committed w"
    using assms(1) [unfolded silent_def, rule_format, of w] assms(2) [unfolded silent_def, rule_format]
    by (cases "m w"; cases "fst (m w)") (simp_all add: andthen_def)
qed

lemma silent_outside [silent_intro]:
  "silent ext_call" "silent has_ch_client" "silent (set_ch_client c)" "silent (set_pg_engine c)"
  "silent has_redis_client" "silent (set_redis_client c)" "silent (accept_dag_run d conf)" "silent (send_task i)" "silent (lift_res r)"
  "silent (write_file E p txt)" "silent (read_file p)" "silent (path_exists p)"
  by (simp_all add: silent_def ext_call_def has_ch_client_def set_ch_client_def has_redis_client_def set_redis_client_def set_pg_engine_def
      accept_dag_run_def send_task_def lift_res_def write_file_def read_file_def path_exists_def split: option.split)

lemma silent_catch [silent_intro]:
  assumes "silent m" and "\<And>e. silent (h e)"
  shows "silent (catch m h)"
  unfolding silent_def
proof
  fix w :: world
  show "committed (snd (catch m h w)) = committed w"
    using assms(1) [unfolded silent_def, rule_format, of w] assms(2) [unfolded silent_def, rule_format]
    by (cases "m w"; cases "fst (m w)") (simp_all add: catch_def)
qed

lemma silent_control [silent_intro]:
  "silent a \<Longrightarrow> silent b \<Longrightarrow> silent (if c then a else b)"
  "silent a \<Longrightarrow> (\<And>x. silent (f x)) \<Longrightarrow> silent (case z of None \<Rightarrow> a | Some x \<Rightarrow> f x)"
  "(\<And>x. silent (g x)) \<Longrightarrow> (\<And>x. silent (h x)) \<Longrightarrow> silent (case s of Inl x \<Rightarrow> g x | Inr x \<Rightarrow> h x)"
  "(\<And>x y. silent (p x y)) \<Longrightarrow> silent (case q of (x, y) \<Rightarrow> p x y)"
  by (auto split: option.splits sum.splits prod.splits)

lemma silent_select [silent_intro]: "silent (select_one f)" "silent (uuid4_str E)"
  unfolding select_one_def uuid4_str_def by (intro silent_intro)+

text \<open>
  A request that fails inside a function which never commits leaves the committed store alone; so
  does one whose commit is refused.
\<close>

lemma get_session_rollback:
  assumes "silent m" and "get_session E m w = (Inl e, w')"
  shows "committed w' = committed w \<and> pending w' = committed w"
proof -
  have "committed (snd (m (rollback w))) = committed w"
    using assms(1) by (simp add: silent_def rollback_def)
  with assms(2) show ?thesis
    by (auto simp: get_session_def commit_def andthen_def flush_def publish_def rollback_def
        split: prod.splits sum.splits option.splits)
qed

lemma get_session_commits:
  assumes "get_session E m w = (Inr x, w')"
  shows "committed w' = pending w' \<and> store_ok (inet_ok E) (committed w') \<and>
    (\<exists>w1. m (rollback w) = (Inr x, w1) \<and> committed w' = pending w1)"
  using assms
  by (auto simp: get_session_def commit_def andthen_def flush_def publish_def rollback_def
      split: prod.splits sum.splits option.splits)

section \<open>Functions that only commit checked stores\<close>

definition checked :: "'t env \<Rightarrow> 'a act \<Rightarrow> bool" where
  "checked E m =
     (\<forall>w. store_ok (inet_ok E) (committed w) \<longrightarrow> store_ok (inet_ok E) (committed (snd (m w))))"

lemma silent_checked: "silent m \<Longrightarrow> checked E m"
  by (simp add: silent_def checked_def)

lemma checked_commit [checked_intro]: "checked E (commit E)"
  by (auto simp: checked_def commit_def andthen_def flush_def publish_def split: option.splits)

lemma checked_andthen [checked_intro]:
  assumes "checked E m" and "\<And>x. checked E (k x)"
  shows "checked E (andthen m k)"
  unfolding checked_def
proof (intro allI impI)
  fix w :: world
  assume "store_ok (inet_ok E) (committed w)"
  then have "store_ok (inet_ok E) (committed (snd (m w)))"
    using assms(1) by (simp add: checked_def)
  with assms(2) show "store_ok (inet_ok E) (committed (snd (andthen m k w)))"
    by (cases "m w"; cases "fst (m w)") (simp_all add: andthen_def checked_def)
qed

lemma checked_catch [checked_intro]:
  assumes "checked E m" and "\<And>e. checked E (h e)"
  shows "checked E (catch m h)"
  unfolding checked_def
proof (intro allI impI)
  fix w :: world
  assume "store_ok (inet_ok E) (committed w)"
  then have "store_ok (inet_ok E) (committed (snd (m w)))"
    using assms(1) by (simp add: checked_def)
  with assms(2) show "store_ok (inet_ok E) (committed (snd (catch m h w)))"
    by (cases "m w"; cases "fst (m w)") (simp_all add: catch_def checked_def)
qed

lemma checked_control [checked_intro]:
  "checked E a \<Longrightarrow> checked E b \<Longrightarrow> checked E (if c then a else b)"
  "checked E a \<Longrightarrow> (\<And>x. checked E (f x)) \<Longrightarrow> checked E (case z of None \<Rightarrow> a | Some x \<Rightarrow> f x)"
  "(\<And>x. checked E (g x)) \<Longrightarrow> (\<And>x. checked E (h x)) \<Longrightarrow> checked E (case s of Inl x \<Rightarrow> g x | Inr x \<Rightarrow> h x)"
  "(\<And>x y. checked E (p x y)) \<Longrightarrow> checked E (case q of (x, y) \<Rightarrow> p x y)"
  by (auto split: option.splits sum.splits prod.splits)

lemmas checked_primitives [checked_intro] =
  silent_primitives [THEN silent_checked] silent_select [THEN silent_checked]
  silent_outside [THEN silent_checked]

lemma checked_get_session [checked_intro]:
  assumes "checked E m"
  shows "checked E (get_session E m)"
  unfolding checked_def
proof (intro allI impI)
  fix w :: world
  assume ok: "store_ok (inet_ok E) (committed w)"
  then have "store_ok (inet_ok E) (committed (snd (m (rollback w))))"
    using assms by (simp add: checked_def rollback_def)
  then show "store_ok (inet_ok E) (committed (snd (get_session E m w)))"
    by (auto simp: get_session_def commit_def andthen_def flush_def publish_def rollback_def
        split: prod.splits sum.splits option.splits)
qed

section \<open>Functions that move the store along a preorder\<close>

text \<open>
  Both the committed store and the session's view only move forward, seen from the committed store
  the session started from.
\<close>

definition grows :: "(store \<Rightarrow> store \<Rightarrow> bool) \<Rightarrow> 'a act \<Rightarrow> bool" where
  "grows R m =
     (\<forall>w. R (committed w) (pending w) \<longrightarrow>
        R (committed w) (committed (snd (m w))) \<and> R (committed (snd (m w))) (pending (snd (m w))))"

lemma grows_control [grows_intro]:
  "grows R a \<Longrightarrow> grows R b \<Longrightarrow> grows R (if c then a else b)"
  "grows R a \<Longrightarrow> (\<And>x. grows R (f x)) \<Longrightarrow> grows R (case z of None \<Rightarrow> a | Some x \<Rightarrow> f x)"
  "(\<And>x. grows R (g x)) \<Longrightarrow> (\<And>x. grows R (h x)) \<Longrightarrow> grows R (case s of Inl x \<Rightarrow> g x | Inr x \<Rightarrow> h x)"
  "(\<And>x y. grows R (p x y)) \<Longrightarrow> grows R (case q of (x, y) \<Rightarrow> p x y)"
  by (auto split: option.splits sum.splits prod.splits)

locale store_order =
  fixes R :: "store \<Rightarrow> store \<Rightarrow> bool"
  assumes R_refl: "R s s"
    and R_trans: "R s t \<Longrightarrow> R t u \<Longrightarrow> R s u"
begin

lemma grows_quiet:
  assumes "\<And>w. committed (snd (m w)) = committed w" and "\<And>w. pending (snd (m w)) = pending w"
  shows "grows R m"
  using assms R_refl by (simp add: grows_def)

lemma grows_primitives [grows_intro]:
  "grows R (ret x)" "grows R (raise e)" "grows R (now_utc E)" "grows R (uuid4_hex E)" "grows R (hash_act E p)"
  "grows R (lib_call r)" "grows R (query f)" "grows R (one_or_none rs)" "grows R (flush E)"
  by (rule grows_quiet; auto simp: ret_def raise_def now_utc_def uuid4_hex_def hash_act_def lib_call_def
      query_def one_or_none_def flush_def split: list.splits option.splits sum.splits)+

lemma grows_outside [grows_intro]:
  "grows R ext_call" "grows R has_ch_client" "grows R (set_ch_client c)" "grows R (set_pg_engine c)"
  "grows R has_redis_client" "grows R (set_redis_client c)" "grows R (accept_dag_run d conf)" "grows R (send_task i)" "grows R (lift_res r)"
  "grows R (write_file E p txt)" "grows R (read_file p)" "grows R (path_exists p)"
  by (rule grows_quiet; simp add: ext_call_def has_ch_client_def set_ch_client_def has_redis_client_def set_redis_client_def set_pg_engine_def
      accept_dag_run_def send_task_def lift_res_def write_file_def read_file_def path_exists_def
      split: option.split)+

lemma grows_publish: "grows R publish"
  using R_refl by (simp add: grows_def publish_def)

lemma grows_modify: "(\<And>s. R s (f s)) \<Longrightarrow> grows R (modify f)"
  using R_refl R_trans by (auto simp: grows_def modify_def)

lemma grows_andthen [grows_intro]:
  assumes "grows R m" and "\<And>x. grows R (k x)"
  shows "grows R (andthen m k)"
  unfolding grows_def
proof (intro allI impI)
  fix w :: world
  assume start: "R (committed w) (pending w)"
  obtain r w1 where m: "m w = (r, w1)" by (cases "m w") auto
  with assms(1) [unfolded grows_def, rule_format, OF start]
  have 1: "R (committed w) (committed w1)" "R (committed w1) (pending w1)"
    by simp_all
  show "R (committed w) (committed (snd (andthen m k w))) \<and>
        R (committed (snd (andthen m k w))) (pending (snd (andthen m k w)))"
  proof (cases r)
    case (Inl e)
    with 1 m show ?thesis by (simp add: andthen_def)
  next
    case (Inr x)
    then have "R (committed w1) (committed (snd (k x w1))) \<and>
        R (committed (snd (k x w1))) (pending (snd (k x w1)))"
      using assms(2) [of x] 1 by (simp add: grows_def)
    with 1 m Inr R_trans [OF 1(1)] show ?thesis by (simp add: andthen_def)
  qed
qed

lemma grows_catch [grows_intro]:
  assumes "grows R m" and "\<And>e. grows R (h e)"
  shows "grows R (catch m h)"
  unfolding grows_def
proof (intro allI impI)
  fix w :: world
  assume start: "R (committed w) (pending w)"
  obtain r w1 where m: "m w = (r, w1)" by (cases "m w") auto
  with assms(1) [unfolded grows_def, rule_format, OF start]
  have 1: "R (committed w) (committed w1)" "R (committed w1) (pending w1)"
    by simp_all
  show "R (committed w) (committed (snd (catch m h w))) \<and>
        R (committed (snd (catch m h w))) (pending (snd (catch m h w)))"
  proof (cases r)
    case (Inl e)
    then have "R (committed w1) (committed (snd (h e w1))) \<and>
        R (committed (snd (h e w1))) (pending (snd (h e w1)))"
      using assms(2) [of e] 1 by (simp add: grows_def)
    with 1 m Inl R_trans [OF 1(1)] show ?thesis by (simp add: catch_def)
  next
    case (Inr x)
    with 1 m show ?thesis by (simp add: catch_def)
  qed
qed

lemma grows_select [grows_intro]: "grows R (select_one f)" "grows R (uuid4_str E)"
  unfolding select_one_def uuid4_str_def by (intro grows_intro grows_primitives grows_andthen)+

lemma grows_commit [grows_intro]: "grows R (commit E)"
  unfolding commit_def by (intro grows_andthen grows_primitives grows_publish)

lemma get_session_grows:
  fixes w :: world
  assumes "grows R m"
  shows "R (committed w) (committed (snd (get_session E m w)))"
proof -
  obtain r w1 where m: "m (rollback w) = (r, w1)" by (cases "m (rollback w)") auto
  have "R (committed (rollback w)) (pending (rollback w))"
    using R_refl by (simp add: rollback_def)
  with assms [unfolded grows_def, rule_format, of "rollback w"] m
  have 1: "R (committed w) (committed w1)" "R (committed w1) (pending w1)"
    by simp_all
  then show ?thesis
    using m by (auto simp: get_session_def commit_def andthen_def flush_def publish_def rollback_def
        intro: R_trans split: sum.splits option.splits)
qed

end

text \<open>An invariant of the store is the preorder that keeps it.\<close>

definition keeps :: "(store \<Rightarrow> bool) \<Rightarrow> store \<Rightarrow> store \<Rightarrow> bool" where
  "keeps I s t = (I s \<longrightarrow> I t)"

locale store_invariant =
  fixes I :: "store \<Rightarrow> bool"
begin

lemma keeps_refl: "keeps I s s"
  by (simp add: keeps_def)

lemma keeps_trans: "keeps I s t \<Longrightarrow> keeps I t u \<Longrightarrow> keeps I s u"
  by (simp add: keeps_def)

end

sublocale store_invariant \<subseteq> inv_order: store_order "keeps I"
  by unfold_locales (rule keeps_refl, rule keeps_trans)

end
