(* ===== verification/Identity.thy ===== *)
theory Identity
  imports Frames
begin

text \<open>
  Users, roles and the audit trail: the part of \<open>app/modules/identity/service.py\<close> that is not
  authentication, with the payload and row shapes of \<open>schemas.py\<close>.
\<close>

section \<open>Payloads and rows\<close>

record user_create =
  uc_fullName :: string
  uc_email :: string
  uc_password :: string
  uc_role :: string
  uc_phone :: "string option"
  uc_department :: "string option"
  uc_status :: string
  uc_mustResetPassword :: bool

record user_patch =
  uu_fullName :: "string option"
  uu_email :: "string option"
  uu_password :: "string option"
  uu_role :: "string option"
  uu_phone :: "string option"
  uu_department :: "string option"
  uu_status :: "string option"

record role_upsert =
  ru_id :: "string option"
  ru_name :: string
  ru_description :: string
  ru_status :: string
  ru_permissions :: "permission_map option"

record auth_user =
  au_id :: string
  au_name :: string
  au_email :: string
  au_role :: string
  au_roleLabel :: string
  au_department :: "string option"
  au_avatar :: string
  au_status :: string
  au_lastLogin :: "int option"
  au_mustResetPassword :: bool

record user_row =
  ur_id :: string
  ur_fullName :: string
  ur_email :: string
  ur_phone :: "string option"
  ur_department :: "string option"
  ur_role :: string
  ur_status :: string
  ur_lastLogin :: "int option"
  ur_createdAt :: int

record role_row =
  rr_id :: string
  rr_name :: string
  rr_description :: string
  rr_status :: string
  rr_permissions :: permission_map
  rr_createdAt :: int
  rr_updatedAt :: int

record audit_row =
  ar_id :: string
  ar_actor :: string
  ar_action :: string
  ar_target :: "string option"
  ar_at :: int

text \<open>The \<open>min_length\<close> bounds pydantic enforces before a handler runs.\<close>

definition user_create_valid :: "user_create \<Rightarrow> bool" where
  "user_create_valid p = (1 \<le> length (uc_fullName p) \<and> 8 \<le> length (uc_password p))"

definition user_patch_valid :: "user_patch \<Rightarrow> bool" where
  "user_patch_valid p = (case uu_password p of None \<Rightarrow> True | Some s \<Rightarrow> 8 \<le> length s)"

section \<open>Helpers and mappers\<close>

definition initials :: "string \<Rightarrow> string" where
  "initials name =
     (let parts = filter (\<lambda>p. p \<noteq> []) (str_split name) in
      if parts = [] then ''?''
      else if length parts = 1 then str_upper (take 2 (hd parts))
      else str_upper (take 1 (hd parts) @ take 1 (last parts)))"

definition role_label :: "role option \<Rightarrow> string \<Rightarrow> string" where
  "role_label r role_id =
     (case r of
        Some x \<Rightarrow> if r_name x \<noteq> [] then r_name x
          else (case map_of ROLE_LABELS role_id of Some l \<Rightarrow> l | None \<Rightarrow> role_id)
      | None \<Rightarrow> (case map_of ROLE_LABELS role_id of Some l \<Rightarrow> l | None \<Rightarrow> role_id))"

definition to_auth_user :: "role option \<Rightarrow> user \<Rightarrow> auth_user" where
  "to_auth_user r u =
     \<lparr>au_id = u_id u, au_name = u_full_name u, au_email = u_email u, au_role = u_role_id u,
      au_roleLabel = role_label r (u_role_id u), au_department = u_department u,
      au_avatar = (case u_avatar u of Some a \<Rightarrow> if a \<noteq> [] then a else initials (u_full_name u)
                   | None \<Rightarrow> initials (u_full_name u)),
      au_status = u_status u, au_lastLogin = u_last_login u, au_mustResetPassword = u_must_reset_password u\<rparr>"

definition to_user_row :: "user \<Rightarrow> user_row" where
  "to_user_row u =
     \<lparr>ur_id = u_id u, ur_fullName = u_full_name u, ur_email = u_email u, ur_phone = u_phone u,
      ur_department = u_department u, ur_role = u_role_id u, ur_status = u_status u,
      ur_lastLogin = u_last_login u, ur_createdAt = u_created_at u\<rparr>"

definition to_role_row :: "role \<Rightarrow> role_row" where
  "to_role_row r =
     \<lparr>rr_id = r_id r, rr_name = r_name r, rr_description = r_description r, rr_status = r_status r,
      rr_permissions = r_permissions r, rr_createdAt = r_created_at r, rr_updatedAt = r_updated_at r\<rparr>"

section \<open>Audit trail\<close>

definition record_audit ::
  "'t env \<Rightarrow> string \<Rightarrow> string \<Rightarrow> string option \<Rightarrow> string option \<Rightarrow> json option \<Rightarrow> unit act" where
  "record_audit E actor action target actor_id meta =
     andthen (now_utc E) (\<lambda>t. andthen (uuid4_str E) (\<lambda>i.
     andthen (modify (audit_logs_update (insert_row
       \<lparr>a_id = i, a_actor = actor, a_actor_id = actor_id, a_action = action, a_target = target,
        a_ip_address = ctx_client_ip E, a_user_agent = ctx_user_agent E, a_request_id = ctx_request_id E,
        a_meta = (case meta of None \<Rightarrow> JObj [] | Some m \<Rightarrow> m), a_at = t\<rparr>))) (\<lambda>_.
     flush E)))"

definition list_audit :: "nat \<Rightarrow> nat \<Rightarrow> audit_row list act" where
  "list_audit limit offset =
     query (\<lambda>s. map (\<lambda>r. \<lparr>ar_id = a_id r, ar_actor = a_actor r, ar_action = a_action r,
         ar_target = a_target r, ar_at = a_at r\<rparr>)
       (page limit offset (order_desc a_at (audit_logs s))))"

section \<open>Users\<close>

definition touch_user :: "'t env \<Rightarrow> user \<Rightarrow> user" where
  "touch_user E u = u\<lparr>u_updated_at := tx_now E\<rparr>"

definition change_user :: "'t env \<Rightarrow> string \<Rightarrow> (user \<Rightarrow> user) \<Rightarrow> unit act" where
  "change_user E i f = modify (users_update (change_row u_id i (stamp (touch_user E) f)))"

definition get_user :: "string \<Rightarrow> user act" where
  "get_user i =
     andthen (select_one (\<lambda>s. by_key u_id i (users s))) (\<lambda>u.
     case u of None \<Rightarrow> raise (App NotFoundError ''User not found.'' []) | Some x \<Rightarrow> ret x)"

definition list_users :: "nat \<Rightarrow> nat \<Rightarrow> user_row list act" where
  "list_users limit offset =
     query (\<lambda>s. map to_user_row (page limit offset (order_desc u_created_at (users s))))"

definition require_role :: "string \<Rightarrow> role act" where
  "require_role i =
     andthen (select_one (\<lambda>s. by_key r_id i (roles s))) (\<lambda>r.
     case r of
       None \<Rightarrow> raise (App NotFoundError (''Role '' @ [CHR 0x27] @ i @ [CHR 0x27] @ '' does not exist.'') [])
     | Some x \<Rightarrow> ret x)"

definition email_matches :: "string \<Rightarrow> store \<Rightarrow> user list" where
  "email_matches email s = filter (\<lambda>u. str_lower (u_email u) = str_lower email) (users s)"

definition create_user :: "'t env \<Rightarrow> user_create \<Rightarrow> user act" where
  "create_user E p =
     andthen (require_role (uc_role p)) (\<lambda>_.
     andthen (select_one (email_matches (uc_email p))) (\<lambda>exists.
     case exists of
       Some _ \<Rightarrow> raise (App ConflictError ''A user with this email already exists.'' [])
     | None \<Rightarrow>
         andthen (hash_act E (uc_password p)) (\<lambda>h.
         andthen (now_utc E) (\<lambda>t.
         andthen (uuid4_str E) (\<lambda>i.
         let u = \<lparr>u_id = i, u_full_name = uc_fullName p, u_email = uc_email p, u_phone = uc_phone p,
              u_department = uc_department p, u_hashed_password = h, u_role_id = uc_role p,
              u_status = uc_status p, u_avatar = Some (initials (uc_fullName p)), u_last_login = None,
              u_failed_login_count = 0, u_locked_until = None,
              u_must_reset_password = uc_mustResetPassword p, u_password_changed_at = Some t,
              u_created_at = tx_now E, u_updated_at = tx_now E\<rparr> in
         andthen (modify (users_update (insert_row u))) (\<lambda>_.
         andthen (flush E) (\<lambda>_. ret u)))))))"

text \<open>The \<open>if payload.x is not None\<close> assignments of \<open>update_user\<close>, in order.\<close>

definition opt_set :: "'v option \<Rightarrow> ('v \<Rightarrow> 'r \<Rightarrow> 'r) \<Rightarrow> 'r \<Rightarrow> 'r" where
  "opt_set x f r = (case x of None \<Rightarrow> r | Some v \<Rightarrow> f v r)"

definition set_profile :: "user_patch \<Rightarrow> user \<Rightarrow> user" where
  "set_profile p u =
     opt_set (uu_status p) (\<lambda>v. u_status_update (\<lambda>_. v))
     (opt_set (uu_department p) (\<lambda>v. u_department_update (\<lambda>_. Some v))
     (opt_set (uu_phone p) (\<lambda>v. u_phone_update (\<lambda>_. Some v))
     (opt_set (uu_email p) (\<lambda>v. u_email_update (\<lambda>_. v))
     (opt_set (uu_fullName p) (\<lambda>v x. x\<lparr>u_full_name := v, u_avatar := Some (initials v)\<rparr>) u))))"

definition set_password :: "string \<Rightarrow> int \<Rightarrow> user \<Rightarrow> user" where
  "set_password h t u = u\<lparr>u_hashed_password := h, u_password_changed_at := Some t\<rparr>"

definition update_user :: "'t env \<Rightarrow> string \<Rightarrow> user_patch \<Rightarrow> user act" where
  "update_user E i p =
     andthen (get_user i) (\<lambda>u.
     andthen (case uu_role p of
         None \<Rightarrow> ret (\<lambda>x. x)
       | Some r \<Rightarrow>
           if r \<noteq> [] \<and> r \<noteq> u_role_id u
           then andthen (require_role r) (\<lambda>_. ret (u_role_id_update (\<lambda>_. r)))
           else ret (\<lambda>x. x)) (\<lambda>set_role.
     andthen (case uu_password p of
         None \<Rightarrow> ret (\<lambda>x. x)
       | Some pw \<Rightarrow>
           if pw \<noteq> [] then
             andthen (hash_act E pw) (\<lambda>h. andthen (now_utc E) (\<lambda>t. ret (set_password h t)))
           else ret (\<lambda>x. x)) (\<lambda>set_pw.
     let f = (\<lambda>x. set_pw (set_profile p (set_role x))) in
     andthen (change_user E i f) (\<lambda>_.
     andthen (flush E) (\<lambda>_.
     ret (stamp (touch_user E) f u))))))"

section \<open>Roles\<close>

definition touch_role :: "'t env \<Rightarrow> role \<Rightarrow> role" where
  "touch_role E r = r\<lparr>r_updated_at := tx_now E\<rparr>"

definition change_role :: "'t env \<Rightarrow> string \<Rightarrow> (role \<Rightarrow> role) \<Rightarrow> unit act" where
  "change_role E i f = modify (roles_update (change_row r_id i (stamp (touch_role E) f)))"

definition list_roles :: "role_row list act" where
  "list_roles = query (\<lambda>s. map to_role_row (sort_key r_created_at (roles s)))"

definition upsert_role_id :: "role_upsert \<Rightarrow> string" where
  "upsert_role_id p =
     (if truthy (ru_id p) then (case ru_id p of Some i \<Rightarrow> i | None \<Rightarrow> [])
      else str_replace_char (CHR '' '') ''_'' (str_lower (ru_name p)))"

text \<open>\<open>payload.permissions or default_permissions_for(role_id)\<close>: an empty matrix is false.\<close>

definition upsert_perms :: "role_upsert \<Rightarrow> permission_map" where
  "upsert_perms p =
     (case ru_permissions p of
        Some m \<Rightarrow> if m \<noteq> [] then m else default_permissions_for (upsert_role_id p)
      | None \<Rightarrow> default_permissions_for (upsert_role_id p))"

definition set_role_fields :: "role_upsert \<Rightarrow> role \<Rightarrow> role" where
  "set_role_fields p r =
     opt_set (ru_permissions p) (\<lambda>m. r_permissions_update (\<lambda>_. m))
       (r\<lparr>r_name := ru_name p, r_description := ru_description p, r_status := ru_status p\<rparr>)"

definition upsert_role :: "'t env \<Rightarrow> role_upsert \<Rightarrow> role act" where
  "upsert_role E p =
     (let i = upsert_role_id p in
      andthen (select_one (\<lambda>s. by_key r_id i (roles s))) (\<lambda>found.
      case found of
        None \<Rightarrow>
          (let r = \<lparr>r_id = i, r_name = ru_name p, r_description = ru_description p,
               r_status = ru_status p, r_permissions = upsert_perms p, r_is_system = False,
               r_created_at = tx_now E, r_updated_at = tx_now E\<rparr> in
           andthen (modify (roles_update (insert_row r))) (\<lambda>_.
           andthen (flush E) (\<lambda>_. ret r)))
      | Some r \<Rightarrow>
          andthen (change_role E i (set_role_fields p)) (\<lambda>_.
          andthen (flush E) (\<lambda>_. ret (stamp (touch_role E) (set_role_fields p) r)))))"

definition update_role_permissions :: "'t env \<Rightarrow> string \<Rightarrow> permission_map \<Rightarrow> role act" where
  "update_role_permissions E i perms =
     andthen (require_role i) (\<lambda>r.
     andthen (change_role E i (r_permissions_update (\<lambda>_. perms))) (\<lambda>_.
     andthen (flush E) (\<lambda>_.
     ret (stamp (touch_role E) (r_permissions_update (\<lambda>_. perms)) r))))"

end
