(* ===== verification/Auth.thy ===== *)
theory Auth
  imports Identity
begin

text \<open>
  Authentication: login with lockout, refresh-token rotation with reuse detection, logout and
  password change (\<open>app/modules/identity/service.py\<close>), and the resolution and guarding of the
  caller (\<open>app/core/deps.py\<close>). The three places where the service commits before it raises are
  the explicit \<open>commit\<close>s of \<open>authenticate\<close> and \<open>refresh_session\<close>.
\<close>

section \<open>Tokens of a session\<close>

definition tokens_for_session :: "'t env \<Rightarrow> user \<Rightarrow> string \<Rightarrow> string \<Rightarrow> ('t \<times> 't) act" where
  "tokens_for_session E u session_id refresh_jti =
     andthen (now_utc E) (\<lambda>t1.
     let access = create_access_token (crypt E) (cfg E) t1 (u_id u)
         [(''email'', JStr (u_email u)), (''role'', JStr (u_role_id u)), (''sid'', JStr session_id)] None in
     andthen (now_utc E) (\<lambda>t2.
     let refresh = create_refresh_token (crypt E) (cfg E) t2 (u_id u) session_id refresh_jti None in
     ret (access, refresh)))"

definition issue_session :: "'t env \<Rightarrow> user \<Rightarrow> string option \<Rightarrow> string option \<Rightarrow> ('t \<times> 't) act" where
  "issue_session E u user_agent ip =
     andthen (now_utc E) (\<lambda>now.
     andthen (uuid4_str E) (\<lambda>session_id.
     andthen (uuid4_hex E) (\<lambda>refresh_jti.
     andthen (modify (user_sessions_update (insert_row
       \<lparr>s_id = session_id, s_user_id = u_id u, s_refresh_jti = refresh_jti, s_user_agent = user_agent,
        s_ip_address = ip, s_issued_at = now,
        s_expires_at = now + minutes (refresh_token_expire_minutes (cfg E)),
        s_revoked_at = None, s_last_seen_at = Some now\<rparr>))) (\<lambda>_.
     andthen (flush E) (\<lambda>_.
     tokens_for_session E u session_id refresh_jti)))))"

section \<open>Login\<close>

definition msg_invalid :: exn where
  "msg_invalid = App AuthenticationError ''Invalid email or password.'' []"

definition msg_locked :: exn where
  "msg_locked = App AuthenticationError
     ''Account temporarily locked due to failed login attempts. Try again later.'' []"

definition msg_disabled :: exn where
  "msg_disabled = App AuthenticationError
     ''Your account has been disabled. Please contact administrator.'' []"

definition msg_now_locked :: "settings \<Rightarrow> exn" where
  "msg_now_locked st = App AuthenticationError
     (''Too many failed attempts. Account locked for '' @ show_int (lockout_minutes st) @ '' minutes.'') []"

definition locked_at :: "user \<Rightarrow> int \<Rightarrow> bool" where
  "locked_at u now = (case u_locked_until u of None \<Rightarrow> False | Some t \<Rightarrow> now < t)"

text \<open>The two branches of a wrong password.\<close>

definition count_failure :: "user \<Rightarrow> user" where
  "count_failure u = u\<lparr>u_failed_login_count := u_failed_login_count u + 1\<rparr>"

definition lock_user :: "settings \<Rightarrow> int \<Rightarrow> user \<Rightarrow> user" where
  "lock_user st now u = u\<lparr>u_failed_login_count := 0, u_locked_until := Some (now + minutes (lockout_minutes st))\<rparr>"

definition reaches_limit :: "settings \<Rightarrow> user \<Rightarrow> bool" where
  "reaches_limit st u = (max_failed_logins st \<le> u_failed_login_count u + 1)"

definition login_failure :: "'t env \<Rightarrow> int \<Rightarrow> user \<Rightarrow> 'a act" where
  "login_failure E now u =
     (if reaches_limit (cfg E) u then
        andthen (change_user E (u_id u) (\<lambda>x. lock_user (cfg E) now (count_failure x))) (\<lambda>_.
        andthen (commit E) (\<lambda>_. raise (msg_now_locked (cfg E))))
      else
        andthen (change_user E (u_id u) count_failure) (\<lambda>_.
        andthen (commit E) (\<lambda>_. raise msg_invalid)))"

definition login_user :: "int \<Rightarrow> user \<Rightarrow> user" where
  "login_user now u = u\<lparr>u_failed_login_count := 0, u_locked_until := None, u_last_login := Some now\<rparr>"

definition login_success ::
  "'t env \<Rightarrow> int \<Rightarrow> user \<Rightarrow> string \<Rightarrow> string option \<Rightarrow> string option \<Rightarrow> ('t \<times> 't \<times> user) act" where
  "login_success E now u password user_agent ip =
     andthen (lib_call (needs_rehash (crypt E) (u_hashed_password u))) (\<lambda>stale.
     andthen (if stale then andthen (hash_act E password) (\<lambda>h. ret (\<lambda>x. x\<lparr>u_hashed_password := h\<rparr>))
              else ret (\<lambda>x. x)) (\<lambda>set_hash.
     let f = (\<lambda>x. set_hash (login_user now x)) in
     andthen (change_user E (u_id u) f) (\<lambda>_.
     andthen (issue_session E (stamp (touch_user E) f u) user_agent ip) (\<lambda>(access, refresh).
     ret (access, refresh, stamp (touch_user E) f u)))))"

definition authenticate ::
  "'t env \<Rightarrow> string \<Rightarrow> string \<Rightarrow> string option \<Rightarrow> string option \<Rightarrow> ('t \<times> 't \<times> user) act" where
  "authenticate E email password user_agent ip =
     andthen (now_utc E) (\<lambda>now.
     andthen (select_one (email_matches email)) (\<lambda>found.
     case found of
       None \<Rightarrow> raise msg_invalid
     | Some u \<Rightarrow>
         if locked_at u now then raise msg_locked
         else if \<not> is_active u then raise msg_disabled
         else
           andthen (lib_call (verify_password (crypt E) password (u_hashed_password u))) (\<lambda>ok.
           if \<not> ok then login_failure E now u
           else login_success E now u password user_agent ip)))"

section \<open>Refresh\<close>

text \<open>
  A claim used as the value of a key column: no value compares as SQL NULL and finds nothing, a
  string is compared, and any other JSON value is refused by the driver.
\<close>

datatype key_claim = NoKey | KeyStr string | BadKey

fun as_key :: "json option \<Rightarrow> key_claim" where
  "as_key None = NoKey"
| "as_key (Some JNull) = NoKey"
| "as_key (Some (JStr s)) = KeyStr s"
| "as_key (Some _) = BadKey"

definition select_key :: "('r \<Rightarrow> string) \<Rightarrow> (store \<Rightarrow> 'r list) \<Rightarrow> json option \<Rightarrow> 'r option act" where
  "select_key key tab claim =
     (case as_key claim of
        NoKey \<Rightarrow> ret None
      | KeyStr s \<Rightarrow> select_one (\<lambda>st. by_key key s (tab st))
      | BadKey \<Rightarrow> raise (OtherExn ''DBAPIError'' ''invalid input for query argument''))"

definition session_dead :: "user_session \<Rightarrow> int \<Rightarrow> bool" where
  "session_dead s now = (s_revoked_at s \<noteq> None \<or> s_expires_at s \<le> now)"

definition msg_session :: exn where
  "msg_session = App AuthenticationError ''Session is no longer valid. Please sign in again.'' []"

definition change_session :: "string \<Rightarrow> (user_session \<Rightarrow> user_session) \<Rightarrow> unit act" where
  "change_session i f = modify (user_sessions_update (change_row s_id i f))"

definition revoke :: "int \<Rightarrow> user_session \<Rightarrow> user_session" where
  "revoke now s = s\<lparr>s_revoked_at := Some now\<rparr>"

definition rotate ::
  "'t env \<Rightarrow> int \<Rightarrow> string \<Rightarrow> string option \<Rightarrow> string option \<Rightarrow> user_session \<Rightarrow> user_session" where
  "rotate E now new_jti user_agent ip s =
     s\<lparr>s_refresh_jti := new_jti, s_last_seen_at := Some now,
       s_expires_at := now + minutes (refresh_token_expire_minutes (cfg E)),
       s_user_agent := (if truthy user_agent then user_agent else s_user_agent s),
       s_ip_address := (if truthy ip then ip else s_ip_address s)\<rparr>"

text \<open>
  The two refusals that revoke the session commit before they raise, so that the revocation
  outlives the rollback of the request.
\<close>

definition kill_session :: "'t env \<Rightarrow> int \<Rightarrow> user_session \<Rightarrow> string \<Rightarrow> 'a act" where
  "kill_session E now s reason =
     andthen (change_session (s_id s) (revoke now)) (\<lambda>_.
     andthen (commit E) (\<lambda>_.
     raise (App AuthenticationError reason [])))"

definition rotate_session ::
  "'t env \<Rightarrow> int \<Rightarrow> user_session \<Rightarrow> user \<Rightarrow> string option \<Rightarrow> string option \<Rightarrow> ('t \<times> 't) act" where
  "rotate_session E now s u user_agent ip =
     andthen (uuid4_hex E) (\<lambda>new_jti.
     andthen (change_session (s_id s) (rotate E now new_jti user_agent ip)) (\<lambda>_.
     andthen (flush E) (\<lambda>_.
     tokens_for_session E u (s_id s) new_jti)))"

definition active_owner :: "user option \<Rightarrow> user option" where
  "active_owner found = (case found of None \<Rightarrow> None | Some u \<Rightarrow> if is_active u then Some u else None)"

definition refresh_live ::
  "'t env \<Rightarrow> int \<Rightarrow> user_session \<Rightarrow> claims \<Rightarrow> string option \<Rightarrow> string option \<Rightarrow> ('t \<times> 't) act" where
  "refresh_live E now s payload user_agent ip =
     (if map_of payload ''jti'' \<noteq> Some (JStr (s_refresh_jti s))
      then kill_session E now s ''Refresh token reuse detected. Session revoked.''
      else
        andthen (select_one (\<lambda>st. by_key u_id (s_user_id s) (users st))) (\<lambda>found.
        case active_owner found of
          None \<Rightarrow> kill_session E now s ''Account is no longer active.''
        | Some u \<Rightarrow> rotate_session E now s u user_agent ip))"

definition refresh_session :: "'t env \<Rightarrow> 't \<Rightarrow> string option \<Rightarrow> string option \<Rightarrow> ('t \<times> 't) act" where
  "refresh_session E token user_agent ip =
     andthen (now_utc E) (\<lambda>t0.
     case decode_token (crypt E) (cfg E) t0 token of
       Inl e \<Rightarrow> raise (App AuthenticationError ''Invalid or expired refresh token.'' [])
     | Inr payload \<Rightarrow>
         if map_of payload ''type'' \<noteq> Some (JStr ''refresh'')
         then raise (App AuthenticationError ''Not a refresh token.'' [])
         else
           andthen (select_key s_id user_sessions (map_of payload ''sid'')) (\<lambda>found.
           andthen (now_utc E) (\<lambda>now.
           case found of
             None \<Rightarrow> raise msg_session
           | Some s \<Rightarrow>
               if session_dead s now then raise msg_session
               else refresh_live E now s payload user_agent ip)))"

section \<open>Logout and password change\<close>

definition revoke_session :: "'t env \<Rightarrow> string option \<Rightarrow> unit act" where
  "revoke_session E session_id =
     (case session_id of
        None \<Rightarrow> ret ()
      | Some i \<Rightarrow>
          if i = [] then ret ()
          else
            andthen (select_one (\<lambda>st. by_key s_id i (user_sessions st))) (\<lambda>found.
            case found of
              None \<Rightarrow> ret ()
            | Some s \<Rightarrow>
                if s_revoked_at s = None then
                  andthen (now_utc E) (\<lambda>now.
                  andthen (change_session (s_id s) (revoke now)) (\<lambda>_. flush E))
                else ret ()))"

definition change_password :: "'t env \<Rightarrow> string \<Rightarrow> string \<Rightarrow> string \<Rightarrow> user act" where
  "change_password E i current new =
     andthen (get_user i) (\<lambda>u.
     andthen (lib_call (verify_password (crypt E) current (u_hashed_password u))) (\<lambda>ok.
     if \<not> ok then raise (App AuthenticationError ''Current password is incorrect.'' [])
     else
       andthen (hash_act E new) (\<lambda>h.
       andthen (now_utc E) (\<lambda>now.
       let f = (\<lambda>x. x\<lparr>u_hashed_password := h, u_password_changed_at := Some now,
                      u_must_reset_password := False\<rparr>) in
       andthen (change_user E i f) (\<lambda>_.
       andthen (flush E) (\<lambda>_.
       ret (stamp (touch_user E) f u)))))))"

section \<open>The caller and the permission guard\<close>

record principal =
  p_id :: string
  p_email :: string
  p_full_name :: string
  p_role :: string
  p_permissions :: permission_map
  p_session_id :: "string option"
  p_must_reset_password :: bool

text \<open>The bearer credentials: no header, an empty credential, or a token.\<close>

datatype 't bearer = NoHeader | EmptyCredentials | Credentials 't

fun json_truthy :: "json option \<Rightarrow> bool" where
  "json_truthy None = False"
| "json_truthy (Some JNull) = False"
| "json_truthy (Some (JBool b)) = b"
| "json_truthy (Some (JInt i)) = (i \<noteq> 0)"
| "json_truthy (Some (JStr s)) = (s \<noteq> [])"
| "json_truthy (Some (JArr xs)) = (xs \<noteq> [])"
| "json_truthy (Some (JObj d)) = (d \<noteq> [])"

definition session_claim :: "json option \<Rightarrow> string option" where
  "session_claim c = (case c of Some (JStr s) \<Rightarrow> Some s | _ \<Rightarrow> None)"

definition auth_error :: "string \<Rightarrow> exn" where
  "auth_error m = App AuthenticationError m []"

definition check_session :: "'t env \<Rightarrow> json option \<Rightarrow> unit act" where
  "check_session E sid =
     (if json_truthy sid then
        andthen (select_key s_id user_sessions sid) (\<lambda>found.
        andthen (now_utc E) (\<lambda>now.
        case found of
          None \<Rightarrow> raise msg_session
        | Some s \<Rightarrow> if session_dead s now then raise msg_session else ret ()))
      else ret ())"

definition user_role :: "user \<Rightarrow> role act" where
  "user_role u =
     andthen (query (\<lambda>s. by_key r_id (u_role_id u) (roles s))) (\<lambda>rs.
     case rs of [] \<Rightarrow> raise (OtherExn ''AttributeError'' ''permissions'') | r # _ \<Rightarrow> ret r)"

definition get_current_principal :: "'t env \<Rightarrow> 't bearer \<Rightarrow> principal act" where
  "get_current_principal E creds =
     (case creds of
        NoHeader \<Rightarrow> raise (auth_error ''Missing bearer token.'')
      | EmptyCredentials \<Rightarrow> raise (auth_error ''Missing bearer token.'')
      | Credentials token \<Rightarrow>
          andthen (now_utc E) (\<lambda>t0.
          case decode_token (crypt E) (cfg E) t0 token of
            Inl ExpiredSignatureError \<Rightarrow> raise (auth_error ''Token has expired.'')
          | Inl (InvalidTokenError _) \<Rightarrow> raise (auth_error ''Invalid token.'')
          | Inr payload \<Rightarrow>
              if map_of payload ''type'' \<notin> {None, Some JNull, Some (JStr ''access'')}
              then raise (auth_error ''Wrong token type for this endpoint.'')
              else if \<not> json_truthy (map_of payload ''sub'')
              then raise (auth_error ''Invalid token subject.'')
              else
                andthen (select_key u_id users (map_of payload ''sub'')) (\<lambda>found.
                case found of
                  None \<Rightarrow> raise (auth_error ''User no longer exists.'')
                | Some u \<Rightarrow>
                    if \<not> is_active u then raise (auth_error ''Account is disabled.'')
                    else
                      andthen (check_session E (map_of payload ''sid'')) (\<lambda>_.
                      andthen (user_role u) (\<lambda>r.
                      ret \<lparr>p_id = u_id u, p_email = u_email u, p_full_name = u_full_name u,
                           p_role = u_role_id u, p_permissions = r_permissions r,
                           p_session_id = session_claim (map_of payload ''sid''),
                           p_must_reset_password = u_must_reset_password u\<rparr>)))))"

definition can :: "principal \<Rightarrow> perm_key \<Rightarrow> perm_action \<Rightarrow> bool" where
  "can p key action = has_permission (p_permissions p) key action"

definition require :: "perm_key \<Rightarrow> perm_action \<Rightarrow> principal \<Rightarrow> principal act" where
  "require key action p =
     (if \<not> can p key action then
        raise (App PermissionDeniedError
          (''Role '' @ [CHR 0x27] @ p_role p @ [CHR 0x27] @ '' lacks '' @ [CHR 0x27] @ action_value action @
           [CHR 0x27] @ '' on '' @ [CHR 0x27] @ key_value key @ [CHR 0x27] @ ''.'') [])
      else ret p)"

end
