(* ===== verification/Store_Lemmas.thy ===== *)
theory Store_Lemmas
  imports Auth
begin

text \<open>
  What the row operations of the identity services keep of the constraints, the orders on stores
  that no operation reverses (the audit trail only grows, a revoked session is frozen, no user
  disappears), and the classification of the identity functions as silent or checked.
\<close>

section \<open>Changing a user row\<close>

definition user_edit :: "(user \<Rightarrow> user) \<Rightarrow> bool" where
  "user_edit f = (\<forall>u. u_id (f u) = u_id u \<and> u_email (f u) = u_email u \<and> u_role_id (f u) = u_role_id u)"

lemma user_edit_fields:
  "user_edit f \<Longrightarrow> u_id (f u) = u_id u" "user_edit f \<Longrightarrow> u_email (f u) = u_email u"
  "user_edit f \<Longrightarrow> u_role_id (f u) = u_role_id u"
  by (simp_all add: user_edit_def)

lemma touch_user_fields [simp]:
  "u_id (touch_user E u) = u_id u" "u_email (touch_user E u) = u_email u"
  "u_role_id (touch_user E u) = u_role_id u" "user_fits (touch_user E u) = user_fits u"
  "u_status (touch_user E u) = u_status u" "u_hashed_password (touch_user E u) = u_hashed_password u"
  "u_failed_login_count (touch_user E u) = u_failed_login_count u"
  "u_locked_until (touch_user E u) = u_locked_until u" "u_last_login (touch_user E u) = u_last_login u"
  "u_must_reset_password (touch_user E u) = u_must_reset_password u"
  "u_created_at (touch_user E u) = u_created_at u"
  by (simp_all add: touch_user_def user_fits_def)

lemma stamp_user_fields [simp]:
  "u_email (stamp (touch_user E) f u) = u_email (f u)"
  "u_id (stamp (touch_user E) f u) = u_id (f u)"
  "u_role_id (stamp (touch_user E) f u) = u_role_id (f u)"
  "u_status (stamp (touch_user E) f u) = u_status (f u)"
  "u_hashed_password (stamp (touch_user E) f u) = u_hashed_password (f u)"
  "u_failed_login_count (stamp (touch_user E) f u) = u_failed_login_count (f u)"
  "u_locked_until (stamp (touch_user E) f u) = u_locked_until (f u)"
  "u_last_login (stamp (touch_user E) f u) = u_last_login (f u)"
  "u_must_reset_password (stamp (touch_user E) f u) = u_must_reset_password (f u)"
  "u_created_at (stamp (touch_user E) f u) = u_created_at (f u)"
  "user_fits (stamp (touch_user E) f u) = user_fits (f u)"
  by (simp_all add: stamp_def)

lemma user_edit_stamp: "user_edit f \<Longrightarrow> user_edit (stamp (touch_user E) f)"
  by (simp add: user_edit_def)

lemma filter_change_row:
  "(\<And>r. P (f r) = P r) \<Longrightarrow>
   filter P (change_row key k f rs) = map (\<lambda>r. if key r = k then f r else r) (filter P rs)"
  by (induction rs) (auto simp: change_row_def)

lemma email_matches_edit:
  assumes "user_edit f" and "email_matches e s = [u]"
  shows "email_matches e (users_update (change_row u_id (u_id u) f) s) = [f u]"
  using assms by (simp add: email_matches_def filter_change_row user_edit_def)

lemma store_ok_edit_user:
  assumes ok: "store_ok inet s" and f: "user_edit f"
    and fit: "\<And>u. u \<in> set (users s) \<Longrightarrow> u_id u = i \<Longrightarrow> user_fits u \<Longrightarrow> user_fits (f u)"
  shows "store_ok inet (users_update (change_row u_id i f) s)"
proof -
  note fields = user_edit_fields [OF f]
  have "list_all user_fits (change_row u_id i f (users s))"
    using ok fit by (intro list_all_change_row) (auto simp: store_ok_def widths_ok_def)
  moreover have "list_all (\<lambda>u. refers r_id (roles s) (u_role_id u)) (change_row u_id i f (users s))"
    using ok fields by (intro list_all_change_row) (auto simp: store_ok_def foreign_keys_ok_def)
  ultimately show ?thesis
    using ok fields
    by (simp add: store_ok_def constraint_defs keys_unique_change refers_change cong: option.case_cong)
qed

lemma by_key_in: "by_key key k rs = [r] \<Longrightarrow> r \<in> set rs \<and> key r = k"
  by (metis in_by_key list.set_intros(1))

lemma store_ok_users: "store_ok inet s \<Longrightarrow> u \<in> set (users s) \<Longrightarrow> user_fits u"
  by (auto simp: store_ok_def widths_ok_def list_all_iff)

lemma store_ok_keys:
  "store_ok inet s \<Longrightarrow> keys_unique u_id (users s)" "store_ok inet s \<Longrightarrow> keys_unique u_email (users s)"
  "store_ok inet s \<Longrightarrow> keys_unique s_id (user_sessions s)"
  "store_ok inet s \<Longrightarrow> keys_unique s_refresh_jti (user_sessions s)"
  "store_ok inet s \<Longrightarrow> keys_unique r_id (roles s)" "store_ok inet s \<Longrightarrow> keys_unique c_id (cases s)"
  "store_ok inet s \<Longrightarrow> keys_unique c_reference (cases s)"
  by (simp_all add: store_ok_def uniques_ok_def)

lemma email_matches_in:
  assumes "email_matches e s = [u]"
  shows "u \<in> set (users s)"
proof -
  have "u \<in> set (email_matches e s)" using assms by simp
  then show ?thesis by (simp add: email_matches_def)
qed

section \<open>Changing a session row\<close>

definition session_edit :: "(user_session \<Rightarrow> user_session) \<Rightarrow> bool" where
  "session_edit f = (\<forall>x. s_id (f x) = s_id x \<and> s_user_id (f x) = s_user_id x \<and> s_issued_at (f x) = s_issued_at x)"

lemma session_edits [simp]: "session_edit (revoke now)" "session_edit (rotate E now j ua ip)"
  by (simp_all add: session_edit_def revoke_def rotate_def)

lemma store_ok_revoke:
  assumes "store_ok inet s"
  shows "store_ok inet (user_sessions_update (change_row s_id i (revoke now)) s)"
proof -
  have "list_all (session_fits inet) (change_row s_id i (revoke now) (user_sessions s))"
    using assms by (intro list_all_change_row) (auto simp: store_ok_def widths_ok_def session_fits_def revoke_def)
  moreover have "list_all (\<lambda>x. refers u_id (users s) (s_user_id x)) (change_row s_id i (revoke now) (user_sessions s))"
    using assms by (intro list_all_change_row) (simp_all add: store_ok_def foreign_keys_ok_def revoke_def)
  ultimately show ?thesis
    using assms
    by (simp add: store_ok_def constraint_defs keys_unique_change revoke_def cong: option.case_cong)
qed

section \<open>Orders on stores\<close>

definition audit_forward :: "store \<Rightarrow> store \<Rightarrow> bool" where
  "audit_forward s t = (take (length (audit_logs s)) (audit_logs t) = audit_logs s)"

definition sessions_forward :: "store \<Rightarrow> store \<Rightarrow> bool" where
  "sessions_forward s t =
     (\<forall>x \<in> set (user_sessions s). \<exists>y \<in> set (user_sessions t).
        s_id y = s_id x \<and> s_user_id y = s_user_id x \<and> s_issued_at y = s_issued_at x \<and>
        (s_revoked_at x \<noteq> None \<longrightarrow> y = x))"

definition users_forward :: "store \<Rightarrow> store \<Rightarrow> bool" where
  "users_forward s t =
     (\<forall>u \<in> set (users s). \<exists>v \<in> set (users t). u_id v = u_id u \<and> u_created_at v = u_created_at u)"

lemma take_take_trans:
  "take (length xs) ys = xs \<Longrightarrow> take (length ys) zs = ys \<Longrightarrow> take (length xs) zs = xs"
  by (metis append_take_drop_id length_take min.absorb_iff2 min.cobounded1 take_all_iff take_append
      take_take)

interpretation audit_order: store_order audit_forward
  by unfold_locales (auto simp: audit_forward_def intro: take_take_trans)

lemma sessions_forward_trans:
  assumes "sessions_forward s t" "sessions_forward t u"
  shows "sessions_forward s u"
  unfolding sessions_forward_def
proof
  fix x assume "x \<in> set (user_sessions s)"
  with assms(1) obtain y where y: "y \<in> set (user_sessions t)" "s_id y = s_id x"
    "s_user_id y = s_user_id x" "s_issued_at y = s_issued_at x" "s_revoked_at x \<noteq> None \<longrightarrow> y = x"
    by (auto simp: sessions_forward_def)
  with assms(2) obtain z where "z \<in> set (user_sessions u)" "s_id z = s_id y"
    "s_user_id z = s_user_id y" "s_issued_at z = s_issued_at y" "s_revoked_at y \<noteq> None \<longrightarrow> z = y"
    by (auto simp: sessions_forward_def)
  with y show "\<exists>z \<in> set (user_sessions u). s_id z = s_id x \<and> s_user_id z = s_user_id x \<and>
      s_issued_at z = s_issued_at x \<and> (s_revoked_at x \<noteq> None \<longrightarrow> z = x)"
    by (intro bexI [of _ z]) auto
qed

lemma sessions_forward_refl: "sessions_forward s s"
  by (auto simp: sessions_forward_def)

interpretation session_order: store_order sessions_forward
  by unfold_locales (rule sessions_forward_refl, erule (1) sessions_forward_trans)

lemma users_forward_trans:
  assumes "users_forward s t" "users_forward t u"
  shows "users_forward s u"
  unfolding users_forward_def
proof
  fix x assume "x \<in> set (users s)"
  with assms(1) obtain y where y: "y \<in> set (users t)" "u_id y = u_id x" "u_created_at y = u_created_at x"
    by (auto simp: users_forward_def)
  with assms(2) obtain z where "z \<in> set (users u)" "u_id z = u_id y" "u_created_at z = u_created_at y"
    by (auto simp: users_forward_def)
  with y show "\<exists>v \<in> set (users u). u_id v = u_id x \<and> u_created_at v = u_created_at x"
    by (intro bexI [of _ z]) auto
qed

lemma users_forward_refl: "users_forward s s"
  by (auto simp: users_forward_def)

interpretation user_order: store_order users_forward
  by unfold_locales (rule users_forward_refl, erule (1) users_forward_trans)

lemma audit_forward_insert [simp]: "audit_forward s (audit_logs_update (insert_row a) s)"
  by (simp add: audit_forward_def insert_row_def)

lemma in_change_row: "x \<in> set rs \<Longrightarrow> (if key x = k then f x else x) \<in> set (change_row key k f rs)"
  by (auto simp: change_row_def update_where_def)

lemma users_forward_change:
  assumes "\<And>u. u_id (f u) = u_id u \<and> u_created_at (f u) = u_created_at u"
  shows "users_forward s (users_update (change_row u_id i f) s)"
  unfolding users_forward_def
proof
  fix u assume "u \<in> set (users s)"
  from in_change_row [OF this, of u_id i f] assms
  show "\<exists>v \<in> set (users (users_update (change_row u_id i f) s)). u_id v = u_id u \<and> u_created_at v = u_created_at u"
    by (auto split: if_splits)
qed

lemma sessions_forward_change:
  assumes "session_edit f" and "\<And>x. x \<in> set (user_sessions s) \<Longrightarrow> s_id x = i \<Longrightarrow> s_revoked_at x = None"
  shows "sessions_forward s (user_sessions_update (change_row s_id i f) s)"
  unfolding sessions_forward_def
proof
  fix x assume x: "x \<in> set (user_sessions s)"
  show "\<exists>y \<in> set (user_sessions (user_sessions_update (change_row s_id i f) s)).
      s_id y = s_id x \<and> s_user_id y = s_user_id x \<and> s_issued_at y = s_issued_at x \<and>
      (s_revoked_at x \<noteq> None \<longrightarrow> y = x)"
    using in_change_row [OF x, of s_id i f] assms(1) assms(2) [OF x]
    by (intro bexI [of _ "if s_id x = i then f x else x"]) (auto simp: session_edit_def)
qed

section \<open>Functions that never commit\<close>

lemma silent_cases [silent_intro]:
  "silent a \<Longrightarrow> (\<And>s. silent (f s)) \<Longrightarrow> silent b \<Longrightarrow>
   silent (case z of NoKey \<Rightarrow> a | KeyStr s \<Rightarrow> f s | BadKey \<Rightarrow> b)"
  "silent a \<Longrightarrow> silent b \<Longrightarrow> (\<And>x. silent (g x)) \<Longrightarrow>
   silent (case y of NoHeader \<Rightarrow> a | EmptyCredentials \<Rightarrow> b | Credentials x \<Rightarrow> g x)"
  "silent a \<Longrightarrow> (\<And>m. silent (h m)) \<Longrightarrow>
   silent (case e of ExpiredSignatureError \<Rightarrow> a | InvalidTokenError m \<Rightarrow> h m)"
  "silent a \<Longrightarrow> (\<And>x xs. silent (k x xs)) \<Longrightarrow> silent (case l of [] \<Rightarrow> a | x # xs \<Rightarrow> k x xs)"
  by (auto split: key_claim.splits bearer.splits jwt_exn.splits list.splits)

lemmas identity_defs =
  record_audit_def change_user_def get_user_def require_role_def create_user_def update_user_def
  change_role_def upsert_role_def update_role_permissions_def list_audit_def list_users_def list_roles_def

lemmas auth_defs =
  tokens_for_session_def issue_session_def login_success_def select_key_def change_session_def
  revoke_session_def change_password_def check_session_def user_role_def get_current_principal_def
  require_def

lemma silent_identity [silent_intro]:
  "silent (record_audit E a b c d m)" "silent (change_user E i f)" "silent (get_user i)"
  "silent (require_role i)" "silent (create_user E uc)" "silent (update_user E i up)"
  "silent (change_role E i g)" "silent (upsert_role E ru)" "silent (update_role_permissions E i pm)"
  "silent (list_audit n k)" "silent (list_users n k)" "silent list_roles"
  unfolding identity_defs Let_def by (intro silent_intro)+

lemma silent_auth [silent_intro]:
  "silent (tokens_for_session E u i j)" "silent (issue_session E u ua ip)"
  "silent (login_success E now u pw ua ip)" "silent (select_key key tab c)" "silent (change_session i f)"
  "silent (revoke_session E so)" "silent (change_password E i p q)" "silent (check_session E sc)"
  "silent (user_role u)" "silent (get_current_principal E cr)" "silent (require pk act pr)"
  unfolding auth_defs identity_defs Let_def by (intro silent_intro)+

lemma checked_auth [checked_intro]:
  "checked E (login_failure E now u)" "checked E (authenticate E e pw ua ip)"
  "checked E (refresh_session E t ua ip)"
proof -
  note leaf = silent_primitives [THEN silent_checked] silent_select [THEN silent_checked]
    silent_identity [THEN silent_checked] silent_auth [THEN silent_checked]
  show "checked E (login_failure E now u)" for u :: user and now
    unfolding login_failure_def by (intro checked_intro leaf)
  then show "checked E (authenticate E e pw ua ip)"
    unfolding authenticate_def by (intro checked_intro leaf)
  show "checked E (refresh_session E t ua ip)"
    unfolding refresh_session_def refresh_live_def kill_session_def rotate_session_def
    by (intro checked_intro leaf)
qed

end
