(* ===== verification/Demo.thy ===== *)
theory Demo
  imports Auth
begin

text \<open>
  A small concrete deployment on which the properties are exercised: the default settings, the
  concrete library of \<open>Security\<close>, a clock that advances one second per reading, random draws that
  differ, and a store with the administrator role and one account.
\<close>

text \<open>Services that answer: no rows from ClickHouse and Postgres, and Airflow accepts every run.\<close>

definition demo_upstream :: upstream where
  "demo_upstream =
     \<lparr>ch_connect = (\<lambda>n. None), ch_run = (\<lambda>n q ps. Inr \<lparr>column_names = [], result_rows = []\<rparr>),
      ch_command = (\<lambda>n. None), ch_close = (\<lambda>n. None), pg_run = (\<lambda>n q ps. Inr []),
      af_post = (\<lambda>n d conf. HttpResponse 200 True), af_health = (\<lambda>n. HttpResponse 200 True),
      app_db_ping = (\<lambda>n. None), redis_open = (\<lambda>u. None), redis_close = (\<lambda>n. None),
      redis_get = (\<lambda>n k. Inr (Some ''[1]'')), redis_set = (\<lambda>n k t e. None), py_str = (\<lambda>c. []),
      fs_write = (\<lambda>n p c. None), sha256_hex = (\<lambda>xs. take 8 (concat xs))\<rparr>"

definition demo_env :: "demo_token env" where
  "demo_env =
     \<lparr>cfg = default_settings, crypt = demo_crypto, services = demo_upstream,
      clock = (\<lambda>n. 1000000 * (1000 + int n)),
      uuid_hex = (\<lambda>n. ''id'' @ replicate n (CHR ''x'')),
      tx_now = 1000000000, inet_ok = (\<lambda>s. list_all (\<lambda>c. c \<in> set ''0123456789.'') s),
      email_of = (\<lambda>s. if CHR 0x40 \<in> set s then Some s else None),
      dbapi_class = (\<lambda>v. ''IntegrityError''),
      ctx_client_ip = Some ''10.0.0.7'', ctx_user_agent = Some ''curl'', ctx_request_id = Some ''req-1'',
      broker_up = True\<rparr>"

definition demo_role :: role where
  "demo_role =
     \<lparr>r_id = ''admin'', r_name = ''Administrator'', r_description = [], r_status = ''Active'',
      r_permissions = full_permissions, r_is_system = True, r_created_at = 0, r_updated_at = 0\<rparr>"

definition demo_user :: user where
  "demo_user =
     \<lparr>u_id = ''u1'', u_full_name = ''Daniel Okafor'', u_email = ''admin@radonaix.io'', u_phone = None,
      u_department = None, u_hashed_password = ''$argon2id$ChangeMe!123'', u_role_id = ''admin'',
      u_status = ''Active'', u_avatar = Some ''DO'', u_last_login = None, u_failed_login_count = 0,
      u_locked_until = None, u_must_reset_password = False, u_password_changed_at = None,
      u_created_at = 0, u_updated_at = 0\<rparr>"

definition demo_session :: user_session where
  "demo_session =
     \<lparr>s_id = ''s1'', s_user_id = ''u1'', s_refresh_jti = ''j1'', s_user_agent = None, s_ip_address = None,
      s_issued_at = 0, s_expires_at = 1000000 * 1000000, s_revoked_at = None, s_last_seen_at = None\<rparr>"

definition demo_store :: store where
  "demo_store = empty_store\<lparr>roles := [demo_role], users := [demo_user], user_sessions := [demo_session]\<rparr>"

definition world_of :: "store \<Rightarrow> world" where
  "world_of s = \<lparr>committed = s, pending = s, reads = 0, draws = 0, tasks = [], ch_client = False, pg_engine = False,
      ext_calls = 0, dag_runs = [], files = (\<lambda>p. None), redis_client = False\<rparr>"

definition demo_world :: world where
  "demo_world = world_of demo_store"

lemma demo_env_simps [simp]:
  "cfg demo_env = default_settings" "crypt demo_env = demo_crypto" "services demo_env = demo_upstream"
  "clock demo_env n = 1000000 * (1000 + int n)" "uuid_hex demo_env n = ''id'' @ replicate n (CHR ''x'')"
  "tx_now demo_env = 1000000000" "broker_up demo_env"
  "ctx_client_ip demo_env = Some ''10.0.0.7''" "ctx_user_agent demo_env = Some ''curl''"
  "ctx_request_id demo_env = Some ''req-1''" "email_of demo_env s = (if CHR 0x40 \<in> set s then Some s else None)" "dbapi_class demo_env v = ''IntegrityError''"
  by (simp_all add: demo_env_def)

lemma world_of_simps [simp]:
  "committed (world_of s) = s" "pending (world_of s) = s" "reads (world_of s) = 0"
  "draws (world_of s) = 0" "tasks (world_of s) = []" "ch_client (world_of s) = False"
  "ext_calls (world_of s) = 0" "redis_client (world_of s) = False" "dag_runs (world_of s) = []"
  by (simp_all add: world_of_def)

lemma demo_world_simps [simp]:
  "committed demo_world = demo_store" "pending demo_world = demo_store"
  "reads demo_world = 0" "draws demo_world = 0"
  by (simp_all add: demo_world_def)

lemma demo_store_simps [simp]:
  "roles demo_store = [demo_role]" "users demo_store = [demo_user]"
  "user_sessions demo_store = [demo_session]" "audit_logs demo_store = []"
  "cases demo_store = []" "case_comments demo_store = []" "saved_queries demo_store = []"
  "decoders demo_store = []" "configs demo_store = []" "alerts demo_store = []" "reports demo_store = []"
  by (simp_all add: demo_store_def empty_store_def)

lemma demo_store_ok [simp]: "store_ok inet demo_store"
  by (simp add: store_ok_def constraint_defs demo_store_def empty_store_def keys_unique_def demo_role_def
      demo_user_def demo_session_def role_fits_def user_fits_def session_fits_def fits_def fits_opt_def
      fits_int4_def inet_opt_def refers_def)

lemma demo_found [simp]: "email_matches ''admin@radonaix.io'' demo_store = [demo_user]"
  by (simp add: email_matches_def demo_user_def)

lemma demo_active [simp]: "is_active demo_user"
  by code_simp

lemma demo_password [simp]:
  "verify_password demo_crypto pw (u_hashed_password demo_user) = Inr (pw = ''ChangeMe!123'')"
  by (auto simp: verify_password_def demo_user_def demo_crypto_def demo_verify_def starts_with_def)

end
