(* ===== verification/Auth_Props.thy ===== *)
theory Auth_Props
  imports Store_Lemmas Demo
begin

text \<open>
  Correctness of login: what a locked account answers, how failures are counted and persist past
  the rollback of the failed request, that the limit locks the account, and what a successful
  login proves about the credentials and leaves in the store.
\<close>

section \<open>A wrong password\<close>

definition login_ready :: "'t env \<Rightarrow> string \<Rightarrow> user \<Rightarrow> world \<Rightarrow> bool" where
  "login_ready E email u w = (store_ok (inet_ok E) (committed w) \<and> email_matches email (committed w) = [u])"

definition failure_of :: "'t env \<Rightarrow> int \<Rightarrow> user \<Rightarrow> user \<Rightarrow> user" where
  "failure_of E now u =
     (if reaches_limit (cfg E) u then (\<lambda>x. lock_user (cfg E) now (count_failure x)) else count_failure)"

definition failure_message :: "'t env \<Rightarrow> user \<Rightarrow> exn" where
  "failure_message E u = (if reaches_limit (cfg E) u then msg_now_locked (cfg E) else msg_invalid)"

lemma failure_edit: "user_edit (failure_of E now u)"
  by (simp add: user_edit_def failure_of_def lock_user_def count_failure_def)

lemma failure_fits:
  assumes "user_fits x" "0 \<le> u_failed_login_count x" "max_failed_logins (cfg E) \<le> 2 ^ 31"
    "u_failed_login_count x = u_failed_login_count u"
  shows "user_fits (failure_of E now u x)"
  using assms
  by (auto simp: failure_of_def user_fits_def lock_user_def count_failure_def fits_int4_def reaches_limit_def)

lemma login_failure_runs:
  assumes "store_ok (inet_ok E) (pending w)" "u \<in> set (users (pending w))"
    "0 \<le> u_failed_login_count u" "max_failed_logins (cfg E) \<le> 2 ^ 31"
  shows "login_failure E now u w =
    (Inl (failure_message E u),
     (let s = users_update (change_row u_id (u_id u) (stamp (touch_user E) (failure_of E now u))) (pending w)
      in w\<lparr>pending := s, committed := s\<rparr>))"
proof -
  let ?f = "stamp (touch_user E) (failure_of E now u)"
  have "store_ok (inet_ok E) (users_update (change_row u_id (u_id u) ?f) (pending w))"
  proof (rule store_ok_edit_user)
    fix x assume x: "x \<in> set (users (pending w))" "u_id x = u_id u" "user_fits x"
    have "by_key u_id (u_id u) (users (pending w)) = [u]"
      using assms(1,2) by (simp add: by_key_unique store_ok_keys)
    then have "x = u" using x in_by_key [of x u_id "u_id u" "users (pending w)"] by simp
    then show "user_fits (?f x)" using x(3) assms(3,4) failure_fits [of u E u] by simp
  qed (auto intro: assms(1) user_edit_stamp failure_edit)
  then show ?thesis
    by (cases "reaches_limit (cfg E) u")
       (simp_all add: login_failure_def failure_of_def failure_message_def change_user_def Let_def
        andthen_def modify_def raise_def commit_ok)
qed

lemma wrong_password:
  assumes ready: "login_ready E email u w" and act: "is_active u"
    and open_: "\<not> locked_at u (clock E (reads w))"
    and wrong: "verify_password (crypt E) pw (u_hashed_password u) = Inr False"
    and count: "0 \<le> u_failed_login_count u" and max: "max_failed_logins (cfg E) \<le> 2 ^ 31"
  shows "get_session E (authenticate E email pw ua ip) w =
    (Inl (failure_message E u),
     (let s = users_update (change_row u_id (u_id u)
          (stamp (touch_user E) (failure_of E (clock E (reads w)) u))) (committed w)
      in w\<lparr>pending := s, committed := s, reads := Suc (reads w)\<rparr>))"
proof -
  let ?now = "clock E (reads w)"
  let ?w = "(rollback w)\<lparr>reads := Suc (reads w)\<rparr>"
  have found: "email_matches email (committed w) = [u]" and ok: "store_ok (inet_ok E) (pending ?w)"
    using ready by (simp_all add: login_ready_def)
  have "authenticate E email pw ua ip (rollback w) = login_failure E ?now u ?w"
    using found act open_ wrong
    by (simp add: authenticate_def prog)
  also have "\<dots> = (Inl (failure_message E u),
     (let s = users_update (change_row u_id (u_id u) (stamp (touch_user E) (failure_of E ?now u))) (committed w)
      in ?w\<lparr>pending := s, committed := s\<rparr>))"
    using login_failure_runs [OF ok _ count max, of ?now] email_matches_in [OF found] by simp
  finally show ?thesis
    by (simp add: get_session_fails rollback_def Let_def)
qed

text \<open>The state after a wrong password, in the terms the next attempt needs.\<close>

lemma wrong_password_ready:
  assumes "login_ready E email u w" "is_active u" "\<not> locked_at u (clock E (reads w))"
    "verify_password (crypt E) pw (u_hashed_password u) = Inr False"
    "0 \<le> u_failed_login_count u" "max_failed_logins (cfg E) \<le> 2 ^ 31"
  shows "login_ready E email (stamp (touch_user E) (failure_of E (clock E (reads w)) u) u)
      (snd (get_session E (authenticate E email pw ua ip) w)) \<and>
    reads (snd (get_session E (authenticate E email pw ua ip) w)) = Suc (reads w)"
proof -
  let ?f = "stamp (touch_user E) (failure_of E (clock E (reads w)) u)"
  have found: "email_matches email (committed w) = [u]" using assms(1) by (simp add: login_ready_def)
  have "checked E (get_session E (authenticate E email pw ua ip))"
    by (intro checked_intro)
  then have "store_ok (inet_ok E) (committed (snd (get_session E (authenticate E email pw ua ip) w)))"
    using assms(1) by (simp add: checked_def login_ready_def)
  then show ?thesis
    using email_matches_edit [OF user_edit_stamp [OF failure_edit] found, of E E "clock E (reads w)" u]
    by (simp add: wrong_password [OF assms] login_ready_def Let_def)
qed

section \<open>Properties\<close>

text \<open>
  While an account is locked, a login answers the lock message whatever the password, opens no
  session, and changes nothing that is committed.
\<close>

theorem locked_account_refused:
  assumes "email_matches email (committed w) = [u]" and "locked_at u (clock E (reads w))"
  shows "get_session E (authenticate E email pw ua ip) w =
    (Inl msg_locked, (rollback w)\<lparr>reads := Suc (reads w)\<rparr>)"
  using assms by (simp add: get_session_def authenticate_def prog rollback_def)

theorem locked_account_refused_witness:
  "fst (get_session demo_env (authenticate demo_env ''admin@radonaix.io'' ''ChangeMe!123'' None None)
     (world_of (demo_store\<lparr>users := [demo_user\<lparr>u_locked_until := Some 2000000000\<rparr>]\<rparr>))) = Inl msg_locked"
proof -
  have "email_matches ''admin@radonaix.io''
      (committed (world_of (demo_store\<lparr>users := [demo_user\<lparr>u_locked_until := Some 2000000000\<rparr>]\<rparr>))) =
      [demo_user\<lparr>u_locked_until := Some 2000000000\<rparr>]"
    by (simp add: email_matches_def demo_user_def)
  then show ?thesis by (simp add: locked_account_refused locked_at_def)
qed

text \<open>
  One wrong password on an open account fails with 401, and the failure counter (or, at the
  limit, the lock and the reset counter) is in the committed store although the request's
  transaction is rolled back.
\<close>

theorem wrong_password_is_counted:
  assumes "login_ready E email u w" and "is_active u" and "\<not> locked_at u (clock E (reads w))"
    and "verify_password (crypt E) pw (u_hashed_password u) = Inr False"
    and "0 \<le> u_failed_login_count u" and "max_failed_logins (cfg E) \<le> 2 ^ 31"
  shows "\<exists>w' u'. get_session E (authenticate E email pw ua ip) w = (Inl (failure_message E u), w') \<and>
    rs_status (handle_exn (failure_message E u)) = 401 \<and>
    email_matches email (committed w') = [u'] \<and>
    (if max_failed_logins (cfg E) \<le> u_failed_login_count u + 1
     then u_failed_login_count u' = 0 \<and>
       u_locked_until u' = Some (clock E (reads w) + minutes (lockout_minutes (cfg E)))
     else u_failed_login_count u' = u_failed_login_count u + 1 \<and> u_locked_until u' = u_locked_until u) \<and>
    user_sessions (committed w') = user_sessions (committed w) \<and>
    audit_logs (committed w') = audit_logs (committed w)"
  using wrong_password [OF assms, of ua ip] wrong_password_ready [OF assms, of ua ip]
  by (auto simp: login_ready_def Let_def failure_of_def failure_message_def reaches_limit_def
      lock_user_def count_failure_def msg_now_locked_def msg_invalid_def)

lemma demo_ready [simp]: "login_ready demo_env ''admin@radonaix.io'' demo_user demo_world"
  by (simp add: login_ready_def)

lemma demo_settings [simp]:
  "max_failed_logins default_settings = 5" "lockout_minutes default_settings = 15"
  "refresh_token_expire_minutes default_settings = 20160" "access_token_expire_minutes default_settings = 720"
  by (simp_all add: default_settings_def)

lemma demo_user_simps [simp]:
  "u_failed_login_count demo_user = 0" "u_locked_until demo_user = None" "u_id demo_user = ''u1''"
  by (simp_all add: demo_user_def)

theorem wrong_password_is_counted_witness:
  "\<exists>w' u'. get_session demo_env (authenticate demo_env ''admin@radonaix.io'' ''guess'' None None) demo_world =
     (Inl (failure_message demo_env demo_user), w') \<and>
     email_matches ''admin@radonaix.io'' (committed w') = [u'] \<and> u_failed_login_count u' = 1"
  using wrong_password_is_counted [of demo_env "''admin@radonaix.io''" demo_user demo_world "''guess''" None None]
  by (simp add: locked_at_def) blast

section \<open>The limit\<close>

text \<open>A run of login requests with the given passwords, each in a session of its own.\<close>

fun login_attempts :: "'t env \<Rightarrow> string \<Rightarrow> string list \<Rightarrow> world \<Rightarrow> world" where
  "login_attempts E email [] w = w"
| "login_attempts E email (p # ps) w =
     login_attempts E email ps (snd (get_session E (authenticate E email p None None) w))"

lemma login_attempts_append:
  "login_attempts E email (ps @ qs) w = login_attempts E email qs (login_attempts E email ps w)"
  by (induction ps arbitrary: w) auto

text \<open>Below the limit the failures only count up.\<close>

lemma attempts_below_limit:
  assumes "login_ready E email u w" "is_active u" "u_locked_until u = None"
    "\<And>p. p \<in> set ps \<Longrightarrow> verify_password (crypt E) p (u_hashed_password u) = Inr False"
    "0 \<le> u_failed_login_count u" "max_failed_logins (cfg E) \<le> 2 ^ 31"
    "u_failed_login_count u + int (length ps) < max_failed_logins (cfg E)"
  shows "\<exists>v. login_ready E email v (login_attempts E email ps w) \<and> is_active v \<and> u_locked_until v = None \<and>
    u_hashed_password v = u_hashed_password u \<and>
    u_failed_login_count v = u_failed_login_count u + int (length ps) \<and>
    reads (login_attempts E email ps w) = reads w + length ps"
  using assms
proof (induction ps arbitrary: u w)
  case Nil
  then show ?case by auto
next
  case (Cons p ps)
  let ?w = "snd (get_session E (authenticate E email p None None) w)"
  let ?v = "stamp (touch_user E) count_failure u"
  have below: "\<not> reaches_limit (cfg E) u" using Cons.prems(7) by (simp add: reaches_limit_def)
  have "verify_password (crypt E) p (u_hashed_password u) = Inr False" using Cons.prems(4) by simp
  then have step: "login_ready E email ?v ?w" "reads ?w = Suc (reads w)"
    using wrong_password_ready [OF Cons.prems(1,2) _ _ Cons.prems(5,6)] Cons.prems(3) below
    by (simp_all add: locked_at_def failure_of_def)
  have "\<exists>v. login_ready E email v (login_attempts E email ps ?w) \<and> is_active v \<and> u_locked_until v = None \<and>
      u_hashed_password v = u_hashed_password ?v \<and>
      u_failed_login_count v = u_failed_login_count ?v + int (length ps) \<and>
      reads (login_attempts E email ps ?w) = reads ?w + length ps"
    by (rule Cons.IH [OF step(1)])
       (use Cons.prems in \<open>simp_all add: is_active_def count_failure_def\<close>)
  then show ?case by (simp add: count_failure_def step(2) add.assoc)
qed

text \<open>
  C23: as many wrong passwords as \<open>max_failed_logins\<close>, each in its own request, lock a fresh account
  for \<open>lockout_minutes\<close> from the last of them; until then even the right password is refused.
\<close>

theorem lockout_after_limit:
  assumes "login_ready E email u w" and "is_active u" and "u_locked_until u = None"
    and "u_failed_login_count u = 0"
    and "\<forall>p \<in> set ps. verify_password (crypt E) p (u_hashed_password u) = Inr False"
    and "int (length ps) = max_failed_logins (cfg E)" and "0 < length ps"
    and "max_failed_logins (cfg E) \<le> 2 ^ 31"
    and "clock E (reads w + length ps) <
         clock E (reads w + length ps - 1) + minutes (lockout_minutes (cfg E))"
  shows "\<exists>v. email_matches email (committed (login_attempts E email ps w)) = [v] \<and>
    u_locked_until v = Some (clock E (reads w + length ps - 1) + minutes (lockout_minutes (cfg E))) \<and>
    u_failed_login_count v = 0 \<and>
    fst (get_session E (authenticate E email pw ua ip) (login_attempts E email ps w)) = Inl msg_locked"
proof -
  obtain qs q where ps: "ps = qs @ [q]" using assms(7) by (cases ps rule: rev_cases) auto
  obtain v where v: "login_ready E email v (login_attempts E email qs w)" "is_active v"
    "u_locked_until v = None" "u_hashed_password v = u_hashed_password u"
    "u_failed_login_count v = int (length qs)"
    and r: "reads (login_attempts E email qs w) = reads w + length qs"
    using attempts_below_limit [OF assms(1,2,3), of qs] assms(4,5,6,8) ps by auto
  let ?w1 = "login_attempts E email qs w" and ?w2 = "login_attempts E email ps w"
  have q: "verify_password (crypt E) q (u_hashed_password v) = Inr False" using assms(5) ps v(4) by simp
  have lim: "reaches_limit (cfg E) v" using assms(6) ps v(5) by (simp add: reaches_limit_def)
  let ?l = "stamp (touch_user E) (failure_of E (clock E (reads ?w1)) v) v"
  have end_: "login_ready E email ?l ?w2" "reads ?w2 = reads w + length ps"
    using wrong_password_ready [OF v(1,2) _ q _ assms(8), of None None] v(3,5) r ps
    by (simp_all add: locked_at_def login_attempts_append)
  have until: "u_locked_until ?l = Some (clock E (reads w + length ps - 1) + minutes (lockout_minutes (cfg E)))"
    and zero: "u_failed_login_count ?l = 0"
    using lim r ps by (simp_all add: failure_of_def lock_user_def)
  have "locked_at ?l (clock E (reads ?w2))"
    using until end_(2) assms(9) by (simp add: locked_at_def)
  then show ?thesis
    using end_ until zero locked_account_refused [of email ?w2 ?l E pw ua ip]
    by (auto simp: login_ready_def)
qed

theorem lockout_after_limit_witness:
  "\<exists>v. email_matches ''admin@radonaix.io'' (committed (login_attempts demo_env ''admin@radonaix.io''
       [''a'', ''b'', ''c'', ''d'', ''e''] demo_world)) = [v] \<and>
     u_locked_until v = Some (1004000000 + 900000000) \<and>
     fst (get_session demo_env (authenticate demo_env ''admin@radonaix.io'' ''ChangeMe!123'' None None)
       (login_attempts demo_env ''admin@radonaix.io'' [''a'', ''b'', ''c'', ''d'', ''e''] demo_world)) = Inl msg_locked"
  using lockout_after_limit [of demo_env "''admin@radonaix.io''" demo_user demo_world
      "[''a'', ''b'', ''c'', ''d'', ''e'']" "''ChangeMe!123''" None None]
  by (simp add: minutes_def usec_per_minute_def) blast

section \<open>A successful login\<close>

definition new_session :: "'t env \<Rightarrow> user \<Rightarrow> string option \<Rightarrow> string option \<Rightarrow> world \<Rightarrow> user_session" where
  "new_session E u ua ip w =
     \<lparr>s_id = uuid_dashed (uuid_hex E (draws w)), s_user_id = u_id u, s_refresh_jti = uuid_hex E (Suc (draws w)),
      s_user_agent = ua, s_ip_address = ip, s_issued_at = clock E (reads w),
      s_expires_at = clock E (reads w) + minutes (refresh_token_expire_minutes (cfg E)),
      s_revoked_at = None, s_last_seen_at = Some (clock E (reads w))\<rparr>"

lemma new_session_fields [simp]:
  "s_user_id (new_session E u ua ip w) = u_id u" "s_revoked_at (new_session E u ua ip w) = None"
  "s_issued_at (new_session E u ua ip w) = clock E (reads w)"
  "s_expires_at (new_session E u ua ip w) =
     clock E (reads w) + minutes (refresh_token_expire_minutes (cfg E))"
  by (simp_all add: new_session_def)

lemma issue_session_runs:
  assumes "issue_session E u ua ip w = (Inr (a, r), w')"
  shows "pending w' = user_sessions_update (insert_row (new_session E u ua ip w)) (pending w) \<and>
    committed w' = committed w \<and>
    (\<exists>t. r = create_refresh_token (crypt E) (cfg E) t (u_id u) (s_id (new_session E u ua ip w))
       (s_refresh_jti (new_session E u ua ip w)) None)"
proof -
  from assms have "w' = w\<lparr>reads := reads w + 3, draws := draws w + 2,
      pending := user_sessions_update (insert_row (new_session E u ua ip w)) (pending w)\<rparr>"
    and "r = create_refresh_token (crypt E) (cfg E) (clock E (reads w + 2)) (u_id u)
      (s_id (new_session E u ua ip w)) (s_refresh_jti (new_session E u ua ip w)) None"
    by (simp_all add: issue_session_def tokens_for_session_def runs Let_def new_session_def)
  then show ?thesis by auto
qed

definition rehash_setter :: "'t env \<Rightarrow> bool \<Rightarrow> string \<Rightarrow> world \<Rightarrow> user \<Rightarrow> user" where
  "rehash_setter E stale pw w =
     (if stale then u_hashed_password_update (\<lambda>_. hash_password (crypt E) (draws w) pw) else (\<lambda>x. x))"

lemma login_success_runs:
  assumes "login_success E now u pw ua ip w = (Inr (a, r, v), w')"
  shows "\<exists>stale w1.
    needs_rehash (crypt E) (u_hashed_password u) = Inr stale \<and>
    v = stamp (touch_user E) (\<lambda>x. rehash_setter E stale pw w (login_user now x)) u \<and>
    pending w1 = users_update (change_row u_id (u_id u)
      (stamp (touch_user E) (\<lambda>x. rehash_setter E stale pw w (login_user now x)))) (pending w) \<and>
    committed w1 = committed w \<and> reads w1 = reads w \<and> issue_session E v ua ip w1 = (Inr (a, r), w')"
proof (cases "needs_rehash (crypt E) (u_hashed_password u)")
  case (Inl e)
  with assms show ?thesis by (simp add: login_success_def runs)
next
  case (Inr st)
  let ?f = "\<lambda>x. rehash_setter E st pw w (login_user now x)"
  let ?w1 = "w\<lparr>draws := draws w + (if st then 1 else 0),
    pending := users_update (change_row u_id (u_id u) (stamp (touch_user E) ?f)) (pending w)\<rparr>"
  have "login_success E now u pw ua ip w =
      andthen (issue_session E (stamp (touch_user E) ?f u) ua ip)
        (\<lambda>(access, refresh). ret (access, refresh, stamp (touch_user E) ?f u)) ?w1"
    using Inr by (cases st) (simp_all add: login_success_def change_user_def rehash_setter_def Let_def prog)
  then have "andthen (issue_session E (stamp (touch_user E) ?f u) ua ip)
        (\<lambda>(access, refresh). ret (access, refresh, stamp (touch_user E) ?f u)) ?w1 = (Inr (a, r, v), w')"
    using assms by simp
  then have "v = stamp (touch_user E) ?f u" "issue_session E v ua ip ?w1 = (Inr (a, r), w')"
    by (auto simp: runs)
  then show ?thesis using Inr by (intro exI [of _ st] exI [of _ ?w1]) simp
qed

lemma authenticate_runs:
  assumes "authenticate E email pw ua ip w = (Inr (a, r, v), w')"
  shows "\<exists>u. email_matches email (pending w) = [u] \<and> is_active u \<and> \<not> locked_at u (clock E (reads w)) \<and>
    verify_password (crypt E) pw (u_hashed_password u) = Inr True \<and>
    login_success E (clock E (reads w)) u pw ua ip (w\<lparr>reads := Suc (reads w)\<rparr>) = (Inr (a, r, v), w')"
proof -
  have no: "login_failure E now u x = (Inr y, z) \<longleftrightarrow> False" for now u x z and y :: "'a \<times> 'a \<times> user"
    by (simp add: login_failure_def runs)
  show ?thesis
    using assms by (auto simp: authenticate_def runs no split: if_splits option.splits)
qed

lemma login_user_fields [simp]:
  "u_id (login_user now u) = u_id u" "u_failed_login_count (login_user now u) = 0"
  "u_locked_until (login_user now u) = None" "u_last_login (login_user now u) = Some now"
  "u_hashed_password (login_user now u) = u_hashed_password u" "u_email (login_user now u) = u_email u"
  "u_role_id (login_user now u) = u_role_id u" "u_status (login_user now u) = u_status u"
  by (simp_all add: login_user_def)

text \<open>
  The other direction: the right password on an open account gets through, with this outcome.
\<close>

text \<open>
  What the insertion of a session needs: the identifiers drawn from the random source fit their
  columns and are not taken, and so do the values from the request and the new hash.
\<close>

definition fresh_draws :: "'t env \<Rightarrow> store \<Rightarrow> nat \<Rightarrow> bool" where
  "fresh_draws E st d \<longleftrightarrow>
     fits 36 (uuid_dashed (uuid_hex E d)) \<and> uuid_dashed (uuid_hex E d) \<notin> s_id ` set (user_sessions st) \<and>
     fits 64 (uuid_hex E (Suc d)) \<and> uuid_hex E (Suc d) \<notin> s_refresh_jti ` set (user_sessions st)"

definition sign_in_ready :: "'t env \<Rightarrow> user \<Rightarrow> string \<Rightarrow> string option \<Rightarrow> string option \<Rightarrow> world \<Rightarrow> bool" where
  "sign_in_ready E u pw ua ip w \<longleftrightarrow>
     store_ok (inet_ok E) (committed w) \<and> is_active u \<and> \<not> locked_at u (clock E (reads w)) \<and>
     verify_password (crypt E) pw (u_hashed_password u) = Inr True \<and>
     \<not> isl (needs_rehash (crypt E) (u_hashed_password u)) \<and> fits 255 (hash_password (crypt E) (draws w) pw) \<and>
     fits_opt 512 ua \<and> inet_opt (inet_ok E) ip \<and>
     fresh_draws E (committed w) (draws w) \<and> fresh_draws E (committed w) (Suc (draws w))"

lemma store_ok_insert_session:
  assumes "store_ok inet st" and "session_fits inet s" and "s_id s \<notin> s_id ` set (user_sessions st)"
    and "s_refresh_jti s \<notin> s_refresh_jti ` set (user_sessions st)" and "s_user_id s \<in> u_id ` set (users st)"
  shows "store_ok inet (user_sessions_update (insert_row s) st)"
  using assms by (simp add: store_ok_def constraint_defs keys_unique_insert refers_iff cong: option.case_cong)

lemma login_succeeds:
  assumes found: "email_matches email (committed w) = [u]" and ready: "sign_in_ready E u pw ua ip w"
  shows "\<exists>f s w'. get_session E (authenticate E email pw ua ip) w =
      (Inr (create_access_token (crypt E) (cfg E) (clock E (reads w + 2)) (u_id u)
              [(''email'', JStr (u_email u)), (''role'', JStr (u_role_id u)), (''sid'', JStr (s_id s))] None,
            create_refresh_token (crypt E) (cfg E) (clock E (reads w + 3)) (u_id u) (s_id s) (s_refresh_jti s) None,
            f u), w') \<and>
    user_edit f \<and> u_status (f u) = u_status u \<and>
    s_id s \<noteq> [] \<and> s_revoked_at s = None \<and> s_user_id s = u_id u \<and>
    s_expires_at s = clock E (Suc (reads w)) + minutes (refresh_token_expire_minutes (cfg E)) \<and>
    committed w' = user_sessions_update (insert_row s) (users_update (change_row u_id (u_id u) f) (committed w)) \<and>
    store_ok (inet_ok E) (committed w')"
proof -
  from ready obtain st where st: "needs_rehash (crypt E) (u_hashed_password u) = Inr st"
    by (cases "needs_rehash (crypt E) (u_hashed_password u)") (auto simp: sign_in_ready_def)
  define v where "v = (rollback w)\<lparr>reads := Suc (reads w)\<rparr>"
  have v [simp]: "draws v = draws w" "reads v = Suc (reads w)" "pending v = committed w"
    by (simp_all add: v_def rollback_def)
  define f where "f = stamp (touch_user E) (\<lambda>x. rehash_setter E st pw v (login_user (clock E (reads w)) x))"
  define s1 where "s1 = users_update (change_row u_id (u_id u) f) (committed w)"
  define d where "d = draws w + (if st then 1 else 0)"
  define w1 where "w1 = (if st then v\<lparr>draws := Suc (draws w)\<rparr> else v)\<lparr>pending := s1\<rparr>"
  have w1 [simp]: "draws w1 = d" "reads w1 = Suc (reads w)" "pending w1 = s1" "committed w1 = committed w"
    by (simp_all add: w1_def d_def v_def rollback_def)
  define s where "s = new_session E (f u) ua ip w1"
  define s2 where "s2 = user_sessions_update (insert_row s) s1"
  let ?tokens = "(create_access_token (crypt E) (cfg E) (clock E (reads w + 2)) (u_id u)
        [(''email'', JStr (u_email u)), (''role'', JStr (u_role_id u)), (''sid'', JStr (s_id s))] None,
      create_refresh_token (crypt E) (cfg E) (clock E (reads w + 3)) (u_id u) (s_id s) (s_refresh_jti s) None)"
  have edit: "user_edit f"
    unfolding f_def by (rule user_edit_stamp) (simp add: user_edit_def rehash_setter_def)
  note fields [simp] = user_edit_fields [OF edit]
  have "user_fits (rehash_setter E st pw v (login_user (clock E (reads w)) x))" if "user_fits x" for x
    using that ready
    by (simp add: v_def sign_in_ready_def user_fits_def rehash_setter_def login_user_def fits_int4_def rollback_def)
  then have fit: "user_fits (f x)" if "user_fits x" for x
    using that by (simp add: f_def)
  have s1: "store_ok (inet_ok E) s1"
    using ready edit fit unfolding s1_def by (intro store_ok_edit_user) (simp_all add: sign_in_ready_def)
  have fresh: "fresh_draws E (committed w) d" using ready by (simp add: sign_in_ready_def d_def)
  have "u_id u \<in> u_id ` set (users s1)"
    using in_change_row [OF email_matches_in [OF found], of u_id "u_id u" f]
    by (auto simp: s1_def intro: image_eqI [of _ _ "f u"])
  then have s2: "store_ok (inet_ok E) s2"
    using s1 fresh ready unfolding s2_def
    by (intro store_ok_insert_session)
       (simp_all add: s_def s1_def fresh_draws_def new_session_def session_fits_def sign_in_ready_def)
  have "login_success E (clock E (reads w)) u pw ua ip v =
      andthen (issue_session E (f u) ua ip) (\<lambda>(access, refresh). ret (access, refresh, f u)) w1"
    using st
    by (cases st)
       (simp_all add: login_success_def change_user_def rehash_setter_def Let_def prog w1_def s1_def f_def split: sum.split prod.split)
  moreover have "issue_session E (f u) ua ip w1 =
      (Inr ?tokens, w1\<lparr>reads := reads w + 4, draws := d + 2, pending := s2\<rparr>)"
    using s2
    by (simp add: issue_session_def tokens_for_session_def prog flush_ok Let_def s2_def s_def new_session_def)
       (simp add: numeral_eq_Suc)
  ultimately have "authenticate E email pw ua ip (rollback w) =
      (Inr (fst ?tokens, snd ?tokens, f u), w1\<lparr>reads := reads w + 4, draws := d + 2, pending := s2\<rparr>)"
    using found ready by (simp add: authenticate_def sign_in_ready_def prog v_def)
  then have "get_session E (authenticate E email pw ua ip) w = (Inr (fst ?tokens, snd ?tokens, f u),
      w1\<lparr>reads := reads w + 4, draws := d + 2, pending := s2, committed := s2\<rparr>)"
    using s2 by (simp add: get_session_def commit_ok)
  moreover have "u_status (f u) = u_status u"
    by (simp add: f_def rehash_setter_def)
  moreover have "s_id s \<noteq> []" by (simp add: s_def new_session_def uuid_dashed_def)
  moreover have "s_revoked_at s = None" "s_user_id s = u_id u"
      "s_expires_at s = clock E (Suc (reads w)) + minutes (refresh_token_expire_minutes (cfg E))"
    by (simp_all add: s_def)
  moreover have "s2 = user_sessions_update (insert_row s) (users_update (change_row u_id (u_id u) f) (committed w))"
    by (simp add: s2_def s1_def)
  ultimately show ?thesis
    using s2 edit
    by (intro exI [of _ f] exI [of _ s]
        exI [of _ "w1\<lparr>reads := reads w + 4, draws := d + 2, pending := s2, committed := s2\<rparr>"]) simp
qed


lemma demo_crypto_plain [simp]:
  "\<not> isl (needs_rehash demo_crypto h)" "length (hash_password demo_crypto d pw) = length pw + 10"
  by (simp_all add: needs_rehash_def hash_password_def demo_crypto_def)

lemma demo_sign_in_ready:
  "sign_in_ready demo_env demo_user ''ChangeMe!123'' None None demo_world"
  by (simp add: sign_in_ready_def fresh_draws_def fits_def fits_opt_def inet_opt_def locked_at_def uuid_dashed_def
      demo_session_def)

lemma demo_login_ok:
  "\<not> isl (fst (get_session demo_env
     (authenticate demo_env ''admin@radonaix.io'' ''ChangeMe!123'' None None) demo_world))"
  using login_succeeds [of "''admin@radonaix.io''" demo_world demo_user demo_env, OF _ demo_sign_in_ready] by auto

lemma inr_of_not_isl: "\<not> isl (fst p) \<Longrightarrow> \<exists>x w. p = (Inr x, w)"
  by (cases p; cases "fst p") auto


text \<open>
  After a login the stored hash is current and verifies the password just used: a legacy
  bcrypt hash, an unknown one or an Argon2id hash with old parameters has been replaced.
\<close>

theorem login_upgrades_hash:
  assumes "hash_laws (crypt E)"
    and "get_session E (authenticate E email pw ua ip) w = (Inr (a, r, v), w')"
  shows "v \<in> set (users (committed w')) \<and>
    needs_rehash (crypt E) (u_hashed_password v) = Inr False \<and>
    verify_password (crypt E) pw (u_hashed_password v) = Inr True"
proof -
  obtain w1 where w1: "authenticate E email pw ua ip (rollback w) = (Inr (a, r, v), w1)"
    "w' = w1\<lparr>committed := pending w1\<rparr>"
    using assms(2) by (auto simp: get_session_runs)
  from authenticate_runs [OF w1(1)] obtain u where u: "email_matches email (committed w) = [u]"
    "verify_password (crypt E) pw (u_hashed_password u) = Inr True"
    and run: "login_success E (clock E (reads w)) u pw ua ip ((rollback w)\<lparr>reads := Suc (reads w)\<rparr>) =
      (Inr (a, r, v), w1)" by auto
  let ?w = "(rollback w)\<lparr>reads := Suc (reads w)\<rparr>"
  from login_success_runs [OF run] obtain st w2 where
    st: "needs_rehash (crypt E) (u_hashed_password u) = Inr st"
    and v: "v = stamp (touch_user E) (\<lambda>x. rehash_setter E st pw ?w (login_user (clock E (reads w)) x)) u"
    and us: "pending w2 = users_update (change_row u_id (u_id u)
      (stamp (touch_user E) (\<lambda>x. rehash_setter E st pw ?w (login_user (clock E (reads w)) x)))) (committed w)"
    and iss: "issue_session E v ua ip w2 = (Inr (a, r), w1)"
    by auto
  have "v \<in> set (users (pending w1))"
    using in_change_row [OF email_matches_in [OF u(1)], of u_id "u_id u"
        "stamp (touch_user E) (\<lambda>x. rehash_setter E st pw ?w (login_user (clock E (reads w)) x))"]
      issue_session_runs [OF iss] us v by auto
  then show ?thesis
    using assms(1) st u(2) w1(2)
    by (cases st) (simp_all add: v rehash_setter_def needs_rehash_hash_password verify_hash_password)
qed

definition legacy_store :: store where
  "legacy_store = demo_store\<lparr>users := [demo_user\<lparr>u_hashed_password := ''$2b$Test1234!''\<rparr>]\<rparr>"

lemma legacy_store_ok: "store_ok inet legacy_store"
  by (simp add: store_ok_def constraint_defs legacy_store_def demo_store_def empty_store_def keys_unique_def
      demo_role_def demo_user_def demo_session_def role_fits_def user_fits_def session_fits_def fits_def
      fits_opt_def fits_int4_def inet_opt_def refers_def)

lemma legacy_password: "verify_password demo_crypto ''Test1234!'' ''$2b$Test1234!'' = Inr True"
  by code_simp

lemma legacy_login_ok:
  "\<not> isl (fst (get_session demo_env
     (authenticate demo_env ''admin@radonaix.io'' ''Test1234!'' None None) (world_of legacy_store)))"
proof -
  let ?u = "demo_user\<lparr>u_hashed_password := ''$2b$Test1234!''\<rparr>"
  have "email_matches ''admin@radonaix.io'' (committed (world_of legacy_store)) = [?u]"
    by (simp add: legacy_store_def email_matches_def demo_user_def)
  moreover have "sign_in_ready demo_env ?u ''Test1234!'' None None (world_of legacy_store)"
    by (simp add: sign_in_ready_def fresh_draws_def fits_def fits_opt_def inet_opt_def locked_at_def uuid_dashed_def
      demo_session_def legacy_store_ok legacy_password)
       (use demo_active in \<open>simp add: legacy_store_def demo_session_def is_active_def\<close>)
  ultimately show ?thesis using login_succeeds [of "''admin@radonaix.io''" "world_of legacy_store" ?u demo_env] by fastforce
qed

theorem login_upgrades_hash_witness:
  "\<exists>a r v w'. get_session demo_env
      (authenticate demo_env ''admin@radonaix.io'' ''Test1234!'' None None) (world_of legacy_store) =
      (Inr (a, r, v), w') \<and>
    needs_rehash demo_crypto (u_hashed_password v) = Inr False"
proof -
  obtain a r v w' where run: "get_session demo_env
      (authenticate demo_env ''admin@radonaix.io'' ''Test1234!'' None None) (world_of legacy_store) =
      (Inr (a, r, v), w')"
    using inr_of_not_isl [OF legacy_login_ok] by auto
  have "hash_laws (crypt demo_env)" by (simp add: demo_hash_laws)
  from login_upgrades_hash [OF this run] have "needs_rehash demo_crypto (u_hashed_password v) = Inr False"
    by simp
  with run show ?thesis by blast
qed

end
