(* ===== verification/Rotation.thy ===== *)
theory Rotation
  imports Store_Lemmas Demo
begin

text \<open>
  Correctness of refresh-token rotation, logout and caller resolution: what a successful refresh
  proves and changes, that a replayed token kills its session for good, that a revoked session
  serves neither refreshes nor requests, and that the two kinds of token are not interchangeable.
\<close>

section \<open>Refresh\<close>

lemma kill_session_runs [runs]: "kill_session E now s e w = (Inr y, w') \<longleftrightarrow> False"
  by (simp add: kill_session_def runs)

lemma rotate_session_runs [runs]:
  "rotate_session E now s u ua ip w = (Inr (a, r), w') \<Longrightarrow>
   r = create_refresh_token (crypt E) (cfg E) (clock E (Suc (reads w))) (u_id u) (s_id s) (uuid_hex E (draws w)) None \<and>
   w' = w\<lparr>reads := Suc (Suc (reads w)), draws := Suc (draws w),
     pending := user_sessions_update (change_row s_id (s_id s) (rotate E now (uuid_hex E (draws w)) ua ip)) (pending w)\<rparr>"
  by (simp add: rotate_session_def change_session_def tokens_for_session_def runs Let_def)

lemma active_owner_Some [simp]: "active_owner f = Some u \<longleftrightarrow> f = Some u \<and> is_active u"
  by (auto simp: active_owner_def split: option.splits)

lemma select_key_runs [runs]:
  "select_key key tab c w = (Inr z, w') \<longleftrightarrow>
   w' = w \<and> (as_key c = NoKey \<and> z = None \<or>
     (\<exists>k. as_key c = KeyStr k \<and> (z = None \<and> by_key key k (tab (pending w)) = [] \<or>
        (\<exists>r. z = Some r \<and> by_key key k (tab (pending w)) = [r]))))"
  by (cases "as_key c") (auto simp: select_key_def runs)

lemma as_key_KeyStr [simp]: "as_key c = KeyStr k \<longleftrightarrow> c = Some (JStr k)"
  by (cases c rule: as_key.cases) auto

lemma refresh_session_runs:
  assumes "refresh_session E t ua ip w = (Inr (a, r), w')"
  obtains p s u where
    "decode_token (crypt E) (cfg E) (clock E (reads w)) t = Inr p"
    "map_of p ''type'' = Some (JStr ''refresh'')" "map_of p ''sid'' = Some (JStr (s_id s))"
    "map_of p ''jti'' = Some (JStr (s_refresh_jti s))"
    "by_key s_id (s_id s) (user_sessions (pending w)) = [s]" "\<not> session_dead s (clock E (Suc (reads w)))"
    "by_key u_id (s_user_id s) (users (pending w)) = [u]" "is_active u"
    "r = create_refresh_token (crypt E) (cfg E) (clock E (reads w + 3)) (u_id u) (s_id s) (uuid_hex E (draws w)) None"
    "w' = w\<lparr>reads := reads w + 4, draws := Suc (draws w), pending := user_sessions_update (change_row s_id (s_id s)
       (rotate E (clock E (Suc (reads w))) (uuid_hex E (draws w)) ua ip)) (pending w)\<rparr>"
proof -
  let ?w2 = "w\<lparr>reads := Suc (Suc (reads w))\<rparr>"
  from assms obtain p s where p: "decode_token (crypt E) (cfg E) (clock E (reads w)) t = Inr p"
    and ty: "map_of p ''type'' = Some (JStr ''refresh'')"
    and sid: "map_of p ''sid'' = Some (JStr (s_id s))"
    and s: "by_key s_id (s_id s) (user_sessions (pending w)) = [s]"
    and alive: "\<not> session_dead s (clock E (Suc (reads w)))"
    and live: "refresh_live E (clock E (Suc (reads w))) s p ua ip ?w2 = (Inr (a, r), w')"
    by (auto simp: refresh_session_def runs split: sum.splits if_splits option.splits dest: by_key_in)
  from live obtain u where jti: "map_of p ''jti'' = Some (JStr (s_refresh_jti s))"
    and u: "by_key u_id (s_user_id s) (users (pending w)) = [u]" "is_active u"
    and rot: "rotate_session E (clock E (Suc (reads w))) s u ua ip ?w2 = (Inr (a, r), w')"
    by (auto simp: refresh_live_def runs split: if_splits option.splits)
  from rotate_session_runs [OF rot] show ?thesis
    using that [OF p ty sid jti s alive u] by (simp add: numeral_3_eq_3 eval_nat_numeral)
qed


lemma change_session_other:
  "session_edit f \<Longrightarrow> k \<noteq> i \<Longrightarrow> by_key s_id k (change_row s_id i f rs) = by_key s_id k rs"
  by (simp add: by_key_change session_edit_def)

lemma change_session_same:
  "session_edit f \<Longrightarrow> by_key s_id i rs = [s] \<Longrightarrow> by_key s_id i (change_row s_id i f rs) = [f s]"
  by (simp add: by_key_change session_edit_def)

text \<open>What a request that refreshes leaves behind.\<close>

lemma refresh_request_runs:
  assumes "get_session E (refresh_session E t ua ip) w = (Inr (a, r), w')"
  obtains p s u where
    "decode_token (crypt E) (cfg E) (clock E (reads w)) t = Inr p"
    "map_of p ''type'' = Some (JStr ''refresh'')" "map_of p ''sid'' = Some (JStr (s_id s))"
    "map_of p ''jti'' = Some (JStr (s_refresh_jti s))"
    "by_key s_id (s_id s) (user_sessions (committed w)) = [s]" "\<not> session_dead s (clock E (Suc (reads w)))"
    "by_key u_id (s_user_id s) (users (committed w)) = [u]" "is_active u"
    "r = create_refresh_token (crypt E) (cfg E) (clock E (reads w + 3)) (u_id u) (s_id s) (uuid_hex E (draws w)) None"
    "store_ok (inet_ok E) (committed w')" "reads w' = reads w + 4"
    "committed w' = user_sessions_update (change_row s_id (s_id s)
       (rotate E (clock E (Suc (reads w))) (uuid_hex E (draws w)) ua ip)) (committed w)"
proof -
  from assms obtain w1 where run: "refresh_session E t ua ip (rollback w) = (Inr (a, r), w1)"
    and ok: "store_ok (inet_ok E) (pending w1)" and w': "w' = w1\<lparr>committed := pending w1\<rparr>"
    by (auto simp: get_session_runs)
  from refresh_session_runs [OF run] obtain p s u where
    "decode_token (crypt E) (cfg E) (clock E (reads w)) t = Inr p"
    "map_of p ''type'' = Some (JStr ''refresh'')" "map_of p ''sid'' = Some (JStr (s_id s))"
    "map_of p ''jti'' = Some (JStr (s_refresh_jti s))"
    "by_key s_id (s_id s) (user_sessions (committed w)) = [s]" "\<not> session_dead s (clock E (Suc (reads w)))"
    "by_key u_id (s_user_id s) (users (committed w)) = [u]" "is_active u"
    "r = create_refresh_token (crypt E) (cfg E) (clock E (reads w + 3)) (u_id u) (s_id s) (uuid_hex E (draws w)) None"
    "w1 = (rollback w)\<lparr>reads := reads w + 4, draws := Suc (draws w), pending := user_sessions_update
       (change_row s_id (s_id s) (rotate E (clock E (Suc (reads w))) (uuid_hex E (draws w)) ua ip)) (committed w)\<rparr>"
    by (metis rollback_fields(2) rollback_fields(3) rollback_fields(4))
  with ok w' show ?thesis using that by simp
qed

text \<open>A token whose id is not the session's current one.\<close>

lemma reuse_runs:
  assumes dec: "decode_token (crypt E) (cfg E) (clock E (reads w)) t = Inr p"
    and ty: "map_of p ''type'' = Some (JStr ''refresh'')" and sid: "map_of p ''sid'' = Some (JStr i)"
    and s: "by_key s_id i (user_sessions (committed w)) = [s]"
    and alive: "\<not> session_dead s (clock E (Suc (reads w)))"
    and stale: "map_of p ''jti'' \<noteq> Some (JStr (s_refresh_jti s))"
    and ok: "store_ok (inet_ok E) (committed w)"
  shows "get_session E (refresh_session E t ua ip) w =
    (Inl (auth_error ''Refresh token reuse detected. Session revoked.''),
     (let st = user_sessions_update (change_row s_id i (revoke (clock E (Suc (reads w))))) (committed w)
      in w\<lparr>committed := st, pending := st, reads := reads w + 2\<rparr>))"
proof -
  have i: "s_id s = i" using by_key_in [OF s] by simp
  note ok' = store_ok_revoke [OF ok, of i "clock E (Suc (reads w))"]
  have "refresh_session E t ua ip (rollback w) =
    (Inl (auth_error ''Refresh token reuse detected. Session revoked.''),
     (let st = user_sessions_update (change_row s_id i (revoke (clock E (Suc (reads w))))) (committed w)
      in w\<lparr>committed := st, pending := st, reads := reads w + 2\<rparr>))"
    using dec ty sid s alive stale ok'
    by (simp add: refresh_session_def refresh_live_def kill_session_def change_session_def prog
        select_key_def i commit_ok auth_error_def Let_def rollback_def)
  then show ?thesis
    by (simp add: get_session_fails Let_def rollback_def)
qed


lemma dead_session_refused:
  assumes dec: "decode_token (crypt E) (cfg E) (clock E (reads w)) t = Inr p"
    and sid: "map_of p ''sid'' = Some (JStr i)"
    and s: "by_key s_id i (user_sessions (committed w)) = [s]" and dead: "s_revoked_at s \<noteq> None"
  shows "\<exists>m w'. get_session E (refresh_session E t ua ip) w = (Inl (auth_error m), w') \<and>
      committed w' = committed w"
proof (cases "map_of p ''type'' = Some (JStr ''refresh'')")
  case True
  then have "get_session E (refresh_session E t ua ip) w =
      (Inl msg_session, (rollback w)\<lparr>reads := Suc (Suc (reads w))\<rparr>)"
    using assms by (simp add: get_session_def refresh_session_def prog select_key_def session_dead_def rollback_def)
  then show ?thesis by (auto simp: msg_session_def auth_error_def)
next
  case False
  then have "get_session E (refresh_session E t ua ip) w =
      (Inl (auth_error ''Not a refresh token.''), (rollback w)\<lparr>reads := Suc (reads w)\<rparr>)"
    using dec by (simp add: get_session_def refresh_session_def prog rollback_def auth_error_def)
  then show ?thesis by auto
qed

section \<open>The caller\<close>

lemma check_session_runs:
  "check_session E c w = (Inr x, w') \<Longrightarrow>
   committed w' = committed w \<and> pending w' = pending w \<and>
   (\<not> json_truthy c \<or> (\<exists>k s n. c = Some (JStr k) \<and> by_key s_id k (user_sessions (pending w)) = [s] \<and>
      \<not> session_dead s (clock E n)))"
proof (cases "json_truthy c")
  case True
  assume "check_session E c w = (Inr x, w')"
  with True obtain s where "select_key s_id user_sessions c w = (Inr (Some s), w)"
    and s: "\<not> session_dead s (clock E (reads w))" and w': "w' = w\<lparr>reads := Suc (reads w)\<rparr>"
    by (auto simp: check_session_def andthen_runs primitive_runs
        dest!: select_key_runs [THEN iffD1, THEN conjunct1] split: option.split_asm if_split_asm)
  then show ?thesis by (auto simp: runs)
qed (simp add: check_session_def runs)

lemma user_role_runs [runs]:
  "user_role u w = (Inr r, w') \<longleftrightarrow> w' = w \<and> (\<exists>rs. by_key r_id (u_role_id u) (roles (pending w)) = r # rs)"
  by (auto simp: user_role_def runs split: list.splits)

lemma principal_runs:
  assumes "get_current_principal E cr w = (Inr p, w')"
  obtains t q u r where "cr = Credentials t"
    "decode_token (crypt E) (cfg E) (clock E (reads w)) t = Inr q"
    "map_of q ''type'' \<in> {None, Some JNull, Some (JStr ''access'')}"
    "map_of q ''sub'' = Some (JStr (u_id u))"
    "by_key u_id (u_id u) (users (pending w)) = [u]" "is_active u"
    "\<not> json_truthy (map_of q ''sid'') \<or> (\<exists>k s n. map_of q ''sid'' = Some (JStr k) \<and>
       by_key s_id k (user_sessions (pending w)) = [s] \<and> \<not> session_dead s (clock E n))"
    "r \<in> set (roles (pending w))" "r_id r = u_role_id u"
    "p = \<lparr>p_id = u_id u, p_email = u_email u, p_full_name = u_full_name u, p_role = u_role_id u,
       p_permissions = r_permissions r, p_session_id = session_claim (map_of q ''sid''),
       p_must_reset_password = u_must_reset_password u\<rparr>"
    "committed w' = committed w" "pending w' = pending w"
proof -
  let ?w = "w\<lparr>reads := Suc (reads w)\<rparr>"
  from assms obtain t where t: "cr = Credentials t"
    by (cases cr) (simp_all add: get_current_principal_def runs)
  with assms obtain q where q: "decode_token (crypt E) (cfg E) (clock E (reads w)) t = Inr q"
    by (auto simp: get_current_principal_def runs split: sum.splits jwt_exn.splits)
  from assms t q obtain u w1 r where ty: "map_of q ''type'' \<in> {None, Some JNull, Some (JStr ''access'')}"
    and u: "select_key u_id users (map_of q ''sub'') ?w = (Inr (Some u), ?w)" "is_active u"
    and c: "check_session E (map_of q ''sid'') ?w = (Inr (), w1)" and r: "user_role u w1 = (Inr r, w')"
    and p: "p = \<lparr>p_id = u_id u, p_email = u_email u, p_full_name = u_full_name u, p_role = u_role_id u,
       p_permissions = r_permissions r, p_session_id = session_claim (map_of q ''sid''),
       p_must_reset_password = u_must_reset_password u\<rparr>"
    by (simp add: get_current_principal_def runs split: if_splits)
       (clarsimp simp: runs split: option.splits if_splits, blast?)
  from u(1) have "map_of q ''sub'' = Some (JStr (u_id u)) \<and> by_key u_id (u_id u) (users (pending w)) = [u]"
    by (auto simp: runs dest: by_key_in)
  moreover from r have w1: "w1 = w'" and "\<exists>rs. by_key r_id (u_role_id u) (roles (pending w1)) = r # rs"
    by (auto simp: runs)
  then have "r \<in> set (roles (pending w1)) \<and> r_id r = u_role_id u" by (auto dest: by_key_Cons)
  ultimately show ?thesis
    using check_session_runs [OF c] that [OF t q ty _ _ u(2) _ _ _ p] w1 by simp
qed


lemma dead_session_anonymous:
  assumes s: "by_key s_id i (user_sessions (committed w)) = [s]" and dead: "s_revoked_at s \<noteq> None"
    and dec: "decode_token (crypt E) (cfg E) (clock E (reads w)) t = Inr q"
    and sid: "map_of q ''sid'' = Some (JStr i)" "i \<noteq> []"
  shows "get_session E (get_current_principal E (Credentials t)) w \<noteq> (Inr p, w')"
proof
  assume "get_session E (get_current_principal E (Credentials t)) w = (Inr p, w')"
  then obtain w1 where "get_current_principal E (Credentials t) (rollback w) = (Inr p, w1)"
    by (auto simp: get_session_runs)
  then show False
    by (rule principal_runs) (use assms in \<open>auto simp: session_dead_def\<close>)
qed

section \<open>Properties\<close>

text \<open>
  C25: a refresh succeeds only with a refresh token of a session that is neither revoked nor expired,
  whose token id is the session's current one and whose owner is active; it gives the session a new
  token id and a new expiry in the committed store, the new refresh token carries that id, and no
  other session and no user changes.
\<close>

theorem refresh_rotates:
  assumes "get_session E (refresh_session E t ua ip) w = (Inr (a, r), w')"
  shows "\<exists>q s u s'. decode_token (crypt E) (cfg E) (clock E (reads w)) t = Inr q \<and>
    map_of q ''type'' = Some (JStr ''refresh'') \<and> map_of q ''sid'' = Some (JStr (s_id s)) \<and>
    map_of q ''jti'' = Some (JStr (s_refresh_jti s)) \<and>
    by_key s_id (s_id s) (user_sessions (committed w)) = [s] \<and>
    s_revoked_at s = None \<and> clock E (Suc (reads w)) < s_expires_at s \<and>
    by_key u_id (s_user_id s) (users (committed w)) = [u] \<and> is_active u \<and>
    by_key s_id (s_id s) (user_sessions (committed w')) = [s'] \<and> s_refresh_jti s' = uuid_hex E (draws w) \<and>
    s_expires_at s' = clock E (Suc (reads w)) + minutes (refresh_token_expire_minutes (cfg E)) \<and>
    r = create_refresh_token (crypt E) (cfg E) (clock E (reads w + 3)) (u_id u) (s_id s') (s_refresh_jti s') None \<and>
    (\<forall>k. k \<noteq> s_id s \<longrightarrow>
       by_key s_id k (user_sessions (committed w')) = by_key s_id k (user_sessions (committed w))) \<and>
    users (committed w') = users (committed w)"
  using assms
proof (rule refresh_request_runs)
  fix q s u
  assume q: "decode_token (crypt E) (cfg E) (clock E (reads w)) t = Inr q"
    "map_of q ''type'' = Some (JStr ''refresh'')" "map_of q ''sid'' = Some (JStr (s_id s))"
    "map_of q ''jti'' = Some (JStr (s_refresh_jti s))"
    and s: "by_key s_id (s_id s) (user_sessions (committed w)) = [s]" "\<not> session_dead s (clock E (Suc (reads w)))"
    and u: "by_key u_id (s_user_id s) (users (committed w)) = [u]" "is_active u"
    and r: "r = create_refresh_token (crypt E) (cfg E) (clock E (reads w + 3)) (u_id u) (s_id s)
       (uuid_hex E (draws w)) None"
    and w': "committed w' = user_sessions_update (change_row s_id (s_id s)
       (rotate E (clock E (Suc (reads w))) (uuid_hex E (draws w)) ua ip)) (committed w)"
  let ?s = "rotate E (clock E (Suc (reads w))) (uuid_hex E (draws w)) ua ip s"
  from s(1) have s': "by_key s_id (s_id s) (user_sessions (committed w')) = [?s]"
    by (simp add: w' change_session_same)
  show ?thesis
    by (intro exI conjI; (rule q s(1) u s')?)
       (use s r in \<open>simp_all add: session_dead_def w' change_session_other rotate_def\<close>)
qed

definition demo_refresh_token :: demo_token where
  "demo_refresh_token = create_refresh_token demo_crypto default_settings 900000000 ''u1'' ''s1'' ''j1'' None"

lemma demo_refresh_succeeds:
  "\<exists>a r w'. get_session demo_env (refresh_session demo_env demo_refresh_token None None) demo_world = (Inr (a, r), w')"
proof -
  have "isl (fst (get_session demo_env (refresh_session demo_env demo_refresh_token None None) demo_world)) = False"
    by code_simp
  then show ?thesis by (metis isl_def old.prod.exhaust prod.collapse sum.exhaust_sel)
qed

theorem refresh_rotates_witness:
  "\<exists>w' s'. by_key s_id ''s1'' (user_sessions (committed w')) = [s'] \<and> s_refresh_jti s' = ''id'' \<and>
     (\<exists>a r. get_session demo_env (refresh_session demo_env demo_refresh_token None None) demo_world = (Inr (a, r), w'))"
proof -
  obtain a r w' where run: "get_session demo_env (refresh_session demo_env demo_refresh_token None None) demo_world = (Inr (a, r), w')"
    using demo_refresh_succeeds by blast
  from refresh_rotates [OF run] obtain s s' where
    "by_key s_id (s_id s) (user_sessions demo_store) = [s]"
    "by_key s_id (s_id s) (user_sessions (committed w')) = [s']" "s_refresh_jti s' = ''id''"
    by auto
  moreover from this(1) have "s_id s = ''s1''"
    by (auto simp: by_key_def demo_session_def split: if_splits)
  ultimately have "by_key s_id ''s1'' (user_sessions (committed w')) = [s'] \<and> s_refresh_jti s' = ''id''"
    by simp
  with run show ?thesis by blast
qed

text \<open>
  C26: presenting a refresh token a second time, after it was rotated, is refused as reuse and
  revokes the session in the committed store, although the refused request is rolled back: the
  legitimate holder's new token dies with it.
\<close>

theorem replay_revokes_session:
  assumes "get_session E (refresh_session E t ua ip) w = (Inr (a, r), w1)"
    and "decode_token (crypt E) (cfg E) (clock E (reads w1)) t = decode_token (crypt E) (cfg E) (clock E (reads w)) t"
    and "list_all (\<lambda>s. s_refresh_jti s \<noteq> uuid_hex E (draws w)) (user_sessions (committed w))"
    and "clock E (Suc (reads w1)) < clock E (Suc (reads w)) + minutes (refresh_token_expire_minutes (cfg E))"
  shows "\<exists>w2 q i s. get_session E (refresh_session E t ua' ip') w1 =
      (Inl (auth_error ''Refresh token reuse detected. Session revoked.''), w2) \<and>
    decode_token (crypt E) (cfg E) (clock E (reads w)) t = Inr q \<and> map_of q ''sid'' = Some (JStr i) \<and>
    by_key s_id i (user_sessions (committed w2)) = [s] \<and>
    s_revoked_at s = Some (clock E (Suc (reads w1)))"
  using assms(1)
proof (rule refresh_request_runs)
  fix q s u
  assume q: "decode_token (crypt E) (cfg E) (clock E (reads w)) t = Inr q"
    "map_of q ''type'' = Some (JStr ''refresh'')" "map_of q ''sid'' = Some (JStr (s_id s))"
    "map_of q ''jti'' = Some (JStr (s_refresh_jti s))"
    and s: "by_key s_id (s_id s) (user_sessions (committed w)) = [s]" "\<not> session_dead s (clock E (Suc (reads w)))"
    and ok: "store_ok (inet_ok E) (committed w1)"
    and w1: "committed w1 = user_sessions_update (change_row s_id (s_id s)
       (rotate E (clock E (Suc (reads w))) (uuid_hex E (draws w)) ua ip)) (committed w)"
  let ?s = "rotate E (clock E (Suc (reads w))) (uuid_hex E (draws w)) ua ip s"
  have s': "by_key s_id (s_id s) (user_sessions (committed w1)) = [?s]"
    using s(1) by (simp add: w1 change_session_same)
  have "s_refresh_jti s \<noteq> uuid_hex E (draws w)"
    using assms(3) by_key_in [OF s(1)] by (simp add: list_all_iff)
  then have stale: "map_of q ''jti'' \<noteq> Some (JStr (s_refresh_jti ?s))" using q(4) by (simp add: rotate_def)
  have alive: "\<not> session_dead ?s (clock E (Suc (reads w1)))"
    using s(2) assms(4) by (simp add: session_dead_def rotate_def)
  show ?thesis
    using reuse_runs [OF _ q(2,3) s' alive stale ok, of t ua' ip'] assms(2) q(1,3)
      change_session_same [OF _ s', of "revoke (clock E (Suc (reads w1)))"]
    by (auto simp: Let_def revoke_def)
qed


theorem replay_revokes_session_witness:
  "fst (get_session demo_env (refresh_session demo_env demo_refresh_token None None)
     (snd (get_session demo_env (refresh_session demo_env demo_refresh_token None None) demo_world))) =
   Inl (auth_error ''Refresh token reuse detected. Session revoked.'')"
proof -
  obtain a r w1 where run: "get_session demo_env (refresh_session demo_env demo_refresh_token None None) demo_world = (Inr (a, r), w1)"
    using demo_refresh_succeeds by blast
  have "reads (snd (get_session demo_env (refresh_session demo_env demo_refresh_token None None) demo_world)) = 4"
    by code_simp
  with run have reads: "reads w1 = 4" by simp
  have dec: "decode_token demo_crypto default_settings 1004000000 demo_refresh_token =
      decode_token demo_crypto default_settings 1000000000 demo_refresh_token"
    by code_simp
  show ?thesis
    using replay_revokes_session [OF run, of None None] reads dec run
    by (auto simp: demo_session_def minutes_def usec_per_minute_def default_settings_def)
qed

text \<open>
  A revoked session is dead: no token that names it, of either type and however fresh, refreshes
  it or authenticates a request, and the attempt changes nothing that is committed.
\<close>

theorem revoked_session_is_dead:
  assumes "by_key s_id i (user_sessions (committed w)) = [s]" and "s_revoked_at s \<noteq> None"
    and "decode_token (crypt E) (cfg E) (clock E (reads w)) t = Inr q"
    and "map_of q ''sid'' = Some (JStr i)" and "i \<noteq> []"
  shows "(\<exists>m w'. get_session E (refresh_session E t ua ip) w = (Inl (auth_error m), w') \<and>
      committed w' = committed w) \<and>
    (\<exists>e w'. get_session E (get_current_principal E (Credentials t)) w = (Inl e, w') \<and>
      committed w' = committed w)"
proof -
  obtain x w' where x: "get_session E (get_current_principal E (Credentials t)) w = (x, w')"
    by (cases "get_session E (get_current_principal E (Credentials t)) w")
  have "\<exists>e. x = Inl e"
    using dead_session_anonymous [OF assms] x by (cases x) auto
  moreover have "silent (get_current_principal E (Credentials t))" by (rule silent_auth)
  ultimately have "\<exists>e w'. get_session E (get_current_principal E (Credentials t)) w = (Inl e, w') \<and>
      committed w' = committed w"
    using get_session_rollback x by blast
  with dead_session_refused [OF assms(3,4,1,2), of ua ip] show ?thesis by blast
qed

definition revoked_world :: world where
  "revoked_world = world_of (demo_store\<lparr>user_sessions := [demo_session\<lparr>s_revoked_at := Some 5\<rparr>]\<rparr>)"

lemma revoked_world_simps [simp]:
  "committed revoked_world = demo_store\<lparr>user_sessions := [demo_session\<lparr>s_revoked_at := Some 5\<rparr>]\<rparr>"
  "reads revoked_world = 0"
  by (simp_all add: revoked_world_def)

theorem revoked_session_is_dead_witness:
  "\<exists>m w'. get_session demo_env (refresh_session demo_env demo_refresh_token None None) revoked_world =
     (Inl (auth_error m), w') \<and> committed w' = committed revoked_world"
proof -
  have "by_key s_id ''s1'' (user_sessions (committed revoked_world)) = [demo_session\<lparr>s_revoked_at := Some 5\<rparr>]"
    by (simp add: by_key_def demo_session_def)
  moreover obtain q where "decode_token demo_crypto default_settings 1000000000 demo_refresh_token = Inr q"
    "map_of q ''sid'' = Some (JStr ''s1'')"
    using decode_refresh_token [OF demo_jwt_law, of 900000000 1000000000 default_settings "''u1''" "''s1''" "''j1''" None]
    by (simp add: demo_refresh_token_def or_default_def timestamp_def minutes_def usec_per_minute_def default_settings_def)
  ultimately show ?thesis
    using revoked_session_is_dead [of "''s1''" revoked_world _ demo_env demo_refresh_token _ None None] by simp
qed

text \<open>
  Logging out revokes the session of the caller: afterwards no token that names it gets a
  principal. Logging out twice, without a session or with an unknown one changes nothing.
\<close>

theorem logout_revokes:
  assumes "by_key s_id i (user_sessions (committed w)) = [s]" and "i \<noteq> []"
    and "store_ok (inet_ok E) (committed w)"
  shows "\<exists>w' s'. get_session E (revoke_session E (Some i)) w = (Inr (), w') \<and>
    by_key s_id i (user_sessions (committed w')) = [s'] \<and>
    s_revoked_at s' = (case s_revoked_at s of None \<Rightarrow> Some (clock E (reads w)) | Some t \<Rightarrow> Some t) \<and>
    (case decode_token (crypt E) (cfg E) (clock E (reads w')) t of Inl e \<Rightarrow> True
     | Inr q \<Rightarrow> map_of q ''sid'' = Some (JStr i) \<longrightarrow>
         \<not> (\<exists>p w2. get_session E (get_current_principal E (Credentials t)) w' = (Inr p, w2)))"
proof -
  let ?f = "revoke (clock E (reads w))"
  have i: "s_id s = i" using by_key_in [OF assms(1)] by simp
  obtain w' s' where run: "get_session E (revoke_session E (Some i)) w = (Inr (), w')"
    and s': "by_key s_id i (user_sessions (committed w')) = [s']"
    and rev: "s_revoked_at s' = (case s_revoked_at s of None \<Rightarrow> Some (clock E (reads w)) | Some t \<Rightarrow> Some t)"
  proof (cases "s_revoked_at s")
    case None
    have "get_session E (revoke_session E (Some i)) w =
        (Inr (), w\<lparr>reads := Suc (reads w), pending := user_sessions_update (change_row s_id i ?f) (committed w),
          committed := user_sessions_update (change_row s_id i ?f) (committed w)\<rparr>)"
      using assms None store_ok_revoke [OF assms(3), of i "clock E (reads w)"]
      by (simp add: get_session_def revoke_session_def prog change_session_def i flush_ok commit_ok rollback_def)
    then show ?thesis
      using that change_session_same [OF _ assms(1), of ?f] None by (auto simp: revoke_def)
  next
    case (Some t)
    have "get_session E (revoke_session E (Some i)) w = (Inr (), rollback w)"
      using assms Some by (simp add: get_session_def revoke_session_def prog commit_ok rollback_def)
    then show ?thesis using that assms(1) Some by auto
  qed
  have "get_session E (get_current_principal E (Credentials t)) w' \<noteq> (Inr p, w2)"
    if "decode_token (crypt E) (cfg E) (clock E (reads w')) t = Inr q" "map_of q ''sid'' = Some (JStr i)" for q p w2
    using dead_session_anonymous [OF s' _ that assms(2)] rev by (simp split: option.splits)
  with run s' rev show ?thesis by (auto split: sum.splits)
qed

theorem logout_revokes_witness:
  "\<exists>w' s'. get_session demo_env (revoke_session demo_env (Some ''s1'')) demo_world = (Inr (), w') \<and>
     by_key s_id ''s1'' (user_sessions (committed w')) = [s'] \<and> s_revoked_at s' = Some 1000000000"
  using logout_revokes [of "''s1''" demo_world demo_session demo_env demo_refresh_token]
  by (auto simp: by_key_def demo_session_def)



definition demo_access :: demo_token where
  "demo_access = create_access_token demo_crypto default_settings 900000000 ''u1''
     [(''email'', JStr ''admin@radonaix.io''), (''role'', JStr ''viewer''), (''sid'', JStr ''s1'')] None"


text \<open>
  The two kinds of token are not interchangeable: an access token does not refresh a session,
  and a refresh token does not authenticate a request.
\<close>

theorem token_kinds_separate:
  assumes "jwt_law (crypt E)" and "issued \<le> clock E (reads w)"
  shows "(\<exists>m w'. get_session E (refresh_session E (create_access_token (crypt E) (cfg E) issued i
      [(''email'', e), (''role'', r), (''sid'', sid)] None) ua ip) w = (Inl (auth_error m), w') \<and>
      committed w' = committed w) \<and>
    (\<exists>m w'. get_session E (get_current_principal E (Credentials
      (create_refresh_token (crypt E) (cfg E) issued i j k None))) w = (Inl (auth_error m), w') \<and>
      committed w' = committed w)"
  using decode_access_token [OF assms, of "cfg E" i e r sid None]
    decode_refresh_token [OF assms, of "cfg E" i j k None]
  by (simp add: get_session_def refresh_session_def get_current_principal_def prog auth_error_def rollback_def)

theorem token_kinds_separate_witness:
  "\<exists>m w'. get_session demo_env (get_current_principal demo_env (Credentials demo_refresh_token)) demo_world =
     (Inl (auth_error m), w') \<and> committed w' = demo_store"
  using token_kinds_separate [of demo_env 900000000 demo_world, THEN conjunct2, of "''u1''" "''s1''" "''j1''"]
  by (simp add: demo_jwt_law demo_refresh_token_def)

end
