(* ===== verification/Identity_Props.thy ===== *)
theory Identity_Props
  imports Store_Lemmas Demo
begin

text \<open>
  Correctness of user and role administration: creation of users and the uniqueness of emails up to
  case, the way PATCH breaks that uniqueness, and what saving a role grants.
\<close>

section \<open>Creating users\<close>

definition emails_distinct :: "store \<Rightarrow> bool" where
  "emails_distinct s = distinct (map (\<lambda>u. str_lower (u_email u)) (users s))"

lemma email_matches_Nil:
  "email_matches e s = [] \<longleftrightarrow> str_lower e \<notin> (\<lambda>u. str_lower (u_email u)) ` set (users s)"
  by (simp add: email_matches_def filter_empty_conv image_iff) metis

lemma require_role_runs [runs]:
  "require_role i w = (Inr r, w') \<longleftrightarrow> w' = w \<and> by_key r_id i (roles (pending w)) = [r]"
  by (auto simp: require_role_def runs split: option.splits)

lemma get_user_runs [runs]:
  "get_user i w = (Inr u, w') \<longleftrightarrow> w' = w \<and> by_key u_id i (users (pending w)) = [u]"
  by (auto simp: get_user_def runs split: option.splits)

lemma create_user_runs:
  assumes "create_user E p w = (Inr u, w')"
  obtains r where "by_key r_id (uc_role p) (roles (pending w)) = [r]" "email_matches (uc_email p) (pending w) = []"
    "u_email u = uc_email p" "u_full_name u = uc_fullName p" "u_role_id u = uc_role p" "u_status u = uc_status p"
    "u_hashed_password u = hash_password (crypt E) (draws w) (uc_password p)"
    "u_failed_login_count u = 0" "u_locked_until u = None" "u_must_reset_password u = uc_mustResetPassword p"
    "u_id u = uuid_dashed (uuid_hex E (Suc (draws w)))"
    "pending w' = users_update (insert_row u) (pending w)" "committed w' = committed w"
    "store_ok (inet_ok E) (pending w')"
  using assms by (auto simp: create_user_def runs Let_def split: option.splits)

text \<open>
  C28: a user is created only for an existing role and an email that no user has in any case; the new
  user has the given fields, no failed logins and no lock, and a hash that accepts exactly the given
  password. Emails stay distinct up to case, and the other users are as before. With a taken email
  the answer is 409 and nothing is committed.
\<close>

theorem create_user_functional:
  assumes "hash_laws (crypt E)" and "emails_distinct (committed w)"
  shows "(case get_session E (create_user E p) w of
      (Inr u, w') \<Rightarrow>
        users (committed w') = users (committed w) @ [u] \<and> emails_distinct (committed w') \<and>
        u_email u = uc_email p \<and> u_role_id u = uc_role p \<and>
        refers r_id (roles (committed w)) (uc_role p) \<and>
        u_failed_login_count u = 0 \<and> u_locked_until u = None \<and>
        verify_password (crypt E) q (u_hashed_password u) = Inr (q = uc_password p)
    | (Inl e, w') \<Rightarrow> committed w' = committed w) \<and>
    (\<forall>v r. by_key r_id (uc_role p) (roles (committed w)) = [r] \<and> email_matches (uc_email p) (committed w) = [v] \<longrightarrow>
      (\<exists>e w'. get_session E (create_user E p) w = (Inl e, w') \<and> rs_status (handle_exn e) = 409))"
proof (intro conjI allI impI)
  obtain res w' where run: "get_session E (create_user E p) w = (res, w')" by (cases "get_session E (create_user E p) w")
  have err: "committed w' = committed w" if "res = Inl e" for e
    using get_session_rollback [OF silent_identity(5) [of E p], of E w e w'] run that by simp
  have ok: "users (committed w') = users (committed w) @ [u] \<and> emails_distinct (committed w') \<and>
        u_email u = uc_email p \<and> u_role_id u = uc_role p \<and>
        refers r_id (roles (committed w)) (uc_role p) \<and>
        u_failed_login_count u = 0 \<and> u_locked_until u = None \<and>
        verify_password (crypt E) q (u_hashed_password u) = Inr (q = uc_password p)" if "res = Inr u" for u
  proof -
    from run that obtain w1 where body: "create_user E p (rollback w) = (Inr u, w1)"
      and w': "w' = w1\<lparr>committed := pending w1\<rparr>" by (auto simp: get_session_runs)
    from body show ?thesis
    proof (rule create_user_runs)
      fix r
      assume r: "by_key r_id (uc_role p) (roles (pending (rollback w))) = [r]"
        and free: "email_matches (uc_email p) (pending (rollback w)) = []"
        and u: "u_email u = uc_email p" "u_role_id u = uc_role p"
          "u_hashed_password u = hash_password (crypt E) (draws (rollback w)) (uc_password p)"
          "u_failed_login_count u = 0" "u_locked_until u = None"
        and w1: "pending w1 = users_update (insert_row u) (pending (rollback w))"
      have "refers r_id (roles (committed w)) (uc_role p)"
        using by_key_in [OF r] by (simp add: refers_def list_ex_iff) blast
      then show ?thesis
        using free u w1 assms verify_hash_password [OF assms(1)]
        by (simp add: w' emails_distinct_def insert_row_def email_matches_Nil)
    qed
  qed
  show "case get_session E (create_user E p) w of
      (Inr u, w') \<Rightarrow>
        users (committed w') = users (committed w) @ [u] \<and> emails_distinct (committed w') \<and>
        u_email u = uc_email p \<and> u_role_id u = uc_role p \<and>
        refers r_id (roles (committed w)) (uc_role p) \<and>
        u_failed_login_count u = 0 \<and> u_locked_until u = None \<and>
        verify_password (crypt E) q (u_hashed_password u) = Inr (q = uc_password p)
    | (Inl e, w') \<Rightarrow> committed w' = committed w"
    using run err ok by (cases res) simp_all
next
  fix v r
  assume "by_key r_id (uc_role p) (roles (committed w)) = [r] \<and> email_matches (uc_email p) (committed w) = [v]"
  then show "\<exists>e w'. get_session E (create_user E p) w = (Inl e, w') \<and> rs_status (handle_exn e) = 409"
    by (simp add: get_session_def create_user_def require_role_def prog)
qed

definition demo_new_user :: user_create where
  "demo_new_user =
     \<lparr>uc_fullName = ''Mei Tanaka'', uc_email = ''ADMIN@radonaix.io'', uc_password = ''ChangeMe!456'',
      uc_role = ''admin'', uc_phone = None, uc_department = None, uc_status = ''Active'',
      uc_mustResetPassword = False\<rparr>"

theorem create_user_functional_witness:
  "\<exists>e w'. get_session demo_env (create_user demo_env demo_new_user) demo_world = (Inl e, w') \<and>
     rs_status (handle_exn e) = 409"
proof -
  have d: "hash_laws (crypt demo_env)" "emails_distinct (committed demo_world)"
    by (simp_all add: demo_hash_laws emails_distinct_def)
  have "by_key r_id (uc_role demo_new_user) (roles (committed demo_world)) = [demo_role]"
    by (simp add: by_key_def demo_role_def demo_new_user_def)
  moreover have "str_lower ''ADMIN@radonaix.io'' = ''admin@radonaix.io''" "str_lower ''admin@radonaix.io'' = ''admin@radonaix.io''"
    by code_simp+
  then have "email_matches (uc_email demo_new_user) (committed demo_world) = [demo_user]"
    by (simp add: email_matches_def demo_user_def demo_new_user_def)
  ultimately show ?thesis using create_user_functional [OF d, of demo_new_user] by blast
qed

section \<open>Changing an email\<close>

lemma set_profile_fields [simp]:
  "u_id (set_profile p u) = u_id u" "u_role_id (set_profile p u) = u_role_id u"
  "u_hashed_password (set_profile p u) = u_hashed_password u"
  "u_failed_login_count (set_profile p u) = u_failed_login_count u"
  "u_locked_until (set_profile p u) = u_locked_until u" "u_created_at (set_profile p u) = u_created_at u"
  "u_email (set_profile p u) = (case uu_email p of None \<Rightarrow> u_email u | Some e \<Rightarrow> e)"
  "u_status (set_profile p u) = (case uu_status p of None \<Rightarrow> u_status u | Some x \<Rightarrow> x)"
  by (simp_all add: set_profile_def opt_set_def split: option.split)

lemma update_user_runs:
  assumes "update_user E i p w = (Inr u', w')"
  obtains u f where "by_key u_id i (users (pending w)) = [u]" "u' = stamp (touch_user E) f u"
    "\<And>x. u_id (f x) = u_id x" "\<And>x. u_email (f x) = (case uu_email p of None \<Rightarrow> u_email x | Some e \<Rightarrow> e)"
    "\<And>x. u_created_at (f x) = u_created_at x" "\<And>x. u_failed_login_count (f x) = u_failed_login_count x"
    "\<And>x. u_locked_until (f x) = u_locked_until x"
    "\<And>x. u_role_id x = u_role_id u \<Longrightarrow>
       u_role_id (f x) = (if truthy (uu_role p) then (case uu_role p of Some r \<Rightarrow> r | None \<Rightarrow> []) else u_role_id u)"
    "\<not> truthy (uu_password p) \<Longrightarrow> (\<And>x. u_hashed_password (f x) = u_hashed_password x)"
    "pending w' = users_update (change_row u_id i (stamp (touch_user E) f)) (pending w)"
    "committed w' = committed w" "store_ok (inet_ok E) (pending w')"
proof -
  from assms obtain u set_role set_pw w1 w2 where u: "by_key u_id i (users (pending w)) = [u]"
    and role: "(case uu_role p of
         None \<Rightarrow> ret (\<lambda>x. x)
       | Some r \<Rightarrow>
           if r \<noteq> [] \<and> r \<noteq> u_role_id u
           then andthen (require_role r) (\<lambda>_. ret (u_role_id_update (\<lambda>_. r)))
           else ret (\<lambda>x. x)) w = (Inr set_role, w1)"
    and pw: "(case uu_password p of
         None \<Rightarrow> ret (\<lambda>x. x)
       | Some pw \<Rightarrow>
           if pw \<noteq> [] then
             andthen (hash_act E pw) (\<lambda>h. andthen (now_utc E) (\<lambda>t. ret (set_password h t)))
           else ret (\<lambda>x. x)) w1 = (Inr set_pw, w2)"
    and rest: "andthen (change_user E i (\<lambda>x. set_pw (set_profile p (set_role x))))
        (\<lambda>_. andthen (flush E) (\<lambda>_. ret (stamp (touch_user E) (\<lambda>x. set_pw (set_profile p (set_role x))) u))) w2 =
        (Inr u', w')"
    by (simp add: update_user_def runs Let_def) blast
  have w1: "w1 = w" and sr: "set_role = (\<lambda>x. x) \<and> (\<not> truthy (uu_role p) \<or> uu_role p = Some (u_role_id u)) \<or>
      (\<exists>r. uu_role p = Some r \<and> truthy (uu_role p) \<and> set_role = u_role_id_update (\<lambda>_. r))"
    using role by (auto simp: runs truthy_def split: option.splits if_splits)
  have w2: "pending w2 = pending w1 \<and> committed w2 = committed w1" and
    sp: "set_pw = (\<lambda>x. x) \<and> \<not> truthy (uu_password p) \<or>
      (\<exists>h t. truthy (uu_password p) \<and> set_pw = set_password h t)"
    using pw by (auto simp: runs truthy_def split: option.splits if_splits)
  let ?f = "\<lambda>x. set_pw (set_profile p (set_role x))"
  show ?thesis
    by (rule that [of u ?f])
       (use u rest w1 w2 sr sp in \<open>auto simp: runs change_user_def set_password_def truthy_def split: option.splits\<close>)
qed


lemma two_elements: "a \<in> set xs \<Longrightarrow> b \<in> set xs \<Longrightarrow> a \<noteq> b \<Longrightarrow> \<exists>x y zs. xs = x # y # zs"
  by (cases xs; cases "tl xs") auto

lemma login_ambiguous:
  assumes "a \<in> set (users (committed w))" "b \<in> set (users (committed w))" "a \<noteq> b"
    and "str_lower (u_email a) = str_lower e" "str_lower (u_email b) = str_lower e"
  shows "\<exists>m w'. get_session E (authenticate E e pw ua ip) w = (Inl (OtherExn ''MultipleResultsFound'' m), w') \<and>
    committed w' = committed w"
proof -
  have "\<exists>x y zs. email_matches e (committed w) = x # y # zs"
    by (rule two_elements [of a _ b]) (use assms in \<open>auto simp: email_matches_def\<close>)
  then obtain x y zs where "email_matches e (committed w) = x # y # zs" by blast
  then show ?thesis
    by (simp add: get_session_def authenticate_def prog rollback_def)
qed

text \<open>
  C29: PATCH of a user checks no other user's email. If it gives a user the email of another one in a
  different case, it succeeds, and from then on every login with that email, in any case, fails with
  500: neither of the two users can sign in.
\<close>

theorem email_collision_blocks_login:
  assumes "get_session E (update_user E i p) w = (Inr u', w')"
    and "uu_email p = Some e" and "v \<in> set (users (committed w))" and "u_id v \<noteq> i"
    and "str_lower (u_email v) = str_lower e" and "str_lower e' = str_lower e"
  shows "\<exists>m w2. get_session E (authenticate E e' pw ua ip) w' = (Inl (OtherExn ''MultipleResultsFound'' m), w2) \<and>
    rs_status (handle_exn (OtherExn ''MultipleResultsFound'' m)) = 500"
proof -
  from assms(1) obtain w1 where body: "update_user E i p (rollback w) = (Inr u', w1)"
    and w': "w' = w1\<lparr>committed := pending w1\<rparr>" by (auto simp: get_session_runs)
  from body show ?thesis
  proof (rule update_user_runs)
    fix u f
    assume u: "by_key u_id i (users (pending (rollback w))) = [u]" and u': "u' = stamp (touch_user E) f u"
      and f: "\<And>x. u_id (f x) = u_id x" "\<And>x. u_email (f x) = (case uu_email p of None \<Rightarrow> u_email x | Some e \<Rightarrow> e)"
      and w1: "pending w1 = users_update (change_row u_id i (stamp (touch_user E) f)) (pending (rollback w))"
    have "u \<in> set (users (committed w))" "u_id u = i" using by_key_in [OF u] by auto
    from in_change_row [OF this(1), of u_id i "stamp (touch_user E) f"] this(2)
    have 1: "u' \<in> set (users (committed w'))" by (simp add: w' w1 u')
    from in_change_row [OF assms(3), of u_id i "stamp (touch_user E) f"] assms(4)
    have 2: "v \<in> set (users (committed w'))" by (simp add: w' w1)
    have "u' \<noteq> v" using \<open>u_id u = i\<close> assms(4) f(1) by (auto simp: u')
    moreover have "str_lower (u_email u') = str_lower e'" using f(2) assms(2,6) by (simp add: u')
    ultimately show ?thesis
      using login_ambiguous [OF 1 2] assms(5,6) by fastforce
  qed
qed

definition other_user :: user where
  "other_user = demo_user\<lparr>u_id := ''u2'', u_email := ''mei@radonaix.io''\<rparr>"

definition two_user_world :: world where
  "two_user_world = world_of (demo_store\<lparr>users := [demo_user, other_user]\<rparr>)"

definition email_patch :: user_patch where
  "email_patch = \<lparr>uu_fullName = None, uu_email = Some ''Admin@radonaix.io'', uu_password = None, uu_role = None,
     uu_phone = None, uu_department = None, uu_status = None\<rparr>"

theorem email_collision_blocks_login_witness:
  "\<exists>u' w' m w2. get_session demo_env (update_user demo_env ''u2'' email_patch) two_user_world = (Inr u', w') \<and>
     get_session demo_env (authenticate demo_env ''admin@radonaix.io'' ''ChangeMe!123'' None None) w' =
       (Inl (OtherExn ''MultipleResultsFound'' m), w2)"
proof -
  have "\<not> isl (fst (get_session demo_env (update_user demo_env ''u2'' email_patch) two_user_world))"
    by code_simp
  then obtain u' w' where run: "get_session demo_env (update_user demo_env ''u2'' email_patch) two_user_world = (Inr u', w')"
    by (metis isl_def prod.collapse sum.exhaust_sel)
  have "uu_email email_patch = Some ''Admin@radonaix.io''" "demo_user \<in> set (users (committed two_user_world))"
    "u_id demo_user \<noteq> ''u2''" "str_lower (u_email demo_user) = str_lower ''Admin@radonaix.io''"
    "str_lower ''admin@radonaix.io'' = str_lower ''Admin@radonaix.io''"
    by (simp_all add: email_patch_def two_user_world_def demo_user_def) code_simp+
  from email_collision_blocks_login [OF run this, of "''ChangeMe!123''" None None] run show ?thesis by blast
qed

section \<open>Saving a role\<close>

lemma set_role_fields_simps [simp]:
  "r_id (set_role_fields p r) = r_id r" "r_is_system (set_role_fields p r) = r_is_system r"
  "r_created_at (set_role_fields p r) = r_created_at r"
  "r_permissions (set_role_fields p r) = (case ru_permissions p of None \<Rightarrow> r_permissions r | Some m \<Rightarrow> m)"
  by (simp_all add: set_role_fields_def opt_set_def split: option.split)

lemma touch_role_simps [simp]:
  "r_id (touch_role E r) = r_id r" "r_is_system (touch_role E r) = r_is_system r"
  "r_permissions (touch_role E r) = r_permissions r" "r_created_at (touch_role E r) = r_created_at r"
  by (simp_all add: touch_role_def)

lemma stamp_role_simps [simp]:
  "r_id (stamp (touch_role E) f r) = r_id (f r)" "r_is_system (stamp (touch_role E) f r) = r_is_system (f r)"
  "r_permissions (stamp (touch_role E) f r) = r_permissions (f r)"
  "r_created_at (stamp (touch_role E) f r) = r_created_at (f r)"
  by (simp_all add: stamp_def)

text \<open>
  C30: what saving a role grants. A role id that exists keeps its matrix unless the request brings
  one, and stays a system role if it was one. A new role gets the matrix of the request only if that
  is not empty; otherwise it gets the default matrix of its id, which for an id that is not one of
  the four built-in ones allows everything: asking for a new role without any permission creates one
  with all of them.
\<close>

theorem upsert_role_grants:
  assumes "get_session E (upsert_role E p) w = (Inr r, w')"
  shows "r_id r = upsert_role_id p \<and> by_key r_id (r_id r) (roles (committed w')) = [r] \<and>
    (case by_key r_id (upsert_role_id p) (roles (committed w)) of
       old # rest \<Rightarrow> r_permissions r = (case ru_permissions p of None \<Rightarrow> r_permissions old | Some m \<Rightarrow> m) \<and>
         r_is_system r = r_is_system old
     | [] \<Rightarrow> \<not> r_is_system r \<and>
         r_permissions r =
           (if ru_permissions p \<in> {None, Some []} then default_permissions_for (upsert_role_id p)
            else (case ru_permissions p of Some m \<Rightarrow> m | None \<Rightarrow> []))) \<and>
    (upsert_role_id p \<notin> slug_value ` UNIV \<longrightarrow>
       (\<forall>k a. has_permission (default_permissions_for (upsert_role_id p)) k a))"
proof -
  from assms obtain w1 where body: "upsert_role E p (rollback w) = (Inr r, w1)"
    and w': "w' = w1\<lparr>committed := pending w1\<rparr>" by (auto simp: get_session_runs)
  have full: "\<forall>k a. has_permission (default_permissions_for (upsert_role_id p)) k a"
    if "upsert_role_id p \<notin> slug_value ` UNIV"
    using that by (simp add: default_unknown)
  show ?thesis
  proof (cases "by_key r_id (upsert_role_id p) (roles (committed w))")
    case Nil
    with body w' full show ?thesis
      by (auto simp: upsert_role_def runs Let_def upsert_perms_def by_key_insert split: option.splits)
  next
    case (Cons old rest)
    with body w' full show ?thesis
      by (auto simp: upsert_role_def runs Let_def change_role_def by_key_change dest: by_key_Cons split: option.splits)
  qed
qed


definition auditor_request :: role_upsert where
  "auditor_request = \<lparr>ru_id = Some ''auditor'', ru_name = ''Auditor'', ru_description = [], ru_status = ''Active'',
     ru_permissions = Some []\<rparr>"

theorem upsert_role_grants_witness:
  "\<exists>r w'. get_session demo_env (upsert_role demo_env auditor_request) demo_world = (Inr r, w') \<and>
     (\<forall>k a. has_permission (r_permissions r) k a)"
proof -
  have "\<not> isl (fst (get_session demo_env (upsert_role demo_env auditor_request) demo_world))"
    by code_simp
  then obtain r w' where run: "get_session demo_env (upsert_role demo_env auditor_request) demo_world = (Inr r, w')"
    by (metis isl_def prod.collapse sum.exhaust_sel)
  have i: "upsert_role_id auditor_request = ''auditor''"
    by (simp add: upsert_role_id_def auditor_request_def truthy_def)
  have a: "''auditor'' \<noteq> slug_value x" for x by (cases x) simp_all
  have m: "ru_permissions auditor_request = Some []" by (simp add: auditor_request_def)
  have "by_key r_id ''auditor'' (roles (committed demo_world)) = []"
    by (simp add: by_key_def demo_role_def)
  with upsert_role_grants [OF run] a m have "\<forall>k x. has_permission (r_permissions r) k x"
    by (simp add: i image_iff)
  with run show ?thesis by blast
qed

end
