(* ===== verification/Integrations.thy ===== *)
theory Integrations
  imports Frames
begin

text \<open>
  The clients of the other services: \<open>app/integrations/clickhouse.py\<close>, \<open>ra_postgres.py\<close> and
  \<open>airflow.py\<close>, the client of \<open>app/core/redis.py\<close>, and the shutdown of all of them
  (\<open>app/core/integrations_shutdown.py\<close>). Each of the first three is guarded
  by its setting and turns a failure into \<open>UpstreamUnavailableError\<close>; ClickHouse keeps a cached
  client, which a failure throws away. The locale states what callers rely on.
\<close>

section \<open>ClickHouse\<close>

definition upstream_down :: "string \<Rightarrow> (string \<times> json) list \<Rightarrow> exn" where
  "upstream_down m d = App UpstreamUnavailableError m d"

fun is_upstream_down :: "exn \<Rightarrow> bool" where
  "is_upstream_down (App c m d) = (c = UpstreamUnavailableError)"
| "is_upstream_down e = False"

text \<open>\<open>str(exc)\<close> of what a driver raises.\<close>

fun exn_text :: "exn \<Rightarrow> string" where
  "exn_text (App c m d) = m"
| "exn_text (OtherExn n m) = m"
| "exn_text e = []"

definition driver_error :: "string \<Rightarrow> exn" where
  "driver_error m = OtherExn ''DriverError'' m"

definition raise_if :: "string option \<Rightarrow> unit act" where
  "raise_if r = (case r of None \<Rightarrow> ret () | Some m \<Rightarrow> raise (driver_error m))"

definition get_client :: "'t env \<Rightarrow> unit act" where
  "get_client E =
     andthen has_ch_client (\<lambda>cached.
     if cached then ret ()
     else
       andthen ext_call (\<lambda>n.
       andthen (raise_if (ch_connect (services E) n)) (\<lambda>_. set_ch_client True)))"

text \<open>The \<open>finally\<close> clause drops the client even when closing it fails.\<close>

definition close_clickhouse :: "'t env \<Rightarrow> unit act" where
  "close_clickhouse E =
     andthen has_ch_client (\<lambda>cached.
     if cached then
       andthen ext_call (\<lambda>n.
       andthen (set_ch_client False) (\<lambda>_. raise_if (ch_close (services E) n)))
     else ret ())"

definition query_sync :: "'t env \<Rightarrow> sql_query \<Rightarrow> (string \<times> string) list \<Rightarrow> row list act" where
  "query_sync E q params =
     andthen (get_client E) (\<lambda>_.
     andthen ext_call (\<lambda>n.
     case ch_run (services E) n q params of
       Inl m \<Rightarrow> raise (driver_error m)
     | Inr r \<Rightarrow> ret (map (row_dict (column_names r)) (result_rows r))))"

definition ch_query :: "'t env \<Rightarrow> sql_query \<Rightarrow> (string \<times> string) list \<Rightarrow> row list act" where
  "ch_query E q params =
     (if \<not> clickhouse_enabled (cfg E) then raise (upstream_down ''ClickHouse integration is disabled.'' [])
      else
        catch (query_sync E q params) (\<lambda>e.
          if is_upstream_down e then raise e
          else
            andthen (close_clickhouse E) (\<lambda>_.
            raise (upstream_down ''ClickHouse query failed.'' [(''reason'', JStr (exn_text e))]))))"

definition ch_ping :: "'t env \<Rightarrow> bool act" where
  "ch_ping E =
     (if \<not> clickhouse_enabled (cfg E) then ret False
      else
        catch
          (andthen (get_client E) (\<lambda>_.
           andthen ext_call (\<lambda>n.
           andthen (raise_if (ch_command (services E) n)) (\<lambda>_. ret True))))
          (\<lambda>e. andthen (close_clickhouse E) (\<lambda>_. ret False)))"

section \<open>Postgres\<close>

definition get_engine :: "unit act" where
  "get_engine = set_pg_engine True"

definition close_ra_postgres :: "unit act" where
  "close_ra_postgres = set_pg_engine False"

definition pg_query :: "'t env \<Rightarrow> string \<Rightarrow> (string \<times> string) list \<Rightarrow> row list act" where
  "pg_query E sql params =
     (if \<not> ra_pg_enabled (cfg E) then raise (upstream_down ''ra-platform Postgres integration is disabled.'' [])
      else
        andthen get_engine (\<lambda>_.
        andthen ext_call (\<lambda>n.
        case pg_run (services E) n sql params of
          Inl m \<Rightarrow> raise (upstream_down ''ra-platform Postgres query failed.'' [(''reason'', JStr m)])
        | Inr rows \<Rightarrow> ret rows)))"

definition pg_ping :: "'t env \<Rightarrow> bool act" where
  "pg_ping E =
     (if \<not> ra_pg_enabled (cfg E) then ret False
      else
        andthen get_engine (\<lambda>_.
        andthen ext_call (\<lambda>n.
        case pg_run (services E) n ''SELECT 1'' [] of Inl m \<Rightarrow> ret False | Inr rows \<Rightarrow> ret True)))"

section \<open>Airflow\<close>

definition DAG_MAP :: "(string \<times> string) list" where
  "DAG_MAP =
     [(''collection'', ''air_pipeline_dag''), (''decoding'', ''air_pipeline_dag''),
      (''validation'', ''air_processed_pipeline_dag''), (''reconciliation'', ''air_recon_dag''),
      (''reporting'', ''air_recon_dag'')]"

text \<open>\<open>raise_for_status\<close> accepts the 2xx codes.\<close>

definition http_success :: "int \<Rightarrow> bool" where
  "http_success st = (200 \<le> st \<and> st < 300)"

definition airflow_failed :: "string \<Rightarrow> exn" where
  "airflow_failed m = upstream_down ''Airflow trigger failed.'' [(''reason'', JStr m)]"

definition trigger_dag :: "'t env \<Rightarrow> string \<Rightarrow> (string \<times> string) list \<Rightarrow> unit act" where
  "trigger_dag E dag_id conf =
     (if \<not> airflow_enabled (cfg E) then raise (upstream_down ''Airflow integration is disabled.'' [])
      else
        andthen ext_call (\<lambda>n.
        case af_post (services E) n dag_id conf of
          HttpError m \<Rightarrow> raise (airflow_failed m)
        | OtherHttpExn m \<Rightarrow> raise (driver_error m)
        | HttpResponse st is_json \<Rightarrow>
            if \<not> http_success st then raise (airflow_failed (''HTTP status '' @ show_int st))
            else
              andthen (accept_dag_run dag_id conf) (\<lambda>_.
              if is_json then ret () else raise (OtherExn ''JSONDecodeError'' ''Expecting value''))))"

definition af_ping :: "'t env \<Rightarrow> bool act" where
  "af_ping E =
     (if \<not> airflow_enabled (cfg E) then ret False
      else
        andthen ext_call (\<lambda>n.
        case af_health (services E) n of
          HttpError m \<Rightarrow> ret False
        | OtherHttpExn m \<Rightarrow> raise (driver_error m)
        | HttpResponse st is_json \<Rightarrow> ret (st = 200)))"

section \<open>Redis\<close>

text \<open>\<open>from_url\<close> only looks at the address. A close that fails keeps the client.\<close>

definition get_redis :: "'t env \<Rightarrow> unit act" where
  "get_redis E =
     andthen has_redis_client (\<lambda>cached.
     if cached then ret ()
     else andthen (raise_if (redis_open (services E) (redis_url (cfg E)))) (\<lambda>_. set_redis_client True))"

definition close_redis :: "'t env \<Rightarrow> unit act" where
  "close_redis E =
     andthen has_redis_client (\<lambda>cached.
     if cached then
       andthen ext_call (\<lambda>n.
       andthen (raise_if (redis_close (services E) n)) (\<lambda>_. set_redis_client False))
     else ret ())"

section \<open>Shutdown\<close>

definition close_all_integrations :: "'t env \<Rightarrow> unit act" where
  "close_all_integrations E =
     andthen (close_redis E) (\<lambda>_. andthen close_ra_postgres (\<lambda>_. close_clickhouse E))"

section \<open>The contract of a guarded source\<close>

text \<open>\<open>try: ... except UpstreamUnavailableError: ...\<close>\<close>

definition on_upstream_down :: "'a act \<Rightarrow> 'a act \<Rightarrow> 'a act" where
  "on_upstream_down m h = catch m (\<lambda>e. if is_upstream_down e then h else raise e)"

text \<open>
  What a caller of a query function relies on: a disabled source is never contacted, its only
  error is \<open>UpstreamUnavailableError\<close> (as long as closing a broken client works), and it never
  touches the stores.
\<close>

locale guarded_source =
  fixes enabled :: "settings \<Rightarrow> bool"
    and fetch :: "'t env \<Rightarrow> 'q \<Rightarrow> row list act"
    and clean :: "'t env \<Rightarrow> bool"
  assumes disabled_silent: "\<not> enabled (cfg E) \<Longrightarrow> \<exists>m. fetch E q w = (Inl (upstream_down m []), w)"
    and only_upstream: "clean E \<Longrightarrow> fetch E q w = (Inl e, w') \<Longrightarrow> is_upstream_down e"
    and stores_kept: "committed (snd (fetch E q w)) = committed w \<and> pending (snd (fetch E q w)) = pending w"
begin

text \<open>A caller that catches \<open>UpstreamUnavailableError\<close> always answers, whatever the source does.\<close>

lemma disabled_falls_back:
  "\<not> enabled (cfg E) \<Longrightarrow> on_upstream_down (andthen (fetch E q) k) h w = h w"
  using disabled_silent [of E q w] by (auto simp: on_upstream_down_def andthen_def catch_def upstream_down_def)

lemma failed_falls_back:
  "clean E \<Longrightarrow> fetch E q w = (Inl e, w') \<Longrightarrow> on_upstream_down (andthen (fetch E q) k) h w = h w'"
  using only_upstream [of E q w e w'] by (simp add: on_upstream_down_def andthen_def catch_def)

lemma falls_back_or_answers:
  assumes "clean E"
  shows "(\<exists>w'. on_upstream_down (andthen (fetch E q) k) h w = h w' \<and>
      committed w' = committed w \<and> pending w' = pending w) \<or>
    (\<exists>rows w'. fetch E q w = (Inr rows, w') \<and> committed w' = committed w \<and> pending w' = pending w \<and>
      on_upstream_down (andthen (fetch E q) k) h w = on_upstream_down (k rows) h w')"
proof (cases "fetch E q w")
  case (Pair r w')
  with stores_kept [of E q w] have kept: "committed w' = committed w" "pending w' = pending w" by simp_all
  show ?thesis
  proof (cases r)
    case (Inl e)
    with Pair failed_falls_back [OF assms, of q w e w' k h] kept show ?thesis by blast
  next
    case (Inr rows)
    with Pair kept show ?thesis by (simp add: on_upstream_down_def andthen_def catch_def)
  qed
qed

end

definition closes_cleanly :: "'t env \<Rightarrow> bool" where
  "closes_cleanly E = (\<forall>n. ch_close (services E) n = None)"

lemmas clickhouse_defs =
  ch_query_def query_sync_def get_client_def close_clickhouse_def raise_if_def

lemma quiet_clickhouse:
  "committed (snd (ch_query E q ps w)) = committed w \<and> pending (snd (ch_query E q ps w)) = pending w"
  by (simp add: clickhouse_defs prog split: option.split sum.split prod.split)

text \<open>The possible outcomes of a query: rows with a cached client, or an error without one.\<close>

lemma ch_query_outcome:
  assumes "clickhouse_enabled (cfg E)"
  shows "(\<exists>rows w'. ch_query E q ps w = (Inr rows, w') \<and> ch_client w') \<or>
    (\<exists>e w'. ch_query E q ps w = (Inl e, w') \<and> \<not> ch_client w' \<and>
       (is_upstream_down e \<or> (\<exists>n m. ch_close (services E) n = Some m \<and> e = driver_error m)))"
  using assms
  by (simp add: clickhouse_defs prog driver_error_def upstream_down_def split: option.split sum.split)
     (blast?)


lemma ch_query_disabled:
  "\<not> clickhouse_enabled (cfg E) \<Longrightarrow>
   ch_query E q ps w = (Inl (upstream_down ''ClickHouse integration is disabled.'' []), w)"
  by (simp add: ch_query_def raise_def)

lemma ch_query_only_upstream:
  assumes "closes_cleanly E" and "ch_query E q ps w = (Inl e, w')"
  shows "is_upstream_down e"
proof (cases "clickhouse_enabled (cfg E)")
  case True
  from ch_query_outcome [OF this, of q ps w] assms show ?thesis by (auto simp: closes_cleanly_def)
next
  case False
  from ch_query_disabled [OF this, of q ps w] assms(2) show ?thesis by (auto simp: upstream_down_def)
qed

lemma ch_ping_answers:
  assumes "closes_cleanly E"
  shows "\<exists>b w'. ch_ping E w = (Inr b, w') \<and> (if clickhouse_enabled (cfg E) then True else \<not> b)"
proof -
  have closed: "\<exists>w'. close_clickhouse E v = (Inr (), w')" for v :: world
    using assms by (simp add: close_clickhouse_def raise_if_def closes_cleanly_def prog)
  let ?body = "andthen (get_client E) (\<lambda>_. andthen ext_call (\<lambda>n.
      andthen (raise_if (ch_command (services E) n)) (\<lambda>_. ret True)))"
  show ?thesis
  proof (cases "?body w")
    case (Pair r v)
    with closed [of v] show ?thesis
      by (cases r) (auto simp: ch_ping_def catch_def andthen_def [of "close_clickhouse E"] ret_def [of False])
  qed
qed

lemma pg_ping_answers:
  "\<exists>b w'. pg_ping E w = (Inr b, w') \<and> (if ra_pg_enabled (cfg E) then True else \<not> b)"
  by (cases "ra_pg_enabled (cfg E)")
     (simp_all add: pg_ping_def get_engine_def prog ex_bool_eq split: sum.split)

lemma af_ping_answers:
  assumes "\<forall>n m. af_health (services E) n \<noteq> OtherHttpExn m"
  shows "\<exists>b w'. af_ping E w = (Inr b, w') \<and> (if airflow_enabled (cfg E) then True else \<not> b)"
  using assms
  by (cases "airflow_enabled (cfg E)"; cases "af_health (services E) (ext_calls w)")
     (simp_all add: af_ping_def prog ex_bool_eq)

interpretation clickhouse: guarded_source clickhouse_enabled "\<lambda>E (q, ps). ch_query E q ps" closes_cleanly
  by unfold_locales
     (auto simp: ch_query_disabled quiet_clickhouse dest: ch_query_only_upstream split: prod.splits)

interpretation ra_postgres: guarded_source ra_pg_enabled "\<lambda>E (q, ps). pg_query E q ps" "\<lambda>E. True"
  by unfold_locales
     (auto simp: pg_query_def prog get_engine_def upstream_down_def split: prod.splits sum.splits if_splits)

section \<open>Silence\<close>

lemma silent_integrations [silent_intro]:
  "silent (ch_query E q ps)" "silent (ch_ping E)" "silent (pg_query E sql ps)" "silent (pg_ping E)"
  "silent (trigger_dag E d conf)" "silent (af_ping E)" "silent (close_clickhouse E)"
proof -
  have r: "silent (raise_if x)" for x by (simp add: raise_if_def silent_def ret_def raise_def split: option.split)
  have g: "silent (get_client E)" unfolding get_client_def by (intro silent_intro r)
  show c: "silent (close_clickhouse E)" unfolding close_clickhouse_def by (intro silent_intro r)
  show "silent (ch_query E q ps)" unfolding ch_query_def query_sync_def by (intro silent_intro r g c)
  show "silent (ch_ping E)" unfolding ch_ping_def by (intro silent_intro r g c)
  show "silent (pg_query E sql ps)" "silent (pg_ping E)"
    unfolding pg_query_def pg_ping_def get_engine_def by (intro silent_intro)+
  have h: "silent (case y of HttpError m \<Rightarrow> f m | OtherHttpExn m \<Rightarrow> g m | HttpResponse st j \<Rightarrow> k st j)"
    if "\<And>m. silent (f m)" "\<And>m. silent (g m)" "\<And>st j. silent (k st j)"
    for y and f g :: "string \<Rightarrow> 'z act" and k
    using that by (cases y) auto
  show "silent (trigger_dag E d conf)" "silent (af_ping E)"
    unfolding trigger_dag_def af_ping_def by (intro silent_intro h)+
qed

lemma silent_on_upstream_down [silent_intro]: "silent m \<Longrightarrow> silent h \<Longrightarrow> silent (on_upstream_down m h)"
  unfolding on_upstream_down_def by (intro silent_intro)

section \<open>Properties\<close>

text \<open>
  C39: a ClickHouse query never leaves a broken client behind: it answers rows and keeps the client,
  or it raises \<open>UpstreamUnavailableError\<close> (or what closing the client raised) and the client is
  gone, so that the next query connects anew and succeeds as soon as the service does. A disabled
  integration is not contacted at all.
\<close>

theorem clickhouse_recovers:
  "if clickhouse_enabled (cfg E)
   then (case ch_query E q ps w of
      (Inr rows, w') \<Rightarrow> ch_client w'
    | (Inl e, w') \<Rightarrow> \<not> ch_client w' \<and>
        (is_upstream_down e \<or> (\<exists>n m. ch_close (services E) n = Some m \<and> e = driver_error m)) \<and>
        (case (ch_connect (services E) (ext_calls w'), ch_run (services E) (Suc (ext_calls w')) q ps) of
           (None, Inr r) \<Rightarrow>
             fst (ch_query E q ps w') = Inr (map (row_dict (column_names r)) (result_rows r))
         | _ \<Rightarrow> True))
   else ch_query E q ps w = (Inl (upstream_down ''ClickHouse integration is disabled.'' []), w)"
proof (cases "clickhouse_enabled (cfg E)")
  case True
  have again: "fst (ch_query E q ps w') = Inr (map (row_dict (column_names r)) (result_rows r))"
    if "\<not> ch_client w'" "ch_connect (services E) (ext_calls w') = None"
      "ch_run (services E) (Suc (ext_calls w')) q ps = Inr r" for w' r
    using that True by (simp add: clickhouse_defs prog)
  show ?thesis
    using ch_query_outcome [OF True, of q ps w] True again
    by (auto split: option.splits sum.splits) blast+
qed (simp add: ch_query_disabled)

end
