(* ===== verification/Operations.thy ===== *)
theory Operations
  imports Integrations Identity "HOL-Library.List_Lexorder"
begin

text \<open>
  Pipelines, decoders and system configuration: \<open>app/modules/operations/service.py\<close> with its
  schemas. Figures that come from ClickHouse fall back to fixed data when it is disabled or
  unreachable; alerts, decoders and the configuration row are owned by this service.
\<close>

section \<open>Shapes\<close>

record pipeline_stage =
  ps_key :: string
  ps_name :: string
  ps_status :: string
  ps_duration :: string
  ps_metric :: string

record pipeline_kpis =
  pk_throughput :: string
  pk_avgLatency :: string
  pk_failed24h :: int
  pk_slaBreaches :: int

record pipeline_run =
  pr_id :: string
  pr_source :: string
  pr_batch :: string
  pr_start :: cell
  pr_end :: cell
  pr_status :: string
  pr_records :: int
  pr_failed :: int

record alert_row =
  aw_id :: string
  aw_severity :: string
  aw_stage :: string
  aw_message :: string
  aw_createdAt :: int
  aw_status :: string

record retry_job =
  rj_id :: string
  rj_batch :: string
  rj_stage :: string
  rj_error :: string
  rj_retryCount :: int

record action_result =
  ok_flag :: bool
  detail :: "string option"

record decoder_row =
  dr_id :: string
  dr_name :: string
  dr_version :: string
  dr_status :: string
  dr_throughput :: "string option"

record decoder_upsert =
  du_id :: string
  du_name :: string
  du_version :: string
  du_status :: string
  du_throughput :: "string option"
  du_config :: "json option"

record system_config_out =
  so_environment :: string
  so_retentionDays :: int
  so_slaMinutes :: int
  so_alertEmail :: "string option"
  so_maintenanceMode :: bool

record system_config_patch =
  sp_environment :: "string option"
  sp_retentionDays :: "int option"
  sp_slaMinutes :: "int option"
  sp_alertEmail :: "string option"
  sp_maintenanceMode :: "bool option"

section \<open>Fallback data\<close>

definition db_ident :: "settings \<Rightarrow> string" where
  "db_ident st = quote_ident (clickhouse_database st)"

definition FALLBACK_STAGES :: "pipeline_stage list" where
  "FALLBACK_STAGES =
     [\<lparr>ps_key = ''collection'', ps_name = ''File Collection'', ps_status = ''ok'',
       ps_duration = ''1m 12s'', ps_metric = em_dash\<rparr>,
      \<lparr>ps_key = ''decoding'', ps_name = ''Decoding'', ps_status = ''ok'',
       ps_duration = ''3m 47s'', ps_metric = em_dash\<rparr>,
      \<lparr>ps_key = ''validation'', ps_name = ''Validation'', ps_status = ''ok'',
       ps_duration = ''2m 03s'', ps_metric = em_dash\<rparr>,
      \<lparr>ps_key = ''reconciliation'', ps_name = ''Reconciliation'', ps_status = ''ok'',
       ps_duration = ''4m 21s'', ps_metric = em_dash\<rparr>,
      \<lparr>ps_key = ''reporting'', ps_name = ''Report Generation'', ps_status = ''ok'',
       ps_duration = ''0m 58s'', ps_metric = em_dash\<rparr>]"

definition fallback_kpis :: pipeline_kpis where
  "fallback_kpis =
     \<lparr>pk_throughput = ''8.4M / hr'', pk_avgLatency = ''12m 21s'', pk_failed24h = 14, pk_slaBreaches = 2\<rparr>"

text \<open>2 June 2026, 9:02, 9:18, 8:30 and 8:51 UTC, in microseconds since the epoch.\<close>

definition fallback_runs :: "pipeline_run list" where
  "fallback_runs =
     [\<lparr>pr_id = ''RUN-90112'', pr_source = ''MSC-EU-1'', pr_batch = ''BATCH-441A'',
       pr_start = CTime 1780390920000000, pr_end = CTime 1780391880000000, pr_status = ''Completed'',
       pr_records = 1284322, pr_failed = 12\<rparr>,
      \<lparr>pr_id = ''RUN-90110'', pr_source = ''BSS-CRM'', pr_batch = ''BATCH-441C'',
       pr_start = CTime 1780389000000000, pr_end = CTime 1780390260000000, pr_status = ''Failed'',
       pr_records = 312044, pr_failed = 4012\<rparr>]"

section \<open>System configuration\<close>

definition default_config :: "'t env \<Rightarrow> system_config" where
  "default_config E =
     \<lparr>sc_id = ''system'', sc_environment = ''production'', sc_retention_days = 365, sc_sla_minutes = 15,
      sc_alert_email = None, sc_maintenance_mode = False, sc_extra = JObj [],
      sc_created_at = tx_now E, sc_updated_at = tx_now E\<rparr>"

definition get_or_create_config :: "'t env \<Rightarrow> system_config act" where
  "get_or_create_config E =
     andthen (select_one (\<lambda>s. by_key sc_id ''system'' (configs s))) (\<lambda>found.
     case found of
       Some c \<Rightarrow> ret c
     | None \<Rightarrow>
         andthen (modify (configs_update (insert_row (default_config E)))) (\<lambda>_.
         andthen (flush E) (\<lambda>_. ret (default_config E))))"

definition config_out :: "system_config \<Rightarrow> system_config_out" where
  "config_out c =
     \<lparr>so_environment = sc_environment c, so_retentionDays = sc_retention_days c,
      so_slaMinutes = sc_sla_minutes c, so_alertEmail = sc_alert_email c,
      so_maintenanceMode = sc_maintenance_mode c\<rparr>"

definition get_system_config :: "'t env \<Rightarrow> system_config_out act" where
  "get_system_config E = andthen (get_or_create_config E) (\<lambda>c. ret (config_out c))"

definition touch_config :: "'t env \<Rightarrow> system_config \<Rightarrow> system_config" where
  "touch_config E c = c\<lparr>sc_updated_at := tx_now E\<rparr>"

definition set_config :: "system_config_patch \<Rightarrow> system_config \<Rightarrow> system_config" where
  "set_config p c =
     opt_set (sp_maintenanceMode p) (\<lambda>v. sc_maintenance_mode_update (\<lambda>_. v))
     (opt_set (sp_alertEmail p) (\<lambda>v. sc_alert_email_update (\<lambda>_. Some v))
     (opt_set (sp_slaMinutes p) (\<lambda>v. sc_sla_minutes_update (\<lambda>_. v))
     (opt_set (sp_retentionDays p) (\<lambda>v. sc_retention_days_update (\<lambda>_. v))
     (opt_set (sp_environment p) (\<lambda>v. sc_environment_update (\<lambda>_. v)) c))))"

definition update_system_config :: "'t env \<Rightarrow> system_config_patch \<Rightarrow> system_config_out act" where
  "update_system_config E p =
     andthen (get_or_create_config E) (\<lambda>c.
     andthen (modify (configs_update (change_row sc_id (sc_id c) (stamp (touch_config E) (set_config p))))) (\<lambda>_.
     andthen (flush E) (\<lambda>_.
     get_system_config E)))"

section \<open>Pipelines\<close>

text \<open>\<open>(rows[0].get(k) if rows else 0) or 0\<close> as an integer.\<close>

definition first_int :: "row list \<Rightarrow> string \<Rightarrow> int act" where
  "first_int rows k =
     lift_res (int_or_0 (case rows of [] \<Rightarrow> CInt 0 | r # rs \<Rightarrow> get_cell r k))"

definition avg_latency :: "'t env \<Rightarrow> string \<Rightarrow> string act" where
  "avg_latency E ident =
     andthen (ch_query E (AvgLatency ident) []) (\<lambda>rows.
     andthen (first_int rows ''secs'') (\<lambda>secs.
     ret (show_int (secs div 60) @ ''m '' @ show_int (secs mod 60) @ ''s'')))"

definition sla_breaches :: "'t env \<Rightarrow> string \<Rightarrow> int \<Rightarrow> int act" where
  "sla_breaches E ident sla_minutes =
     andthen (ch_query E (SlaBreaches ident sla_minutes) []) (\<lambda>rows. first_int rows ''n'')"

text \<open>The body of the \<open>try\<close> of \<open>get_kpis\<close>.\<close>

definition kpis_live :: "'t env \<Rightarrow> system_config \<Rightarrow> pipeline_kpis act" where
  "kpis_live E c =
     andthen (ch_query E (KpiTotals (db_ident (cfg E))) []) (\<lambda>rows.
     let stats = (case rows of
         [] \<Rightarrow> [(''total'', CInt 0), (''matched'', CInt 0), (''mismatched'', CInt 0)]
       | r # rs \<Rightarrow> r) in
     andthen (lift_res (int_or_0 (get_cell stats ''total''))) (\<lambda>tot.
     andthen (lift_res (int_or_0 (get_cell stats ''mismatched''))) (\<lambda>mismatched.
     andthen (sla_breaches E (db_ident (cfg E)) (sc_sla_minutes c)) (\<lambda>breaches.
     andthen (avg_latency E (db_ident (cfg E))) (\<lambda>latency.
     ret \<lparr>pk_throughput = show_commas tot @ '' / 24h'', pk_avgLatency = latency,
          pk_failed24h = mismatched, pk_slaBreaches = breaches\<rparr>)))))"

definition get_kpis :: "'t env \<Rightarrow> pipeline_kpis act" where
  "get_kpis E =
     andthen (get_or_create_config E) (\<lambda>c. on_upstream_down (kpis_live E c) (ret fallback_kpis))"

text \<open>\<open>(matched / total * 100) if total else 100.0\<close>, in doubles.\<close>

definition match_pct :: "int \<Rightarrow> int \<Rightarrow> rat" where
  "match_pct matched tot =
     (if tot = 0 then 100 else dbl (dbl (of_int matched / of_int tot) * 100))"

definition live_stages :: "int \<Rightarrow> int \<Rightarrow> pipeline_stage list" where
  "live_stages tot matched =
     (let pct = match_pct matched tot in
      FALLBACK_STAGES
        [3 := (FALLBACK_STAGES ! 3)\<lparr>ps_metric := show_fixed 2 pct @ ''% match'',
               ps_status := (if 99 \<le> pct then ''ok'' else ''warning'')\<rparr>,
         1 := (FALLBACK_STAGES ! 1)\<lparr>ps_metric := show_commas tot @ '' records''\<rparr>])"

definition get_stages :: "'t env \<Rightarrow> pipeline_stage list act" where
  "get_stages E =
     on_upstream_down
       (andthen (ch_query E (StageTotals (db_ident (cfg E))) []) (\<lambda>rows.
        andthen (first_int rows ''total'') (\<lambda>tot.
        andthen (first_int rows ''matched'') (\<lambda>matched.
        ret (live_stages tot matched)))))
       (ret FALLBACK_STAGES)"

definition run_of_row :: "upstream \<Rightarrow> row \<Rightarrow> pipeline_run" where
  "run_of_row U r =
     \<lparr>pr_id = str_cell U (get_cell r ''recon_run_id''), pr_source = ''Reconciliation'',
      pr_batch = str_cell U (get_cell r ''recon_run_id''),
      pr_start = get_cell r ''recon_start_time'', pr_end = get_cell r ''recon_end_time'',
      pr_status = (if get_cell r ''status'' = CStr ''COMPLETED'' then ''Completed''
        else str_cell U (get_cell r ''status'')),
      pr_records = 0, pr_failed = 0\<rparr>"

definition get_runs :: "'t env \<Rightarrow> int \<Rightarrow> pipeline_run list act" where
  "get_runs E limit =
     on_upstream_down
       (andthen (ch_query E (RecentRuns (db_ident (cfg E)) limit) []) (\<lambda>rows.
        ret (map (run_of_row (services E)) rows)))
       (ret fallback_runs)"

section \<open>Alerts and retries\<close>

definition to_alert_row :: "pipeline_alert \<Rightarrow> alert_row" where
  "to_alert_row a =
     \<lparr>aw_id = al_id a, aw_severity = al_severity a, aw_stage = al_stage a, aw_message = al_message a,
      aw_createdAt = al_created_at a, aw_status = al_status a\<rparr>"

definition list_alerts :: "alert_row list act" where
  "list_alerts = query (\<lambda>s. map to_alert_row (order_desc al_created_at (alerts s)))"

definition acknowledge :: "string \<Rightarrow> pipeline_alert \<Rightarrow> pipeline_alert" where
  "acknowledge actor a = a\<lparr>al_status := ''Acknowledged'', al_acknowledged_by := Some actor\<rparr>"

definition acknowledge_alert :: "'t env \<Rightarrow> string \<Rightarrow> string \<Rightarrow> action_result act" where
  "acknowledge_alert E i actor =
     andthen (select_one (\<lambda>s. by_key al_id i (alerts s))) (\<lambda>found.
     case found of
       None \<Rightarrow> raise (App NotFoundError ''Alert not found.'' [])
     | Some a \<Rightarrow>
         andthen (modify (alerts_update (change_row al_id i (acknowledge actor)))) (\<lambda>_.
         andthen (flush E) (\<lambda>_.
         ret \<lparr>ok_flag = True, detail = Some (''Alert '' @ i @ '' acknowledged.'')\<rparr>)))"

definition fallback_retries :: "retry_job list" where
  "fallback_retries =
     [\<lparr>rj_id = ''JOB-7781'', rj_batch = ''BATCH-441C'', rj_stage = ''Reconciliation'',
       rj_error = ''Mismatch threshold exceeded (3.4%)'', rj_retryCount = 1\<rparr>]"

definition get_retries :: "retry_job list act" where
  "get_retries =
     andthen (query (\<lambda>s. filter (\<lambda>a. al_status a = ''Open'') (alerts s))) (\<lambda>open_alerts.
     if open_alerts \<noteq> [] then
       ret (map (\<lambda>a. \<lparr>rj_id = al_id a, rj_batch = em_dash, rj_stage = al_stage a,
           rj_error = al_message a, rj_retryCount = 0\<rparr>) open_alerts)
     else ret fallback_retries)"

definition trigger :: "'t env \<Rightarrow> string \<Rightarrow> string \<Rightarrow> string \<Rightarrow> action_result act" where
  "trigger E dag_id job_id action =
     on_upstream_down
       (andthen (trigger_dag E dag_id [(''job_id'', job_id), (''action'', action)]) (\<lambda>_.
        ret \<lparr>ok_flag = True, detail = Some (''Triggered '' @ dag_id @ '' for '' @ job_id @ ''.'')\<rparr>))
       (ret \<lparr>ok_flag = True,
            detail = Some (''Queued '' @ action @ '' for '' @ job_id @ '' (Airflow integration disabled).'')\<rparr>)"

definition retry_job_act :: "'t env \<Rightarrow> string \<Rightarrow> action_result act" where
  "retry_job_act E job_id = trigger E ''air_recon_dag'' job_id ''retry''"

definition replay_job :: "'t env \<Rightarrow> string \<Rightarrow> action_result act" where
  "replay_job E job_id = trigger E ''air_pipeline_dag'' job_id ''replay''"

section \<open>Decoders\<close>

definition to_decoder_row :: "decoder \<Rightarrow> decoder_row" where
  "to_decoder_row d =
     \<lparr>dr_id = d_id d, dr_name = d_name d, dr_version = d_version d, dr_status = d_status d,
      dr_throughput = d_throughput d\<rparr>"

definition list_decoders :: "decoder_row list act" where
  "list_decoders = query (\<lambda>s. map to_decoder_row (sort_key d_name (decoders s)))"

definition touch_decoder :: "'t env \<Rightarrow> decoder \<Rightarrow> decoder" where
  "touch_decoder E d = d\<lparr>d_updated_at := tx_now E\<rparr>"

definition set_decoder :: "decoder_upsert \<Rightarrow> decoder \<Rightarrow> decoder" where
  "set_decoder p d =
     opt_set (du_config p) (\<lambda>v. d_config_update (\<lambda>_. v))
       (d\<lparr>d_name := du_name p, d_version := du_version p, d_status := du_status p,
          d_throughput := du_throughput p\<rparr>)"

definition upsert_decoder :: "'t env \<Rightarrow> decoder_upsert \<Rightarrow> decoder act" where
  "upsert_decoder E p =
     andthen (select_one (\<lambda>s. by_key d_id (du_id p) (decoders s))) (\<lambda>found.
     case found of
       None \<Rightarrow>
         (let d = set_decoder p \<lparr>d_id = du_id p, d_name = [], d_version = [], d_status = ''Enabled'',
              d_throughput = None, d_config = JObj [], d_created_at = tx_now E, d_updated_at = tx_now E\<rparr> in
          andthen (modify (decoders_update (insert_row d))) (\<lambda>_.
          andthen (flush E) (\<lambda>_. ret d)))
     | Some d \<Rightarrow>
         andthen (modify (decoders_update (change_row d_id (du_id p) (stamp (touch_decoder E) (set_decoder p))))) (\<lambda>_.
         andthen (flush E) (\<lambda>_. ret (stamp (touch_decoder E) (set_decoder p) d))))"

section \<open>Silence\<close>

lemmas operations_defs =
  get_or_create_config_def get_system_config_def update_system_config_def first_int_def avg_latency_def
  sla_breaches_def kpis_live_def get_kpis_def get_stages_def get_runs_def list_alerts_def acknowledge_alert_def
  get_retries_def trigger_def retry_job_act_def replay_job_def list_decoders_def upsert_decoder_def

lemma silent_operations [silent_intro]:
  "silent (get_or_create_config E)" "silent (get_system_config E)" "silent (update_system_config E p)"
  "silent (get_kpis E)" "silent (get_stages E)" "silent (get_runs E n)" "silent list_alerts"
  "silent (acknowledge_alert E i a)" "silent get_retries" "silent (trigger E d j x)"
  "silent (retry_job_act E j)" "silent (replay_job E j)" "silent list_decoders" "silent (upsert_decoder E du)"
  unfolding operations_defs Let_def by (intro silent_intro)+

end
