(* ===== verification/Numbering.thy ===== *)
theory Numbering
  imports Tables
begin

text \<open>
  The human-readable references CASE-n, Q-n and RPT-n: each table numbers its rows by counting the
  rows it has (\<open>_next_case_reference\<close>, \<open>create_saved_query\<close>, \<open>_next_reference\<close>). The locale states
  what that relies on and what it gives while rows are only ever appended.
\<close>

definition numbered :: "(nat \<Rightarrow> string) \<Rightarrow> ('r \<Rightarrow> string) \<Rightarrow> 'r list \<Rightarrow> bool" where
  "numbered ref key rs = (map key rs = map ref [0..<length rs])"

locale numbering =
  fixes ref :: "nat \<Rightarrow> string"
  assumes ref_inject: "ref m = ref n \<Longrightarrow> m = n"
begin

lemma numbered_Nil [simp]: "numbered ref key []"
  by (simp add: numbered_def)

lemma numbered_insert:
  "numbered ref key rs \<Longrightarrow> key r = ref (length rs) \<Longrightarrow> numbered ref key (insert_row r rs)"
  by (simp add: numbered_def insert_row_def)

lemma numbered_change:
  "numbered ref key rs \<Longrightarrow> (\<And>r. key (f r) = key r) \<Longrightarrow> numbered ref key (change_row key' k f rs)"
proof -
  assume "numbered ref key rs" "\<And>r. key (f r) = key r"
  moreover from this(2) have "map key (change_row key' k f rs) = map key rs" by (rule map_change_row)
  moreover from this have "length (change_row key' k f rs) = length rs" by (rule map_eq_imp_length_eq)
  ultimately show ?thesis by (simp add: numbered_def)
qed

lemma numbered_fresh: "numbered ref key rs \<Longrightarrow> ref (length rs) \<notin> key ` set rs"
proof
  assume "numbered ref key rs" "ref (length rs) \<in> key ` set rs"
  then have "ref (length rs) \<in> ref ` {0..<length rs}"
    by (metis list.set_map numbered_def set_upt)
  then show False using ref_inject by fastforce
qed

lemma numbered_unique: "numbered ref key rs \<Longrightarrow> keys_unique key rs"
  unfolding numbered_def keys_unique_def
  by (simp add: distinct_map inj_on_def ref_inject)

lemma numbered_nth: "numbered ref key rs \<Longrightarrow> i < length rs \<Longrightarrow> key (rs ! i) = ref i"
  unfolding numbered_def by (metis length_map nth_map nth_upt add_0 length_upt minus_nat.diff_0)

end

lemma show_int_nat_inject:
  "0 \<le> i \<Longrightarrow> 0 \<le> j \<Longrightarrow> show_int i = show_int j \<Longrightarrow> i = j"
  by (simp add: show_int_def)

end
