(* ===== verification/Assurance.thy ===== *)
theory Assurance
  imports Integrations Identity Numbering
begin

text \<open>
  Reconciliation reads, leakage cases and the workbench: \<open>app/modules/assurance/service.py\<close> with
  its schemas.
\<close>

section \<open>Reconciliation\<close>

record recon_summary_out =
  rs_total :: int
  rs_matched :: int
  rs_amountMismatch :: int
  rs_rawOnly :: int
  rs_procOnly :: int
  rs_matchRate :: rat
  rs_estimatedLeakage :: cell

record recon_record =
  rc_recordType :: cell
  rc_txnId :: cell
  rc_nodeId :: cell
  rc_subscriberNum :: cell
  rc_rawAmount :: cell
  rc_procAmount :: cell
  rc_rawBalance :: cell
  rc_procBalance :: cell
  rc_status :: string
  rc_createdTime :: cell

definition VALID_STATUSES :: "string list" where
  "VALID_STATUSES = [''MATCHED'', ''AMOUNT_MISMATCH'', ''RAW_ONLY'', ''PROC_ONLY'']"

definition ident :: "settings \<Rightarrow> string" where
  "ident st = quote_ident (clickhouse_database st)"

definition match_rate :: "int \<Rightarrow> int \<Rightarrow> rat" where
  "match_rate matched tot =
     (if tot = 0 then 100 else py_round 2 (dbl (dbl (of_int matched / of_int tot) * 100)))"

text \<open>\<open>float(x or 0)\<close> of a numeric aggregate, and \<open>round(x, 2)\<close> of the result.\<close>

fun py_float :: "cell \<Rightarrow> exn + cell" where
  "py_float (CInt i) = Inr (CFloat (dbl (of_int i)))"
| "py_float (CFloat r) = Inr (CFloat (dbl r))"
| "py_float CNaN = Inr CNaN"
| "py_float CNull = Inl (OtherExn ''TypeError'' ''float() argument must be a number'')"
| "py_float (CTime t) = Inl (OtherExn ''TypeError'' ''float() argument must be a number'')"
| "py_float (CStr s) = Inl (value_error ''could not convert string to float'')"

fun round2 :: "cell \<Rightarrow> cell" where
  "round2 (CFloat r) = CFloat (py_round 2 r)"
| "round2 c = c"

definition fallback_summary :: recon_summary_out where
  "fallback_summary =
     \<lparr>rs_total = 0, rs_matched = 0, rs_amountMismatch = 0, rs_rawOnly = 0, rs_procOnly = 0,
      rs_matchRate = 100, rs_estimatedLeakage = CFloat 0\<rparr>"

definition summary_of_row :: "row \<Rightarrow> recon_summary_out act" where
  "summary_of_row r =
     andthen (lift_res (int_or_0 (get_cell r ''total''))) (\<lambda>tot.
     andthen (lift_res (int_or_0 (get_cell r ''matched''))) (\<lambda>matched.
     andthen (lift_res (int_or_0 (get_cell r ''amount_mismatch''))) (\<lambda>mismatch.
     andthen (lift_res (int_or_0 (get_cell r ''raw_only''))) (\<lambda>raw.
     andthen (lift_res (int_or_0 (get_cell r ''proc_only''))) (\<lambda>proc.
     andthen (lift_res (py_float (cell_or (get_cell r ''leakage'') (CInt 0)))) (\<lambda>leakage.
     ret \<lparr>rs_total = tot, rs_matched = matched, rs_amountMismatch = mismatch, rs_rawOnly = raw,
          rs_procOnly = proc, rs_matchRate = match_rate matched tot,
          rs_estimatedLeakage = round2 leakage\<rparr>))))))"

definition recon_summary :: "'t env \<Rightarrow> int \<Rightarrow> recon_summary_out act" where
  "recon_summary E hours =
     on_upstream_down
       (andthen (ch_query E (ReconTotals (ident (cfg E)) hours) []) (\<lambda>rows.
        summary_of_row (case rows of [] \<Rightarrow> [] | r # rs \<Rightarrow> r)))
       (ret fallback_summary)"

text \<open>
  The response model asks for a string status and for strings or nulls in the identifying columns;
  pydantic raises otherwise.
\<close>

fun str_or_null :: "cell \<Rightarrow> bool" where
  "str_or_null CNull = True"
| "str_or_null (CStr s) = True"
| "str_or_null c = False"

definition record_of_row :: "row \<Rightarrow> exn + recon_record" where
  "record_of_row r =
     (let either_of = (\<lambda>a b. cell_or (get_cell r a) (get_cell r b));
          txn = either_of ''raw_txn_id'' ''proc_txn_id'';
          node = either_of ''raw_node_id'' ''proc_node_id'';
          sub = either_of ''raw_subscriber_num'' ''proc_subscriber_num'' in
      case get_cell r ''reconciliation_status'' of
        CStr st \<Rightarrow>
          if list_all str_or_null [get_cell r ''record_type'', txn, node, sub] then
            Inr \<lparr>rc_recordType = get_cell r ''record_type'', rc_txnId = txn, rc_nodeId = node,
              rc_subscriberNum = sub, rc_rawAmount = get_cell r ''raw_tran_amt'',
              rc_procAmount = get_cell r ''proc_tran_amt'', rc_rawBalance = get_cell r ''raw_acc_balance'',
              rc_procBalance = get_cell r ''proc_acc_balance'', rc_status = st,
              rc_createdTime = get_cell r ''created_time''\<rparr>
          else Inl (OtherExn ''ValidationError'' ''ReconRecord'')
      | _ \<Rightarrow> Inl (OtherExn ''ValidationError'' ''ReconRecord''))"

fun records_of_rows :: "row list \<Rightarrow> exn + recon_record list" where
  "records_of_rows [] = Inr []"
| "records_of_rows (r # rs) =
     (case record_of_row r of
        Inl e \<Rightarrow> Inl e
      | Inr x \<Rightarrow> (case records_of_rows rs of Inl e \<Rightarrow> Inl e | Inr xs \<Rightarrow> Inr (x # xs)))"

text \<open>The WHERE clause and the bound parameters for a status filter, \<open>None\<close> for an unknown status.\<close>

definition status_filter :: "string option \<Rightarrow> (string \<times> (string \<times> string) list) option" where
  "status_filter status =
     (case status of
        None \<Rightarrow> Some (''1=1'', [])
      | Some s \<Rightarrow>
          if s = [] then Some (''1=1'', [])
          else if str_upper s \<notin> set VALID_STATUSES then None
          else Some (''reconciliation_status = {status:String}'', [(''status'', str_upper s)]))"

definition recon_records :: "'t env \<Rightarrow> string option \<Rightarrow> nat \<Rightarrow> nat \<Rightarrow> recon_record list act" where
  "recon_records E status limit offset =
     (case status_filter status of
        None \<Rightarrow> ret []
      | Some (where_clause, params) \<Rightarrow>
          andthen (ch_query E (ReconRows (ident (cfg E)) where_clause limit offset) params) (\<lambda>rows.
          lift_res (records_of_rows rows)))"

section \<open>Cases\<close>

record case_create =
  cp_title :: string
  cp_description :: string
  cp_severity :: string
  cp_status :: string
  cp_owner :: "string option"
  cp_linkedTxnId :: "string option"
  cp_estimatedImpact :: "rat option"

text \<open>A field of PATCH: absent, null or a value.\<close>

record case_patch =
  cu_title :: "string option option"
  cu_description :: "string option option"
  cu_severity :: "string option option"
  cu_status :: "string option option"
  cu_owner :: "string option option"
  cu_estimatedImpact :: "rat option option"

record case_out =
  co_id :: string
  co_reference :: string
  co_title :: "string option"
  co_severity :: "string option"
  co_status :: "string option"
  co_owner :: "string option"
  co_updated :: int
  co_estimatedImpact :: "rat option"

record comment_out =
  mo_id :: string
  mo_author :: string
  mo_body :: string
  mo_createdAt :: int

record case_detail =
  cd_row :: case_out
  cd_description :: "string option"
  cd_linkedTxnId :: "string option"
  cd_comments :: "comment_out list"

definition case_create_valid :: "case_create \<Rightarrow> bool" where
  "case_create_valid p =
     (1 \<le> length (cp_title p) \<and> cp_severity p \<in> set CASE_SEVERITIES \<and> cp_status p \<in> set CASE_STATUSES)"

definition case_patch_valid :: "case_patch \<Rightarrow> bool" where
  "case_patch_valid p =
     ((case cu_severity p of Some (Some v) \<Rightarrow> v \<in> set CASE_SEVERITIES | _ \<Rightarrow> True) \<and>
      (case cu_status p of Some (Some v) \<Rightarrow> v \<in> set CASE_STATUSES | _ \<Rightarrow> True))"

definition case_reference :: "nat \<Rightarrow> string" where
  "case_reference n = ''CASE-'' @ show_int (2000 + int n + 1)"

definition next_case_reference :: "string act" where
  "next_case_reference = query (\<lambda>s. case_reference (length (cases s)))"

definition to_case_row :: "case_row \<Rightarrow> case_out" where
  "to_case_row c =
     \<lparr>co_id = c_id c, co_reference = c_reference c, co_title = c_title c, co_severity = c_severity c,
      co_status = c_status c, co_owner = c_owner c, co_updated = c_updated_at c,
      co_estimatedImpact = c_estimated_impact c\<rparr>"

definition list_cases :: "string option \<Rightarrow> nat \<Rightarrow> nat \<Rightarrow> case_out list act" where
  "list_cases status limit offset =
     query (\<lambda>s.
       let rows = (if truthy status then filter (\<lambda>c. c_status c = status) (cases s) else cases s) in
       map to_case_row (page limit offset (order_desc c_updated_at rows)))"

definition to_comment :: "case_comment \<Rightarrow> comment_out" where
  "to_comment c = \<lparr>mo_id = cc_id c, mo_author = cc_author c, mo_body = cc_body c, mo_createdAt = cc_created_at c\<rparr>"

definition find_case :: "string \<Rightarrow> case_row act" where
  "find_case i =
     andthen (select_one (\<lambda>s. by_key c_id i (cases s))) (\<lambda>found.
     case found of None \<Rightarrow> raise (App NotFoundError ''Case not found.'' []) | Some c \<Rightarrow> ret c)"

definition get_case :: "string \<Rightarrow> case_detail act" where
  "get_case i =
     andthen (find_case i) (\<lambda>c.
     andthen (query (\<lambda>s. filter (\<lambda>m. cc_case_id m = c_id c) (case_comments s))) (\<lambda>comments.
     ret \<lparr>cd_row = to_case_row c, cd_description = c_description c, cd_linkedTxnId = c_linked_txn_id c,
          cd_comments = map to_comment (sort_key cc_created_at comments)\<rparr>))"

definition new_case :: "'t env \<Rightarrow> case_create \<Rightarrow> string \<Rightarrow> string \<Rightarrow> string \<Rightarrow> case_row" where
  "new_case E p owner_id reference i =
     \<lparr>c_id = i, c_reference = reference, c_title = Some (cp_title p),
      c_description = Some (cp_description p), c_severity = Some (cp_severity p),
      c_status = Some (cp_status p), c_owner = cp_owner p, c_owner_id = Some owner_id,
      c_linked_txn_id = cp_linkedTxnId p, c_estimated_impact = cp_estimatedImpact p,
      c_created_at = tx_now E, c_updated_at = tx_now E\<rparr>"

text \<open>The part of \<open>create_case\<close> after the reference was chosen.\<close>

definition insert_case :: "'t env \<Rightarrow> case_create \<Rightarrow> string \<Rightarrow> string \<Rightarrow> case_row act" where
  "insert_case E p owner_id reference =
     andthen (uuid4_str E) (\<lambda>i.
     andthen (modify (cases_update (insert_row (new_case E p owner_id reference i)))) (\<lambda>_.
     andthen (flush E) (\<lambda>_. ret (new_case E p owner_id reference i))))"

definition create_case :: "'t env \<Rightarrow> case_create \<Rightarrow> string \<Rightarrow> case_row act" where
  "create_case E p owner_id = andthen next_case_reference (insert_case E p owner_id)"

definition touch_case :: "'t env \<Rightarrow> case_row \<Rightarrow> case_row" where
  "touch_case E c = c\<lparr>c_updated_at := tx_now E\<rparr>"

definition set_case :: "case_patch \<Rightarrow> case_row \<Rightarrow> case_row" where
  "set_case p c =
     opt_set (cu_estimatedImpact p) (\<lambda>v. c_estimated_impact_update (\<lambda>_. v))
     (opt_set (cu_owner p) (\<lambda>v. c_owner_update (\<lambda>_. v))
     (opt_set (cu_status p) (\<lambda>v. c_status_update (\<lambda>_. v))
     (opt_set (cu_severity p) (\<lambda>v. c_severity_update (\<lambda>_. v))
     (opt_set (cu_description p) (\<lambda>v. c_description_update (\<lambda>_. v))
     (opt_set (cu_title p) (\<lambda>v. c_title_update (\<lambda>_. v)) c)))))"

definition update_case :: "'t env \<Rightarrow> string \<Rightarrow> case_patch \<Rightarrow> case_row act" where
  "update_case E i p =
     andthen (find_case i) (\<lambda>c.
     andthen (modify (cases_update (change_row c_id i (stamp (touch_case E) (set_case p))))) (\<lambda>_.
     andthen (flush E) (\<lambda>_. ret (stamp (touch_case E) (set_case p) c))))"

definition add_comment :: "'t env \<Rightarrow> string \<Rightarrow> string \<Rightarrow> string \<Rightarrow> comment_out act" where
  "add_comment E i body author =
     andthen (find_case i) (\<lambda>_.
     andthen (now_utc E) (\<lambda>now.
     andthen (uuid4_str E) (\<lambda>k.
     let m = \<lparr>cc_id = k, cc_case_id = i, cc_author = author, cc_body = body, cc_created_at = now\<rparr> in
     andthen (modify (case_comments_update (insert_row m))) (\<lambda>_.
     andthen (flush E) (\<lambda>_. ret (to_comment m))))))"

section \<open>Workbench\<close>

record saved_query_create =
  qc_name :: string
  qc_definition :: json

record saved_query_out =
  qo_id :: string
  qo_reference :: string
  qo_name :: string
  qo_owner :: "string option"
  qo_count :: int

record workbench_stats_out =
  wb_open :: nat
  wb_closedThisWeek :: nat
  wb_avgResolutionDays :: rat

definition to_query_row :: "saved_query \<Rightarrow> saved_query_out" where
  "to_query_row q =
     \<lparr>qo_id = q_id q, qo_reference = q_reference q, qo_name = q_name q, qo_owner = q_owner q,
      qo_count = q_last_count q\<rparr>"

definition list_saved_queries :: "saved_query_out list act" where
  "list_saved_queries = query (\<lambda>s. map to_query_row (order_desc q_created_at (saved_queries s)))"

definition query_reference :: "nat \<Rightarrow> string" where
  "query_reference n = ''Q-'' @ show_int (500 + int n + 1)"

definition create_saved_query :: "'t env \<Rightarrow> saved_query_create \<Rightarrow> string \<Rightarrow> saved_query act" where
  "create_saved_query E p owner =
     andthen (query (\<lambda>s. length (saved_queries s))) (\<lambda>n.
     andthen (uuid4_str E) (\<lambda>i.
     let q = \<lparr>q_id = i, q_reference = query_reference n, q_name = qc_name p, q_owner = Some owner,
          q_definition = qc_definition p, q_last_count = 0,
          q_created_at = tx_now E, q_updated_at = tx_now E\<rparr> in
     andthen (modify (saved_queries_update (insert_row q))) (\<lambda>_.
     andthen (flush E) (\<lambda>_. ret q))))"

definition week_usec :: int where
  "week_usec = 7 * 24 * 60 * usec_per_minute"

definition workbench_stats :: "'t env \<Rightarrow> workbench_stats_out act" where
  "workbench_stats E =
     andthen (query (\<lambda>s. length (filter (\<lambda>c. c_status c = Some ''Open'') (cases s)))) (\<lambda>open_count.
     andthen (now_utc E) (\<lambda>now.
     andthen (query (\<lambda>s. length (filter (\<lambda>c.
         c_status c \<in> {Some ''Closed'', Some ''Resolved''} \<and> now - week_usec \<le> c_updated_at c) (cases s)))) (\<lambda>closed.
     ret \<lparr>wb_open = open_count, wb_closedThisWeek = closed, wb_avgResolutionDays = dbl (12 / 5)\<rparr>)))"

section \<open>Numbering and silence\<close>

interpretation case_refs: numbering case_reference
  by unfold_locales (auto simp: case_reference_def dest: show_int_nat_inject [rotated 2])

interpretation query_refs: numbering query_reference
  by unfold_locales (auto simp: query_reference_def dest: show_int_nat_inject [rotated 2])

lemmas assurance_defs =
  summary_of_row_def recon_summary_def recon_records_def next_case_reference_def list_cases_def find_case_def
  get_case_def insert_case_def create_case_def update_case_def add_comment_def list_saved_queries_def
  create_saved_query_def workbench_stats_def

lemma silent_assurance [silent_intro]:
  "silent (summary_of_row r)" "silent (recon_summary E h)" "silent (recon_records E st n k)"
  "silent next_case_reference" "silent (list_cases st n k)" "silent (find_case i)" "silent (get_case i)"
  "silent (insert_case E p j ref)" "silent (create_case E p j)" "silent (update_case E i cp)"
  "silent (add_comment E i b a)" "silent list_saved_queries" "silent (create_saved_query E q o1)"
  "silent (workbench_stats E)"
  unfolding assurance_defs Let_def by (intro silent_intro)+

end
