(* ===== verification/Assurance_Props.thy ===== *)
theory Assurance_Props
  imports Assurance Demo Store_Lemmas "HOL-Library.Multiset"
begin

text \<open>
  Correctness of the assurance module: what reaches ClickHouse of a request, numbering of cases and
  its race, PATCH of a case, and the order of comments.
\<close>

section \<open>What reaches ClickHouse\<close>

text \<open>
  The database name spliced into every statement is read back by ClickHouse as that name, for
  every name, whatever follows it: no setting can break out of the quoted identifier.
\<close>

theorem ident_cannot_break_out:
  assumes "rest = [] \<or> hd rest \<noteq> CHR 0x60"
  shows "read_ident (ident st @ rest) = Some (clickhouse_database st, rest)"
  using read_quoted_replace [OF assms, of "clickhouse_database st"]
  by (simp add: read_ident_def ident_def quote_ident_def)

theorem ident_cannot_break_out_witness:
  "read_ident (ident (default_settings\<lparr>clickhouse_database := ''x'' @ [CHR 0x60] @ '' ; DROP''\<rparr>) @ ''.air_reconciliation'') =
   Some (''x'' @ [CHR 0x60] @ '' ; DROP'', ''.air_reconciliation'')"
  using ident_cannot_break_out [of "''.air_reconciliation''"
      "default_settings\<lparr>clickhouse_database := ''x'' @ [CHR 0x60] @ '' ; DROP''\<rparr>"]
  by simp

text \<open>
  The status filter of the reconciliation records never reaches the text of the statement: an
  unknown status answers no records without contacting ClickHouse, a known one in any case is bound
  as a parameter in upper case to one of two fixed clauses.
\<close>

theorem status_filter_safe:
  "case status_filter status of
     None \<Rightarrow> recon_records E status limit offset w = (Inr [], w)
   | Some (clause, params) \<Rightarrow>
       recon_records E status limit offset w =
         andthen (ch_query E (ReconRows (ident (cfg E)) clause limit offset) params)
           (\<lambda>rows. lift_res (records_of_rows rows)) w \<and>
       (if truthy status
        then clause = ''reconciliation_status = {status:String}'' \<and>
          (\<exists>v \<in> set VALID_STATUSES. params = [(''status'', v)] \<and> Some v = map_option str_upper status)
        else clause = ''1=1'' \<and> params = [])"
  by (auto simp: recon_records_def status_filter_def truthy_def ret_def split: option.splits if_splits)

section \<open>Cases\<close>

lemma new_case_fields [simp]:
  "c_id (new_case E p j ref i) = i" "c_reference (new_case E p j ref i) = ref"
  "c_status (new_case E p j ref i) = Some (cp_status p)"
  by (simp_all add: new_case_def)

lemma store_ok_insert_case:
  assumes "store_ok inet s" and "case_create_valid p" and "case_fits (new_case E p j ref i)"
    and "i \<notin> c_id ` set (cases s)" and "ref \<notin> c_reference ` set (cases s)"
  shows "store_ok inet (cases_update (insert_row (new_case E p j ref i)) s)"
proof -
  have "list_all (\<lambda>c. refers c_id (insert_row (new_case E p j ref i) (cases s)) (cc_case_id c)) (case_comments s)"
    using assms(1) by (auto simp: store_ok_def foreign_keys_ok_def list_all_iff)
  then show ?thesis
    using assms
    by (simp add: store_ok_def constraint_defs keys_unique_insert case_create_valid_def in_list_def
        new_case_def cong: option.case_cong)
qed

lemma create_case_runs:
  assumes "store_ok (inet_ok E) (committed w)" and "case_create_valid p"
    and "numbered case_reference c_reference (cases (committed w))"
    and "case_fits (new_case E p j (case_reference (length (cases (committed w)))) (uuid_dashed (uuid_hex E (draws w))))"
    and "uuid_dashed (uuid_hex E (draws w)) \<notin> c_id ` set (cases (committed w))"
  defines "c \<equiv> new_case E p j (case_reference (length (cases (committed w)))) (uuid_dashed (uuid_hex E (draws w)))"
  shows "get_session E (create_case E p j) w =
    (Inr c, w\<lparr>draws := Suc (draws w), pending := cases_update (insert_row c) (committed w),
       committed := cases_update (insert_row c) (committed w)\<rparr>)"
proof -
  have ok: "store_ok (inet_ok E) (cases_update (insert_row c) (committed w))"
    unfolding c_def using assms(1,2,4,5) case_refs.numbered_fresh [OF assms(3)] by (rule store_ok_insert_case)
  then have "create_case E p j (rollback w) =
      (Inr c, (rollback w)\<lparr>draws := Suc (draws w), pending := cases_update (insert_row c) (committed w)\<rparr>)"
    by (simp add: create_case_def next_case_reference_def insert_case_def prog flush_ok c_def)
  then show ?thesis
    using ok by (simp add: get_session_def commit_ok rollback_def)
qed

text \<open>
  Creating a case with a valid payload succeeds when the generated id is new, and gives it the
  next reference: with n cases numbered CASE-2001 to CASE-(2000+n), the new one is CASE-(2001+n),
  which no case has, and the numbering continues.
\<close>

theorem create_case_numbered:
  assumes "store_ok (inet_ok E) (committed w)" and "case_create_valid p"
    and "numbered case_reference c_reference (cases (committed w))"
    and "case_fits (new_case E p j (case_reference (length (cases (committed w)))) (uuid_dashed (uuid_hex E (draws w))))"
    and "uuid_dashed (uuid_hex E (draws w)) \<notin> c_id ` set (cases (committed w))"
  shows "\<exists>c w'. get_session E (create_case E p j) w = (Inr c, w') \<and>
    c_reference c = ''CASE-'' @ show_int (2001 + int (length (cases (committed w)))) \<and>
    c_reference c \<notin> c_reference ` set (cases (committed w)) \<and>
    cases (committed w') = cases (committed w) @ [c] \<and>
    numbered case_reference c_reference (cases (committed w'))"
  using create_case_runs [OF assms] case_refs.numbered_fresh [OF assms(3)]
    case_refs.numbered_insert [OF assms(3), of "new_case E p j (case_reference (length (cases (committed w))))
      (uuid_dashed (uuid_hex E (draws w)))"]
  by (simp add: insert_row_def) (simp add: case_reference_def)

definition demo_case :: case_create where
  "demo_case =
     \<lparr>cp_title = ''Roaming leakage'', cp_description = [], cp_severity = ''high'', cp_status = ''Open'',
      cp_owner = None, cp_linkedTxnId = None, cp_estimatedImpact = Some 1200\<rparr>"

lemma demo_case_valid [simp]: "case_create_valid demo_case"
  by (simp add: case_create_valid_def demo_case_def CASE_SEVERITIES_def CASE_STATUSES_def)

lemma demo_case_fits [simp]:
  "length ref \<le> 32 \<Longrightarrow> length i \<le> 36 \<Longrightarrow> case_fits (new_case demo_env demo_case ''u1'' ref i)"
  by (simp add: case_fits_def new_case_def demo_case_def fits_def fits_opt_def)

lemma demo_numbers [simp]:
  "case_reference 0 = ''CASE-2001''" "uuid_dashed ''id'' = ''id----''" "uuid_dashed ''idx'' = ''idx----''"
  by (simp_all add: case_reference_def show_int_def show_nat.simps uuid_dashed_def) code_simp

theorem create_case_numbered_witness:
  "\<exists>c w'. get_session demo_env (create_case demo_env demo_case ''u1'') demo_world = (Inr c, w') \<and>
     cases (committed w') = [c] \<and> numbered case_reference c_reference (cases (committed w'))"
  using create_case_numbered [of demo_env demo_world demo_case "''u1''"]
  by (simp add: numbered_def) blast

text \<open>
  C38: the reference is chosen by counting and nothing holds it until the insert: of two requests
  that count the same number of cases, the one that inserts second fails on the unique index and
  changes nothing. The failure is answered 409 only if the driver's class name contains "unique",
  and 422 otherwise.
\<close>

theorem case_reference_race:
  assumes "get_session E (create_case E p j) w = (Inr c, w1)"
    and "case_create_valid p'"
    and "case_fits (new_case E p' j' (case_reference (length (cases (committed w)))) (uuid_dashed (uuid_hex E (draws w1))))"
  shows "\<exists>w2. get_session E (insert_case E p' j' (case_reference (length (cases (committed w))))) w1 =
      (Inl (IntegrityError (dbapi_class E UniqueViolation)), w2) \<and> committed w2 = committed w1 \<and>
    rs_status (handle_exn (IntegrityError (dbapi_class E UniqueViolation))) =
      (if contains_sub (str_lower (dbapi_class E UniqueViolation)) ''unique'' \<or>
          contains_sub (str_lower (dbapi_class E UniqueViolation)) ''foreignkey'' then 409 else 422)"
proof -
  let ?ref = "case_reference (length (cases (committed w)))"
  let ?c = "new_case E p' j' ?ref (uuid_dashed (uuid_hex E (draws w1)))"
  from assms(1) obtain w0 where run: "create_case E p j (rollback w) = (Inr c, w0)"
    and ok: "store_ok (inet_ok E) (committed w1)" and w1: "committed w1 = pending w0"
    by (auto simp: get_session_runs)
  from run have c: "c \<in> set (cases (committed w1))" "c_reference c = ?ref"
    by (auto simp: create_case_def next_case_reference_def insert_case_def runs w1 insert_row_def)
  let ?s = "cases_update (insert_row ?c) (committed w1)"
  have "widths_ok (inet_ok E) ?s" "not_nulls_ok ?s" "checks_ok ?s"
    using ok assms(2,3)
    by (simp_all add: store_ok_def widths_ok_def not_nulls_ok_def checks_ok_def case_create_valid_def
        in_list_def new_case_def)
  moreover have "?ref \<in> c_reference ` set (cases (committed w1))"
    using c by (metis image_eqI)
  then have "\<not> uniques_ok ?s"
    by (simp add: uniques_ok_def keys_unique_insert)
  ultimately have v: "violation_of (inet_ok E) ?s = Some UniqueViolation"
    by (simp add: violation_of_def)
  have "get_session E (insert_case E p' j' ?ref) w1 =
      (Inl (IntegrityError (dbapi_class E UniqueViolation)), (rollback w1)\<lparr>draws := Suc (draws w1)\<rparr>)"
    using v by (simp add: get_session_def insert_case_def prog flush_def violation_exn_def rollback_def)
  then show ?thesis by (auto simp: integrity_answer_def Let_def)
qed


theorem case_reference_race_witness:
  "\<exists>c w1 w2. get_session demo_env (create_case demo_env demo_case ''u1'') demo_world = (Inr c, w1) \<and>
     get_session demo_env (insert_case demo_env demo_case ''u1'' ''CASE-2001'') w1 =
       (Inl (IntegrityError ''IntegrityError''), w2) \<and> committed w2 = committed w1"
proof -
  let ?c = "new_case demo_env demo_case ''u1'' ''CASE-2001'' ''id----''"
  obtain w1 where run: "get_session demo_env (create_case demo_env demo_case ''u1'') demo_world = (Inr ?c, w1)"
    and d: "draws w1 = 1"
    using create_case_runs [of demo_env demo_world demo_case "''u1''"] by (auto simp: numbered_def)
  have "case_fits (new_case demo_env demo_case ''u1'' (case_reference (length (cases (committed demo_world))))
      (uuid_dashed (uuid_hex demo_env (draws w1))))"
    by (simp add: d)
  from case_reference_race [OF run demo_case_valid this] run show ?thesis by auto
qed

section \<open>PATCH\<close>

lemma set_case_keys [simp]:
  "c_id (set_case p c) = c_id c" "c_reference (set_case p c) = c_reference c"
  "c_owner_id (set_case p c) = c_owner_id c" "c_linked_txn_id (set_case p c) = c_linked_txn_id c"
  "c_created_at (set_case p c) = c_created_at c"
  "c_title (set_case p c) = (case cu_title p of None \<Rightarrow> c_title c | Some v \<Rightarrow> v)"
  "c_description (set_case p c) = (case cu_description p of None \<Rightarrow> c_description c | Some v \<Rightarrow> v)"
  "c_severity (set_case p c) = (case cu_severity p of None \<Rightarrow> c_severity c | Some v \<Rightarrow> v)"
  "c_status (set_case p c) = (case cu_status p of None \<Rightarrow> c_status c | Some v \<Rightarrow> v)"
  "c_owner (set_case p c) = (case cu_owner p of None \<Rightarrow> c_owner c | Some v \<Rightarrow> v)"
  "c_estimated_impact (set_case p c) = (case cu_estimatedImpact p of None \<Rightarrow> c_estimated_impact c | Some v \<Rightarrow> v)"
  by (simp_all add: set_case_def opt_set_def split: option.split)

lemma touch_case_keys [simp]:
  "c_id (touch_case E c) = c_id c" "c_reference (touch_case E c) = c_reference c"
  "c_owner_id (touch_case E c) = c_owner_id c" "c_linked_txn_id (touch_case E c) = c_linked_txn_id c"
  "c_created_at (touch_case E c) = c_created_at c" "c_title (touch_case E c) = c_title c"
  "c_description (touch_case E c) = c_description c" "c_severity (touch_case E c) = c_severity c"
  "c_status (touch_case E c) = c_status c" "c_owner (touch_case E c) = c_owner c"
  "c_estimated_impact (touch_case E c) = c_estimated_impact c" "case_fits (touch_case E c) = case_fits c"
  by (simp_all add: touch_case_def case_fits_def)

lemma stamp_case_fields:
  "(\<And>x. g (touch_case E x) = g x) \<Longrightarrow> g (stamp (touch_case E) f c) = g (f c)"
  by (simp add: stamp_def)

lemma stamp_case_simps [simp]:
  "c_id (stamp (touch_case E) f c) = c_id (f c)" "c_reference (stamp (touch_case E) f c) = c_reference (f c)"
  "c_title (stamp (touch_case E) f c) = c_title (f c)" "c_status (stamp (touch_case E) f c) = c_status (f c)"
  "c_description (stamp (touch_case E) f c) = c_description (f c)"
  "c_severity (stamp (touch_case E) f c) = c_severity (f c)" "c_owner (stamp (touch_case E) f c) = c_owner (f c)"
  "c_owner_id (stamp (touch_case E) f c) = c_owner_id (f c)"
  "c_created_at (stamp (touch_case E) f c) = c_created_at (f c)"
  "c_linked_txn_id (stamp (touch_case E) f c) = c_linked_txn_id (f c)"
  "c_estimated_impact (stamp (touch_case E) f c) = c_estimated_impact (f c)"
  by (rule stamp_case_fields, simp)+

lemma update_case_runs:
  assumes "update_case E i p w = (Inr c', w')"
  obtains c where "by_key c_id i (cases (pending w)) = [c]" "c' = stamp (touch_case E) (set_case p) c"
    "w' = w\<lparr>pending := cases_update (change_row c_id i (stamp (touch_case E) (set_case p))) (pending w)\<rparr>"
    "store_ok (inet_ok E) (pending w')"
  using assms by (auto simp: update_case_def find_case_def runs split: option.splits)

text \<open>
  PATCH replaces exactly the fields present in the request. A request that nulls the title, the
  description, the severity or the status of an existing case never succeeds. When it succeeds, the
  other fields, the reference, the owner id and every other case are as before.
\<close>

theorem update_case_frame:
  assumes "get_session E (update_case E i p) w = (Inr c', w')"
  shows "\<exists>c. by_key c_id i (cases (committed w)) = [c] \<and> by_key c_id i (cases (committed w')) = [c'] \<and>
    None \<notin> {c_title c', c_description c', c_severity c', c_status c'} \<and>
    cu_title p \<noteq> Some None \<and> cu_description p \<noteq> Some None \<and>
    cu_severity p \<noteq> Some None \<and> cu_status p \<noteq> Some None \<and>
    c_title c' = (case cu_title p of None \<Rightarrow> c_title c | Some v \<Rightarrow> v) \<and>
    c_description c' = (case cu_description p of None \<Rightarrow> c_description c | Some v \<Rightarrow> v) \<and>
    c_severity c' = (case cu_severity p of None \<Rightarrow> c_severity c | Some v \<Rightarrow> v) \<and>
    c_status c' = (case cu_status p of None \<Rightarrow> c_status c | Some v \<Rightarrow> v) \<and>
    c_owner c' = (case cu_owner p of None \<Rightarrow> c_owner c | Some v \<Rightarrow> v) \<and>
    c_estimated_impact c' = (case cu_estimatedImpact p of None \<Rightarrow> c_estimated_impact c | Some v \<Rightarrow> v) \<and>
    c_reference c' = c_reference c \<and> c_owner_id c' = c_owner_id c \<and> c_created_at c' = c_created_at c \<and>
    (\<forall>k. k \<noteq> i \<longrightarrow> by_key c_id k (cases (committed w')) = by_key c_id k (cases (committed w)))"
proof -
  from assms obtain w1 where run: "update_case E i p (rollback w) = (Inr c', w1)"
    and w': "w' = w1\<lparr>committed := pending w1\<rparr>" by (auto simp: get_session_runs)
  let ?f = "stamp (touch_case E) (set_case p)"
  from run show ?thesis
  proof (rule update_case_runs)
    fix c
    assume c: "by_key c_id i (cases (pending (rollback w))) = [c]" and c': "c' = ?f c"
      and w1: "w1 = (rollback w)\<lparr>pending := cases_update (change_row c_id i ?f) (pending (rollback w))\<rparr>"
      and ok: "store_ok (inet_ok E) (pending w1)"
    have row: "by_key c_id i (cases (committed w')) = [c']"
      using c by (simp add: w' w1 c' by_key_change)
    then have "c' \<in> set (cases (committed w'))" by (auto dest: by_key_in)
    then have nn: "c_title c' \<noteq> None" "c_description c' \<noteq> None" "c_severity c' \<noteq> None" "c_status c' \<noteq> None"
      using ok by (auto simp: w' store_ok_def not_nulls_ok_def list_all_iff)
    have others: "\<forall>k. k \<noteq> i \<longrightarrow> by_key c_id k (cases (committed w')) = by_key c_id k (cases (committed w))"
      by (simp add: w' w1 by_key_change)
    show ?thesis
      by (rule exI [of _ c]) (use c row nn others in \<open>auto simp: c'\<close>)
  qed
qed


definition noted_world :: world where
  "noted_world = world_of (demo_store\<lparr>
     cases := [new_case demo_env demo_case ''u1'' ''CASE-2001'' ''c1''],
     case_comments :=
       [\<lparr>cc_id = ''m1'', cc_case_id = ''c1'', cc_author = ''a'', cc_body = ''late'', cc_created_at = 9\<rparr>,
        \<lparr>cc_id = ''m2'', cc_case_id = ''c1'', cc_author = ''b'', cc_body = ''early'', cc_created_at = 5\<rparr>]\<rparr>)"

definition close_patch :: case_patch where
  "close_patch = \<lparr>cu_title = None, cu_description = None, cu_severity = None, cu_status = Some (Some ''Closed''),
     cu_owner = Some None, cu_estimatedImpact = None\<rparr>"

theorem update_case_frame_witness:
  "\<exists>c' w'. get_session demo_env (update_case demo_env ''c1'' close_patch) noted_world = (Inr c', w') \<and>
     c_status c' = Some ''Closed'' \<and> c_title c' = Some ''Roaming leakage'' \<and>
     by_key c_id ''c1'' (cases (committed w')) = [c']"
proof -
  have "\<not> isl (fst (get_session demo_env (update_case demo_env ''c1'' close_patch) noted_world))"
    by code_simp
  then obtain c' w' where run: "get_session demo_env (update_case demo_env ''c1'' close_patch) noted_world = (Inr c', w')"
    by (metis isl_def prod.collapse sum.exhaust_sel)
  have old: "by_key c_id ''c1'' (cases (committed noted_world)) = [new_case demo_env demo_case ''u1'' ''CASE-2001'' ''c1'']"
    by (simp add: noted_world_def by_key_def)
  from update_case_frame [OF run] old run show ?thesis
    by (auto simp: close_patch_def new_case_def demo_case_def)
qed

text \<open>
  The detail of a case lists exactly the comments of that case, oldest first.
\<close>

theorem get_case_comments:
  assumes "get_case i w = (Inr d, w')"
  shows "sorted (map mo_createdAt (cd_comments d)) \<and>
    mset (cd_comments d) = image_mset to_comment (filter_mset (\<lambda>m. cc_case_id m = i) (mset (case_comments (pending w)))) \<and>
    co_id (cd_row d) = i \<and> w' = w"
proof -
  from assms obtain c where c: "by_key c_id i (cases (pending w)) = [c]" and w': "w' = w"
    and d: "cd_comments d = map to_comment (sort_key cc_created_at (filter (\<lambda>m. cc_case_id m = c_id c) (case_comments (pending w))))"
    "cd_row d = to_case_row c"
    by (auto simp: get_case_def find_case_def runs split: option.splits)
  have i: "c_id c = i" using by_key_in [OF c] by simp
  have "mo_createdAt \<circ> to_comment = cc_created_at" by (simp add: fun_eq_iff to_comment_def)
  then show ?thesis using d i w' by (simp add: to_case_row_def mset_filter)
qed

theorem get_case_comments_witness:
  "\<exists>d w'. get_case ''c1'' noted_world = (Inr d, w') \<and> sorted (map mo_createdAt (cd_comments d)) \<and>
     map mo_body (cd_comments d) = [''early'', ''late'']"
proof -
  have "map_sum id (\<lambda>d. map mo_body (cd_comments d)) (fst (get_case ''c1'' noted_world)) = Inr [''early'', ''late'']"
    by code_simp
  then obtain d w' where run: "get_case ''c1'' noted_world = (Inr d, w')"
    and b: "map mo_body (cd_comments d) = [''early'', ''late'']"
    by (cases "get_case ''c1'' noted_world"; cases "fst (get_case ''c1'' noted_world)") auto
  from get_case_comments [OF run] have "sorted (map mo_createdAt (cd_comments d))" by simp
  with run b show ?thesis by (intro exI [of _ d] exI [of _ w']) simp
qed

end
