(* ===== verification/Reporting.thy ===== *)
theory Reporting
  imports Integrations Identity Numbering
begin

text \<open>
  Certified exports: \<open>app/modules/reporting/service.py\<close>, its schemas and the download route of
  \<open>router.py\<close>, and the Celery task that produces the file, \<open>app/workers/tasks.py\<close>.
\<close>

section \<open>Shapes and formatting\<close>

record report_row =
  ro_id :: string
  ro_name :: string
  ro_period :: "string option"
  ro_status :: string
  ro_size :: string

record report_create =
  rq_name :: string
  rq_reportType :: string
  rq_period :: "string option"
  rq_params :: json

definition report_create_valid :: "report_create \<Rightarrow> bool" where
  "report_create_valid p = (1 \<le> length (rq_name p))"

text \<open>The loop of \<open>format_bytes\<close>; dividing a double by 1024 is exact.\<close>

fun format_size :: "rat \<Rightarrow> string list \<Rightarrow> string" where
  "format_size sz [] = show_fixed 1 sz @ '' TB''"
| "format_size sz (unit # units) =
     (if sz < 1024 \<or> unit = ''TB'' then
        (if unit \<noteq> ''B'' then show_fixed 1 sz @ '' '' @ unit
         else show_int (trunc sz) @ '' '' @ unit)
      else format_size (sz / 1024) units)"

definition format_bytes :: "int option \<Rightarrow> string" where
  "format_bytes num =
     (case num of
        None \<Rightarrow> em_dash
      | Some n \<Rightarrow>
          if n = 0 then em_dash
          else format_size (dbl (of_int n)) [''B'', ''KB'', ''MB'', ''GB'', ''TB''])"

definition to_report_row :: "report \<Rightarrow> report_row" where
  "to_report_row r =
     \<lparr>ro_id = rp_reference r, ro_name = rp_name r, ro_period = rp_period r, ro_status = rp_status r,
      ro_size = format_bytes (rp_size_bytes r)\<rparr>"

section \<open>Service\<close>

definition list_reports :: "nat \<Rightarrow> nat \<Rightarrow> report_row list act" where
  "list_reports limit offset =
     query (\<lambda>s. map to_report_row (page limit offset (order_desc rp_created_at (reports s))))"

definition report_reference :: "nat \<Rightarrow> string" where
  "report_reference n = ''RPT-'' @ show_int (9900 + int n + 1)"

definition next_report_reference :: "string act" where
  "next_report_reference = query (\<lambda>s. report_reference (length (reports s)))"

definition new_report :: "'t env \<Rightarrow> report_create \<Rightarrow> string \<Rightarrow> string \<Rightarrow> string \<Rightarrow> report" where
  "new_report E p requested_by reference i =
     \<lparr>rp_id = i, rp_reference = reference, rp_name = rq_name p, rp_report_type = rq_reportType p,
      rp_period = rq_period p, rp_status = ''Queued'', rp_size_bytes = None, rp_file_path = None,
      rp_checksum_sha256 = None, rp_requested_by = Some requested_by, rp_params = rq_params p,
      rp_error = None, rp_completed_at = None, rp_created_at = tx_now E, rp_updated_at = tx_now E\<rparr>"

text \<open>A broker that cannot be reached is logged; the request goes on.\<close>

definition create_report :: "'t env \<Rightarrow> report_create \<Rightarrow> string \<Rightarrow> report act" where
  "create_report E p requested_by =
     andthen next_report_reference (\<lambda>reference.
     andthen (uuid4_str E) (\<lambda>i.
     andthen (modify (reports_update (insert_row (new_report E p requested_by reference i)))) (\<lambda>_.
     andthen (flush E) (\<lambda>_.
     andthen (if broker_up E then send_task i else ret ()) (\<lambda>_.
     ret (new_report E p requested_by reference i))))))"

definition get_report :: "string \<Rightarrow> report act" where
  "get_report reference =
     andthen (select_one (\<lambda>s. by_key rp_reference reference (reports s))) (\<lambda>found.
     case found of None \<Rightarrow> raise (App NotFoundError ''Report not found.'' []) | Some r \<Rightarrow> ret r)"

record file_response =
  fr_path :: string
  fr_media_type :: string
  fr_filename :: string
  fr_headers :: "(string \<times> string) list"

definition download_report :: "string \<Rightarrow> file_response act" where
  "download_report reference =
     andthen (get_report reference) (\<lambda>r.
     andthen (path_exists (case rp_file_path r of None \<Rightarrow> [] | Some p \<Rightarrow> p)) (\<lambda>file_exists.
     case rp_file_path r of
       None \<Rightarrow> raise (App NotFoundError ''Report file is not available yet.'' [])
     | Some p \<Rightarrow>
         if rp_status r \<noteq> ''Completed'' \<or> p = [] \<or> \<not> file_exists then
           raise (App NotFoundError ''Report file is not available yet.'' [])
         else
           ret \<lparr>fr_path = p, fr_media_type = ''text/csv'',
                fr_filename = rp_reference r @ ''_'' @ str_replace_char (CHR '' '') ''_'' (rp_name r) @ ''.csv'',
                fr_headers = (case rp_checksum_sha256 r of
                    Some c \<Rightarrow> if c \<noteq> [] then [(''X-Checksum-SHA256'', c)] else [] | None \<Rightarrow> [])\<rparr>))"

section \<open>The worker\<close>

definition RECON_COLUMNS :: "string list" where
  "RECON_COLUMNS =
     [''record_type'', ''raw_txn_id'', ''proc_txn_id'', ''raw_node_id'', ''raw_subscriber_num'', ''raw_tran_amt'',
      ''proc_tran_amt'', ''raw_acc_balance'', ''proc_acc_balance'', ''reconciliation_status'', ''created_time'']"

text \<open>\<open>csv.writer\<close>: minimal quoting, CR LF at the end of a line, an empty field for \<open>None\<close>.\<close>

definition csv_field :: "string \<Rightarrow> string" where
  "csv_field s =
     (if list_ex (\<lambda>c. c \<in> set [CHR '','', CHR 0x22, CHR 0x0D, CHR 0x0A]) s
      then [CHR 0x22] @ str_replace_char (CHR 0x22) [CHR 0x22, CHR 0x22] s @ [CHR 0x22] else s)"

fun csv_join :: "string list \<Rightarrow> string" where
  "csv_join [] = []"
| "csv_join [x] = x"
| "csv_join (x # y # ys) = x @ '','' @ csv_join (y # ys)"

definition csv_line :: "string list \<Rightarrow> string" where
  "csv_line xs =
     (if xs = [[]] then [CHR 0x22, CHR 0x22] else csv_join (map csv_field xs)) @ [CHR 0x0D, CHR 0x0A]"

definition csv_cell :: "upstream \<Rightarrow> cell \<Rightarrow> string" where
  "csv_cell U c = (if c = CNull then [] else str_cell U c)"

definition csv_text :: "upstream \<Rightarrow> cell list list \<Rightarrow> string list \<Rightarrow> string" where
  "csv_text U rows header = csv_line header @ concat (map (\<lambda>r. csv_line (map (csv_cell U) r)) rows)"

text \<open>\<open>iter(lambda: fh.read(n), b"")\<close>: the reads of a file until one gives nothing.\<close>

function read_chunks :: "nat \<Rightarrow> string \<Rightarrow> string list" where
  "read_chunks n s = (if take n s = [] then [] else take n s # read_chunks n (drop n s))"
  by pat_completeness auto
termination
  by (relation "measure (\<lambda>(n, s). length s)") auto

declare read_chunks.simps [simp del]

definition sha256 :: "upstream \<Rightarrow> string \<Rightarrow> string" where
  "sha256 U content = sha256_hex U (read_chunks 65536 content)"

text \<open>\<open>os.path.join(a, b)\<close>.\<close>

definition path_join :: "string \<Rightarrow> string \<Rightarrow> string" where
  "path_join a b =
     (if starts_with b ''/'' then b else if a = [] \<or> last a = CHR ''/'' then a @ b else a @ ''/'' @ b)"

text \<open>The task opens a client of its own; any failure of it or of the query gives no rows.\<close>

definition fetch_rows :: "'t env \<Rightarrow> cell list list act" where
  "fetch_rows E =
     catch
       (andthen ext_call (\<lambda>n.
        andthen (raise_if (ch_connect (services E) n)) (\<lambda>_.
        andthen ext_call (\<lambda>k.
        case ch_run (services E) k (ReportRows (quote_ident (clickhouse_database (cfg E))) RECON_COLUMNS) [] of
          Inl m \<Rightarrow> raise (driver_error m)
        | Inr r \<Rightarrow> ret (result_rows r)))))
       (\<lambda>e. ret [])"

definition touch_report :: "'t env \<Rightarrow> report \<Rightarrow> report" where
  "touch_report E r = r\<lparr>rp_updated_at := tx_now E\<rparr>"

definition change_report :: "'t env \<Rightarrow> string \<Rightarrow> (report \<Rightarrow> report) \<Rightarrow> unit act" where
  "change_report E i f = modify (reports_update (change_row rp_id i (stamp (touch_report E) f)))"

definition start_report :: "report \<Rightarrow> report" where
  "start_report r = r\<lparr>rp_status := ''Running''\<rparr>"

definition complete_report :: "'t env \<Rightarrow> string \<Rightarrow> string \<Rightarrow> int \<Rightarrow> report \<Rightarrow> report" where
  "complete_report E path content now r =
     r\<lparr>rp_file_path := Some path, rp_size_bytes := Some (int (length content)),
       rp_checksum_sha256 := Some (sha256 (services E) content), rp_status := ''Completed'',
       rp_completed_at := Some now, rp_error := None\<rparr>"

definition fail_report :: "string \<Rightarrow> report \<Rightarrow> report" where
  "fail_report m r = r\<lparr>rp_status := ''Failed'', rp_error := Some m\<rparr>"

definition out_path :: "settings \<Rightarrow> report \<Rightarrow> string" where
  "out_path st r = path_join (reports_dir st) (rp_reference r @ ''.csv'')"

definition produce_report :: "'t env \<Rightarrow> report \<Rightarrow> (string \<times> int) act" where
  "produce_report E r =
     andthen (change_report E (rp_id r) start_report) (\<lambda>_.
     andthen (commit E) (\<lambda>_.
     andthen (fetch_rows E) (\<lambda>rows.
     andthen (write_file E (out_path (cfg E) r) (csv_text (services E) rows RECON_COLUMNS)) (\<lambda>_.
     andthen (read_file (out_path (cfg E) r)) (\<lambda>content.
     andthen (now_utc E) (\<lambda>now.
     andthen (change_report E (rp_id r) (complete_report E (out_path (cfg E) r) content now)) (\<lambda>_.
     andthen (commit E) (\<lambda>_.
     ret (sha256 (services E) content, int (length content))))))))))"

text \<open>The \<open>except\<close> clause: roll back, mark the row failed if it is still there, raise again.\<close>

definition roll_back_act :: "unit act" where
  "roll_back_act w = (Inr (), rollback w)"

definition give_up :: "'t env \<Rightarrow> string \<Rightarrow> exn \<Rightarrow> 'a act" where
  "give_up E i e =
     andthen roll_back_act (\<lambda>_.
     andthen (query (\<lambda>s. by_key rp_id i (reports s))) (\<lambda>found.
     andthen (if found \<noteq> [] then
         andthen (change_report E i (fail_report (exn_text e))) (\<lambda>_. commit E)
       else ret ()) (\<lambda>_.
     raise e)))"

datatype report_outcome = ReportNotFound | ReportDone string int

definition generate_report :: "'t env \<Rightarrow> string \<Rightarrow> report_outcome act" where
  "generate_report E i w =
     (case catch
        (andthen roll_back_act (\<lambda>_.
         andthen (query (\<lambda>s. by_key rp_id i (reports s))) (\<lambda>found.
         case found of
           [] \<Rightarrow> ret ReportNotFound
         | r # rs \<Rightarrow> andthen (produce_report E r) (\<lambda>(checksum, n). ret (ReportDone checksum n)))))
        (give_up E i) w of
      (res, w') \<Rightarrow> (res, rollback w'))"

interpretation report_refs: numbering report_reference
  by unfold_locales (auto simp: report_reference_def dest: show_int_nat_inject [rotated 2])

lemmas reporting_defs =
  list_reports_def next_report_reference_def create_report_def get_report_def download_report_def

lemma silent_reporting [silent_intro]:
  "silent (list_reports n k)" "silent next_report_reference" "silent (create_report E p a)"
  "silent (get_report i)" "silent (download_report i)"
  unfolding reporting_defs by (intro silent_intro)+

end
