(* ===== verification/Reporting_Props.thy ===== *)
theory Reporting_Props
  imports Reporting Demo Store_Lemmas
begin

text \<open>
  Correctness of the certified exports: sizes as text, the outcomes of the worker, the race between
  enqueueing and committing a report, and what a download requires.
\<close>

section \<open>Sizes\<close>

lemma format_size_step:
  "sz < 1024 \<Longrightarrow> u \<noteq> ''B'' \<Longrightarrow> format_size sz (u # us) = show_fixed 1 sz @ '' '' @ u"
  "1024 \<le> sz \<Longrightarrow> u \<noteq> ''TB'' \<Longrightarrow> format_size sz (u # us) = format_size (sz / 1024) us"
  "format_size sz [''TB''] = show_fixed 1 sz @ '' TB''"
  by simp_all

text \<open>
  A size is shown in the largest unit of B, KB, MB, GB and TB in which it is at least 1, with
  one decimal (none for bytes); a missing or zero size is shown as a dash.
\<close>

theorem format_bytes_units:
  assumes "0 \<le> n" and "n < 2 ^ 53"
  shows "format_bytes (Some n) =
     (if n = 0 then em_dash
      else if n < 1024 then show_int n @ '' B''
      else if n < 1024 ^ 2 then show_fixed 1 (of_int n / 1024) @ '' KB''
      else if n < 1024 ^ 3 then show_fixed 1 (of_int n / 1024 ^ 2) @ '' MB''
      else if n < 1024 ^ 4 then show_fixed 1 (of_int n / 1024 ^ 3) @ '' GB''
      else show_fixed 1 (of_int n / 1024 ^ 4) @ '' TB'')"
proof -
  have d: "dbl (of_int n) = of_int n" using assms by (intro dbl_int) simp
  have le: "(of_int n :: rat) < of_int m \<longleftrightarrow> n < m" for m by simp
  show ?thesis
    using assms le [of 1024] le [of "1024 ^ 2"] le [of "1024 ^ 3"] le [of "1024 ^ 4"]
    by (simp add: format_bytes_def d trunc_def field_simps)
qed

theorem format_bytes_units_witness:
  "format_bytes (Some 1536) = ''1.5 KB'' \<and> format_bytes (Some 0) = em_dash"
proof -
  have "show_fixed 1 (1536 / 1024) = ''1.5''" by code_simp
  then show ?thesis using format_bytes_units [of 1536] format_bytes_units [of 0] by simp
qed

section \<open>Changing a report\<close>

definition report_edit :: "(report \<Rightarrow> report) \<Rightarrow> bool" where
  "report_edit f = (\<forall>r. rp_id (f r) = rp_id r \<and> rp_reference (f r) = rp_reference r)"

lemma report_edits [simp]:
  "report_edit start_report" "report_edit (complete_report E p c now)" "report_edit (fail_report m)"
  by (simp_all add: report_edit_def start_report_def complete_report_def fail_report_def)

lemma touch_report_fields [simp]:
  "rp_id (touch_report E r) = rp_id r" "rp_reference (touch_report E r) = rp_reference r"
  "report_fits (touch_report E r) = report_fits r" "rp_status (touch_report E r) = rp_status r"
  "rp_file_path (touch_report E r) = rp_file_path r" "rp_size_bytes (touch_report E r) = rp_size_bytes r"
  "rp_checksum_sha256 (touch_report E r) = rp_checksum_sha256 r" "rp_error (touch_report E r) = rp_error r"
  by (simp_all add: touch_report_def report_fits_def)

lemma stamp_report_fields [simp]:
  "rp_id (stamp (touch_report E) f r) = rp_id (f r)" "rp_reference (stamp (touch_report E) f r) = rp_reference (f r)"
  "report_fits (stamp (touch_report E) f r) = report_fits (f r)"
  "rp_status (stamp (touch_report E) f r) = rp_status (f r)"
  "rp_file_path (stamp (touch_report E) f r) = rp_file_path (f r)"
  "rp_size_bytes (stamp (touch_report E) f r) = rp_size_bytes (f r)"
  "rp_checksum_sha256 (stamp (touch_report E) f r) = rp_checksum_sha256 (f r)"
  "rp_error (stamp (touch_report E) f r) = rp_error (f r)"
  by (simp_all add: stamp_def)

lemma store_ok_reports:
  assumes "store_ok inet s" and "report_edit f"
    and "\<And>r. r \<in> set (reports s) \<Longrightarrow> rp_id r = i \<Longrightarrow> report_fits r \<Longrightarrow> report_fits (f r)"
  shows "store_ok inet (reports_update (change_row rp_id i (stamp (touch_report E) f)) s)"
proof -
  have "list_all report_fits (change_row rp_id i (stamp (touch_report E) f) (reports s))"
    using assms by (intro list_all_change_row) (auto simp: store_ok_def widths_ok_def)
  then show ?thesis
    using assms
    by (simp add: store_ok_def constraint_defs report_edit_def keys_unique_change cong: option.case_cong)
qed

lemma report_row_changed:
  "by_key rp_id i (reports s) = [r] \<Longrightarrow> report_edit f \<Longrightarrow>
   by_key rp_id i (reports (reports_update (change_row rp_id i (stamp (touch_report E) f)) s)) =
     [stamp (touch_report E) f r]"
  by (rule report_tab.select_after_change) (simp_all add: report_edit_def)

lemma report_fits_status:
  "report_fits r \<Longrightarrow> report_fits (start_report r)" "report_fits r \<Longrightarrow> report_fits (fail_report m r)"
  by (simp_all add: report_fits_def start_report_def fail_report_def fits_def)

section \<open>The worker\<close>

lemma fetch_rows_total: "\<exists>rows n. fetch_rows E w = (Inr rows, w\<lparr>ext_calls := n\<rparr>)"
  by (auto simp: fetch_rows_def prog raise_if_def split: option.split sum.split)


definition with_report :: "'t env \<Rightarrow> string \<Rightarrow> (report \<Rightarrow> report) \<Rightarrow> store \<Rightarrow> store" where
  "with_report E i f s = reports_update (change_row rp_id i (stamp (touch_report E) f)) s"

lemma with_report:
  assumes "store_ok inet s" and "by_key rp_id i (reports s) = [r]" and "report_edit f"
  shows "by_key rp_id i (reports (with_report E i f s)) = [stamp (touch_report E) f r]"
    and "report_fits (f r) \<Longrightarrow> store_ok inet (with_report E i f s)"
proof -
  show "by_key rp_id i (reports (with_report E i f s)) = [stamp (touch_report E) f r]"
    using report_row_changed [OF assms(2,3)] by (simp add: with_report_def)
  have "x = r" if "x \<in> set (reports s)" "rp_id x = i" for x
    using that assms(2) in_by_key [of x rp_id i "reports s"] by simp
  then show "report_fits (f r) \<Longrightarrow> store_ok inet (with_report E i f s)"
    unfolding with_report_def by (intro store_ok_reports assms) blast
qed

lemma report_row_fits: "store_ok inet s \<Longrightarrow> by_key rp_id i (reports s) = [r] \<Longrightarrow> report_fits r"
  using by_key_in [of rp_id i "reports s" r] by (auto simp: store_ok_def widths_ok_def list_all_iff)

lemma started:
  assumes "store_ok inet s" and "by_key rp_id i (reports s) = [r]"
  shows "store_ok inet (with_report E i start_report s)"
    and "by_key rp_id i (reports (with_report E i start_report s)) = [stamp (touch_report E) start_report r]"
  using with_report(2) [OF assms report_edits(1) report_fits_status(1) [OF report_row_fits [OF assms]]]
    with_report(1) [OF assms report_edits(1)]
  by auto

lemma give_up_runs:
  assumes "store_ok (inet_ok E) (committed w)" and "by_key rp_id i (reports (committed w)) = [r]"
  shows "give_up E i e w =
    (Inl e, w\<lparr>pending := with_report E i (fail_report (exn_text e)) (committed w),
       committed := with_report E i (fail_report (exn_text e)) (committed w)\<rparr>)"
proof -
  have "store_ok (inet_ok E) (with_report E i (fail_report (exn_text e)) (committed w))"
    using assms report_row_fits [OF assms] by (intro with_report) (auto intro: report_fits_status)
  then show ?thesis
    using assms by (simp add: give_up_def roll_back_act_def change_report_def prog with_report_def commit_ok
        rollback_def)
qed

lemma produce_report_cases:
  assumes ok: "store_ok (inet_ok E) (pending w)" and r: "by_key rp_id (rp_id r) (reports (pending w)) = [r]"
  defines "s1 \<equiv> with_report E (rp_id r) start_report (pending w)"
  shows "(\<exists>e w'. produce_report E r w = (Inl e, w') \<and> committed w' = s1) \<or>
    (\<exists>content now w'. produce_report E r w = (Inr (sha256 (services E) content, int (length content)), w') \<and>
       files w' (out_path (cfg E) r) = Some content \<and> pending w' = committed w' \<and>
       committed w' = with_report E (rp_id r) (complete_report E (out_path (cfg E) r) content now) s1 \<and>
       store_ok (inet_ok E) (committed w'))"
proof -
  let ?p = "out_path (cfg E) r"
  have ok1: "store_ok (inet_ok E) s1"
    unfolding s1_def using ok r report_row_fits [OF ok r] by (intro with_report) (auto intro: report_fits_status)
  let ?w1 = "w\<lparr>pending := s1, committed := s1\<rparr>"
  obtain rows n where rows: "fetch_rows E ?w1 = (Inr rows, ?w1\<lparr>ext_calls := n\<rparr>)"
    using fetch_rows_total by blast
  let ?w2 = "?w1\<lparr>ext_calls := n\<rparr>" and ?c = "csv_text (services E) rows RECON_COLUMNS"
  have start: "produce_report E r w =
      andthen (write_file E ?p ?c) (\<lambda>_.
      andthen (read_file ?p) (\<lambda>content.
      andthen (now_utc E) (\<lambda>now.
      andthen (change_report E (rp_id r) (complete_report E ?p content now)) (\<lambda>_.
      andthen (commit E) (\<lambda>_.
      ret (sha256 (services E) content, int (length content))))))) ?w2"
    using ok1 rows
    by (simp add: produce_report_def andthen_def change_report_def modify_def s1_def with_report_def commit_ok)
  show ?thesis
  proof (cases "fs_write (services E) n ?p ?c")
    case (Some x)
    obtain m l where "x = (m, l)" by (cases x)
    with Some start show ?thesis by (simp add: prog)
  next
    case None
    let ?s2 = "with_report E (rp_id r) (complete_report E ?p ?c (clock E (reads w))) s1"
    show ?thesis
    proof (cases "store_ok (inet_ok E) ?s2")
      case True
      with None start show ?thesis
        by (simp add: prog change_report_def commit_ok with_report_def [symmetric])
          (rule exI [of _ "clock E (reads w)"], rule refl)
    next
      case False
      then obtain v where "violation_of (inet_ok E) ?s2 = Some v"
        by (metis not_None_eq violation_None)
      with None start show ?thesis
        by (simp add: prog change_report_def with_report_def [symmetric] commit_def flush_def)
    qed
  qed
qed


lemma generate_report_cases:
  assumes "store_ok (inet_ok E) (committed w)" and r: "by_key rp_id i (reports (committed w)) = [r]"
  defines "s1 \<equiv> with_report E i start_report (committed w)"
  shows "(\<exists>e w'. generate_report E i w = (Inl e, w') \<and>
       committed w' = with_report E i (fail_report (exn_text e)) s1) \<or>
    (\<exists>content now w'. generate_report E i w =
         (Inr (ReportDone (sha256 (services E) content) (int (length content))), w') \<and>
       files w' (out_path (cfg E) r) = Some content \<and>
       committed w' = with_report E i (complete_report E (out_path (cfg E) r) content now) s1)"
proof -
  have id: "rp_id r = i" using by_key_in [OF r] by simp
  have found: "generate_report E i w =
      (case catch (andthen (produce_report E r) (\<lambda>(checksum, n). ret (ReportDone checksum n))) (give_up E i) (rollback w) of
         (res, w') \<Rightarrow> (res, rollback w'))"
    using r by (simp add: generate_report_def roll_back_act_def catch_def andthen_def query_def)
  have ok1: "store_ok (inet_ok E) s1" and row1: "by_key rp_id i (reports s1) = [stamp (touch_report E) start_report r]"
    unfolding s1_def by (fact started [OF assms(1) r])+
  from produce_report_cases [of E "rollback w" r] assms(1) r id
  consider (failed) e w' where "produce_report E r (rollback w) = (Inl e, w')" "committed w' = s1"
    | (completed) content now w' where
        "produce_report E r (rollback w) = (Inr (sha256 (services E) content, int (length content)), w')"
        "files w' (out_path (cfg E) r) = Some content"
        "committed w' = with_report E i (complete_report E (out_path (cfg E) r) content now) s1"
    unfolding s1_def by auto
  then show ?thesis
  proof cases
    case failed
    let ?s = "with_report E i (fail_report (exn_text e)) s1"
    have "(give_up E i e :: report_outcome act) w' = (Inl e, w'\<lparr>pending := ?s, committed := ?s\<rparr>)"
      using give_up_runs [of E w' i _ e, where 'b = report_outcome] failed(2) ok1 row1 by simp
    with failed(1) have "generate_report E i w = (Inl e, w'\<lparr>pending := ?s, committed := ?s\<rparr>)"
      by (simp add: found catch_def andthen_def rollback_def)
    then show ?thesis by simp
  next
    case completed
    then have "generate_report E i w =
        (Inr (ReportDone (sha256 (services E) content) (int (length content))), rollback w')"
      by (simp add: found catch_def andthen_def ret_def)
    with completed show ?thesis
      by (intro disjI2 exI [of _ content] exI [of _ now] exI [of _ "rollback w'"]) simp
  qed
qed

text \<open>
  C31: running the task for an existing report always ends in one of the two final states, never in
  Running: either the report is Completed, without an error, and its path, size and checksum are
  those of the file on disk, or the task raises and the report is Failed with the text of the
  exception. The constraints hold in the committed store.
\<close>

theorem worker_outcome:
  assumes "store_ok (inet_ok E) (committed w)" and "by_key rp_id i (reports (committed w)) = [r]"
  shows "\<exists>res w' r'. generate_report E i w = (res, w') \<and>
    by_key rp_id i (reports (committed w')) = [r'] \<and> rp_reference r' = rp_reference r \<and>
    (case res of
       Inl e \<Rightarrow> rp_status r' = ''Failed'' \<and> rp_error r' = Some (exn_text e)
     | Inr out \<Rightarrow> rp_status r' = ''Completed'' \<and> rp_error r' = None \<and>
         (\<exists>content. files w' (out_path (cfg E) r) = Some content \<and>
            rp_file_path r' = Some (out_path (cfg E) r) \<and>
            rp_size_bytes r' = Some (int (length content)) \<and>
            rp_checksum_sha256 r' = Some (sha256 (services E) content) \<and>
            out = ReportDone (sha256 (services E) content) (int (length content))))"
proof -
  let ?r1 = "stamp (touch_report E) start_report r"
  note step = with_report(1) [OF started [OF assms]]
  from generate_report_cases [OF assms] show ?thesis
  proof (elim disjE exE conjE)
    fix e w'
    assume "generate_report E i w = (Inl e, w')"
      "committed w' = with_report E i (fail_report (exn_text e)) (with_report E i start_report (committed w))"
    with step [of "fail_report (exn_text e)" E] show ?thesis
      by (intro exI [of _ "Inl e"] exI [of _ w']
          exI [of _ "stamp (touch_report E) (fail_report (exn_text e)) (stamp (touch_report E) start_report r)"])
         (simp add: fail_report_def start_report_def)
  next
    fix content now w'
    assume "generate_report E i w = (Inr (ReportDone (sha256 (services E) content) (int (length content))), w')"
      "files w' (out_path (cfg E) r) = Some content"
      "committed w' = with_report E i (complete_report E (out_path (cfg E) r) content now)
        (with_report E i start_report (committed w))"
    with step [of "complete_report E (out_path (cfg E) r) content now" E] show ?thesis
      by (intro exI [of _ "Inr (ReportDone (sha256 (services E) content) (int (length content)))"] exI [of _ w']
          exI [of _ "stamp (touch_report E) (complete_report E (out_path (cfg E) r) content now)
            (stamp (touch_report E) start_report r)"])
         (simp add: complete_report_def start_report_def)
  qed
qed

definition demo_report :: report where
  "demo_report = new_report demo_env \<lparr>rq_name = ''June'', rq_reportType = ''reconciliation'', rq_period = None,
     rq_params = JObj []\<rparr> ''admin@radonaix.io'' ''RPT-9901'' ''r1''"

definition report_world :: world where
  "report_world = world_of (demo_store\<lparr>reports := [demo_report]\<rparr>)"

lemma report_world_simps [simp]:
  "committed report_world = demo_store\<lparr>reports := [demo_report]\<rparr>" "files report_world = (\<lambda>p. None)"
  by (simp_all add: report_world_def world_of_def)

lemma report_world_ok [simp]: "store_ok inet (demo_store\<lparr>reports := [demo_report]\<rparr>)"
proof -
  have "store_ok inet demo_store" by simp
  then show ?thesis
    by (simp add: store_ok_def constraint_defs keys_unique_def demo_report_def new_report_def
        report_fits_def fits_def fits_opt_def cong: option.case_cong)
qed

theorem worker_outcome_witness:
  "\<exists>res w' r'. generate_report demo_env ''r1'' report_world = (res, w') \<and>
     by_key rp_id ''r1'' (reports (committed w')) = [r'] \<and> rp_status r' \<in> {''Completed'', ''Failed''}"
proof -
  have "by_key rp_id ''r1'' (reports (committed report_world)) = [demo_report]"
    by (simp add: by_key_def demo_report_def new_report_def)
  from worker_outcome [OF _ this, of demo_env] obtain res w' r' where
    run: "generate_report demo_env ''r1'' report_world = (res, w')"
    "by_key rp_id ''r1'' (reports (committed w')) = [r']"
    and st: "case res of Inl e \<Rightarrow> rp_status r' = ''Failed'' | Inr out \<Rightarrow> rp_status r' = ''Completed''"
    by (fastforce split: sum.splits)
  from st have "rp_status r' \<in> {''Completed'', ''Failed''}" by (cases res) auto
  with run show ?thesis by blast
qed


lemma store_ok_insert_report:
  assumes "store_ok inet s" and "report_fits r"
    and "rp_id r \<notin> rp_id ` set (reports s)" and "rp_reference r \<notin> rp_reference ` set (reports s)"
  shows "store_ok inet (reports_update (insert_row r) s)"
  using assms by (simp add: store_ok_def constraint_defs keys_unique_insert cong: option.case_cong)

lemma create_report_runs:
  fixes w :: world
  defines "r \<equiv> \<lambda>E p a w. new_report E p a (report_reference (length (reports (pending w)))) (uuid_dashed (uuid_hex E (draws w)))"
  assumes "store_ok (inet_ok E) (reports_update (insert_row (r E p a w)) (pending w))"
  shows "create_report E p a w = (Inr (r E p a w),
    w\<lparr>draws := Suc (draws w), pending := reports_update (insert_row (r E p a w)) (pending w),
      tasks := tasks w @ (if broker_up E then [rp_id (r E p a w)] else [])\<rparr>)"
  using assms by (simp add: create_report_def next_report_reference_def prog flush_ok r_def new_report_def)

lemma dashed_id: "uuid_dashed ''id'' = ''id----''"
  by code_simp


definition demo_request :: report_create where
  "demo_request = \<lparr>rq_name = ''June'', rq_reportType = ''reconciliation'', rq_period = None, rq_params = JObj []\<rparr>"


section \<open>Download\<close>

text \<open>
  A download is served exactly for a Completed report whose recorded file exists, from that
  path, with the checksum header when a checksum is recorded; any other report answers 404, and so
  does an unknown reference. Nothing changes.
\<close>

theorem download_guard:
  assumes "store_ok inet (pending w)"
  shows "case by_key rp_reference reference (reports (pending w)) of
      r # rs \<Rightarrow>
        (case rp_file_path r of
           Some p \<Rightarrow>
             if rp_status r = ''Completed'' \<and> p \<noteq> [] \<and> p \<in> dom (files w)
             then \<exists>f. download_report reference w = (Inr f, w) \<and> fr_path f = p \<and> fr_media_type f = ''text/csv'' \<and>
               (case rp_checksum_sha256 r of Some c \<Rightarrow> c = [] \<or> fr_headers f = [(''X-Checksum-SHA256'', c)]
                | None \<Rightarrow> fr_headers f = [])
             else \<exists>m. download_report reference w = (Inl (App NotFoundError m []), w)
         | None \<Rightarrow> \<exists>m. download_report reference w = (Inl (App NotFoundError m []), w))
    | [] \<Rightarrow> \<exists>m. download_report reference w = (Inl (App NotFoundError m []), w)"
proof -
  have u: "keys_unique rp_reference (reports (pending w))"
    using assms by (simp add: store_ok_def uniques_ok_def)
  then show ?thesis
  proof (cases rule: by_key_cases [where k = reference])
    case absent
    then show ?thesis by (simp add: download_report_def get_report_def prog)
  next
    case (present r)
    then show ?thesis
      by (auto simp: download_report_def get_report_def prog path_exists_def split: option.splits)
  qed
qed

theorem download_guard_witness:
  "\<exists>m. download_report ''RPT-9901'' report_world = (Inl (App NotFoundError m []), report_world)"
proof -
  have "by_key rp_reference ''RPT-9901'' (reports (pending report_world)) = [demo_report]"
    "rp_file_path demo_report = None"
    by (simp_all add: by_key_def demo_report_def new_report_def report_world_def)
  then show ?thesis
    using download_guard [of "\<lambda>s. True" report_world "''RPT-9901''"] by (simp add: report_world_def)
qed

end
