(* ===== verification/Meta.thy ===== *)
theory Meta
  imports Assurance Demo
begin

text \<open>Health, readiness and the headline figures: \<open>app/modules/meta/router.py\<close>.\<close>

record health_out =
  he_status :: string
  he_version :: string
  he_environment :: environment_name

record readiness_out =
  rd_ready :: bool
  rd_checks :: "(string \<times> bool) list"

record dashboard_kpis_out =
  dk_assuredRevenue :: rat
  dk_matchRate :: rat
  dk_openLeakageRisk :: cell
  dk_criticalAlerts :: int

text \<open>\<open>app.__version__\<close>.\<close>

definition app_version :: string where
  "app_version = ''0.1.0''"

definition health :: "'t env \<Rightarrow> health_out" where
  "health E = \<lparr>he_status = ''ok'', he_version = app_version, he_environment = environment (cfg E)\<rparr>"

definition ping_app_db :: "'t env \<Rightarrow> bool act" where
  "ping_app_db E = andthen ext_call (\<lambda>n. ret (app_db_ping (services E) n = None))"

definition readiness :: "'t env \<Rightarrow> readiness_out act" where
  "readiness E =
     andthen (ping_app_db E) (\<lambda>db.
     andthen (ch_ping E) (\<lambda>ch.
     andthen (pg_ping E) (\<lambda>pg.
     andthen (af_ping E) (\<lambda>af.
     ret \<lparr>rd_ready = db,
          rd_checks = [(''app_db'', db), (''clickhouse'', ch), (''ra_postgres'', pg), (''airflow'', af)]\<rparr>))))"

definition dashboard_of :: "recon_summary_out \<Rightarrow> dashboard_kpis_out" where
  "dashboard_of s =
     (let matched_amount = rs_total s - rs_amountMismatch s - rs_rawOnly s - rs_procOnly s in
      \<lparr>dk_assuredRevenue = py_round 2 (dbl (of_int (max matched_amount 0))),
       dk_matchRate = rs_matchRate s, dk_openLeakageRisk = rs_estimatedLeakage s,
       dk_criticalAlerts = rs_amountMismatch s + rs_rawOnly s\<rparr>)"

definition dashboard_kpis :: "'t env \<Rightarrow> dashboard_kpis_out act" where
  "dashboard_kpis E = andthen (recon_summary E 24) (\<lambda>s. ret (dashboard_of s))"

lemma silent_meta [silent_intro]: "silent (readiness E)" "silent (dashboard_kpis E)"
  unfolding readiness_def ping_app_db_def dashboard_kpis_def by (intro silent_intro)+

section \<open>Properties\<close>

text \<open>
  Readiness depends on the application database alone: whatever the three integrations do
  (short of httpx raising something that is not an \<open>HTTPError\<close>, or the closing of a broken
  ClickHouse client failing), the probe answers with the four checks in order, and says ready
  exactly when the database answers. A disabled integration is reported as down.
\<close>

theorem readiness_is_the_database:
  assumes "closes_cleanly E" and "\<forall>n m. af_health (services E) n \<noteq> OtherHttpExn m"
  shows "\<exists>r w' c p a. readiness E w = (Inr r, w') \<and>
    rd_ready r = (app_db_ping (services E) (ext_calls w) = None) \<and>
    rd_checks r = [(''app_db'', rd_ready r), (''clickhouse'', c), (''ra_postgres'', p), (''airflow'', a)] \<and>
    (c \<longrightarrow> clickhouse_enabled (cfg E)) \<and> (p \<longrightarrow> ra_pg_enabled (cfg E)) \<and> (a \<longrightarrow> airflow_enabled (cfg E)) \<and>
    committed w' = committed w"
proof -
  let ?w1 = "w\<lparr>ext_calls := Suc (ext_calls w)\<rparr>"
  obtain c w2 where ch: "ch_ping E ?w1 = (Inr c, w2)" "c \<longrightarrow> clickhouse_enabled (cfg E)"
    using ch_ping_answers [OF assms(1), of ?w1] by (auto split: if_splits)
  obtain p w3 where pg: "pg_ping E w2 = (Inr p, w3)" "p \<longrightarrow> ra_pg_enabled (cfg E)"
    using pg_ping_answers [of E w2] by (auto split: if_splits)
  obtain a w4 where af: "af_ping E w3 = (Inr a, w4)" "a \<longrightarrow> airflow_enabled (cfg E)"
    using af_ping_answers [OF assms(2), of w3] by (auto split: if_splits)
  have run: "readiness E w = (Inr \<lparr>rd_ready = (app_db_ping (services E) (ext_calls w) = None),
      rd_checks = [(''app_db'', app_db_ping (services E) (ext_calls w) = None), (''clickhouse'', c),
        (''ra_postgres'', p), (''airflow'', a)]\<rparr>, w4)"
    using ch(1) pg(1) af(1) by (simp add: readiness_def ping_app_db_def ext_call_def andthen_def ret_def)
  have "committed (snd (readiness E w)) = committed w"
    using silent_meta(1) [of E] by (simp add: silent_def)
  with run ch(2) pg(2) af(2) show ?thesis by simp
qed


text \<open>
  The dashboard is computed from the 24-hour reconciliation summary: with ClickHouse disabled or
  unreachable it is the figures of an empty day (no revenue, a match rate of 100, no risk and no
  alerts), never a 503, and for a summary whose classes add up the assured revenue counts the
  matched records.
\<close>

theorem dashboard_figures:
  "(if clickhouse_enabled (cfg E) then True
    else dashboard_kpis E w = (Inr \<lparr>dk_assuredRevenue = 0, dk_matchRate = 100, dk_openLeakageRisk = CFloat 0,
      dk_criticalAlerts = 0\<rparr>, w)) \<and>
   (if rs_total s = rs_matched s + rs_amountMismatch s + rs_rawOnly s + rs_procOnly s \<and>
       0 \<le> rs_matched s \<and> rs_matched s * 100 < 2 ^ 53
    then dk_assuredRevenue (dashboard_of s) = of_int (rs_matched s) \<and>
      dk_criticalAlerts (dashboard_of s) = rs_amountMismatch s + rs_rawOnly s
    else True)"
proof -
  have zero: "py_round 2 0 = 0" "dbl 0 = 0" by (simp_all add: py_round_def rnd_even_def dbl_def)
  have off: "recon_summary E 24 w = (Inr fallback_summary, w)" if "\<not> clickhouse_enabled (cfg E)"
    by (simp add: recon_summary_def ret_def
        clickhouse.disabled_falls_back [OF that, where q = "(ReconTotals (ident (cfg E)) 24, [])", simplified])
  have round: "py_round 2 (of_int n) = of_int n" if "0 \<le> n" "n * 100 < 2 ^ 53" for n
  proof -
    have "(of_int n :: rat) * 10 ^ 2 = of_int (n * 100)" by simp
    then have "rnd_even (of_int n * 10 ^ 2) = n * 100" by (simp only: rnd_even_int)
    moreover have "dbl (of_int n) = of_int n" using that by (intro dbl_int) simp
    ultimately show ?thesis by (simp add: py_round_def)
  qed
  show ?thesis
    using round [of "rs_matched s"] off zero dbl_int [of "rs_matched s"]
    by (auto simp: dashboard_kpis_def andthen_def ret_def dashboard_of_def fallback_summary_def Let_def)
qed

definition quiet_env :: "'t env \<Rightarrow> 't env" where
  "quiet_env E = E\<lparr>services := (services E)\<lparr>ch_close := (\<lambda>n. None), af_health := (\<lambda>n. HttpResponse 200 True),
     app_db_ping := (\<lambda>n. Some ''down'')\<rparr>\<rparr>"

theorem readiness_is_the_database_witness:
  "\<exists>r w'. readiness (quiet_env demo_env) demo_world = (Inr r, w') \<and> \<not> rd_ready r"
proof -
  have "closes_cleanly (quiet_env demo_env)" "\<forall>n m. af_health (services (quiet_env demo_env)) n \<noteq> OtherHttpExn m"
    by (simp_all add: closes_cleanly_def quiet_env_def)
  from readiness_is_the_database [OF this, of demo_world] show ?thesis
    by (auto simp: quiet_env_def)
qed

end
