(* ===== verification/Middleware.thy ===== *)
theory Middleware
  imports Errors
begin

text \<open>
  The request context middleware, \<open>app/core/middleware.py\<close>, with the context variables of
  \<open>app/core/logging.py\<close>: it binds the request id, the client address and the user agent for the
  duration of one request, counts it and restores the variables on every path.
\<close>

record http_request =
  h_method :: string
  h_path :: string
  h_route :: "string option"
  h_headers :: "string \<rightharpoonup> string"
  h_client :: "string option"

record ctx_vars =
  request_id_ctx :: "string option"
  client_ip_ctx :: "string option"
  user_agent_ctx :: "string option"

definition empty_context :: ctx_vars where
  "empty_context = \<lparr>request_id_ctx = None, client_ip_ctx = None, user_agent_ctx = None\<rparr>"

text \<open>
  The process: the context variables, the two metrics, the lines the middleware has logged and the
  rest of the application.
\<close>

record 's process =
  ctx :: ctx_vars
  request_count :: "(string \<times> string \<times> string) list"
  request_latency :: "(string \<times> string) list"
  log_lines :: "json dict list"
  app_state :: 's

definition client_ip :: "http_request \<Rightarrow> string option" where
  "client_ip r =
     (if truthy (h_headers r ''x-forwarded-for'')
      then Some (str_strip (hd (split_on (CHR '','') (the (h_headers r ''x-forwarded-for'')))))
      else h_client r)"

definition path_label :: "http_request \<Rightarrow> string" where
  "path_label r = (case h_route r of Some p \<Rightarrow> p | None \<Rightarrow> h_path r)"

text \<open>The incoming id, or a fresh \<open>uuid4().hex\<close>.\<close>

definition request_id :: "string \<Rightarrow> http_request \<Rightarrow> string" where
  "request_id fresh r = (if truthy (h_headers r ''x-request-id'') then the (h_headers r ''x-request-id'') else fresh)"

definition request_context :: "string \<Rightarrow> http_request \<Rightarrow> ctx_vars" where
  "request_context fresh r =
     \<lparr>request_id_ctx = Some (request_id fresh r), client_ip_ctx = client_ip r,
      user_agent_ctx = h_headers r ''user-agent''\<rparr>"

definition add_header :: "string \<Rightarrow> string \<Rightarrow> response \<Rightarrow> response" where
  "add_header k v resp = resp\<lparr>rs_headers := dict_set k v (rs_headers resp)\<rparr>"

text \<open>
  The processor \<open>_add_request_id\<close> of \<open>app/core/logging.py\<close>, which every line passes: the id of the
  context variables at the time of the call. Times are left out of the lines.
\<close>

definition add_request_id :: "ctx_vars \<Rightarrow> json dict \<Rightarrow> json dict" where
  "add_request_id c line =
     (case request_id_ctx c of
        None \<Rightarrow> line
      | Some rid \<Rightarrow> if rid \<noteq> [] then dict_set ''request_id'' (JStr rid) line else line)"

definition log_event :: "ctx_vars \<Rightarrow> string \<Rightarrow> json dict \<Rightarrow> json dict" where
  "log_event c event values = add_request_id c ((''event'', JStr event) # values)"

text \<open>
  \<open>dispatch\<close>: \<open>call_next\<close> runs the rest of the application under the bound context and answers a
  response or an exception; both paths reset the three variables to what they were.
\<close>

definition dispatch ::
  "string \<Rightarrow> http_request \<Rightarrow> (ctx_vars \<Rightarrow> 's \<Rightarrow> (exn + response) \<times> 's) \<Rightarrow> 's process \<Rightarrow> (exn + response) \<times> 's process" where
  "dispatch fresh r call_next p =
     (let saved = ctx p;
          bound = p\<lparr>ctx := request_context fresh r\<rparr> in
      case call_next (ctx bound) (app_state bound) of
        (Inl e, s) \<Rightarrow>
          (Inl e, bound\<lparr>app_state := s,
             request_count := request_count p @ [(h_method r, path_label r, ''500'')],
             log_lines := log_lines p @ [log_event (ctx bound) ''request_failed''
               [(''method'', JStr (h_method r)), (''path'', JStr (h_path r))]],
             ctx := saved\<rparr>)
      | (Inr resp, s) \<Rightarrow>
          (Inr (add_header ''X-Request-ID'' (request_id fresh r) resp),
           bound\<lparr>app_state := s, ctx := saved,
             request_latency := request_latency p @ [(h_method r, path_label r)],
             request_count := request_count p @ [(h_method r, path_label r, show_nat (rs_status resp))],
             log_lines := log_lines p @ [log_event saved ''request''
               [(''method'', JStr (h_method r)), (''path'', JStr (h_path r)), (''status'', JInt (int (rs_status resp)))]]\<rparr>))"

fun dispatch_all ::
  "(http_request \<times> string \<times> (ctx_vars \<Rightarrow> 's \<Rightarrow> (exn + response) \<times> 's)) list \<Rightarrow> 's process \<Rightarrow> 's process" where
  "dispatch_all [] p = p"
| "dispatch_all ((r, fresh, h) # rs) p = dispatch_all rs (snd (dispatch fresh r h p))"

lemma dispatch_context: "ctx (snd (dispatch fresh r h p)) = ctx p"
  by (simp add: dispatch_def Let_def split: prod.split sum.split)

lemma dispatch_counts:
  "\<exists>st. request_count (snd (dispatch fresh r h p)) = request_count p @ [(h_method r, path_label r, st)]"
  by (simp add: dispatch_def Let_def split: prod.split sum.split)

lemma dispatch_all_counts:
  "map (\<lambda>(m, p, st). (m, p)) (request_count (dispatch_all rs p)) =
   map (\<lambda>(m, p, st). (m, p)) (request_count p) @ map (\<lambda>(r, f, h). (h_method r, path_label r)) rs"
proof (induction rs p rule: dispatch_all.induct)
  case (2 r fresh h rs p)
  obtain st where "request_count (snd (dispatch fresh r h p)) = request_count p @ [(h_method r, path_label r, st)]"
    using dispatch_counts by blast
  with 2 show ?case by simp
qed simp

lemma dispatch_all_context: "ctx (dispatch_all rs p) = ctx p"
  by (induction rs p rule: dispatch_all.induct) (simp_all add: dispatch_context)

section \<open>Properties\<close>

text \<open>
  C22: over any sequence of requests, whatever the handlers answer or raise, every request is counted
  exactly once and in order under its method and route, the context variables are afterwards what
  they were before, and a handler sees exactly the context of its own request: the id it sent or a
  fresh one, and the first address of X-Forwarded-For when there is one. A response carries that id.
\<close>

theorem middleware_accounts_for_requests:
  "map (\<lambda>(m, l, st). (m, l)) (request_count (dispatch_all rs p)) =
     map (\<lambda>(m, l, st). (m, l)) (request_count p) @ map (\<lambda>(r, f, h). (h_method r, path_label r)) rs \<and>
   ctx (dispatch_all rs p) = ctx p \<and>
   (case h (request_context fresh r) (app_state p) of
      (Inl e, s) \<Rightarrow> fst (dispatch fresh r h p) = Inl e
    | (Inr resp, s) \<Rightarrow> \<exists>resp'. fst (dispatch fresh r h p) = Inr resp' \<and> rs_status resp' = rs_status resp \<and>
        map_of (rs_headers resp') ''X-Request-ID'' = Some (request_id fresh r)) \<and>
   request_id_ctx (request_context fresh r) = Some (request_id fresh r) \<and>
   client_ip_ctx (request_context fresh r) = client_ip r"
  by (simp add: dispatch_all_counts dispatch_all_context dispatch_def Let_def request_context_def
      add_header_def split: prod.split sum.split)

text \<open>
  The line of a request that raised carries its id, but the line of a request that was answered is
  written after the variables are reset: in a process outside any request it has no id, so the access
  log cannot be matched with the answers' X-Request-ID.
\<close>

theorem access_log_has_no_id:
  assumes "request_id fresh r \<noteq> []" and "ctx p = empty_context"
  shows "\<exists>line. log_lines (snd (dispatch fresh r h p)) = log_lines p @ [line] \<and>
    (case fst (dispatch fresh r h p) of
       Inl e \<Rightarrow> map_of line ''event'' = Some (JStr ''request_failed'') \<and>
         map_of line ''request_id'' = Some (JStr (request_id fresh r))
     | Inr resp \<Rightarrow> map_of line ''event'' = Some (JStr ''request'') \<and> map_of line ''request_id'' = None \<and>
         map_of (rs_headers resp) ''X-Request-ID'' = Some (request_id fresh r))"
  using assms
  by (simp add: dispatch_def Let_def log_event_def add_request_id_def request_context_def empty_context_def
      add_header_def split: prod.split sum.split)

theorem access_log_has_no_id_witness:
  "\<exists>p :: nat process. \<exists>line. log_lines p = [line] \<and> map_of line ''event'' = Some (JStr ''request'') \<and>
     map_of line ''request_id'' = None"
proof -
  let ?r = "\<lparr>h_method = ''GET'', h_path = ''/api/health'', h_route = None, h_headers = (\<lambda>k. None), h_client = None\<rparr>"
  let ?p = "\<lparr>ctx = empty_context, request_count = [], request_latency = [], log_lines = [], app_state = 0 :: nat\<rparr>"
  let ?h = "\<lambda>c s. (Inr \<lparr>rs_status = 200, rs_content = JNull, rs_headers = []\<rparr>, s)"
  have "request_id ''ab'' ?r \<noteq> []" by (simp add: request_id_def truthy_def)
  from access_log_has_no_id [OF this, of ?p ?h] show ?thesis
    by (intro exI [of _ "snd (dispatch ''ab'' ?r ?h ?p)"]) (auto simp: dispatch_def Let_def)
qed

end
