(* ===== verification/Routers.thy ===== *)
theory Routers
  imports Operations Assurance Reporting Meta Middleware
begin

text \<open>
  The route handlers of the five routers, one definition per endpoint, and the dependencies they
  declare: the bearer token, the permission guard, the page parameters and the payload. A handler
  runs after its dependencies; a payload pydantic rejects answers 422 once the guard has passed.
\<close>

section \<open>Dependencies\<close>

record page_params =
  pp_limit :: int
  pp_offset :: int

definition pagination :: "page_params \<Rightarrow> (nat \<times> nat) option" where
  "pagination p =
     (if 1 \<le> pp_limit p \<and> pp_limit p \<le> 500 \<and> 0 \<le> pp_offset p
      then Some (nat (pp_limit p), nat (pp_offset p)) else None)"

text \<open>What pydantic made of the request: the parsed value, or the 422.\<close>

definition parsed :: "'p option \<Rightarrow> ('p \<Rightarrow> 'a act) \<Rightarrow> 'a act" where
  "parsed x body = (case x of None \<Rightarrow> raise (RequestValidationError []) | Some p \<Rightarrow> body p)"

definition non_empty :: "string \<Rightarrow> string option" where
  "non_empty s = (if s = [] then None else Some s)"

definition in_range :: "int \<Rightarrow> int \<Rightarrow> int \<Rightarrow> int option" where
  "in_range lo hi n = (if lo \<le> n \<and> n \<le> hi then Some n else None)"

definition signed_in :: "'t env \<Rightarrow> 't bearer \<Rightarrow> 'p option \<Rightarrow> (principal \<Rightarrow> 'p \<Rightarrow> 'a act) \<Rightarrow> 'a act" where
  "signed_in E creds payload body =
     andthen (get_current_principal E creds) (\<lambda>p. parsed payload (body p))"

definition guarded ::
  "'t env \<Rightarrow> 't bearer \<Rightarrow> perm_key \<Rightarrow> perm_action \<Rightarrow> 'p option \<Rightarrow> (principal \<Rightarrow> 'p \<Rightarrow> 'a act) \<Rightarrow> 'a act" where
  "guarded E creds key action payload body =
     andthen (get_current_principal E creds) (\<lambda>p.
     andthen (require key action p) (\<lambda>q. parsed payload (body q)))"

text \<open>\<open>EmailStr\<close> fields: the normalised address, or a rejection.\<close>

definition parse_user_create :: "'t env \<Rightarrow> user_create \<Rightarrow> user_create option" where
  "parse_user_create E p =
     (case email_of E (uc_email p) of
        None \<Rightarrow> None
      | Some e \<Rightarrow> if user_create_valid p then Some (p\<lparr>uc_email := e\<rparr>) else None)"

definition parse_email_opt :: "'t env \<Rightarrow> string option \<Rightarrow> string option option" where
  "parse_email_opt E x = (case x of None \<Rightarrow> Some None | Some s \<Rightarrow> map_option Some (email_of E s))"

definition parse_user_patch :: "'t env \<Rightarrow> user_patch \<Rightarrow> user_patch option" where
  "parse_user_patch E p =
     (case parse_email_opt E (uu_email p) of
        None \<Rightarrow> None
      | Some e \<Rightarrow> if user_patch_valid p then Some (p\<lparr>uu_email := e\<rparr>) else None)"

definition parse_config_patch :: "'t env \<Rightarrow> system_config_patch \<Rightarrow> system_config_patch option" where
  "parse_config_patch E p =
     map_option (\<lambda>e. p\<lparr>sp_alertEmail := e\<rparr>) (parse_email_opt E (sp_alertEmail p))"

definition parse_login :: "'t env \<Rightarrow> string \<Rightarrow> string \<Rightarrow> (string \<times> string) option" where
  "parse_login E email password =
     (case email_of E email of
        None \<Rightarrow> None
      | Some e \<Rightarrow> if 1 \<le> length password then Some (e, password) else None)"

definition parse_change_password :: "string \<Rightarrow> string \<Rightarrow> (string \<times> string) option" where
  "parse_change_password current new =
     (if 1 \<le> length current \<and> 8 \<le> length new then Some (current, new) else None)"

definition parse_if :: "('p \<Rightarrow> bool) \<Rightarrow> 'p \<Rightarrow> 'p option" where
  "parse_if valid p = (if valid p then Some p else None)"

section \<open>/auth\<close>

record 't login_response =
  lr_token :: 't
  lr_refreshToken :: 't
  lr_user :: auth_user

record 't token_pair =
  tp_token :: 't
  tp_refreshToken :: 't

definition client_meta :: "http_request \<Rightarrow> string option \<times> string option" where
  "client_meta r = (h_headers r ''user-agent'', client_ip r)"

definition role_of :: "user \<Rightarrow> role option act" where
  "role_of u = query (\<lambda>s. case by_key r_id (u_role_id u) (roles s) of [] \<Rightarrow> None | r # rs \<Rightarrow> Some r)"

definition login_route :: "'t env \<Rightarrow> http_request \<Rightarrow> string \<Rightarrow> string \<Rightarrow> 't login_response act" where
  "login_route E hr email password =
     parsed (parse_login E email password) (\<lambda>(em, pw).
     let (ua, ip) = client_meta hr in
     andthen (authenticate E em pw ua ip) (\<lambda>(access, refresh, u).
     andthen (record_audit E (u_email u) ''Signed in'' (Some (u_id u)) (Some (u_id u)) None) (\<lambda>_.
     andthen (role_of u) (\<lambda>r.
     ret \<lparr>lr_token = access, lr_refreshToken = refresh, lr_user = to_auth_user r u\<rparr>))))"

definition refresh_route :: "'t env \<Rightarrow> http_request \<Rightarrow> 't option \<Rightarrow> 't token_pair act" where
  "refresh_route E hr token =
     parsed token (\<lambda>t.
     let (ua, ip) = client_meta hr in
     andthen (refresh_session E t ua ip) (\<lambda>(access, new_refresh).
     ret \<lparr>tp_token = access, tp_refreshToken = new_refresh\<rparr>))"

text \<open>The audit record of a signed-in caller.\<close>

definition audit_by :: "'t env \<Rightarrow> principal \<Rightarrow> string \<Rightarrow> string option \<Rightarrow> unit act" where
  "audit_by E p action target = record_audit E (p_email p) action target (Some (p_id p)) None"

definition logout_route :: "'t env \<Rightarrow> 't bearer \<Rightarrow> action_result act" where
  "logout_route E creds =
     signed_in E creds (Some ()) (\<lambda>p _.
     andthen (revoke_session E (p_session_id p)) (\<lambda>_.
     andthen (audit_by E p ''Signed out'' None) (\<lambda>_.
     ret \<lparr>ok_flag = True, detail = Some ''Signed out.''\<rparr>)))"

definition change_password_route :: "'t env \<Rightarrow> 't bearer \<Rightarrow> string \<Rightarrow> string \<Rightarrow> action_result act" where
  "change_password_route E creds current new =
     signed_in E creds (parse_change_password current new) (\<lambda>p (c, n).
     andthen (change_password E (p_id p) c n) (\<lambda>_.
     andthen (audit_by E p ''Changed password'' None) (\<lambda>_.
     ret \<lparr>ok_flag = True, detail = Some ''Password updated.''\<rparr>)))"

definition me_route :: "'t env \<Rightarrow> 't bearer \<Rightarrow> auth_user act" where
  "me_route E creds =
     signed_in E creds (Some ()) (\<lambda>p _.
     andthen (get_user (p_id p)) (\<lambda>u.
     andthen (role_of u) (\<lambda>r. ret (to_auth_user r u))))"

section \<open>/users, /roles and /audit-logs\<close>

definition list_users_route :: "'t env \<Rightarrow> 't bearer \<Rightarrow> page_params \<Rightarrow> user_row list act" where
  "list_users_route E creds pg =
     guarded E creds USER_MANAGEMENT View (pagination pg) (\<lambda>_ (limit, offset). list_users limit offset)"

definition create_user_route :: "'t env \<Rightarrow> 't bearer \<Rightarrow> user_create \<Rightarrow> user_row act" where
  "create_user_route E creds payload =
     guarded E creds USER_MANAGEMENT Edit (parse_user_create E payload) (\<lambda>p x.
     andthen (create_user E x) (\<lambda>u.
     andthen (audit_by E p ''Created user'' (Some (u_id u))) (\<lambda>_.
     ret (to_user_row u))))"

definition update_user_route :: "'t env \<Rightarrow> 't bearer \<Rightarrow> string \<Rightarrow> user_patch \<Rightarrow> user_row act" where
  "update_user_route E creds user_id payload =
     guarded E creds USER_MANAGEMENT Edit (parse_user_patch E payload) (\<lambda>p x.
     andthen (update_user E user_id x) (\<lambda>u.
     andthen (audit_by E p ''Updated user'' (Some (u_id u))) (\<lambda>_.
     ret (to_user_row u))))"

definition list_roles_route :: "'t env \<Rightarrow> 't bearer \<Rightarrow> role_row list act" where
  "list_roles_route E creds = guarded E creds ROLE_MANAGEMENT View (Some ()) (\<lambda>_ _. list_roles)"

definition update_role_permissions_route :: "'t env \<Rightarrow> 't bearer \<Rightarrow> string \<Rightarrow> permission_map \<Rightarrow> role_row act" where
  "update_role_permissions_route E creds role_id perms =
     guarded E creds ROLE_MANAGEMENT Edit (Some ()) (\<lambda>p _.
     andthen (update_role_permissions E role_id perms) (\<lambda>r.
     andthen (audit_by E p ''Updated role permissions'' (Some role_id)) (\<lambda>_.
     ret (to_role_row r))))"

definition upsert_role_route :: "'t env \<Rightarrow> 't bearer \<Rightarrow> role_upsert \<Rightarrow> role_row act" where
  "upsert_role_route E creds payload =
     guarded E creds ROLE_MANAGEMENT Edit (parse_if (\<lambda>x. ru_name x \<noteq> []) payload) (\<lambda>p x.
     andthen (upsert_role E x) (\<lambda>r.
     andthen (audit_by E p ''Saved role'' (Some (r_id r))) (\<lambda>_.
     ret (to_role_row r))))"

definition list_audit_route :: "'t env \<Rightarrow> 't bearer \<Rightarrow> page_params \<Rightarrow> audit_row list act" where
  "list_audit_route E creds pg =
     guarded E creds SETTINGS View (pagination pg) (\<lambda>_ (limit, offset). list_audit limit offset)"

section \<open>/pipelines, /decoders and /system\<close>

definition stages_route :: "'t env \<Rightarrow> 't bearer \<Rightarrow> pipeline_stage list act" where
  "stages_route E creds = guarded E creds PIPELINES View (Some ()) (\<lambda>_ _. get_stages E)"

definition kpis_route :: "'t env \<Rightarrow> 't bearer \<Rightarrow> pipeline_kpis act" where
  "kpis_route E creds = guarded E creds PIPELINES View (Some ()) (\<lambda>_ _. get_kpis E)"

definition runs_route :: "'t env \<Rightarrow> 't bearer \<Rightarrow> int \<Rightarrow> pipeline_run list act" where
  "runs_route E creds limit = guarded E creds PIPELINES View (in_range 1 200 limit) (\<lambda>_ n. get_runs E n)"

definition alerts_route :: "'t env \<Rightarrow> 't bearer \<Rightarrow> alert_row list act" where
  "alerts_route E creds = guarded E creds PIPELINES View (Some ()) (\<lambda>_ _. list_alerts)"

definition retries_route :: "'t env \<Rightarrow> 't bearer \<Rightarrow> retry_job list act" where
  "retries_route E creds = guarded E creds PIPELINES View (Some ()) (\<lambda>_ _. get_retries)"

definition retry_job_route :: "'t env \<Rightarrow> 't bearer \<Rightarrow> string \<Rightarrow> action_result act" where
  "retry_job_route E creds job_id = guarded E creds PIPELINES Edit (Some ()) (\<lambda>_ _. retry_job_act E job_id)"

definition replay_job_route :: "'t env \<Rightarrow> 't bearer \<Rightarrow> string \<Rightarrow> action_result act" where
  "replay_job_route E creds job_id = guarded E creds PIPELINES Edit (Some ()) (\<lambda>_ _. replay_job E job_id)"

definition ack_alert_route :: "'t env \<Rightarrow> 't bearer \<Rightarrow> string \<Rightarrow> action_result act" where
  "ack_alert_route E creds alert_id =
     guarded E creds PIPELINES Edit (Some ()) (\<lambda>p _. acknowledge_alert E alert_id (p_email p))"

definition list_decoders_route :: "'t env \<Rightarrow> 't bearer \<Rightarrow> decoder_row list act" where
  "list_decoders_route E creds = guarded E creds SETTINGS View (Some ()) (\<lambda>_ _. list_decoders)"

definition upsert_decoder_route :: "'t env \<Rightarrow> 't bearer \<Rightarrow> decoder_upsert \<Rightarrow> decoder_row act" where
  "upsert_decoder_route E creds payload =
     guarded E creds SETTINGS Edit (Some payload) (\<lambda>_ x.
     andthen (upsert_decoder E x) (\<lambda>d. ret (to_decoder_row d)))"

definition get_config_route :: "'t env \<Rightarrow> 't bearer \<Rightarrow> system_config_out act" where
  "get_config_route E creds = guarded E creds SETTINGS View (Some ()) (\<lambda>_ _. get_system_config E)"

definition update_config_route :: "'t env \<Rightarrow> 't bearer \<Rightarrow> system_config_patch \<Rightarrow> system_config_out act" where
  "update_config_route E creds payload =
     guarded E creds SETTINGS Edit (parse_config_patch E payload) (\<lambda>_ x. update_system_config E x)"

section \<open>/recon, /cases and /workbench\<close>

definition recon_summary_route :: "'t env \<Rightarrow> 't bearer \<Rightarrow> int \<Rightarrow> recon_summary_out act" where
  "recon_summary_route E creds hours =
     guarded E creds DASHBOARD View (in_range 1 720 hours) (\<lambda>_ h. recon_summary E h)"

definition recon_records_route :: "'t env \<Rightarrow> 't bearer \<Rightarrow> string option \<Rightarrow> page_params \<Rightarrow> recon_record list act" where
  "recon_records_route E creds status pg =
     guarded E creds WORKBENCH View (pagination pg) (\<lambda>_ (limit, offset). recon_records E status limit offset)"

definition list_cases_route :: "'t env \<Rightarrow> 't bearer \<Rightarrow> string option \<Rightarrow> page_params \<Rightarrow> case_out list act" where
  "list_cases_route E creds status pg =
     guarded E creds CASE_MANAGEMENT View (pagination pg) (\<lambda>_ (limit, offset). list_cases status limit offset)"

definition create_case_route :: "'t env \<Rightarrow> 't bearer \<Rightarrow> case_create \<Rightarrow> case_out act" where
  "create_case_route E creds payload =
     guarded E creds CASE_MANAGEMENT Edit (parse_if case_create_valid payload) (\<lambda>p x.
     andthen (create_case E x (p_id p)) (\<lambda>c. ret (to_case_row c)))"

definition get_case_route :: "'t env \<Rightarrow> 't bearer \<Rightarrow> string \<Rightarrow> case_detail act" where
  "get_case_route E creds case_id = guarded E creds CASE_MANAGEMENT View (Some ()) (\<lambda>_ _. get_case case_id)"

definition update_case_route :: "'t env \<Rightarrow> 't bearer \<Rightarrow> string \<Rightarrow> case_patch \<Rightarrow> case_out act" where
  "update_case_route E creds case_id payload =
     guarded E creds CASE_MANAGEMENT Edit (parse_if case_patch_valid payload) (\<lambda>_ x.
     andthen (update_case E case_id x) (\<lambda>c. ret (to_case_row c)))"

definition add_comment_route :: "'t env \<Rightarrow> 't bearer \<Rightarrow> string \<Rightarrow> string \<Rightarrow> comment_out act" where
  "add_comment_route E creds case_id body =
     guarded E creds CASE_MANAGEMENT Edit (non_empty body) (\<lambda>p b. add_comment E case_id b (p_email p))"

definition list_queries_route :: "'t env \<Rightarrow> 't bearer \<Rightarrow> saved_query_out list act" where
  "list_queries_route E creds = guarded E creds WORKBENCH View (Some ()) (\<lambda>_ _. list_saved_queries)"

definition create_query_route :: "'t env \<Rightarrow> 't bearer \<Rightarrow> saved_query_create \<Rightarrow> saved_query_out act" where
  "create_query_route E creds payload =
     guarded E creds WORKBENCH Edit (parse_if (\<lambda>x. qc_name x \<noteq> []) payload) (\<lambda>p x.
     andthen (create_saved_query E x (p_full_name p)) (\<lambda>q. ret (to_query_row q)))"

definition stats_route :: "'t env \<Rightarrow> 't bearer \<Rightarrow> workbench_stats_out act" where
  "stats_route E creds = guarded E creds WORKBENCH View (Some ()) (\<lambda>_ _. workbench_stats E)"

section \<open>/reports and /dashboard\<close>

definition list_reports_route :: "'t env \<Rightarrow> 't bearer \<Rightarrow> page_params \<Rightarrow> report_row list act" where
  "list_reports_route E creds pg =
     guarded E creds REPORTS View (pagination pg) (\<lambda>_ (limit, offset). list_reports limit offset)"

definition create_report_route :: "'t env \<Rightarrow> 't bearer \<Rightarrow> report_create \<Rightarrow> report_row act" where
  "create_report_route E creds payload =
     guarded E creds REPORTS Edit (parse_if report_create_valid payload) (\<lambda>p x.
     andthen (create_report E x (p_email p)) (\<lambda>r. ret (to_report_row r)))"

definition download_report_route :: "'t env \<Rightarrow> 't bearer \<Rightarrow> string \<Rightarrow> file_response act" where
  "download_report_route E creds reference =
     guarded E creds REPORTS View (Some ()) (\<lambda>_ _. download_report reference)"

definition dashboard_route :: "'t env \<Rightarrow> 't bearer \<Rightarrow> dashboard_kpis_out act" where
  "dashboard_route E creds = guarded E creds DASHBOARD View (Some ()) (\<lambda>_ _. dashboard_kpis E)"

lemmas route_defs =
  login_route_def refresh_route_def logout_route_def change_password_route_def me_route_def
  list_users_route_def create_user_route_def update_user_route_def list_roles_route_def
  update_role_permissions_route_def upsert_role_route_def list_audit_route_def stages_route_def
  kpis_route_def runs_route_def alerts_route_def retries_route_def retry_job_route_def
  replay_job_route_def ack_alert_route_def list_decoders_route_def upsert_decoder_route_def
  get_config_route_def update_config_route_def recon_summary_route_def recon_records_route_def
  list_cases_route_def create_case_route_def get_case_route_def update_case_route_def
  add_comment_route_def list_queries_route_def create_query_route_def stats_route_def
  list_reports_route_def create_report_route_def download_report_route_def dashboard_route_def

end
