(* ===== verification/Api.thy ===== *)
theory Api
  imports Routers Store_Lemmas
begin

text \<open>
  The application as a whole: every request the API prefix serves, the handler and the HTTP route
  it is sent to, what the caller must be allowed to do, and the path of a request through the
  middleware, the handler with its database session, and the exception handlers.
\<close>

section \<open>Requests\<close>

datatype 't request =
    Health
  | Ready
  | DashboardKpis
  | Login string string
  | Refresh "'t option"
  | Logout
  | ChangePassword string string
  | Me
  | ListUsers page_params
  | CreateUser user_create
  | UpdateUser string user_patch
  | ListRoles
  | UpdateRolePermissions string permission_map
  | UpsertRole role_upsert
  | ListAudit page_params
  | Stages
  | Kpis
  | Runs int
  | Alerts
  | Retries
  | RetryJob string
  | ReplayJob string
  | AckAlert string
  | ListDecoders
  | UpsertDecoder decoder_upsert
  | GetConfig
  | UpdateConfig system_config_patch
  | ReconSummary int
  | ReconRecords "string option" page_params
  | ListCases "string option" page_params
  | CreateCase case_create
  | GetCase string
  | UpdateCase string case_patch
  | AddComment string string
  | ListQueries
  | CreateQuery saved_query_create
  | Stats
  | ListReports page_params
  | CreateReport report_create
  | DownloadReport string

text \<open>What a handler answers, one constructor per response model.\<close>

datatype 't reply =
    HealthReply health_out
  | ReadinessReply readiness_out
  | DashboardReply dashboard_kpis_out
  | LoginReply "'t login_response"
  | TokenReply "'t token_pair"
  | ActionReply action_result
  | AuthUserReply auth_user
  | UsersReply "user_row list"
  | UserReply user_row
  | RolesReply "role_row list"
  | RoleReply role_row
  | AuditReply "audit_row list"
  | StagesReply "pipeline_stage list"
  | KpisReply pipeline_kpis
  | RunsReply "pipeline_run list"
  | AlertsReply "alert_row list"
  | RetriesReply "retry_job list"
  | DecodersReply "decoder_row list"
  | DecoderReply decoder_row
  | ConfigReply system_config_out
  | SummaryReply recon_summary_out
  | RecordsReply "recon_record list"
  | CasesReply "case_out list"
  | CaseReply case_out
  | CaseDetailReply case_detail
  | CommentReply comment_out
  | QueriesReply "saved_query_out list"
  | QueryReply saved_query_out
  | StatsReply workbench_stats_out
  | ReportsReply "report_row list"
  | ReportReply report_row
  | FileReply file_response

definition replying :: "('a \<Rightarrow> 't reply) \<Rightarrow> 'a act \<Rightarrow> 't reply act" where
  "replying f m = andthen m (\<lambda>x. ret (f x))"

fun handler :: "'t env \<Rightarrow> http_request \<Rightarrow> 't bearer \<Rightarrow> 't request \<Rightarrow> 't reply act" where
  "handler E hr creds Health = ret (HealthReply (health E))"
| "handler E hr creds Ready = replying ReadinessReply (readiness E)"
| "handler E hr creds DashboardKpis = replying DashboardReply (dashboard_route E creds)"
| "handler E hr creds (Login e pw) = replying LoginReply (login_route E hr e pw)"
| "handler E hr creds (Refresh t) = replying TokenReply (refresh_route E hr t)"
| "handler E hr creds Logout = replying ActionReply (logout_route E creds)"
| "handler E hr creds (ChangePassword c n) = replying ActionReply (change_password_route E creds c n)"
| "handler E hr creds Me = replying AuthUserReply (me_route E creds)"
| "handler E hr creds (ListUsers pg) = replying UsersReply (list_users_route E creds pg)"
| "handler E hr creds (CreateUser p) = replying UserReply (create_user_route E creds p)"
| "handler E hr creds (UpdateUser i p) = replying UserReply (update_user_route E creds i p)"
| "handler E hr creds ListRoles = replying RolesReply (list_roles_route E creds)"
| "handler E hr creds (UpdateRolePermissions i m) = replying RoleReply (update_role_permissions_route E creds i m)"
| "handler E hr creds (UpsertRole p) = replying RoleReply (upsert_role_route E creds p)"
| "handler E hr creds (ListAudit pg) = replying AuditReply (list_audit_route E creds pg)"
| "handler E hr creds Stages = replying StagesReply (stages_route E creds)"
| "handler E hr creds Kpis = replying KpisReply (kpis_route E creds)"
| "handler E hr creds (Runs n) = replying RunsReply (runs_route E creds n)"
| "handler E hr creds Alerts = replying AlertsReply (alerts_route E creds)"
| "handler E hr creds Retries = replying RetriesReply (retries_route E creds)"
| "handler E hr creds (RetryJob j) = replying ActionReply (retry_job_route E creds j)"
| "handler E hr creds (ReplayJob j) = replying ActionReply (replay_job_route E creds j)"
| "handler E hr creds (AckAlert i) = replying ActionReply (ack_alert_route E creds i)"
| "handler E hr creds ListDecoders = replying DecodersReply (list_decoders_route E creds)"
| "handler E hr creds (UpsertDecoder p) = replying DecoderReply (upsert_decoder_route E creds p)"
| "handler E hr creds GetConfig = replying ConfigReply (get_config_route E creds)"
| "handler E hr creds (UpdateConfig p) = replying ConfigReply (update_config_route E creds p)"
| "handler E hr creds (ReconSummary h) = replying SummaryReply (recon_summary_route E creds h)"
| "handler E hr creds (ReconRecords st pg) = replying RecordsReply (recon_records_route E creds st pg)"
| "handler E hr creds (ListCases st pg) = replying CasesReply (list_cases_route E creds st pg)"
| "handler E hr creds (CreateCase p) = replying CaseReply (create_case_route E creds p)"
| "handler E hr creds (GetCase i) = replying CaseDetailReply (get_case_route E creds i)"
| "handler E hr creds (UpdateCase i p) = replying CaseReply (update_case_route E creds i p)"
| "handler E hr creds (AddComment i b) = replying CommentReply (add_comment_route E creds i b)"
| "handler E hr creds ListQueries = replying QueriesReply (list_queries_route E creds)"
| "handler E hr creds (CreateQuery p) = replying QueryReply (create_query_route E creds p)"
| "handler E hr creds Stats = replying StatsReply (stats_route E creds)"
| "handler E hr creds (ListReports pg) = replying ReportsReply (list_reports_route E creds pg)"
| "handler E hr creds (CreateReport p) = replying ReportReply (create_report_route E creds p)"
| "handler E hr creds (DownloadReport i) = replying FileReply (download_report_route E creds i)"

text \<open>The two probes need no session; every other route depends on \<open>get_session\<close>.\<close>

definition sessionless :: "'t request \<Rightarrow> bool" where
  "sessionless req = (case req of Health \<Rightarrow> True | Ready \<Rightarrow> True | _ \<Rightarrow> False)"

definition serve :: "'t env \<Rightarrow> http_request \<Rightarrow> 't bearer \<Rightarrow> 't request \<Rightarrow> 't reply act" where
  "serve E hr creds req =
     (if sessionless req then handler E hr creds req else get_session E (handler E hr creds req))"

section \<open>What a caller must be allowed to do\<close>

datatype access = Public | SignedIn | Needs perm_key perm_action

fun access_of :: "'t request \<Rightarrow> access" where
  "access_of Health = Public"
| "access_of Ready = Public"
| "access_of DashboardKpis = Needs DASHBOARD View"
| "access_of (Login e pw) = Public"
| "access_of (Refresh t) = Public"
| "access_of Logout = SignedIn"
| "access_of (ChangePassword c n) = SignedIn"
| "access_of Me = SignedIn"
| "access_of (ListUsers pg) = Needs USER_MANAGEMENT View"
| "access_of (CreateUser p) = Needs USER_MANAGEMENT Edit"
| "access_of (UpdateUser i p) = Needs USER_MANAGEMENT Edit"
| "access_of ListRoles = Needs ROLE_MANAGEMENT View"
| "access_of (UpdateRolePermissions i m) = Needs ROLE_MANAGEMENT Edit"
| "access_of (UpsertRole p) = Needs ROLE_MANAGEMENT Edit"
| "access_of (ListAudit pg) = Needs SETTINGS View"
| "access_of Stages = Needs PIPELINES View"
| "access_of Kpis = Needs PIPELINES View"
| "access_of (Runs n) = Needs PIPELINES View"
| "access_of Alerts = Needs PIPELINES View"
| "access_of Retries = Needs PIPELINES View"
| "access_of (RetryJob j) = Needs PIPELINES Edit"
| "access_of (ReplayJob j) = Needs PIPELINES Edit"
| "access_of (AckAlert i) = Needs PIPELINES Edit"
| "access_of ListDecoders = Needs SETTINGS View"
| "access_of (UpsertDecoder p) = Needs SETTINGS Edit"
| "access_of GetConfig = Needs SETTINGS View"
| "access_of (UpdateConfig p) = Needs SETTINGS Edit"
| "access_of (ReconSummary h) = Needs DASHBOARD View"
| "access_of (ReconRecords st pg) = Needs WORKBENCH View"
| "access_of (ListCases st pg) = Needs CASE_MANAGEMENT View"
| "access_of (CreateCase p) = Needs CASE_MANAGEMENT Edit"
| "access_of (GetCase i) = Needs CASE_MANAGEMENT View"
| "access_of (UpdateCase i p) = Needs CASE_MANAGEMENT Edit"
| "access_of (AddComment i b) = Needs CASE_MANAGEMENT Edit"
| "access_of ListQueries = Needs WORKBENCH View"
| "access_of (CreateQuery p) = Needs WORKBENCH Edit"
| "access_of Stats = Needs WORKBENCH View"
| "access_of (ListReports pg) = Needs REPORTS View"
| "access_of (CreateReport p) = Needs REPORTS Edit"
| "access_of (DownloadReport i) = Needs REPORTS View"

definition admits :: "access \<Rightarrow> principal \<Rightarrow> bool" where
  "admits a p = (case a of Public \<Rightarrow> True | SignedIn \<Rightarrow> True | Needs key action \<Rightarrow> can p key action)"

text \<open>The requests the routers write an audit record for: its action and target.\<close>

definition audit_entry :: "'t request \<Rightarrow> 't reply \<Rightarrow> (string \<times> string option) option" where
  "audit_entry req a =
     (case req of
        Login e pw \<Rightarrow> Some (''Signed in'', case a of LoginReply r \<Rightarrow> Some (au_id (lr_user r)) | _ \<Rightarrow> None)
      | Logout \<Rightarrow> Some (''Signed out'', None)
      | ChangePassword c n \<Rightarrow> Some (''Changed password'', None)
      | CreateUser p \<Rightarrow> Some (''Created user'', case a of UserReply r \<Rightarrow> Some (ur_id r) | _ \<Rightarrow> None)
      | UpdateUser i p \<Rightarrow> Some (''Updated user'', case a of UserReply r \<Rightarrow> Some (ur_id r) | _ \<Rightarrow> None)
      | UpdateRolePermissions i m \<Rightarrow> Some (''Updated role permissions'', Some i)
      | UpsertRole p \<Rightarrow> Some (''Saved role'', case a of RoleReply r \<Rightarrow> Some (rr_id r) | _ \<Rightarrow> None)
      | _ \<Rightarrow> None)"

section \<open>From the socket to the answer\<close>

text \<open>The request context the audit records take their address, agent and id from.\<close>

definition with_context :: "'t env \<Rightarrow> ctx_vars \<Rightarrow> 't env" where
  "with_context E c =
     E\<lparr>ctx_client_ip := client_ip_ctx c, ctx_user_agent := user_agent_ctx c, ctx_request_id := request_id_ctx c\<rparr>"

definition success_status :: "'t request \<Rightarrow> nat" where
  "success_status req =
     (case req of
        CreateUser _ \<Rightarrow> 201 | UpsertRole _ \<Rightarrow> 201 | CreateCase _ \<Rightarrow> 201 | AddComment _ _ \<Rightarrow> 201
      | CreateQuery _ \<Rightarrow> 201 | CreateReport _ \<Rightarrow> 202 | _ \<Rightarrow> 200)"

text \<open>\<open>render\<close> is pydantic's serialisation of a response model.\<close>

definition ok_response :: "('t reply \<Rightarrow> json) \<Rightarrow> 't request \<Rightarrow> 't reply \<Rightarrow> response" where
  "ok_response render req a =
     \<lparr>rs_status = success_status req, rs_content = render a,
      rs_headers = (case a of FileReply f \<Rightarrow> fr_headers f | _ \<Rightarrow> [])\<rparr>"

text \<open>
  The handlers registered for exception classes run inside the middleware; the one for
  \<open>Exception\<close> is Starlette's outermost layer, so the middleware sees such an exception pass.
\<close>

definition unexpected :: "exn \<Rightarrow> bool" where
  "unexpected e = (case e of OtherExn _ _ \<Rightarrow> True | _ \<Rightarrow> False)"

definition call_next ::
  "'t env \<Rightarrow> ('t reply \<Rightarrow> json) \<Rightarrow> http_request \<Rightarrow> 't bearer \<Rightarrow> 't request \<Rightarrow> ctx_vars \<Rightarrow> world \<Rightarrow> (exn + response) \<times> world" where
  "call_next E render hr creds req c w =
     (case serve (with_context E c) hr creds req w of
        (Inr a, w') \<Rightarrow> (Inr (ok_response render req a), w')
      | (Inl e, w') \<Rightarrow> if unexpected e then (Inl e, w') else (Inr (handle_exn e), w'))"

definition application ::
  "'t env \<Rightarrow> ('t reply \<Rightarrow> json) \<Rightarrow> string \<Rightarrow> http_request \<Rightarrow> 't bearer \<Rightarrow> 't request \<Rightarrow> world process \<Rightarrow>
   response \<times> world process" where
  "application E render fresh hr creds req p =
     (case dispatch fresh hr (call_next E render hr creds req) p of
        (Inl e, p') \<Rightarrow> (handle_exn e, p')
      | (Inr r, p') \<Rightarrow> (r, p'))"

section \<open>Classification of the handlers\<close>

lemma silent_dependencies [silent_intro]:
  "(\<And>p. silent (body p)) \<Longrightarrow> silent (parsed x body)"
  "(\<And>p y. silent (b p y)) \<Longrightarrow> silent (signed_in E creds x b)"
  "(\<And>p y. silent (b p y)) \<Longrightarrow> silent (guarded E creds k a x b)"
  unfolding parsed_def signed_in_def guarded_def by (intro silent_intro; blast)+

lemma silent_role_of [silent_intro]: "silent (role_of u)" "silent (audit_by E p a t)"
  unfolding role_of_def audit_by_def by (intro silent_intro)+

text \<open>Only login and refresh ever commit by themselves.\<close>

definition commits_itself :: "'t request \<Rightarrow> bool" where
  "commits_itself req = (case req of Login _ _ \<Rightarrow> True | Refresh _ \<Rightarrow> True | _ \<Rightarrow> False)"

lemma silent_handler:
  "\<not> commits_itself req \<Longrightarrow> silent (handler E hr creds req)"
  by (cases req)
     (simp_all only: handler.simps replying_def route_defs commits_itself_def request.case simp_thms,
      (intro silent_intro)+)

lemma checked_handler: "checked E (handler E hr creds req)"
proof (cases "commits_itself req")
  case False
  then show ?thesis by (intro silent_checked silent_handler)
next
  case True
  have parsed: "checked E (parsed x body)" if "\<And>p. checked E (body p)" for x and body :: "'x \<Rightarrow> 'y act"
    using that unfolding parsed_def by (intro checked_intro; blast)+
  show ?thesis using True
    by (cases req)
       (simp_all only: commits_itself_def request.case simp_thms handler.simps replying_def
         login_route_def refresh_route_def Let_def,
        (intro checked_intro parsed silent_identity [THEN silent_checked] silent_role_of [THEN silent_checked])+)
qed

lemma checked_serve: "checked E (serve E hr creds req)"
  unfolding serve_def by (intro checked_intro checked_handler)

text \<open>
  An unexpected exception is answered outside the middleware: the 500 does not carry the request id
  the other answers have.
\<close>

lemma internal_errors_lose_request_id:
  assumes "fst (serve (with_context E (request_context fresh hr)) hr creds req (app_state p)) = Inl (OtherExn c m)"
  shows "rs_status (fst (application E render fresh hr creds req p)) = 500 \<and>
    map_of (rs_headers (fst (application E render fresh hr creds req p))) ''X-Request-ID'' = None"
  using assms
  by (cases "serve (with_context E (request_context fresh hr)) hr creds req (app_state p)")
     (simp add: application_def dispatch_def call_next_def unexpected_def)

end
