(* ===== verification/History.thy ===== *)
theory History
  imports Api "HOL-Library.Sublist"
begin

text \<open>
  What no request, task or shutdown ever takes back. \<open>history s t\<close> relates a store to any later
  one: the audit trail, the comments and the saved queries only grow, users, roles, cases and
  reports keep their identity, a session keeps its owner and a revoked one is frozen, and the
  human-readable references stay numbered. Every function of the services is shown to move along
  this order, on every path, failures included.
\<close>

section \<open>Growth from one world\<close>

definition grows_at :: "(store \<Rightarrow> store \<Rightarrow> bool) \<Rightarrow> world \<Rightarrow> 'a act \<Rightarrow> bool" where
  "grows_at R w m =
     (R (committed w) (pending w) \<longrightarrow>
        R (committed w) (committed (snd (m w))) \<and> R (committed (snd (m w))) (pending (snd (m w))))"

lemma grows_iff: "grows R m \<longleftrightarrow> (\<forall>w. grows_at R w m)"
  by (simp add: grows_def grows_at_def)

lemma growsD: "grows R m \<Longrightarrow> grows_at R w m"
  by (simp add: grows_iff)

context store_order begin

lemma grows_at_modify: "R (pending w) (f (pending w)) \<Longrightarrow> grows_at R w (modify f)"
  using R_refl R_trans by (auto simp: grows_at_def modify_def)

lemma grows_at_andthen:
  assumes "grows_at R w m" and "\<And>x w1. m w = (Inr x, w1) \<Longrightarrow> grows_at R w1 (k x)"
  shows "grows_at R w (andthen m k)"
  unfolding grows_at_def
proof
  assume start: "R (committed w) (pending w)"
  obtain r w1 where m: "m w = (r, w1)" by (cases "m w") auto
  with assms(1) start have 1: "R (committed w) (committed w1)" "R (committed w1) (pending w1)"
    by (simp_all add: grows_at_def)
  show "R (committed w) (committed (snd (andthen m k w))) \<and>
        R (committed (snd (andthen m k w))) (pending (snd (andthen m k w)))"
  proof (cases r)
    case (Inl e)
    with 1 m show ?thesis by (simp add: andthen_def)
  next
    case (Inr x)
    with assms(2) m 1 have "R (committed w1) (committed (snd (k x w1))) \<and>
        R (committed (snd (k x w1))) (pending (snd (k x w1)))"
      by (simp add: grows_at_def)
    with 1 m Inr R_trans [OF 1(1)] show ?thesis by (simp add: andthen_def)
  qed
qed

text \<open>Sequencing where the continuation depends on what the first part found.\<close>

lemma grows_after:
  "grows R m \<Longrightarrow> (\<And>w x w1. m w = (Inr x, w1) \<Longrightarrow> grows_at R w1 (k x)) \<Longrightarrow> grows R (andthen m k)"
  by (auto simp: grows_iff intro: grows_at_andthen)

lemma grows_result:
  "grows R m \<Longrightarrow> (\<And>w x w1. m w = (Inr x, w1) \<Longrightarrow> P x) \<Longrightarrow> (\<And>x. P x \<Longrightarrow> grows R (k x)) \<Longrightarrow>
   grows R (andthen m k)"
  by (rule grows_after) (blast intro: growsD)+

text \<open>Counting the rows, drawing an id and inserting a row that depends on both.\<close>

lemma grows_numbered:
  assumes "\<And>i s. R s (f (g s) i s)" and "\<And>n i. grows R (k n i)"
  shows "grows R (andthen (query g) (\<lambda>n. andthen (uuid4_str E) (\<lambda>i. andthen (modify (f n i)) (\<lambda>_. k n i))))"
proof (rule grows_after)
  show "grows R (query g)" by (rule grows_primitives)
  fix w n w1 assume "query g w = (Inr n, w1)"
  then have n: "n = g (pending w1)" by (simp add: runs)
  show "grows_at R w1 (andthen (uuid4_str E) (\<lambda>i. andthen (modify (f n i)) (\<lambda>_. k n i)))"
  proof (rule grows_at_andthen)
    show "grows_at R w1 (uuid4_str E)" by (intro growsD grows_select)
    fix i w2 assume "uuid4_str E w1 = (Inr i, w2)"
    with n have "n = g (pending w2)" by (simp add: runs)
    with assms show "grows_at R w2 (andthen (modify (f n i)) (\<lambda>_. k n i))"
      by (intro grows_at_andthen grows_at_modify) (auto intro: growsD)
  qed
qed

lemma grows_roll_back: "grows R roll_back_act"
  using R_refl by (simp add: grows_def roll_back_act_def)

text \<open>What a whole request and a whole task leave in the committed store.\<close>

lemma serve_grows:
  assumes "grows R (handler E hr creds req)"
  shows "R (committed w) (committed (snd (serve E hr creds req w)))"
proof (cases "sessionless req")
  case True
  then have "silent (handler E hr creds req)"
    by (intro silent_handler) (auto simp: sessionless_def commits_itself_def split: request.splits)
  with True show ?thesis by (simp add: serve_def silent_def R_refl)
next
  case False
  then show ?thesis by (simp add: serve_def get_session_grows assms)
qed

lemma task_grows:
  assumes "grows R (generate_report E i)"
  shows "R (committed w) (committed (snd (generate_report E i w)))"
proof -
  have "generate_report E i w = generate_report E i (rollback w)"
    by (simp add: generate_report_def catch_def andthen_def roll_back_act_def rollback_def)
  then show ?thesis
    using assms [unfolded grows_def, rule_format, of "rollback w"] by (simp add: R_refl)
qed

end

section \<open>The order\<close>

definition case_identity :: "case_row \<Rightarrow> string \<times> string \<times> string option \<times> int" where
  "case_identity c = (c_id c, c_reference c, c_owner_id c, c_created_at c)"

definition report_identity :: "report \<Rightarrow> string \<times> string \<times> string \<times> string option \<times> int" where
  "report_identity r = (rp_id r, rp_reference r, rp_name r, rp_requested_by r, rp_created_at r)"

definition all_numbered :: "store \<Rightarrow> bool" where
  "all_numbered s =
     (numbered case_reference c_reference (cases s) \<and> numbered query_reference q_reference (saved_queries s) \<and>
      numbered report_reference rp_reference (reports s))"

definition history :: "store \<Rightarrow> store \<Rightarrow> bool" where
  "history s t =
     (audit_forward s t \<and> sessions_forward s t \<and> users_forward s t \<and> keeps all_numbered s t \<and>
      prefix (map r_id (roles s)) (map r_id (roles t)) \<and>
      prefix (case_comments s) (case_comments t) \<and> prefix (saved_queries s) (saved_queries t) \<and>
      prefix (map case_identity (cases s)) (map case_identity (cases t)) \<and>
      prefix (map report_identity (reports s)) (map report_identity (reports t)))"

interpretation numbers: store_invariant all_numbered .

interpretation history_order: store_order history
proof
  show "history s s" for s :: store
    by (simp add: history_def audit_order.R_refl session_order.R_refl user_order.R_refl numbers.keeps_refl)
  show "history s u" if "history s t" "history t u" for s t u :: store
    using that unfolding history_def
    by (blast intro: audit_order.R_trans session_order.R_trans user_order.R_trans numbers.keeps_trans
        prefix_order.trans)
qed

section \<open>Steps of the order\<close>

lemma prefix_map_insert [simp]: "prefix (map f xs) (map f (insert_row r xs))" "prefix xs (insert_row r xs)"
  by (simp_all add: insert_row_def)

text \<open>A step that leaves the audit trail, the sessions, the users and the numbered tables alone.\<close>

lemma history_audit: "history s (audit_logs_update (insert_row a) s)"
  by (auto simp: history_def sessions_forward_def users_forward_def keeps_def all_numbered_def)

lemma history_new_session: "history s (user_sessions_update (insert_row x) s)"
  by (auto simp: history_def audit_forward_def sessions_forward_def users_forward_def keeps_def
      all_numbered_def insert_row_def)

lemma history_session:
  assumes "session_edit f" and "by_key s_id i (user_sessions s) = [x]" and "s_revoked_at x = None"
  shows "history s (user_sessions_update (change_row s_id i f) s)"
proof -
  have "s_revoked_at y = None" if "y \<in> set (user_sessions s)" "s_id y = i" for y
    using assms(2,3) that by (metis in_by_key empty_set list.simps(15) singletonD)
  with assms(1) have "sessions_forward s (user_sessions_update (change_row s_id i f) s)"
    by (intro sessions_forward_change)
  then show ?thesis
    by (auto simp: history_def audit_forward_def users_forward_def keeps_def all_numbered_def)
qed

lemma history_new_user: "history s (users_update (insert_row u) s)"
  by (auto simp: history_def audit_forward_def sessions_forward_def users_forward_def keeps_def
      all_numbered_def insert_row_def)

lemma history_user:
  assumes "\<And>u. u_id (f u) = u_id u \<and> u_created_at (f u) = u_created_at u"
  shows "history s (users_update (change_row u_id i (stamp (touch_user E) f)) s)"
proof -
  have "users_forward s (users_update (change_row u_id i (stamp (touch_user E) f)) s)"
    using assms by (intro users_forward_change) simp
  then show ?thesis
    by (auto simp: history_def audit_forward_def sessions_forward_def keeps_def all_numbered_def)
qed

lemma history_other_tables:
  "history s (decoders_update g s)" "history s (configs_update h s)" "history s (alerts_update k s)"
  by (auto simp: history_def audit_forward_def sessions_forward_def users_forward_def keeps_def all_numbered_def)

lemma history_new_role: "history s (roles_update (insert_row r) s)"
  by (auto simp: history_def audit_forward_def sessions_forward_def users_forward_def keeps_def all_numbered_def)

lemma history_role:
  assumes "\<And>r. r_id (f r) = r_id r"
  shows "history s (roles_update (change_row r_id i (stamp (touch_role E) f)) s)"
proof -
  have "map r_id (change_row r_id i (stamp (touch_role E) f) (roles s)) = map r_id (roles s)"
    using assms by (intro map_change_row) (simp add: stamp_def touch_role_def)
  then show ?thesis
    by (auto simp: history_def audit_forward_def sessions_forward_def users_forward_def keeps_def all_numbered_def)
qed

lemma history_comment: "history s (case_comments_update (insert_row c) s)"
  by (auto simp: history_def audit_forward_def sessions_forward_def users_forward_def keeps_def all_numbered_def)

lemma history_new_case:
  "c_reference c = case_reference (length (cases s)) \<Longrightarrow> history s (cases_update (insert_row c) s)"
  by (auto simp: history_def audit_forward_def sessions_forward_def users_forward_def keeps_def all_numbered_def
      intro: case_refs.numbered_insert)

lemma history_case:
  assumes "\<And>c. case_identity (f c) = case_identity c"
  shows "history s (cases_update (change_row c_id i (stamp (touch_case E) f)) s)"
proof -
  have id: "case_identity (stamp (touch_case E) f c) = case_identity c" for c
    using assms [of c] by (simp add: stamp_def touch_case_def case_identity_def)
  then have "c_reference (stamp (touch_case E) f c) = c_reference c" for c
    by (simp add: case_identity_def)
  then have "numbered case_reference c_reference (cases s) \<Longrightarrow>
      numbered case_reference c_reference (change_row c_id i (stamp (touch_case E) f) (cases s))"
    by (auto intro: case_refs.numbered_change)
  moreover have "map case_identity (change_row c_id i (stamp (touch_case E) f) (cases s)) = map case_identity (cases s)"
    using id by (intro map_change_row)
  ultimately show ?thesis
    by (auto simp: history_def audit_forward_def sessions_forward_def users_forward_def keeps_def all_numbered_def)
qed

lemma history_new_query:
  "q_reference q = query_reference (length (saved_queries s)) \<Longrightarrow> history s (saved_queries_update (insert_row q) s)"
  by (auto simp: history_def audit_forward_def sessions_forward_def users_forward_def keeps_def all_numbered_def
      intro: query_refs.numbered_insert)

lemma history_new_report:
  "rp_reference r = report_reference (length (reports s)) \<Longrightarrow> history s (reports_update (insert_row r) s)"
  by (auto simp: history_def audit_forward_def sessions_forward_def users_forward_def keeps_def all_numbered_def
      intro: report_refs.numbered_insert)

lemma history_report:
  assumes "\<And>r. report_identity (f r) = report_identity r"
  shows "history s (reports_update (change_row rp_id i (stamp (touch_report E) f)) s)"
proof -
  have id: "report_identity (stamp (touch_report E) f r) = report_identity r" for r
    using assms [of r] by (simp add: stamp_def touch_report_def report_identity_def)
  then have "rp_reference (stamp (touch_report E) f r) = rp_reference r" for r
    by (simp add: report_identity_def)
  then have "numbered report_reference rp_reference (reports s) \<Longrightarrow>
      numbered report_reference rp_reference (change_row rp_id i (stamp (touch_report E) f) (reports s))"
    by (auto intro: report_refs.numbered_change)
  moreover have "map report_identity (change_row rp_id i (stamp (touch_report E) f) (reports s)) = map report_identity (reports s)"
    using id by (intro map_change_row)
  ultimately show ?thesis
    by (auto simp: history_def audit_forward_def sessions_forward_def users_forward_def keeps_def all_numbered_def)
qed

section \<open>The services move along the order\<close>

lemmas history_modify = history_order.grows_modify
lemmas history_bind = history_order.grows_after
lemmas history_modify_at = history_order.grows_at_modify

lemma grows_cases [grows_intro]:
  "grows R a \<Longrightarrow> (\<And>s. grows R (f s)) \<Longrightarrow> grows R b \<Longrightarrow>
   grows R (case z of NoKey \<Rightarrow> a | KeyStr s \<Rightarrow> f s | BadKey \<Rightarrow> b)"
  "grows R a \<Longrightarrow> grows R b \<Longrightarrow> (\<And>x. grows R (g x)) \<Longrightarrow>
   grows R (case y of NoHeader \<Rightarrow> a | EmptyCredentials \<Rightarrow> b | Credentials x \<Rightarrow> g x)"
  "grows R a \<Longrightarrow> (\<And>m. grows R (h m)) \<Longrightarrow>
   grows R (case e of ExpiredSignatureError \<Rightarrow> a | InvalidTokenError m \<Rightarrow> h m)"
  "grows R a \<Longrightarrow> (\<And>x xs. grows R (k x xs)) \<Longrightarrow> grows R (case l of [] \<Rightarrow> a | x # xs \<Rightarrow> k x xs)"
  by (auto split: key_claim.splits bearer.splits jwt_exn.splits list.splits)

lemma history_user_row: "(\<And>u. u_id (f u) = u_id u \<and> u_created_at (f u) = u_created_at u) \<Longrightarrow>
    grows history (change_user E i f)"
  unfolding change_user_def by (intro history_modify history_user)

lemma history_role_row: "(\<And>r. r_id (f r) = r_id r) \<Longrightarrow> grows history (change_role E i f)"
  unfolding change_role_def by (intro history_modify history_role)

lemma history_identity [grows_intro]:
  "grows history (record_audit E a b c d m)" "grows history (get_user i)" "grows history (require_role i)"
  "grows history (create_user E uc)" "grows history (list_audit n k)" "grows history (list_users n k)"
  "grows history list_roles"
  unfolding record_audit_def get_user_def require_role_def create_user_def list_audit_def list_users_def
    list_roles_def Let_def
  by (intro grows_intro history_modify history_audit history_new_user)+

text \<open>The changes \<open>update_user\<close> collects never touch the key.\<close>

definition keeps_user_key :: "(user \<Rightarrow> user) \<Rightarrow> bool" where
  "keeps_user_key f = (\<forall>u. u_id (f u) = u_id u \<and> u_created_at (f u) = u_created_at u)"

lemma user_key_kept [simp]:
  "u_id (set_profile p u) = u_id u" "u_created_at (set_profile p u) = u_created_at u"
  "u_id (set_password h t u) = u_id u" "u_created_at (set_password h t u) = u_created_at u"
  "u_id (login_user now u) = u_id u" "u_created_at (login_user now u) = u_created_at u"
  "u_id (count_failure u) = u_id u" "u_created_at (count_failure u) = u_created_at u"
  "u_id (lock_user st now u) = u_id u" "u_created_at (lock_user st now u) = u_created_at u"
  by (simp_all add: set_password_def set_profile_def login_user_def count_failure_def
      lock_user_def opt_set_def split: option.split)

lemma history_user_key: "keeps_user_key f \<Longrightarrow> grows history (change_user E i f)"
  by (rule history_user_row) (simp add: keeps_user_key_def)

lemmas history_collects = history_order.grows_result [where P = keeps_user_key]

lemma history_update_user [grows_intro]: "grows history (update_user E i p)"
  unfolding update_user_def Let_def
  by (rule history_order.grows_andthen, rule history_identity, rule history_collects,
      (intro grows_intro; fail), (auto simp: runs keeps_user_key_def split: option.splits if_splits; fail),
      rule history_collects,
      (intro grows_intro; fail), (auto simp: runs keeps_user_key_def split: option.splits if_splits; fail),
      intro grows_intro history_user_key, simp_all add: keeps_user_key_def)

lemma history_roles [grows_intro]: "grows history (upsert_role E ru)" "grows history (update_role_permissions E i pm)"
  unfolding upsert_role_def update_role_permissions_def Let_def
  by (intro grows_intro history_modify history_new_role history_role_row;
      simp add: set_role_fields_def opt_set_def split: option.split)+

lemma history_auth [grows_intro]:
  "grows history (tokens_for_session E u i j)" "grows history (issue_session E u ua ip)"
  "grows history (select_key key tab c)" "grows history (change_password E i p q)"
  "grows history (check_session E sc)" "grows history (user_role u)"
  "grows history (get_current_principal E cr)" "grows history (require pk act pr)"
  "grows history (login_failure E now u)"
  unfolding tokens_for_session_def issue_session_def select_key_def change_password_def check_session_def
    user_role_def get_current_principal_def require_def login_failure_def Let_def
  by (intro grows_intro history_modify history_new_session history_user_key; simp add: keeps_user_key_def)+

lemma history_login_success [grows_intro]: "grows history (login_success E now u pw ua ip)"
  unfolding login_success_def Let_def
  by (rule history_order.grows_andthen, (intro grows_intro; fail), rule history_collects,
      (intro grows_intro; fail), (auto simp: runs keeps_user_key_def split: if_splits; fail),
      intro grows_intro history_user_key, simp_all add: keeps_user_key_def)

lemma history_authenticate [grows_intro]: "grows history (authenticate E e pw ua ip)"
  unfolding authenticate_def by (intro grows_intro)

section \<open>Sessions: only live ones are changed\<close>

definition live_row :: "user_session \<Rightarrow> world \<Rightarrow> bool" where
  "live_row s w = (by_key s_id (s_id s) (user_sessions (pending w)) = [s] \<and> s_revoked_at s = None)"

lemma history_live_session:
  "live_row s w \<Longrightarrow> session_edit f \<Longrightarrow> grows_at history w (change_session (s_id s) f)"
  unfolding change_session_def live_row_def by (intro history_modify_at history_session) auto

lemma history_kill: "live_row s w \<Longrightarrow> grows_at history w (kill_session E now s m)"
  unfolding kill_session_def
  by (rule history_order.grows_at_andthen, rule history_live_session) (simp_all, intro growsD grows_intro)

lemma history_rotate_session: "live_row s w \<Longrightarrow> grows_at history w (rotate_session E now s u ua ip)"
  unfolding rotate_session_def
  by (rule history_order.grows_at_andthen, intro growsD grows_intro,
      rule history_order.grows_at_andthen, rule history_live_session)
     (simp_all add: live_row_def runs, intro growsD grows_intro)

lemma history_refresh_live:
  assumes "live_row s w"
  shows "grows_at history w (refresh_live E now s pl ua ip)"
proof -
  have rest: "grows_at history w1 (case active_owner found of
        None \<Rightarrow> kill_session E now s ''Account is no longer active.''
      | Some u \<Rightarrow> rotate_session E now s u ua ip)"
    if "select_one (\<lambda>st. by_key u_id (s_user_id s) (users st)) w = (Inr found, w1)" for found w1
  proof -
    from that assms have "live_row s w1" by (auto simp: runs)
    then show ?thesis by (auto split: option.split intro: history_kill history_rotate_session)
  qed
  show ?thesis
  proof (cases "map_of pl ''jti'' = Some (JStr (s_refresh_jti s))")
    case False
    with assms show ?thesis by (simp add: refresh_live_def history_kill)
  next
    case True
    then show ?thesis
      by (simp add: refresh_live_def)
         (rule history_order.grows_at_andthen, intro growsD grows_intro, erule rest)
  qed
qed

lemma history_refresh [grows_intro]: "grows history (refresh_session E t ua ip)"
proof -
  have found: "grows_at history w1 (andthen (now_utc E) (\<lambda>now.
      case z of None \<Rightarrow> raise msg_session
      | Some s \<Rightarrow> if session_dead s now then raise msg_session else refresh_live E now s pl ua ip))"
    if "select_key s_id user_sessions c w = (Inr z, w1)" for z w w1 pl c
  proof (cases z)
    case None
    show ?thesis unfolding None by (simp, intro growsD grows_intro)
  next
    case (Some s)
    with that have key: "by_key s_id (s_id s) (user_sessions (pending w1)) = [s]"
      by (auto simp: select_key_def runs split: key_claim.splits dest: by_key_in)
    show ?thesis unfolding Some option.case
    proof (rule history_order.grows_at_andthen)
      show "grows_at history w1 (now_utc E)" by (intro growsD grows_intro)
      fix now w2 assume "now_utc E w1 = (Inr now, w2)"
      with key have key2: "by_key s_id (s_id s) (user_sessions (pending w2)) = [s]" by (simp add: runs)
      show "grows_at history w2 (if session_dead s now then raise msg_session
          else refresh_live E now s pl ua ip)"
        using key2 by (auto simp: session_dead_def live_row_def intro: growsD grows_intro history_refresh_live)
    qed
  qed
  show ?thesis
    unfolding refresh_session_def
    by (intro grows_intro history_bind) (erule found)
qed

lemma history_revoke [grows_intro]: "grows history (revoke_session E so)"
proof -
  have found: "grows_at history w1 (case z of None \<Rightarrow> ret ()
      | Some s \<Rightarrow> if s_revoked_at s = None then
          andthen (now_utc E) (\<lambda>now. andthen (change_session (s_id s) (revoke now)) (\<lambda>_. flush E))
        else ret ())"
    if "select_one (\<lambda>st. by_key s_id i (user_sessions st)) w = (Inr z, w1)" for z w w1 i
  proof (cases "\<exists>s. z = Some s \<and> s_revoked_at s = None")
    case False
    then show ?thesis by (auto split: option.split intro: growsD grows_intro)
  next
    case True
    then obtain s where s: "z = Some s" "s_revoked_at s = None" by blast
    with that have "live_row s w1" by (auto simp: live_row_def runs dest: by_key_in)
    then have "grows_at history w2 (change_session (s_id s) (revoke now))"
      if "now_utc E w1 = (Inr now, w2)" for now w2
      using that by (intro history_live_session) (simp_all add: live_row_def runs)
    then show ?thesis
      using s by (auto intro!: history_order.grows_at_andthen intro: growsD grows_intro)
  qed
  show ?thesis
    unfolding revoke_session_def
    by (intro grows_intro history_bind) (erule found)
qed

section \<open>Operations, assurance, reporting\<close>

lemma case_identity_set [simp]: "case_identity (set_case p c) = case_identity c"
  by (simp add: case_identity_def set_case_def opt_set_def split: option.split)

lemma report_identity_steps [simp]:
  "report_identity (start_report r) = report_identity r"
  "report_identity (complete_report E p txt now r) = report_identity r"
  "report_identity (fail_report m r) = report_identity r"
  by (simp_all add: report_identity_def start_report_def complete_report_def fail_report_def)

lemma history_clients [grows_intro]:
  "grows history (ch_query E q ps)" "grows history (ch_ping E)" "grows history (pg_query E sql ps)"
  "grows history (pg_ping E)" "grows history (trigger_dag E d conf)" "grows history (af_ping E)"
  "grows history (close_clickhouse E)" "grows history (close_all_integrations E)"
proof -
  have r: "grows history (raise_if x)" for x unfolding raise_if_def by (intro grows_intro)
  have g: "grows history (get_client E)" unfolding get_client_def by (intro grows_intro r)
  show c: "grows history (close_clickhouse E)" unfolding close_clickhouse_def by (intro grows_intro r)
  show "grows history (ch_query E q ps)" unfolding ch_query_def query_sync_def by (intro grows_intro r g c)
  show "grows history (ch_ping E)" unfolding ch_ping_def by (intro grows_intro r g c)
  show "grows history (pg_query E sql ps)" "grows history (pg_ping E)"
    unfolding pg_query_def pg_ping_def get_engine_def by (intro grows_intro r)+
  have h: "grows history (case y of HttpError m \<Rightarrow> f m | OtherHttpExn m \<Rightarrow> g m | HttpResponse st j \<Rightarrow> k st j)"
    if "\<And>m. grows history (f m)" "\<And>m. grows history (g m)" "\<And>st j. grows history (k st j)"
    for y and f g :: "string \<Rightarrow> 'z act" and k
    using that by (auto split: http_answer.splits)
  show "grows history (trigger_dag E d conf)" "grows history (af_ping E)"
    unfolding trigger_dag_def af_ping_def Let_def by (intro grows_intro h)+
  show "grows history (close_all_integrations E)"
    unfolding close_all_integrations_def close_redis_def close_ra_postgres_def by (intro grows_intro r c)
qed

lemma history_on_upstream_down [grows_intro]:
  "grows history m \<Longrightarrow> grows history h \<Longrightarrow> grows history (on_upstream_down m h)"
  unfolding on_upstream_down_def by (intro grows_intro)

lemma history_operations [grows_intro]:
  "grows history (get_kpis E)" "grows history (get_stages E)" "grows history (get_runs E n)"
  "grows history list_alerts" "grows history (acknowledge_alert E i a)" "grows history get_retries"
  "grows history (retry_job_act E j)" "grows history (replay_job E j)" "grows history list_decoders"
  "grows history (upsert_decoder E du)" "grows history (get_system_config E)"
  "grows history (update_system_config E p)"
  unfolding operations_defs Let_def
  by (intro grows_intro history_modify history_other_tables)+

lemma history_numbered [grows_intro]:
  "grows history (create_case E p j)" "grows history (create_saved_query E q o1)"
  "grows history (create_report E rp a)"
  unfolding create_case_def next_case_reference_def insert_case_def create_saved_query_def
    create_report_def next_report_reference_def Let_def
  by (rule history_order.grows_numbered;
      (rule history_new_case history_new_query history_new_report; simp add: new_case_def new_report_def
       | intro grows_intro))+

lemma history_assurance [grows_intro]:
  "grows history (recon_summary E h)" "grows history (recon_records E st n k)"
  "grows history (list_cases st n k)" "grows history (get_case i)" "grows history (update_case E i cp)"
  "grows history (add_comment E i b a)" "grows history list_saved_queries" "grows history (workbench_stats E)"
  unfolding summary_of_row_def recon_summary_def recon_records_def list_cases_def find_case_def
    get_case_def update_case_def add_comment_def list_saved_queries_def workbench_stats_def Let_def
  by (intro grows_intro history_modify history_comment history_case case_identity_set)+

lemma history_reporting [grows_intro]:
  "grows history (list_reports n k)" "grows history (get_report i)" "grows history (download_report i)"
  "grows history (readiness E)" "grows history (dashboard_kpis E)"
  unfolding reporting_defs readiness_def ping_app_db_def dashboard_kpis_def
  by (intro grows_intro)+

lemma history_worker [grows_intro]: "grows history (generate_report E i)"
proof -
  have row: "grows history (change_report E j f)" if "\<And>r. report_identity (f r) = report_identity r" for j f
    unfolding change_report_def using that by (intro history_modify history_report)
  have c: "grows history (raise_if x)" for x
    unfolding raise_if_def by (intro grows_intro)
  have fetch: "grows history (fetch_rows E)"
    unfolding fetch_rows_def by (intro grows_intro c)
  have produce: "grows history (produce_report E r)" for r
    unfolding produce_report_def by (intro grows_intro fetch row report_identity_steps)
  have give: "grows history (give_up E i e)" for e
    unfolding give_up_def by (intro grows_intro history_order.grows_roll_back row report_identity_steps)
  have body: "grows history (catch
        (andthen roll_back_act (\<lambda>_.
         andthen (query (\<lambda>s. by_key rp_id i (reports s))) (\<lambda>found.
         case found of
           [] \<Rightarrow> ret ReportNotFound
         | r # rs \<Rightarrow> andthen (produce_report E r) (\<lambda>(checksum, n). ret (ReportDone checksum n)))))
        (give_up E i))" (is "grows history ?m")
    by (intro grows_intro history_order.grows_roll_back produce give)
  have "generate_report E i w = (case ?m w of (res, w') \<Rightarrow> (res, rollback w'))" for w
    by (simp add: generate_report_def)
  with body show ?thesis
    by (auto simp: grows_def history_order.R_refl split: prod.split)
qed

section \<open>The handlers\<close>

lemma history_dependencies [grows_intro]:
  "(\<And>p. grows history (body p)) \<Longrightarrow> grows history (parsed x body)"
  "(\<And>p y. grows history (b p y)) \<Longrightarrow> grows history (signed_in E creds x b)"
  "(\<And>p y. grows history (b p y)) \<Longrightarrow> grows history (guarded E creds k a x b)"
  unfolding parsed_def signed_in_def guarded_def by (intro grows_intro; blast)+

lemma history_role_of [grows_intro]: "grows history (role_of u)" "grows history (audit_by E p a t)"
  unfolding role_of_def audit_by_def by (intro grows_intro)+

lemma history_handler: "grows history (handler E hr creds req)"
  by (cases req) (simp_all only: handler.simps replying_def route_defs Let_def, (intro grows_intro)+)

end
