(* ===== verification/System.thy ===== *)
theory System
  imports History Rotation
begin

text \<open>
  The running system: requests through the whole application, tasks of the worker and the shutdown
  hook, in any order, as a step relation on the state of the process. A property of every step is
  carried to every run by induction. Requests are served one after the other; each has its own
  transaction time, its own broker and its own request context.
\<close>

section \<open>Steps and runs\<close>

definition in_transaction :: "'t env \<Rightarrow> int \<Rightarrow> bool \<Rightarrow> 't env" where
  "in_transaction E t up = E\<lparr>tx_now := t, broker_up := up\<rparr>"

datatype 't event =
    Handled "'t bearer" "'t request" "exn + 't reply" response
  | Worked string
  | Stopped

inductive step ::
  "'t env \<Rightarrow> ('t reply \<Rightarrow> json) \<Rightarrow> world process \<Rightarrow> 't event \<Rightarrow> world process \<Rightarrow> bool"
  for E :: "'t env" and render :: "'t reply \<Rightarrow> json" where
  request:
    "application (in_transaction E t up) render fresh hr creds req p = (resp, p') \<Longrightarrow>
     fst (serve (with_context (in_transaction E t up) (request_context fresh hr)) hr creds req (app_state p)) = out \<Longrightarrow>
     step E render p (Handled creds req out resp) p'"
| worker:
    "i \<in> set (tasks (app_state p)) \<Longrightarrow> generate_report (in_transaction E t up) i (app_state p) = (out, w') \<Longrightarrow>
     step E render p (Worked i) (p\<lparr>app_state := w'\<rparr>)"
| shutdown:
    "close_all_integrations E (app_state p) = (out, w') \<Longrightarrow> step E render p Stopped (p\<lparr>app_state := w'\<rparr>)"

inductive_cases step_handled: "step E render p (Handled creds req out resp) p'"
inductive_cases step_worked: "step E render p (Worked i) p'"

inductive run ::
  "'t env \<Rightarrow> ('t reply \<Rightarrow> json) \<Rightarrow> world process \<Rightarrow> 't event list \<Rightarrow> world process \<Rightarrow> bool"
  for E :: "'t env" and render :: "'t reply \<Rightarrow> json" where
  stay: "run E render p [] p"
| move: "step E render p e p1 \<Longrightarrow> run E render p1 es p2 \<Longrightarrow> run E render p (e # es) p2"

inductive_simps run_Nil [simp]: "run E render p [] p'"
inductive_simps run_Cons: "run E render p (e # es) p'"

abbreviation stored :: "world process \<Rightarrow> store" where
  "stored p \<equiv> committed (app_state p)"

text \<open>A preorder that every step respects relates the ends of every run.\<close>

lemma run_order:
  assumes "run E render p es p'" and "\<And>s. R s s" and "\<And>s t u. R s t \<Longrightarrow> R t u \<Longrightarrow> R s u"
    and "\<And>p e p'. step E render p e p' \<Longrightarrow> R (stored p) (stored p')"
  shows "R (stored p) (stored p')"
  using assms(1) by induction (use assms(2-) in blast)+

lemma run_invariant:
  assumes "run E render p es p'" and "I (stored p)"
    and "\<And>p e p'. step E render p e p' \<Longrightarrow> I (stored p) \<Longrightarrow> I (stored p')"
  shows "I (stored p')"
  using assms(1,2) by induction (use assms(3) in blast)+

section \<open>A request as the store sees it\<close>

definition request_env :: "'t env \<Rightarrow> int \<Rightarrow> bool \<Rightarrow> string \<Rightarrow> http_request \<Rightarrow> 't env" where
  "request_env E t up fresh hr = with_context (in_transaction E t up) (request_context fresh hr)"

lemma request_env_fields [simp]:
  "cfg (request_env E t up fresh hr) = cfg E" "crypt (request_env E t up fresh hr) = crypt E"
  "services (request_env E t up fresh hr) = services E" "clock (request_env E t up fresh hr) = clock E"
  "uuid_hex (request_env E t up fresh hr) = uuid_hex E" "inet_ok (request_env E t up fresh hr) = inet_ok E"
  "email_of (request_env E t up fresh hr) = email_of E"
  "ctx_client_ip (request_env E t up fresh hr) = client_ip hr"
  "ctx_user_agent (request_env E t up fresh hr) = h_headers hr ''user-agent''"
  "ctx_request_id (request_env E t up fresh hr) = Some (request_id fresh hr)"
  by (simp_all add: request_env_def with_context_def in_transaction_def request_context_def)

lemma application_cases:
  assumes "application (in_transaction E t up) render fresh hr creds req p = (resp, p')"
  obtains (ok) a w' where "serve (request_env E t up fresh hr) hr creds req (app_state p) = (Inr a, w')"
      "app_state p' = w'" "rs_status resp = success_status req" "rs_content resp = render a"
  | (failed) e w' where "serve (request_env E t up fresh hr) hr creds req (app_state p) = (Inl e, w')"
      "app_state p' = w'" "rs_status resp = rs_status (handle_exn e)" "rs_content resp = rs_content (handle_exn e)"
proof -
  obtain r w' where s: "serve (request_env E t up fresh hr) hr creds req (app_state p) = (r, w')"
    by (cases "serve (request_env E t up fresh hr) hr creds req (app_state p)")
  show ?thesis
  proof (cases r)
    case (Inl e)
    with s assms have "app_state p' = w' \<and> rs_status resp = rs_status (handle_exn e) \<and>
        rs_content resp = rs_content (handle_exn e)"
      by (auto simp: application_def dispatch_def call_next_def Let_def request_env_def add_header_def
          split: if_splits)
    with s Inl failed show ?thesis by blast
  next
    case (Inr a)
    with s assms have "app_state p' = w' \<and> rs_status resp = success_status req \<and> rs_content resp = render a"
      by (auto simp: application_def dispatch_def call_next_def Let_def request_env_def add_header_def
          ok_response_def)
    with s Inr ok show ?thesis by blast
  qed
qed

lemma application_serve:
  "application (in_transaction E t up) render fresh hr creds req p = (resp, p') \<Longrightarrow>
   app_state p' = snd (serve (request_env E t up fresh hr) hr creds req (app_state p))"
  by (erule application_cases) simp_all

lemmas serve_history = history_order.serve_grows [OF history_handler]
lemmas worker_history = history_order.task_grows [OF history_worker]

section \<open>What every step keeps\<close>

lemma checked_worker: "checked E (generate_report E i)"
proof -
  have rb: "checked E roll_back_act" by (simp add: checked_def roll_back_act_def)
  have c: "silent (raise_if x)" for x
    unfolding raise_if_def by (intro silent_intro)
  have fetch: "silent (fetch_rows E)" unfolding fetch_rows_def by (intro silent_intro c)
  have row: "silent (change_report E j f)" for j f unfolding change_report_def by (intro silent_intro)
  have produce: "checked E (produce_report E r)" for r
    unfolding produce_report_def by (intro checked_intro fetch [THEN silent_checked] row [THEN silent_checked])
  have give: "checked E (give_up E i e)" for e
    unfolding give_up_def by (intro checked_intro rb row [THEN silent_checked])
  have list: "checked E (case l of [] \<Rightarrow> a | x # xs \<Rightarrow> k x xs)"
    if "checked E a" "\<And>x xs. checked E (k x xs)" for l a k
    using that by (cases l) auto
  have body: "checked E (catch
        (andthen roll_back_act (\<lambda>_.
         andthen (query (\<lambda>s. by_key rp_id i (reports s))) (\<lambda>found.
         case found of
           [] \<Rightarrow> ret ReportNotFound
         | r # rs \<Rightarrow> andthen (produce_report E r) (\<lambda>(checksum, n). ret (ReportDone checksum n)))))
        (give_up E i))" (is "checked E ?m")
    by (intro checked_intro list rb produce give)
  have "generate_report E i w = (case ?m w of (res, w') \<Rightarrow> (res, rollback w'))" for w
    by (simp add: generate_report_def)
  with body show ?thesis by (auto simp: checked_def split: prod.split)
qed

lemma silent_shutdown: "silent (close_all_integrations E)"
proof -
  have r: "silent (raise_if x)" for x unfolding raise_if_def by (intro silent_intro)
  show ?thesis unfolding close_all_integrations_def close_redis_def close_ra_postgres_def by (intro silent_intro r)
qed

text \<open>A step changes the stores by one request, one task, or not at all.\<close>

lemma step_stored:
  assumes "step E render p e p'"
  obtains (request) t up fresh hr creds req out resp where "e = Handled creds req out resp"
      "serve (request_env E t up fresh hr) hr creds req (app_state p) = (out, app_state p')"
  | (worker) t up i where "e = Worked i" "stored p' = committed (snd (generate_report (in_transaction E t up) i (app_state p)))"
  | (shutdown) "e = Stopped" "stored p' = stored p"
  using assms
proof cases
  case request
  then show ?thesis using that(1) application_serve by (metis prod.collapse request_env_def)
next
  case worker
  then show ?thesis using that(2) by simp (metis snd_conv)
next
  case shutdown
  then show ?thesis using that(3) silent_shutdown [of E] by (simp add: silent_def) (metis snd_conv)
qed

lemma step_history: "step E render p e p' \<Longrightarrow> history (stored p) (stored p')"
proof (erule step_stored)
  fix t up fresh hr creds req out
  assume "serve (request_env E t up fresh hr) hr creds req (app_state p) = (out, app_state p')"
  then show "history (stored p) (stored p')"
    using serve_history [of "app_state p" "request_env E t up fresh hr" hr creds req] by simp
qed (simp_all add: worker_history history_order.R_refl)

lemma step_store_ok:
  assumes "step E render p e p'" and "store_ok (inet_ok E) (stored p)"
  shows "store_ok (inet_ok E) (stored p')"
  using assms(1)
proof (cases rule: step_stored)
  case (request t up fresh hr creds req out resp)
  then show ?thesis
    using assms(2) checked_serve [of "request_env E t up fresh hr" hr creds req] by (auto simp: checked_def dest: spec [of _ "app_state p"])
next
  case (worker t up i)
  then show ?thesis
    using assms(2) checked_worker [of "in_transaction E t up" i] by (simp add: checked_def in_transaction_def)
qed (use assms(2) in simp)

lemma run_history: "run E render p es p' \<Longrightarrow> history (stored p) (stored p')"
  by (erule run_order) (auto intro: history_order.R_refl history_order.R_trans step_history)

section \<open>Runs of the demonstration deployment\<close>

definition demo_http :: http_request where
  "demo_http =
     \<lparr>h_method = ''POST'', h_path = ''/api/auth/logout'', h_route = None,
      h_headers = [''x-forwarded-for'' \<mapsto> ''10.0.0.9, 10.0.0.1'', ''user-agent'' \<mapsto> ''curl''], h_client = None\<rparr>"

definition demo_process :: "world \<Rightarrow> world process" where
  "demo_process w = \<lparr>ctx = empty_context, request_count = [], request_latency = [], log_lines = [], app_state = w\<rparr>"

definition demo_request_env :: "demo_token env" where
  "demo_request_env = request_env demo_env 1000 True ''f00d'' demo_http"

lemma demo_run:
  assumes "serve demo_request_env demo_http creds req w = (out, w')"
  obtains resp p' where "run demo_env render (demo_process w) [Handled creds req out resp] p'" "app_state p' = w'"
proof -
  obtain resp p' where a: "application (in_transaction demo_env 1000 True) render ''f00d'' demo_http creds req (demo_process w) =
      (resp, p')"
    by (metis prod.collapse)
  have app: "app_state (demo_process w) = w" by (simp add: demo_process_def)
  have "step demo_env render (demo_process w) (Handled creds req out resp) p'"
    using step.request [OF a refl] assms
    by (simp add: app demo_request_env_def request_env_def)
  moreover have "app_state p' = w'"
    using application_serve [OF a] assms by (simp add: app demo_request_env_def)
  ultimately show ?thesis using that run.intros by blast
qed

lemma demo_logout: "\<exists>a w'. serve demo_request_env demo_http (Credentials demo_access) Logout demo_world = (Inr a, w')"
proof -
  have "\<not> isl (fst (serve demo_request_env demo_http (Credentials demo_access) Logout demo_world))"
    by code_simp
  then show ?thesis by (metis isl_def prod.collapse sum.exhaust_sel)
qed

section \<open>Properties\<close>



text \<open>
  C2: no run takes anything back: the audit trail, the comments and the saved queries of the store
  before are a prefix of those after, a revoked session is still there unchanged, every other session
  keeps its owner, every user and role is still there, and cases and reports keep their id, reference,
  author and creation time.
\<close>

theorem nothing_is_taken_back:
  assumes "run E render p es p'"
  shows "prefix (audit_logs (stored p)) (audit_logs (stored p')) \<and>
    prefix (case_comments (stored p)) (case_comments (stored p')) \<and>
    prefix (saved_queries (stored p)) (saved_queries (stored p')) \<and>
    {x \<in> set (user_sessions (stored p)). s_revoked_at x \<noteq> None} \<subseteq> set (user_sessions (stored p')) \<and>
    (\<lambda>x. (s_id x, s_user_id x)) ` set (user_sessions (stored p)) \<subseteq>
      (\<lambda>x. (s_id x, s_user_id x)) ` set (user_sessions (stored p')) \<and>
    u_id ` set (users (stored p)) \<subseteq> u_id ` set (users (stored p')) \<and>
    prefix (map r_id (roles (stored p))) (map r_id (roles (stored p'))) \<and>
    prefix (map case_identity (cases (stored p))) (map case_identity (cases (stored p'))) \<and>
    prefix (map report_identity (reports (stored p))) (map report_identity (reports (stored p')))"
proof -
  have h: "history (stored p) (stored p')" using assms by (rule run_history)
  then have a: "prefix (audit_logs (stored p)) (audit_logs (stored p'))"
    unfolding history_def audit_forward_def by (metis take_is_prefix)
  have s: "sessions_forward (stored p) (stored p')" and u: "users_forward (stored p) (stored p')"
    using h by (simp_all add: history_def)
  have r: "{x \<in> set (user_sessions (stored p)). s_revoked_at x \<noteq> None} \<subseteq> set (user_sessions (stored p'))"
    using s by (force simp: sessions_forward_def)
  have o': "(\<lambda>x. (s_id x, s_user_id x)) ` set (user_sessions (stored p)) \<subseteq>
      (\<lambda>x. (s_id x, s_user_id x)) ` set (user_sessions (stored p'))"
  proof (intro subsetI, elim imageE, clarify)
    fix x assume "x \<in> set (user_sessions (stored p))"
    with s obtain y where "y \<in> set (user_sessions (stored p'))" "s_id y = s_id x" "s_user_id y = s_user_id x"
      unfolding sessions_forward_def by blast
    then show "(s_id x, s_user_id x) \<in> (\<lambda>x. (s_id x, s_user_id x)) ` set (user_sessions (stored p'))"
      by (intro image_eqI [of _ _ y]) auto
  qed
  have v: "u_id ` set (users (stored p)) \<subseteq> u_id ` set (users (stored p'))"
  proof (intro subsetI, elim imageE, clarify)
    fix x assume "x \<in> set (users (stored p))"
    with u obtain y where "y \<in> set (users (stored p'))" "u_id y = u_id x"
      unfolding users_forward_def by blast
    then show "u_id x \<in> u_id ` set (users (stored p'))" by (intro image_eqI [of _ _ y]) auto
  qed
  from h a r o' v show ?thesis by (simp add: history_def)
qed

theorem nothing_is_taken_back_witness:
  "\<exists>a w'. serve demo_request_env demo_http (Credentials demo_access) Logout demo_world = (Inr a, w') \<and>
     ''u1'' \<in> u_id ` set (users (committed w')) \<and> prefix [''admin''] (map r_id (roles (committed w')))"
proof -
  obtain a w' where out: "serve demo_request_env demo_http (Credentials demo_access) Logout demo_world = (Inr a, w')"
    using demo_logout by blast
  obtain resp p' where r: "run demo_env (\<lambda>a. JNull) (demo_process demo_world)
      [Handled (Credentials demo_access) Logout (Inr a) resp] p'" "app_state p' = w'"
    by (rule demo_run [OF out])
  from nothing_is_taken_back [OF r(1)] show ?thesis
    using out r(2) by (auto simp: demo_process_def demo_user_def demo_role_def)
qed

text \<open>
  C3: from a store whose references are numbered (an empty one, say) every run keeps the numbering:
  the n-th case, saved query and report carry the n-th reference, so no two rows of a table ever
  share one. (Requests here run one after the other; two that overlap can collide.)
\<close>

theorem references_stay_numbered:
  assumes "run E render p es p'"
    and "map c_reference (cases (stored p)) = map case_reference [0..<length (cases (stored p))]"
    and "map q_reference (saved_queries (stored p)) = map query_reference [0..<length (saved_queries (stored p))]"
    and "map rp_reference (reports (stored p)) = map report_reference [0..<length (reports (stored p))]"
  shows "map c_reference (cases (stored p')) = map case_reference [0..<length (cases (stored p'))] \<and>
    map q_reference (saved_queries (stored p')) = map query_reference [0..<length (saved_queries (stored p'))] \<and>
    map rp_reference (reports (stored p')) = map report_reference [0..<length (reports (stored p'))] \<and>
    distinct (map c_reference (cases (stored p'))) \<and> distinct (map q_reference (saved_queries (stored p'))) \<and>
    distinct (map rp_reference (reports (stored p')))"
proof -
  have "all_numbered (stored p)" using assms(2-4) by (simp add: all_numbered_def numbered_def)
  then have n: "all_numbered (stored p')"
    using run_history [OF assms(1)] by (simp add: history_def keeps_def)
  then have "distinct (map c_reference (cases (stored p')))" "distinct (map q_reference (saved_queries (stored p')))"
    "distinct (map rp_reference (reports (stored p')))"
    using case_refs.numbered_unique query_refs.numbered_unique report_refs.numbered_unique
    by (auto simp: all_numbered_def keys_unique_def)
  with n show ?thesis by (simp add: all_numbered_def numbered_def)
qed

theorem references_stay_numbered_witness:
  "\<exists>a w'. serve demo_request_env demo_http (Credentials demo_access) Logout demo_world = (Inr a, w') \<and>
     map c_reference (cases (committed w')) = map case_reference [0..<length (cases (committed w'))]"
proof -
  obtain a w' where out: "serve demo_request_env demo_http (Credentials demo_access) Logout demo_world = (Inr a, w')"
    using demo_logout by blast
  obtain resp p' where r: "run demo_env (\<lambda>a. JNull) (demo_process demo_world)
      [Handled (Credentials demo_access) Logout (Inr a) resp] p'" "app_state p' = w'"
    by (rule demo_run [OF out])
  have s: "stored (demo_process demo_world) = demo_store" by (simp add: demo_process_def)
  show ?thesis
    using references_stay_numbered [OF r(1)] out r(2) unfolding s by auto
qed

end
