(* ===== verification/Guard.thy ===== *)
theory Guard
  imports System
begin

text \<open>
  Who gets in and what is recorded: the gate in front of every handler, what a refused or failed
  request leaves behind, and the audit record a successful one writes.
\<close>

section \<open>The gate\<close>

definition gate :: "access \<Rightarrow> principal \<Rightarrow> principal act" where
  "gate a p = (case a of Needs key action \<Rightarrow> require key action p | _ \<Rightarrow> ret p)"

lemma andthen_assoc: "andthen (andthen m f) g = andthen m (\<lambda>x. andthen (f x) g)"
  by (rule ext) (simp add: andthen_def split: prod.split sum.split)

lemma andthen_ret: "andthen (ret x) f = f x"
  by (rule ext) (simp add: andthen_def ret_def)

lemma gated_routes:
  "replying f (guarded E creds k a x b) =
     andthen (get_current_principal E creds) (\<lambda>p. andthen (gate (Needs k a) p) (\<lambda>q. andthen (parsed x (b q)) (\<lambda>y. ret (f y))))"
  "replying f (signed_in E creds x b) =
     andthen (get_current_principal E creds) (\<lambda>p. andthen (gate SignedIn p) (\<lambda>q. andthen (parsed x (b q)) (\<lambda>y. ret (f y))))"
  by (simp_all add: replying_def guarded_def signed_in_def gate_def andthen_assoc andthen_ret)

lemma handler_gate:
  assumes "access_of req \<noteq> Public"
  shows "\<exists>body. handler E hr creds req =
    andthen (get_current_principal E creds) (\<lambda>p. andthen (gate (access_of req) p) body)"
  using assms by (cases req) (simp_all add: route_defs gated_routes, (rule exI, rule refl)+)

lemma gate_runs:
  "gate a p w = (Inr q, w') \<longleftrightarrow> a = Public \<and> q = p \<and> w' = w \<or> admits a p \<and> q = p \<and> w' = w"
  by (auto simp: gate_def admits_def require_def ret_def raise_def split: access.splits)

lemma gate_refuses:
  "\<not> admits a p \<Longrightarrow> \<exists>m. gate a p w = (Inl (App PermissionDeniedError m []), w)"
  by (auto simp: gate_def admits_def require_def raise_def split: access.splits)

section \<open>Functions that only read\<close>

named_theorems peeks_intro \<open>rules for functions that change nothing but the clock reading\<close>

definition peeks :: "'a act \<Rightarrow> bool" where
  "peeks m = (\<forall>w. \<exists>n. snd (m w) = w\<lparr>reads := n\<rparr>)"

lemma peeks_primitives [peeks_intro]:
  "peeks (ret x)" "peeks (raise e)" "peeks (now_utc E)" "peeks (query f)" "peeks (one_or_none rs)"
proof -
  have same: "\<exists>n. w = w\<lparr>reads := n\<rparr>" for w :: world
    by (intro exI [of _ "reads w"]) simp
  then show "peeks (ret x)" "peeks (raise e)" "peeks (query f)" "peeks (one_or_none rs)"
    by (auto simp: peeks_def ret_def raise_def query_def one_or_none_def split: list.split)
  show "peeks (now_utc E)" by (auto simp: peeks_def now_utc_def)
qed

lemma peeks_andthen [peeks_intro]:
  assumes "peeks m" and "\<And>x. peeks (k x)"
  shows "peeks (andthen m k)"
  unfolding peeks_def
proof
  fix w :: world
  obtain r w1 n where m: "m w = (r, w1)" "w1 = w\<lparr>reads := n\<rparr>"
    using assms(1) unfolding peeks_def by (metis prod.collapse)
  show "\<exists>n. snd (andthen m k w) = w\<lparr>reads := n\<rparr>"
  proof (cases r)
    case (Inr x)
    obtain j where "snd (k x w1) = w1\<lparr>reads := j\<rparr>"
      using assms(2) unfolding peeks_def by blast
    with m Inr show ?thesis by (intro exI [of _ j]) (simp add: andthen_def)
  qed (use m in \<open>auto simp: andthen_def\<close>)
qed

lemma peeks_control [peeks_intro]:
  "peeks a \<Longrightarrow> peeks b \<Longrightarrow> peeks (if c then a else b)"
  "peeks a \<Longrightarrow> (\<And>x. peeks (f x)) \<Longrightarrow> peeks (case z of None \<Rightarrow> a | Some x \<Rightarrow> f x)"
  "(\<And>x. peeks (g x)) \<Longrightarrow> (\<And>x. peeks (h x)) \<Longrightarrow> peeks (case s of Inl x \<Rightarrow> g x | Inr x \<Rightarrow> h x)"
  "peeks a \<Longrightarrow> (\<And>s. peeks (f' s)) \<Longrightarrow> peeks b \<Longrightarrow> peeks (case z' of NoKey \<Rightarrow> a | KeyStr s \<Rightarrow> f' s | BadKey \<Rightarrow> b)"
  "peeks a \<Longrightarrow> peeks b \<Longrightarrow> (\<And>x. peeks (g' x)) \<Longrightarrow>
   peeks (case y of NoHeader \<Rightarrow> a | EmptyCredentials \<Rightarrow> b | Credentials x \<Rightarrow> g' x)"
  "peeks a \<Longrightarrow> (\<And>m. peeks (h' m)) \<Longrightarrow> peeks (case e of ExpiredSignatureError \<Rightarrow> a | InvalidTokenError m \<Rightarrow> h' m)"
  "peeks a \<Longrightarrow> (\<And>x xs. peeks (k x xs)) \<Longrightarrow> peeks (case l of [] \<Rightarrow> a | x # xs \<Rightarrow> k x xs)"
  by (auto split: option.splits sum.splits key_claim.splits bearer.splits jwt_exn.splits list.splits)

lemma peeks_principal [peeks_intro]: "peeks (get_current_principal E creds)"
  unfolding get_current_principal_def check_session_def select_key_def select_one_def user_role_def
  by (intro peeks_intro)

section \<open>Refusals\<close>

text \<open>Nothing outside the request has happened: no commit, no task, no file, no call to a service.\<close>

definition untouched :: "world \<Rightarrow> world \<Rightarrow> bool" where
  "untouched w w' = (\<exists>n. w' = (rollback w)\<lparr>reads := n\<rparr>)"

definition admitted :: "'t env \<Rightarrow> 't bearer \<Rightarrow> access \<Rightarrow> world \<Rightarrow> principal \<Rightarrow> bool" where
  "admitted E creds a w p =
     (case get_current_principal E creds (rollback w) of
        (Inr q, w1) \<Rightarrow> q = p \<and> admits a p | (Inl e, w1) \<Rightarrow> False)"

lemma not_admitted:
  "(\<And>q w'. get_current_principal E creds (rollback w) \<noteq> (Inr q, w')) \<Longrightarrow> \<not> admitted E creds a w p"
  by (auto simp: admitted_def split: prod.splits sum.splits)

lemma rollback_idem [simp]: "rollback ((rollback w)\<lparr>reads := n\<rparr>) = (rollback w)\<lparr>reads := n\<rparr>"
  by (simp add: rollback_def)

lemma not_sessionless: "access_of req \<noteq> Public \<Longrightarrow> \<not> sessionless req"
  by (auto simp: sessionless_def split: request.splits)

lemma refused:
  assumes closed: "access_of req \<noteq> Public" and no: "\<And>p. \<not> admitted E creds (access_of req) w p"
  obtains e w' where "serve E hr creds req w = (Inl e, w')" "untouched w w'"
    "\<And>p w1. get_current_principal E creds (rollback w) = (Inr p, w1) \<Longrightarrow> rs_status (handle_exn e) = 403"
    "\<And>e' w1. get_current_principal E creds (rollback w) = (Inl e', w1) \<Longrightarrow> e = e'"
proof -
  obtain body where h: "handler E hr creds req =
      andthen (get_current_principal E creds) (\<lambda>p. andthen (gate (access_of req) p) body)"
    using handler_gate [OF closed] by blast
  obtain r w1 n where r: "get_current_principal E creds (rollback w) = (r, w1)" "w1 = (rollback w)\<lparr>reads := n\<rparr>"
    using peeks_principal [of E creds] unfolding peeks_def by (metis prod.collapse)
  show ?thesis
  proof (cases r)
    case (Inl e)
    with r h closed have "serve E hr creds req w = (Inl e, w1)"
      by (simp add: serve_def not_sessionless get_session_def andthen_def)
    with r Inl that show ?thesis unfolding untouched_def by fastforce
  next
    case (Inr p)
    with no [of p] r have "\<not> admits (access_of req) p" by (simp add: admitted_def)
    then obtain m where "gate (access_of req) p w1 = (Inl (App PermissionDeniedError m []), w1)"
      using gate_refuses by blast
    with r h closed Inr have "serve E hr creds req w = (Inl (App PermissionDeniedError m []), w1)"
      by (simp add: serve_def not_sessionless get_session_def andthen_def)
    with r Inr that show ?thesis unfolding untouched_def by fastforce
  qed
qed

text \<open>
  C7: apart from the health probes, login and refresh, no request does anything for a caller whom
  the bearer token does not identify or whose role lacks the permission of the route: it fails before
  its payload is looked at, nothing is committed, no task, file or call to another service is made,
  and the answer is 403 for a known caller and the authentication error for an unknown one, 401 when
  there is no token.
\<close>

theorem guard_enforced:
  assumes "access_of req \<noteq> Public" and "\<And>p. \<not> admitted E creds (access_of req) w p"
  shows "\<exists>e w'. serve E hr creds req w = (Inl e, w') \<and> untouched w w' \<and>
    (case get_current_principal E creds (rollback w) of
       (Inr p, w1) \<Rightarrow> rs_status (handle_exn e) = 403 | (Inl e', w1) \<Rightarrow> e = e') \<and>
    (creds \<in> {NoHeader, EmptyCredentials} \<longrightarrow> rs_status (handle_exn e) = 401)"
proof -
  obtain e w' where r: "serve E hr creds req w = (Inl e, w')" "untouched w w'"
    "\<And>p w1. get_current_principal E creds (rollback w) = (Inr p, w1) \<Longrightarrow> rs_status (handle_exn e) = 403"
    "\<And>e' w1. get_current_principal E creds (rollback w) = (Inl e', w1) \<Longrightarrow> e = e'"
    using refused [OF assms] by blast
  then have "creds \<in> {NoHeader, EmptyCredentials} \<longrightarrow> rs_status (handle_exn e) = 401"
    by (auto simp: get_current_principal_def raise_def auth_error_def)
  with r show ?thesis by (auto split: prod.split sum.split)
qed

definition powerless_world :: world where
  "powerless_world = world_of (demo_store\<lparr>roles := [demo_role\<lparr>r_permissions := []\<rparr>]\<rparr>)"

theorem guard_enforced_witness:
  "\<exists>e w'. serve demo_request_env demo_http (Credentials demo_access) ListRoles powerless_world = (Inl e, w') \<and>
     rs_status (handle_exn e) = 403 \<and> untouched powerless_world w'"
proof -
  have "\<not> isl (fst (get_current_principal demo_request_env (Credentials demo_access) (rollback powerless_world)))"
    by code_simp
  then obtain p w1 where p: "get_current_principal demo_request_env (Credentials demo_access) (rollback powerless_world) = (Inr p, w1)"
    by (metis isl_def prod.collapse sum.exhaust_sel)
  have "\<not> (case fst (get_current_principal demo_request_env (Credentials demo_access) (rollback powerless_world)) of
      Inr q \<Rightarrow> admits (access_of (ListRoles :: demo_token request)) q | Inl e \<Rightarrow> True)"
    by code_simp
  with p have "\<not> admitted demo_request_env (Credentials demo_access) (access_of (ListRoles :: demo_token request)) powerless_world q" for q
    by (auto simp: admitted_def)
  from guard_enforced [OF _ this, of demo_http] p show ?thesis by auto
qed

section \<open>Failures\<close>

lemma failed_serve_committed:
  assumes "serve E hr creds req w = (Inl e, w')" and "\<not> commits_itself req"
  shows "committed w' = committed w"
proof (cases "sessionless req")
  case True
  with assms silent_handler [OF assms(2), of E hr creds] show ?thesis
    by (simp add: serve_def silent_def) (metis snd_conv)
next
  case False
  with assms silent_handler [OF assms(2), of E hr creds] show ?thesis
    using get_session_rollback by (simp add: serve_def) blast
qed

text \<open>
  C10: a request that fails leaves nothing behind in the database: whatever it had already changed is
  rolled back and the committed store is the one before. The exceptions are login and refresh, which
  commit the failed attempt and the revocation on purpose.
\<close>

theorem failed_requests_change_nothing:
  assumes "serve E hr creds req w = (Inl e, w')" and "\<not> commits_itself req"
  shows "committed w' = committed w \<and> (\<not> sessionless req \<longrightarrow> pending w' = committed w)"
proof -
  have "pending w' = committed w" if "\<not> sessionless req"
    using that assms silent_handler [OF assms(2), of E hr creds] get_session_rollback
    by (simp add: serve_def) blast
  with failed_serve_committed [OF assms] show ?thesis by simp
qed

text \<open>A decoder whose version does not fit its column: the row is inserted, the flush refuses it.\<close>

theorem failed_requests_change_nothing_witness:
  "\<exists>e w'. serve demo_request_env demo_http (Credentials demo_access)
      (UpsertDecoder \<lparr>du_id = ''d'', du_name = ''n'', du_version = replicate 33 (CHR ''x''), du_status = ''Enabled'',
         du_throughput = None, du_config = None\<rparr>) demo_world = (Inl e, w') \<and> committed w' = demo_store"
  (is "\<exists>e w'. serve _ _ _ ?req _ = _ \<and> _")
proof -
  have "isl (fst (serve demo_request_env demo_http (Credentials demo_access) ?req demo_world))"
    by code_simp
  then obtain e w' where out: "serve demo_request_env demo_http (Credentials demo_access) ?req demo_world = (Inl e, w')"
    by (metis isl_def prod.collapse)
  with failed_requests_change_nothing [OF out] show ?thesis by (simp add: commits_itself_def)
qed

section \<open>The audit record\<close>

named_theorems leaves_intro \<open>rules for functions that leave a part of the session's store alone\<close>

definition leaves :: "(store \<Rightarrow> 'b) \<Rightarrow> 'a act \<Rightarrow> bool" where
  "leaves g m = (\<forall>w. g (pending (snd (m w))) = g (pending w))"

lemma leaves_primitives [leaves_intro]:
  "leaves g (ret x)" "leaves g (raise e)" "leaves g (now_utc E)" "leaves g (uuid4_hex E)"
  "leaves g (hash_act E p)" "leaves g (lib_call r)" "leaves g (query f)" "leaves g (one_or_none rs)"
  "leaves g (flush E)" "leaves g publish" "leaves g ext_call" "leaves g has_ch_client"
  "leaves g (set_ch_client b)" "leaves g (set_pg_engine b)" "leaves g (accept_dag_run d conf)"
  "leaves g (send_task i)" "leaves g (lift_res res)" "leaves g (read_file path)" "leaves g (path_exists path)"
  by (auto simp: leaves_def prog flush_def publish_def split: list.split option.split sum.split)

lemma leaves_andthen [leaves_intro]:
  assumes "leaves g m" and "\<And>x. leaves g (k x)"
  shows "leaves g (andthen m k)"
  unfolding leaves_def
proof
  fix w :: world
  show "g (pending (snd (andthen m k w))) = g (pending w)"
    using assms(1) [unfolded leaves_def, rule_format, of w] assms(2) [unfolded leaves_def, rule_format]
    by (cases "m w"; cases "fst (m w)") (simp_all add: andthen_def)
qed

lemma leaves_catch [leaves_intro]:
  assumes "leaves g m" and "\<And>e. leaves g (h e)"
  shows "leaves g (catch m h)"
  unfolding leaves_def
proof
  fix w :: world
  show "g (pending (snd (catch m h w))) = g (pending w)"
    using assms(1) [unfolded leaves_def, rule_format, of w] assms(2) [unfolded leaves_def, rule_format]
    by (cases "m w"; cases "fst (m w)") (simp_all add: catch_def)
qed

lemma leaves_control [leaves_intro]:
  "leaves g a \<Longrightarrow> leaves g b \<Longrightarrow> leaves g (if c then a else b)"
  "leaves g a \<Longrightarrow> (\<And>x. leaves g (f x)) \<Longrightarrow> leaves g (case z of None \<Rightarrow> a | Some x \<Rightarrow> f x)"
  "(\<And>x. leaves g (h x)) \<Longrightarrow> (\<And>x. leaves g (k x)) \<Longrightarrow> leaves g (case s of Inl x \<Rightarrow> h x | Inr x \<Rightarrow> k x)"
  "(\<And>x y. leaves g (q x y)) \<Longrightarrow> leaves g (case pr of (x, y) \<Rightarrow> q x y)"
  "leaves g a \<Longrightarrow> (\<And>s. leaves g (f' s)) \<Longrightarrow> leaves g b \<Longrightarrow>
   leaves g (case z' of NoKey \<Rightarrow> a | KeyStr s \<Rightarrow> f' s | BadKey \<Rightarrow> b)"
  "leaves g a \<Longrightarrow> leaves g b \<Longrightarrow> (\<And>x. leaves g (g' x)) \<Longrightarrow>
   leaves g (case y of NoHeader \<Rightarrow> a | EmptyCredentials \<Rightarrow> b | Credentials x \<Rightarrow> g' x)"
  "leaves g a \<Longrightarrow> (\<And>m. leaves g (h' m)) \<Longrightarrow>
   leaves g (case e of ExpiredSignatureError \<Rightarrow> a | InvalidTokenError m \<Rightarrow> h' m)"
  "leaves g a \<Longrightarrow> (\<And>x xs. leaves g (kk x xs)) \<Longrightarrow> leaves g (case l of [] \<Rightarrow> a | x # xs \<Rightarrow> kk x xs)"
  "(\<And>m. leaves g (f1 m)) \<Longrightarrow> (\<And>m. leaves g (f2 m)) \<Longrightarrow> (\<And>st j. leaves g (f3 st j)) \<Longrightarrow>
   leaves g (case ans of HttpError m \<Rightarrow> f1 m | OtherHttpExn m \<Rightarrow> f2 m | HttpResponse st j \<Rightarrow> f3 st j)"
  by (auto split: option.splits sum.splits prod.splits key_claim.splits bearer.splits jwt_exn.splits list.splits
      http_answer.splits)

lemma leaves_modify: "(\<And>s. g (f s) = g s) \<Longrightarrow> leaves g (modify f)"
  by (simp add: leaves_def modify_def)

abbreviation no_audit :: "'a act \<Rightarrow> bool" where
  "no_audit \<equiv> leaves audit_logs"

lemma no_audit_modify [leaves_intro]:
  "no_audit (modify (users_update f1))" "no_audit (modify (roles_update f2))"
  "no_audit (modify (user_sessions_update f3))" "no_audit (modify (cases_update f4))"
  "no_audit (modify (case_comments_update f5))" "no_audit (modify (saved_queries_update f6))"
  "no_audit (modify (decoders_update f7))" "no_audit (modify (configs_update f8))"
  "no_audit (modify (alerts_update f9))" "no_audit (modify (reports_update f10))"
  by (simp_all add: leaves_modify)

lemma leaves_select [leaves_intro]:
  "leaves g (select_one f)" "leaves g (uuid4_str E)" "leaves g (commit E)" "leaves g (select_key key tab c)"
  unfolding select_one_def uuid4_str_def commit_def select_key_def by (intro leaves_intro)+

lemma no_audit_identity [leaves_intro]:
  "no_audit (change_user E i f)" "no_audit (get_user i)" "no_audit (require_role i)"
  "no_audit (create_user E uc)" "no_audit (update_user E i up)" "no_audit (change_role E i g)"
  "no_audit (upsert_role E ru)" "no_audit (update_role_permissions E i pm)" "no_audit (list_audit n k)"
  "no_audit (list_users n k)" "no_audit list_roles"
  unfolding change_user_def get_user_def require_role_def create_user_def update_user_def change_role_def
    upsert_role_def update_role_permissions_def list_audit_def list_users_def list_roles_def Let_def
  by (intro leaves_intro)+

lemma no_audit_auth [leaves_intro]:
  "no_audit (authenticate E e pw ua ip)" "no_audit (refresh_session E t ua ip)"
  "no_audit (revoke_session E so)" "no_audit (change_password E i p q)"
  "no_audit (get_current_principal E cr)" "no_audit (require pk act pr)"
  unfolding authenticate_def login_failure_def refresh_session_def refresh_live_def kill_session_def
    rotate_session_def auth_defs Let_def
  by (intro leaves_intro)+

lemma no_audit_clients [leaves_intro]:
  "no_audit (ch_query E q ps)" "no_audit (pg_query E sql ps)" "no_audit (trigger_dag E d conf)"
  "no_audit (ch_ping E)" "no_audit (pg_ping E)" "no_audit (af_ping E)"
  unfolding ch_query_def query_sync_def get_client_def close_clickhouse_def raise_if_def pg_query_def
    get_engine_def trigger_dag_def ch_ping_def pg_ping_def af_ping_def Let_def
  by (intro leaves_intro)+

lemma no_audit_services [leaves_intro]:
  "no_audit (get_kpis E)" "no_audit (get_stages E)" "no_audit (get_runs E n)" "no_audit list_alerts"
  "no_audit (acknowledge_alert E i a)" "no_audit get_retries" "no_audit (retry_job_act E j)"
  "no_audit (replay_job E j)" "no_audit list_decoders" "no_audit (upsert_decoder E du)"
  "no_audit (get_system_config E)" "no_audit (update_system_config E cpatch)"
  "no_audit (recon_summary E h)" "no_audit (recon_records E st n' k)" "no_audit (list_cases st n' k)"
  "no_audit (create_case E p j)" "no_audit (get_case i)" "no_audit (update_case E i cp)"
  "no_audit (add_comment E i b a)" "no_audit list_saved_queries" "no_audit (create_saved_query E q o1)"
  "no_audit (workbench_stats E)" "no_audit (list_reports n' k)" "no_audit (create_report E rp a)"
  "no_audit (download_report i)" "no_audit (readiness E)" "no_audit (dashboard_kpis E)" "no_audit (role_of u)"
  unfolding operations_defs assurance_defs reporting_defs on_upstream_down_def readiness_def ping_app_db_def
    dashboard_kpis_def role_of_def Let_def
  by (intro leaves_intro)+

lemma no_audit_dependencies [leaves_intro]:
  "(\<And>p. no_audit (body p)) \<Longrightarrow> no_audit (parsed x body)"
  "(\<And>p y. no_audit (b p y)) \<Longrightarrow> no_audit (signed_in E creds x b)"
  "(\<And>p y. no_audit (b p y)) \<Longrightarrow> no_audit (guarded E creds k a x b)"
  unfolding parsed_def signed_in_def guarded_def by (intro leaves_intro; blast)+

text \<open>The requests no record is written for.\<close>

lemma no_audit_handler: "audit_entry req a = None \<Longrightarrow> no_audit (handler E hr creds req)"
  by (cases req)
     (simp_all only: audit_entry_def request.case option.simps handler.simps replying_def route_defs Let_def,
      (intro leaves_intro)+)

text \<open>A record of this request: who, what, and the context the middleware bound.\<close>

definition records :: "'t env \<Rightarrow> string \<times> string \<Rightarrow> string \<times> string option \<Rightarrow> audit_log \<Rightarrow> bool" where
  "records E who what row =
     ((a_actor row, a_actor_id row) = (fst who, Some (snd who)) \<and> (a_action row, a_target row) = what \<and>
      a_ip_address row = ctx_client_ip E \<and> a_user_agent row = ctx_user_agent E \<and>
      a_request_id row = ctx_request_id E)"

lemma record_audit_appends:
  assumes "record_audit E actor action target (Some i) None w = (Inr x, w')"
  shows "\<exists>row. audit_logs (pending w') = audit_logs (pending w) @ [row] \<and> records E (actor, i) (action, target) row"
  using assms by (auto simp: record_audit_def runs records_def insert_row_def)

lemma leavesD: "leaves g m \<Longrightarrow> m w = (r, w') \<Longrightarrow> g (pending w') = g (pending w)"
  unfolding leaves_def by (metis snd_conv)

lemma audited:
  assumes run: "andthen m (\<lambda>z. andthen (audit_by E p act (tgt z)) (\<lambda>_. ret (out z))) w = (Inr a, w')"
    and quiet: "no_audit m"
  shows "\<exists>z row. a = out z \<and> audit_logs (pending w') = audit_logs (pending w) @ [row] \<and>
    records E (p_email p, p_id p) (act, tgt z) row"
proof -
  from run obtain z w1 where "m w = (Inr z, w1)" "audit_by E p act (tgt z) w1 = (Inr (), w')" "a = out z"
    by (auto simp: runs)
  then show ?thesis
    using record_audit_appends [of E "p_email p" act "tgt z" "p_id p" w1] leavesD [OF quiet]
    unfolding audit_by_def by metis
qed

lemma audited_signed_in:
  assumes run: "replying f (signed_in E creds x (\<lambda>p y. andthen (m p y) (\<lambda>z.
      andthen (audit_by E p act (tgt z)) (\<lambda>_. ret (out z))))) w = (Inr a, w')"
    and quiet: "\<And>p y. no_audit (m p y)"
  shows "\<exists>p z row w1. get_current_principal E creds w = (Inr p, w1) \<and> a = f (out z) \<and>
    audit_logs (pending w') = audit_logs (pending w) @ [row] \<and> records E (p_email p, p_id p) (act, tgt z) row"
proof -
  from run obtain p w1 y b where p: "get_current_principal E creds w = (Inr p, w1)"
    and b: "andthen (m p y) (\<lambda>z. andthen (audit_by E p act (tgt z)) (\<lambda>_. ret (out z))) w1 = (Inr b, w')" "a = f b"
    by (auto simp: replying_def signed_in_def parsed_def andthen_runs primitive_runs split: option.splits) blast
  have "audit_logs (pending w1) = audit_logs (pending w)"
    using leavesD [OF no_audit_auth(5) p] .
  with p b(2) audited [OF b(1) quiet] show ?thesis by metis
qed

lemma audited_guarded:
  assumes run: "replying f (guarded E creds k act' x (\<lambda>p y. andthen (m p y) (\<lambda>z.
      andthen (audit_by E p act (tgt z)) (\<lambda>_. ret (out z))))) w = (Inr a, w')"
    and quiet: "\<And>p y. no_audit (m p y)"
  shows "\<exists>p z row w1. get_current_principal E creds w = (Inr p, w1) \<and> can p k act' \<and> a = f (out z) \<and>
    audit_logs (pending w') = audit_logs (pending w) @ [row] \<and> records E (p_email p, p_id p) (act, tgt z) row"
proof -
  from run obtain p w1 y b where p: "get_current_principal E creds w = (Inr p, w1)" "can p k act'"
    and b: "andthen (m p y) (\<lambda>z. andthen (audit_by E p act (tgt z)) (\<lambda>_. ret (out z))) w1 = (Inr b, w')" "a = f b"
    by (auto simp: replying_def guarded_def require_def parsed_def andthen_runs primitive_runs
        split: option.splits if_splits) blast
  have "audit_logs (pending w1) = audit_logs (pending w)"
    using leavesD [OF no_audit_auth(5) p(1)] .
  with p b(2) audited [OF b(1) quiet] show ?thesis by metis
qed

lemma audited_login:
  assumes "login_route E hr e pw w = (Inr a, w')"
  shows "\<exists>row. audit_logs (pending w') = audit_logs (pending w) @ [row] \<and>
    records E (au_email (lr_user a), au_id (lr_user a)) (''Signed in'', Some (au_id (lr_user a))) row"
proof -
  from assms obtain em p x y u w1 w2 r ua ip where
    auth: "authenticate E em p ua ip w = (Inr (x, y, u), w1)"
    and audit: "record_audit E (u_email u) ''Signed in'' (Some (u_id u)) (Some (u_id u)) None w1 = (Inr (), w2)"
    and rest: "w' = w2" "lr_user a = to_auth_user r u"
    by (auto simp: login_route_def parsed_def andthen_runs primitive_runs role_of_def Let_def
        split: option.splits prod.splits)
  have "audit_logs (pending w1) = audit_logs (pending w)"
    using leavesD [OF no_audit_auth(1) auth] .
  with record_audit_appends [OF audit] rest show ?thesis by (simp add: to_auth_user_def)
qed

definition actor_of :: "'t env \<Rightarrow> 't bearer \<Rightarrow> access \<Rightarrow> world \<Rightarrow> 't reply \<Rightarrow> string \<times> string \<Rightarrow> bool" where
  "actor_of E creds need w a who =
     (case a of
        LoginReply r \<Rightarrow> who = (au_email (lr_user r), au_id (lr_user r))
      | _ \<Rightarrow> (\<exists>p. admitted E creds need w p \<and> who = (p_email p, p_id p)))"

lemma handler_audit:
  assumes run: "handler E hr creds req (rollback w) = (Inr a, w')" and entry: "audit_entry req a = Some en"
  shows "\<exists>who row. audit_logs (pending w') = audit_logs (committed w) @ [row] \<and> records E who en row \<and>
    actor_of E creds (access_of req) w a who"
proof -
  note unfold = audit_entry_def actor_of_def admitted_def admits_def to_user_row_def to_role_row_def
  show ?thesis
    using entry
  proof (cases req)
    case (Login e pw)
    with run obtain r where "login_route E hr e pw (rollback w) = (Inr r, w')" "a = LoginReply r"
      by (auto simp: replying_def runs)
    with audited_login [of E hr e pw "rollback w" r w'] entry Login show ?thesis
      by (auto simp: audit_entry_def actor_of_def)
  next
    case Logout
    with run have "replying ActionReply (logout_route E creds) (rollback w) = (Inr a, w')" by simp
    from audited_signed_in [OF this [unfolded logout_route_def] no_audit_auth(3)] entry Logout show ?thesis
      by (auto simp: unfold)
  next
    case (ChangePassword c n)
    with run have "replying ActionReply (change_password_route E creds c n) (rollback w) = (Inr a, w')" by simp
    from audited_signed_in [OF this [unfolded change_password_route_def split_beta [abs_def]] no_audit_auth(4)]
      entry ChangePassword show ?thesis
      by (auto simp: unfold)
  next
    case (CreateUser p)
    with run have "replying UserReply (create_user_route E creds p) (rollback w) = (Inr a, w')" by simp
    from audited_guarded [OF this [unfolded create_user_route_def] no_audit_identity(4)] entry CreateUser
    show ?thesis by (auto simp: unfold)
  next
    case (UpdateUser i p)
    with run have "replying UserReply (update_user_route E creds i p) (rollback w) = (Inr a, w')" by simp
    from audited_guarded [OF this [unfolded update_user_route_def] no_audit_identity(5)] entry UpdateUser
    show ?thesis by (auto simp: unfold)
  next
    case (UpdateRolePermissions i m)
    with run have "replying RoleReply (update_role_permissions_route E creds i m) (rollback w) = (Inr a, w')" by simp
    from audited_guarded [OF this [unfolded update_role_permissions_route_def] no_audit_identity(8)]
      entry UpdateRolePermissions
    show ?thesis by (auto simp: unfold)
  next
    case (UpsertRole p)
    with run have "replying RoleReply (upsert_role_route E creds p) (rollback w) = (Inr a, w')" by simp
    from audited_guarded [OF this [unfolded upsert_role_route_def] no_audit_identity(7)] entry UpsertRole
    show ?thesis by (auto simp: unfold)
  qed (simp_all add: audit_entry_def)
qed

text \<open>
  C11: a request that succeeds writes exactly the audit record its route stands for and no other: one
  row for a login, a logout, a password change and every change of a user or role, with the action,
  the target, the address, agent and id of the request, and as actor the account that signed in or
  the caller the guard let through; no row for any other request. The rows before stay in front.
\<close>

theorem audit_exact:
  assumes "serve E hr creds req w = (Inr a, w')"
  shows "case audit_entry req a of
      None \<Rightarrow> audit_logs (committed w') = audit_logs (committed w)
    | Some en \<Rightarrow> \<exists>who row. audit_logs (committed w') = audit_logs (committed w) @ [row] \<and>
        records E who en row \<and> actor_of E creds (access_of req) w a who"
proof (cases "sessionless req")
  case True
  then have "silent (handler E hr creds req)" "audit_entry req a = None"
    by (cases req; simp add: sessionless_def audit_entry_def silent_handler commits_itself_def
        del: handler.simps)+
  with True assms show ?thesis by (simp add: serve_def silent_def) (metis snd_conv)
next
  case False
  with assms obtain w1 where run: "handler E hr creds req (rollback w) = (Inr a, w1)"
    and c: "committed w' = pending w1"
    by (auto simp: serve_def get_session_runs)
  show ?thesis
  proof (cases "audit_entry req a")
    case None
    with leavesD [OF no_audit_handler [OF None] run] c show ?thesis by simp
  next
    case (Some en)
    with handler_audit [OF run Some] c show ?thesis by simp
  qed
qed

theorem audit_exact_witness:
  "\<exists>a w' row. serve demo_request_env demo_http (Credentials demo_access) Logout demo_world = (Inr a, w') \<and>
     audit_logs (committed w') = [row] \<and> a_action row = ''Signed out'' \<and> a_ip_address row = Some ''10.0.0.9''"
proof -
  obtain a w' where out: "serve demo_request_env demo_http (Credentials demo_access) Logout demo_world = (Inr a, w')"
    using demo_logout by blast
  have "client_ip demo_http = Some ''10.0.0.9''" by code_simp
  with audit_exact [OF out] out show ?thesis
    by (auto simp: audit_entry_def records_def demo_request_env_def)
qed

section \<open>Logging out is forever\<close>

text \<open>Whenever the token decodes, it names the session.\<close>

definition names_session :: "'t env \<Rightarrow> 't \<Rightarrow> string \<Rightarrow> bool" where
  "names_session E t i =
     (\<forall>now q. decode_token (crypt E) (cfg E) now t = Inr q \<longrightarrow> map_of q ''sid'' = Some (JStr i))"

lemma logout_revokes_caller:
  assumes run: "serve E hr (Credentials t) Logout w = (Inr a, w')" and sid: "names_session E t i" "i \<noteq> []"
  shows "\<exists>y \<in> set (user_sessions (committed w')). s_id y = i \<and> s_revoked_at y \<noteq> None"
proof -
  from run obtain p w1 w2 w3 where p: "get_current_principal E (Credentials t) (rollback w) = (Inr p, w1)"
    and rev: "revoke_session E (p_session_id p) w1 = (Inr (), w2)"
    and audit: "audit_by E p ''Signed out'' None w2 = (Inr (), w3)" and w': "committed w' = pending w3"
    by (auto simp: serve_def sessionless_def get_session_runs replying_def logout_route_def signed_in_def
        parsed_def andthen_runs primitive_runs)
  from p sid obtain s n where id: "p_session_id p = Some i"
    and s: "by_key s_id i (user_sessions (pending w1)) = [s]" "\<not> session_dead s (clock E n)"
    by (elim principal_runs) (auto simp: names_session_def session_claim_def)
  from s have key: "s_id s = i" "s_revoked_at s = None"
    by (auto simp: session_dead_def dest: by_key_in)
  from rev id s key sid(2) obtain now where
    "user_sessions (pending w2) = change_row s_id i (revoke now) (user_sessions (pending w1))"
    by (auto simp: revoke_session_def change_session_def runs)
  moreover have "user_sessions (pending w3) = user_sessions (pending w2)"
    using audit by (rule leavesD [rotated])
      (unfold audit_by_def record_audit_def, intro leaves_intro leaves_modify, simp_all)
  ultimately have "by_key s_id i (user_sessions (committed w')) = [revoke now s]"
    using change_session_same [of "revoke now" i "user_sessions (pending w1)" s] s(1) w' by simp
  then have "revoke now s \<in> set (user_sessions (committed w')) \<and> s_id (revoke now s) = i"
    by (rule by_key_in)
  then show ?thesis by (intro bexI [of _ "revoke now s"]) (simp_all add: revoke_def)
qed

lemma revoked_not_admitted:
  assumes ok: "store_ok inet (committed w)" and y: "y \<in> set (user_sessions (committed w))" "s_id y = i"
    "s_revoked_at y \<noteq> None" and sid: "names_session E t i" "i \<noteq> []"
  shows "get_current_principal E (Credentials t) (rollback w) \<noteq> (Inr p, w')"
proof
  assume "get_current_principal E (Credentials t) (rollback w) = (Inr p, w')"
  moreover have "by_key s_id i (user_sessions (committed w)) = [y]"
    using by_key_unique [OF store_ok_keys(3) [OF ok] y(1)] y(2) by simp
  ultimately show False
    using sid y(3) by (elim principal_runs) (auto simp: names_session_def session_dead_def)
qed

text \<open>
  C12: logging out is forever. Once a logout of a session has succeeded, then whatever requests, tasks
  and shutdowns follow, every later request that needs a caller and comes with a token of that
  session (the one used, any other access token, a refresh token, issued before or since) fails at
  the gate and touches nothing.
\<close>

theorem logout_is_forever:
  assumes "run E render p (Handled (Credentials t) Logout (Inr a) resp # es) p'"
    and "store_ok (inet_ok E) (stored p)"
    and "names_session E t i" and "i \<noteq> []" and "names_session E t' i"
    and "access_of req \<noteq> Public"
  shows "\<exists>e w'. serve (request_env E tx up fresh hr) hr (Credentials t') req (app_state p') = (Inl e, w') \<and>
    untouched (app_state p') w'"
proof -
  from assms(1) obtain p1 where s1: "step E render p (Handled (Credentials t) Logout (Inr a) resp) p1"
    and es: "run E render p1 es p'"
    by (auto simp: run_Cons)
  from s1 obtain t0 up0 fresh0 hr0 where out:
    "serve (request_env E t0 up0 fresh0 hr0) hr0 (Credentials t) Logout (app_state p) = (Inr a, app_state p1)"
    by (cases rule: step_stored) auto
  have "names_session (request_env E t0 up0 fresh0 hr0) t i"
    using assms(3) by (simp add: names_session_def)
  from logout_revokes_caller [OF out this assms(4)]
  obtain y where y1: "y \<in> set (user_sessions (stored p1))" "s_id y = i" "s_revoked_at y \<noteq> None"
    by (elim bexE conjE) (rule that)
  from run_history [OF es] have "sessions_forward (stored p1) (stored p')"
    by (simp add: history_def)
  from bspec [OF this [unfolded sessions_forward_def] y1(1)] y1(3)
  have y: "y \<in> set (user_sessions (stored p'))" by (elim bexE) simp
  have ok: "store_ok (inet_ok E) (stored p')"
    using es step_store_ok [OF s1 assms(2)] step_store_ok by (rule run_invariant)
  have tok: "names_session (request_env E tx up fresh hr) t' i"
    using assms(5) by (simp add: names_session_def)
  have "get_current_principal (request_env E tx up fresh hr) (Credentials t') (rollback (app_state p')) \<noteq> (Inr q, w')"
    for q w'
    by (rule revoked_not_admitted [OF ok y y1(2,3) tok assms(4)])
  from refused [OF assms(6) not_admitted [OF this]] show ?thesis by metis
qed

lemma names_demo_access: "names_session demo_env demo_access ''s1''"
  by (auto simp: names_session_def demo_access_def create_access_token_def access_payload_def decode_token_def
      demo_crypto_def demo_decode_def dict_update_def split: if_splits)

theorem logout_is_forever_witness:
  "\<exists>a w' e w2. serve demo_request_env demo_http (Credentials demo_access) Logout demo_world = (Inr a, w') \<and>
     serve demo_request_env demo_http (Credentials demo_access) Me w' = (Inl e, w2) \<and> untouched w' w2"
proof -
  obtain a w' where out: "serve demo_request_env demo_http (Credentials demo_access) Logout demo_world = (Inr a, w')"
    using demo_logout by blast
  obtain resp p' where r: "run demo_env (\<lambda>a. JNull) (demo_process demo_world)
      [Handled (Credentials demo_access) Logout (Inr a) resp] p'" "app_state p' = w'"
    by (rule demo_run [OF out])
  have "store_ok (inet_ok demo_env) (stored (demo_process demo_world))"
    by (simp add: demo_process_def)
  from logout_is_forever [OF r(1) this names_demo_access _ names_demo_access, of Me 1000 True "''f00d''" demo_http]
  show ?thesis using out r(2) by (auto simp: demo_request_env_def)
qed

end
