(* ===== verification/Privileges.thy ===== *)
theory Privileges
  imports Guard
begin

text \<open>
  Who may do what is decided by the role and the status of a user and by the permission matrix of the
  role. Here: only the administration routes change these, and only for a caller who holds the
  permission they require; login, refresh, the other services, the worker and the shutdown do not.
\<close>

section \<open>The tables of the daily work\<close>

text \<open>
  An order that changes of the sessions, the audit trail, the cases and their comments, the queries,
  the decoders, the configuration and the alerts respect. Every service that writes no other table
  respects it then.
\<close>

locale daily_order = store_order +
  assumes daily: "R s (user_sessions_update f1 s)" "R s (audit_logs_update f2 s)"
    "R s (cases_update f3 s)" "R s (case_comments_update f4 s)" "R s (saved_queries_update f5 s)"
    "R s (decoders_update f6 s)" "R s (configs_update f7 s)" "R s (alerts_update f8 s)"
begin

lemma modifies [grows_intro]:
  "grows R (modify (user_sessions_update f1))" "grows R (modify (audit_logs_update f2))"
  "grows R (modify (cases_update f3))" "grows R (modify (case_comments_update f4))"
  "grows R (modify (saved_queries_update f5))" "grows R (modify (decoders_update f6))"
  "grows R (modify (configs_update f7))" "grows R (modify (alerts_update f8))"
  by (simp_all add: grows_modify daily)

lemma clients [grows_intro]:
  "grows R (ch_query E q ps)" "grows R (ch_ping E)" "grows R (pg_query E sql ps)"
  "grows R (pg_ping E)" "grows R (trigger_dag E d conf)" "grows R (af_ping E)"
  "grows R (close_all_integrations E)"
proof -
  have r: "grows R (raise_if x)" for x unfolding raise_if_def by (intro grows_intro)
  have cl: "grows R (get_client E)" unfolding get_client_def by (intro grows_intro r)
  have c: "grows R (close_clickhouse E)" unfolding close_clickhouse_def by (intro grows_intro r)
  have h: "grows R (case y of HttpError m \<Rightarrow> f m | OtherHttpExn m \<Rightarrow> k' m | HttpResponse st j \<Rightarrow> k st j)"
    if "\<And>m. grows R (f m)" "\<And>m. grows R (k' m)" "\<And>st j. grows R (k st j)"
    for y and f k' :: "string \<Rightarrow> 'z act" and k
    using that by (auto split: http_answer.splits)
  show "grows R (ch_query E q ps)" unfolding ch_query_def query_sync_def by (intro grows_intro r cl c)
  show "grows R (ch_ping E)" unfolding ch_ping_def by (intro grows_intro r cl c)
  show "grows R (pg_query E sql ps)" "grows R (pg_ping E)"
    unfolding pg_query_def pg_ping_def get_engine_def by (intro grows_intro r)+
  show "grows R (trigger_dag E d conf)" "grows R (af_ping E)"
    unfolding trigger_dag_def af_ping_def Let_def by (intro grows_intro h)+
  show "grows R (close_all_integrations E)"
    unfolding close_all_integrations_def close_redis_def close_ra_postgres_def by (intro grows_intro r c)
qed

lemma services [grows_intro]:
  "grows R (record_audit E a b c d m)" "grows R (list_audit n' k)" "grows R (list_users n' k)"
  "grows R list_roles" "grows R (get_kpis E)" "grows R (get_stages E)"
  "grows R (get_runs E n)" "grows R list_alerts" "grows R (acknowledge_alert E i a')"
  "grows R get_retries" "grows R (retry_job_act E j)" "grows R (replay_job E j)"
  "grows R list_decoders" "grows R (upsert_decoder E du)" "grows R (get_system_config E)"
  "grows R (update_system_config E cpatch)" "grows R (recon_summary E h)"
  "grows R (recon_records E st n' k)" "grows R (list_cases st n' k)" "grows R (create_case E p j')"
  "grows R (get_case i)" "grows R (update_case E i cp)" "grows R (add_comment E i t a')"
  "grows R list_saved_queries" "grows R (create_saved_query E q o1)" "grows R (workbench_stats E)"
  "grows R (list_reports n' k)" "grows R (get_report i)" "grows R (download_report i)"
  "grows R (readiness E)" "grows R (dashboard_kpis E)" "grows R (role_of u)"
  unfolding record_audit_def list_audit_def list_users_def list_roles_def operations_defs assurance_defs
    reporting_defs on_upstream_down_def readiness_def ping_app_db_def dashboard_kpis_def role_of_def Let_def
  by (intro grows_intro)+

lemma sessions [grows_intro]:
  "grows R (tokens_for_session E u i j)" "grows R (issue_session E u ua ip)"
  "grows R (select_key key tab c)" "grows R (check_session E sc)" "grows R (user_role u)"
  "grows R (get_current_principal E cr)" "grows R (require pk act pr)"
  "grows R (refresh_session E t ua ip)" "grows R (revoke_session E so)"
  "grows R (get_user i)" "grows R (audit_by E pr act' tg)"
proof -
  show key: "grows R (select_key key tab c)" for key :: "'r \<Rightarrow> string" and tab c
    unfolding select_key_def by (intro grows_intro)
  show tok: "grows R (tokens_for_session E u i j)" for u i j
    unfolding tokens_for_session_def Let_def by (intro grows_intro)
  show "grows R (issue_session E u ua ip)" unfolding issue_session_def Let_def by (intro grows_intro tok)
  show ch: "grows R (check_session E sc)" unfolding check_session_def by (intro grows_intro key)
  show ro: "grows R (user_role u)" for u unfolding user_role_def by (intro grows_intro)
  show "grows R (get_current_principal E cr)" unfolding get_current_principal_def check_session_def
    by (intro grows_intro key ro)
  show "grows R (require pk act pr)" unfolding require_def by (intro grows_intro)
  show "grows R (refresh_session E t ua ip)"
    unfolding refresh_session_def refresh_live_def kill_session_def rotate_session_def change_session_def Let_def
    by (intro grows_intro key tok)
  show "grows R (revoke_session E so)"
    unfolding revoke_session_def change_session_def by (intro grows_intro)
  show "grows R (get_user i)" unfolding get_user_def by (intro grows_intro)
  show "grows R (audit_by E pr act' tg)" unfolding audit_by_def by (intro grows_intro)
qed

lemma dependencies [grows_intro]:
  "(\<And>p. grows R (body p)) \<Longrightarrow> grows R (parsed x body)"
  "(\<And>p y. grows R (b p y)) \<Longrightarrow> grows R (signed_in E creds x b)"
  "(\<And>p y. grows R (b p y)) \<Longrightarrow> grows R (guarded E creds k a x b)"
  unfolding parsed_def signed_in_def guarded_def by (intro grows_intro; blast)+

end

section \<open>What a function leaves as it was\<close>

definition same :: "(store \<Rightarrow> 'b) \<Rightarrow> store \<Rightarrow> store \<Rightarrow> bool" where
  "same g s t = (g s = g t)"

text \<open>A view of the store that does not look at these tables, nor at the reports.\<close>

locale quiet_view =
  fixes g :: "store \<Rightarrow> 'b"
  assumes ignores: "g (user_sessions_update f1 s) = g s" "g (audit_logs_update f2 s) = g s"
    "g (cases_update f3 s) = g s" "g (case_comments_update f4 s) = g s" "g (saved_queries_update f5 s) = g s"
    "g (decoders_update f6 s) = g s" "g (configs_update f7 s) = g s" "g (alerts_update f8 s) = g s"
    "g (reports_update f9 s) = g s"

sublocale quiet_view \<subseteq> view: daily_order "same g"
  by unfold_locales (simp_all add: same_def ignores)

context quiet_view
begin

lemma reports_ignored [grows_intro]: "grows (same g) (modify (reports_update f))"
  by (simp add: view.grows_modify same_def ignores)

lemma create_report_quiet [grows_intro]: "grows (same g) (create_report E rp a)"
  unfolding create_report_def next_report_reference_def by (intro grows_intro)

lemma worker: "grows (same g) (generate_report E i)"
proof -
  have c: "grows (same g) (raise_if x)" for x unfolding raise_if_def by (intro grows_intro)
  have row: "grows (same g) (change_report E j f)" for j f unfolding change_report_def by (intro grows_intro)
  have body: "grows (same g) (catch
        (andthen roll_back_act (\<lambda>_.
         andthen (query (\<lambda>s. by_key rp_id i (reports s))) (\<lambda>found.
         case found of
           [] \<Rightarrow> ret ReportNotFound
         | r # rs \<Rightarrow> andthen (produce_report E r) (\<lambda>(checksum, n). ret (ReportDone checksum n)))))
        (give_up E i))" (is "grows _ ?m")
    unfolding produce_report_def fetch_rows_def give_up_def by (intro grows_intro view.grows_roll_back c row)
  have "generate_report E i w = (case ?m w of (res, w') \<Rightarrow> (res, rollback w'))" for w
    by (simp add: generate_report_def)
  with body show ?thesis
    by (auto simp: grows_def view.R_refl split: prod.split)
qed

end

section \<open>Privileges\<close>

definition privileges :: "store \<Rightarrow> (string \<times> string \<times> string \<times> string) list \<times> role list" where
  "privileges s = (map (\<lambda>u. (u_id u, u_email u, u_role_id u, u_status u)) (users s), roles s)"

interpretation privilege: quiet_view privileges
  by unfold_locales (simp_all add: privileges_def)

text \<open>Changes of a user row that touch neither name, role nor status.\<close>

definition harmless :: "(user \<Rightarrow> user) \<Rightarrow> bool" where
  "harmless f = (\<forall>u. u_id (f u) = u_id u \<and> u_email (f u) = u_email u \<and> u_role_id (f u) = u_role_id u \<and>
     u_status (f u) = u_status u)"

lemma harmless_edits [simp]:
  "harmless (\<lambda>u. u)" "harmless (login_user now)" "harmless count_failure" "harmless (set_password h t)"
  "harmless (\<lambda>x. lock_user st now (count_failure x))" "harmless (\<lambda>x. x\<lparr>u_hashed_password := h\<rparr>)"
  "harmless (\<lambda>x. x\<lparr>u_hashed_password := h, u_password_changed_at := c, u_must_reset_password := m\<rparr>)"
  "harmless f \<Longrightarrow> harmless (\<lambda>x. f (login_user now x))"
  by (simp_all add: harmless_def login_user_def count_failure_def set_password_def lock_user_def)

lemma harmless_row: "harmless f \<Longrightarrow> grows (same privileges) (change_user E i f)"
  unfolding change_user_def
  by (rule privilege.view.grows_modify)
     (auto simp: same_def privileges_def harmless_def change_row_def update_where_def)

lemmas harmless_collects = privilege.view.grows_result [where P = harmless]

lemma privilege_sign_in [grows_intro]:
  "grows (same privileges) (change_password E i p q)" "grows (same privileges) (authenticate E e pw ua ip)"
proof -
  show "grows (same privileges) (change_password E i p q)"
    unfolding change_password_def Let_def by (intro grows_intro harmless_row; simp)
  have failure: "grows (same privileges) (login_failure E now u)" for now u
    unfolding login_failure_def by (intro grows_intro harmless_row; simp)
  have success: "grows (same privileges) (login_success E now u pw ua ip)" for now u
    unfolding login_success_def Let_def
    by (rule privilege.view.grows_andthen, (intro grows_intro; fail), rule harmless_collects,
        (intro grows_intro; fail), (auto simp: runs split: if_splits; fail), intro grows_intro harmless_row, simp)
  show "grows (same privileges) (authenticate E e pw ua ip)"
    unfolding authenticate_def by (intro grows_intro failure success)
qed

lemma privilege_worker: "privileges (committed w) = privileges (committed (snd (generate_report E i w)))"
  using privilege.view.task_grows [OF privilege.worker] by (simp add: same_def)

text \<open>The four routes that administer users and roles.\<close>

definition administers :: "access \<Rightarrow> bool" where
  "administers a = (a \<in> {Needs USER_MANAGEMENT Edit, Needs ROLE_MANAGEMENT Edit})"

lemma privilege_handler: "\<not> administers (access_of req) \<Longrightarrow> grows (same privileges) (handler E hr creds req)"
  by (cases req)
     (simp_all only: administers_def access_of.simps insert_iff simp_thms handler.simps replying_def route_defs Let_def,
      (intro grows_intro)+)

text \<open>
  C5: nobody gains privileges on the side. Whenever a step of the running system (any request, worker
  task or shutdown) changes who a user is, which role or status a user has, or any role with its
  permission matrix, the step is a successful request to one of the four administration routes, and
  the token it carried identifies a caller whose stored role grants exactly the edit permission of
  that route.
\<close>

theorem privileges_change_only_by_administrators:
  assumes "step E render p e p'" and "privileges (stored p') \<noteq> privileges (stored p)"
  shows "\<exists>t up fresh hr creds req a resp pr. e = Handled creds req (Inr a) resp \<and>
    administers (access_of req) \<and>
    admitted (request_env E t up fresh hr) creds (access_of req) (app_state p) pr"
  using assms(1)
proof (cases rule: step_stored)
  case (request t up fresh hr creds req out resp)
  let ?E = "request_env E t up fresh hr"
  have adm: "administers (access_of req)"
  proof (rule ccontr)
    assume no: "\<not> administers (access_of req)"
    have "privileges (stored p) = privileges (committed (snd (serve ?E hr creds req (app_state p))))"
      using privilege.view.serve_grows [OF privilege_handler [OF no]] by (simp add: same_def)
    with request assms(2) show False by simp
  qed
  then have gated: "access_of req \<noteq> Public" "\<not> commits_itself req"
    by (auto simp: administers_def commits_itself_def split: request.splits)
  obtain a where a: "out = Inr a"
  proof (cases out)
    case (Inl e')
    with request(2) have "serve ?E hr creds req (app_state p) = (Inl e', app_state p')" by simp
    from failed_serve_committed [OF this gated(2)] assms(2) show ?thesis by simp
  qed blast
  have "\<exists>pr. admitted ?E creds (access_of req) (app_state p) pr"
  proof (rule ccontr)
    assume none: "\<nexists>pr. admitted ?E creds (access_of req) (app_state p) pr"
    show False
    proof (rule refused [OF gated(1)])
      show "\<not> admitted ?E creds (access_of req) (app_state p) pr" for pr using none by simp
      fix e' w' assume "serve ?E hr creds req (app_state p) = (Inl e', w')"
      with request(2) a show False by simp
    qed
  qed
  with request(1) adm a show ?thesis by metis
next
  case (worker t up i)
  have "privileges (stored p) = privileges (committed (snd (generate_report (in_transaction E t up) i (app_state p))))"
    using privilege_worker [of "app_state p"] .
  with worker assms(2) show ?thesis by simp
next
  case shutdown
  with assms(2) show ?thesis by simp
qed

text \<open>The administrator adds a role.\<close>

definition guests_role :: "demo_token request" where
  "guests_role = UpsertRole \<lparr>ru_id = None, ru_name = ''Guests'', ru_description = [], ru_status = ''Active'',
     ru_permissions = None\<rparr>"

lemma guests_role_added:
  "case serve demo_request_env demo_http (Credentials demo_access) guests_role demo_world of
     (Inl e, w') \<Rightarrow> False | (Inr a, w') \<Rightarrow> tl (roles (committed w')) \<noteq> []"
  by code_simp

theorem privileges_change_only_by_administrators_witness:
  "\<exists>a w' pr. serve demo_request_env demo_http (Credentials demo_access) guests_role demo_world = (Inr a, w') \<and>
     privileges (committed w') \<noteq> privileges demo_store \<and> can pr ROLE_MANAGEMENT Edit"
proof -
  obtain a w' where out: "serve demo_request_env demo_http (Credentials demo_access) guests_role demo_world = (Inr a, w')"
    and new: "tl (roles (committed w')) \<noteq> []"
    using guests_role_added by (auto split: prod.splits sum.splits)
  obtain resp p' where r: "run demo_env (\<lambda>a. JNull) (demo_process demo_world)
      [Handled (Credentials demo_access) guests_role (Inr a) resp] p'" "app_state p' = w'"
    by (rule demo_run [OF out])
  have start: "stored (demo_process demo_world) = demo_store" by (simp add: demo_process_def)
  have "step demo_env (\<lambda>a. JNull) (demo_process demo_world) (Handled (Credentials demo_access) guests_role (Inr a) resp) p'"
    using r(1) by (auto simp: run_Cons)
  moreover have "privileges (stored p') \<noteq> privileges (stored (demo_process demo_world))"
    using new r(2) start by (auto simp: privileges_def)
  ultimately obtain pr t up fresh hr where
    "admitted (request_env demo_env t up fresh hr) (Credentials demo_access) (access_of guests_role)
      (app_state (demo_process demo_world)) pr"
    using privileges_change_only_by_administrators by fastforce
  then have "can pr ROLE_MANAGEMENT Edit"
    by (auto simp: admitted_def admits_def guests_role_def split: prod.splits sum.splits)
  moreover have "privileges (committed w') \<noteq> privileges demo_store"
    using new by (auto simp: privileges_def)
  ultimately show ?thesis using out by blast
qed

end
