(* ===== verification/Sign_In.thy ===== *)
theory Sign_In
  imports Auth_Props Rotation
begin

text \<open>
  Signing in from end to end: the right password on an open account gives tokens, the access token
  is accepted for the user it was issued to until it or its session ends, and the refresh token is
  accepted once.
\<close>

lemma principal_succeeds:
  assumes "decode_token (crypt E) (cfg E) (clock E (reads w)) t = Inr q"
    and "map_of q ''type'' = Some (JStr ''access'')" and "map_of q ''sub'' = Some (JStr (u_id u))"
    and "map_of q ''sid'' = Some (JStr (s_id s))" and "u_id u \<noteq> []" and "s_id s \<noteq> []"
    and "by_key u_id (u_id u) (users (committed w)) = [u]" and "is_active u"
    and "by_key s_id (s_id s) (user_sessions (committed w)) = [s]"
    and "\<not> session_dead s (clock E (Suc (reads w)))"
    and "by_key r_id (u_role_id u) (roles (committed w)) = [r]" and "store_ok (inet_ok E) (committed w)"
  shows "\<exists>w'. get_session E (get_current_principal E (Credentials t)) w =
      (Inr \<lparr>p_id = u_id u, p_email = u_email u, p_full_name = u_full_name u, p_role = u_role_id u,
         p_permissions = r_permissions r, p_session_id = Some (s_id s),
         p_must_reset_password = u_must_reset_password u\<rparr>, w')"
  using assms
  by (simp add: get_session_def get_current_principal_def check_session_def user_role_def select_key_def
      session_claim_def prog rollback_def commit_ok)

lemma store_ok_edit_session:
  assumes "store_ok inet st" and "session_edit f"
    and "\<And>x. x \<in> set (user_sessions st) \<Longrightarrow> s_id x = i \<Longrightarrow> session_fits inet x \<Longrightarrow> session_fits inet (f x)"
    and "keys_unique s_refresh_jti (change_row s_id i f (user_sessions st))"
  shows "store_ok inet (user_sessions_update (change_row s_id i f) st)"
proof -
  have "list_all (session_fits inet) (change_row s_id i f (user_sessions st))"
    using assms(1,3) by (intro list_all_change_row) (auto simp: store_ok_def widths_ok_def)
  moreover have "list_all (\<lambda>x. refers u_id (users st) (s_user_id x)) (change_row s_id i f (user_sessions st))"
    using assms(1,2) by (intro list_all_change_row) (simp_all add: store_ok_def foreign_keys_ok_def session_edit_def)
  ultimately show ?thesis
    using assms
    by (simp add: store_ok_def constraint_defs keys_unique_change session_edit_def cong: option.case_cong)
qed

lemma keys_unique_fresh:
  assumes "keys_unique key rs" and "keys_unique key' rs" and "\<And>r. key (f r) = v" and "v \<notin> key ` set rs"
  shows "keys_unique key (change_row key' k f rs)"
  using assms(1,2,4)
proof (induction rs)
  case (Cons r rs)
  show ?case
  proof (cases "key' r = k")
    case True
    then have "change_row key' k f rs = rs"
      using Cons.prems(2) by (auto simp: keys_unique_def change_row_def update_where_def intro!: map_idI) (metis image_eqI)
    with True Cons.prems assms(3) show ?thesis
      by (simp add: keys_unique_def change_row_def update_where_def)
  next
    case False
    have "key r \<notin> key ` set (change_row key' k f rs)"
      using Cons.prems assms(3) by (auto simp: keys_unique_def change_row_def update_where_def)
    moreover have "change_row key' k f (r # rs) = r # change_row key' k f rs"
      using False by (simp add: change_row_def update_where_def)
    ultimately show ?thesis
      using Cons by (simp add: keys_unique_def)
  qed
qed (simp add: keys_unique_def change_row_def update_where_def)

lemma refresh_succeeds:
  assumes "decode_token (crypt E) (cfg E) (clock E (reads w)) t = Inr q"
    and "map_of q ''type'' = Some (JStr ''refresh'')" and "map_of q ''sid'' = Some (JStr (s_id s))"
    and "map_of q ''jti'' = Some (JStr (s_refresh_jti s))"
    and "by_key s_id (s_id s) (user_sessions (committed w)) = [s]"
    and "\<not> session_dead s (clock E (Suc (reads w)))"
    and "by_key u_id (s_user_id s) (users (committed w)) = [u]" and "is_active u"
    and "store_ok (inet_ok E) (committed w)"
    and "fits 64 (uuid_hex E (draws w))" and "uuid_hex E (draws w) \<notin> s_refresh_jti ` set (user_sessions (committed w))"
    and "fits_opt 512 ua" and "inet_opt (inet_ok E) ip"
  shows "\<exists>a r w'. get_session E (refresh_session E t ua ip) w = (Inr (a, r), w')"
proof -
  let ?f = "rotate E (clock E (Suc (reads w))) (uuid_hex E (draws w)) ua ip"
  let ?st = "user_sessions_update (change_row s_id (s_id s) ?f) (committed w)"
  have "keys_unique s_refresh_jti (change_row s_id (s_id s) ?f (user_sessions (committed w)))"
    using assms(9,11) by (intro keys_unique_fresh [where v = "uuid_hex E (draws w)"]) (auto simp: rotate_def dest: store_ok_keys)
  then have "store_ok (inet_ok E) ?st"
    using assms(9,10,12,13)
    by (intro store_ok_edit_session) (auto simp: session_fits_def rotate_def)
  then show ?thesis
    using assms
    by (simp add: get_session_def refresh_session_def refresh_live_def active_owner_def rotate_session_def
      change_session_def tokens_for_session_def select_key_def Let_def prog rollback_def flush_ok commit_ok)
qed

text \<open>Between the issue of a token and the second its \<open>exp\<close> names.\<close>

definition token_alive :: "'t env \<Rightarrow> int \<Rightarrow> int \<Rightarrow> world \<Rightarrow> bool" where
  "token_alive E issued lifetime w \<longleftrightarrow>
     issued \<le> clock E (reads w) \<and> clock E (reads w) < timestamp (issued + minutes lifetime) * 1000000"



end
