(* ===== verification/Overlap.thy ===== *)
theory Overlap
  imports Sign_In
begin

text \<open>
  Requests that overlap: each reads the same committed store, and they commit one after the other.
  The unit of work writes, for every row it loaded and changed, the columns whose value changed, and
  inserts its new rows; PostgreSQL (READ COMMITTED) applies these to the rows as they are by then.
  Sign-in writes users and sessions only.
\<close>

section \<open>What a commit writes\<close>

definition merged :: "'a \<Rightarrow> 'a \<Rightarrow> 'a \<Rightarrow> 'a" where
  "merged old new cur = (if new = old then cur else new)"

definition merge_user :: "user \<Rightarrow> user \<Rightarrow> user \<Rightarrow> user" where
  "merge_user a b c =
     \<lparr>u_id = u_id c, u_full_name = merged (u_full_name a) (u_full_name b) (u_full_name c),
      u_email = merged (u_email a) (u_email b) (u_email c), u_phone = merged (u_phone a) (u_phone b) (u_phone c),
      u_department = merged (u_department a) (u_department b) (u_department c),
      u_hashed_password = merged (u_hashed_password a) (u_hashed_password b) (u_hashed_password c),
      u_role_id = merged (u_role_id a) (u_role_id b) (u_role_id c),
      u_status = merged (u_status a) (u_status b) (u_status c), u_avatar = merged (u_avatar a) (u_avatar b) (u_avatar c),
      u_last_login = merged (u_last_login a) (u_last_login b) (u_last_login c),
      u_failed_login_count = merged (u_failed_login_count a) (u_failed_login_count b) (u_failed_login_count c),
      u_locked_until = merged (u_locked_until a) (u_locked_until b) (u_locked_until c),
      u_must_reset_password = merged (u_must_reset_password a) (u_must_reset_password b) (u_must_reset_password c),
      u_password_changed_at = merged (u_password_changed_at a) (u_password_changed_at b) (u_password_changed_at c),
      u_created_at = merged (u_created_at a) (u_created_at b) (u_created_at c),
      u_updated_at = merged (u_updated_at a) (u_updated_at b) (u_updated_at c)\<rparr>"

definition merge_session :: "user_session \<Rightarrow> user_session \<Rightarrow> user_session \<Rightarrow> user_session" where
  "merge_session a b c =
     \<lparr>s_id = s_id c, s_user_id = merged (s_user_id a) (s_user_id b) (s_user_id c),
      s_refresh_jti = merged (s_refresh_jti a) (s_refresh_jti b) (s_refresh_jti c),
      s_user_agent = merged (s_user_agent a) (s_user_agent b) (s_user_agent c),
      s_ip_address = merged (s_ip_address a) (s_ip_address b) (s_ip_address c),
      s_issued_at = merged (s_issued_at a) (s_issued_at b) (s_issued_at c),
      s_expires_at = merged (s_expires_at a) (s_expires_at b) (s_expires_at c),
      s_revoked_at = merged (s_revoked_at a) (s_revoked_at b) (s_revoked_at c),
      s_last_seen_at = merged (s_last_seen_at a) (s_last_seen_at b) (s_last_seen_at c)\<rparr>"

definition merge_rows :: "('r \<Rightarrow> string) \<Rightarrow> ('r \<Rightarrow> 'r \<Rightarrow> 'r \<Rightarrow> 'r) \<Rightarrow> 'r list \<Rightarrow> 'r list \<Rightarrow> 'r list \<Rightarrow> 'r list" where
  "merge_rows key mrg olds news curs =
     map (\<lambda>c. case (by_key key (key c) olds, by_key key (key c) news) of
         (a # _, b # _) \<Rightarrow> mrg a b c | _ \<Rightarrow> c) curs @
     filter (\<lambda>n. by_key key (key n) olds = []) news"

text \<open>
  \<open>commit_over old new cur\<close>: a transaction that read \<open>old\<close> and left \<open>new\<close> commits over \<open>cur\<close>;
  \<open>overlapped\<close>: several that all read the same store commit in turn.
\<close>

definition commit_over :: "store \<Rightarrow> store \<Rightarrow> store \<Rightarrow> store" where
  "commit_over old new cur =
     cur\<lparr>users := merge_rows u_id merge_user (users old) (users new) (users cur),
         user_sessions := merge_rows s_id merge_session (user_sessions old) (user_sessions new) (user_sessions cur)\<rparr>"

definition overlapped :: "store \<Rightarrow> store list \<Rightarrow> store" where
  "overlapped old news = fold (commit_over old) news old"

section \<open>Merging one changed row\<close>

lemma merged_simps [simp]: "merged a a c = c" "merged a b a = b" "merged a b b = b"
  by (simp_all add: merged_def)

lemma merge_user_simps [simp]:
  "u_id b = u_id a \<Longrightarrow> merge_user a b a = b" "merge_user a b b = b" "u_id (merge_user a b c) = u_id c"
  "merge_user a a c = c"
  by (simp_all add: merge_user_def)

lemma merge_session_simps [simp]:
  "s_id b = s_id a \<Longrightarrow> merge_session a b a = b" "merge_session a b b = b" "s_id (merge_session a b c) = s_id c"
  "merge_session a a c = c"
  by (simp_all add: merge_session_def)

lemma change_row_map: "change_row key k f rs = map (\<lambda>r. if key r = k then f r else r) rs"
  by (simp add: change_row_def update_where_def)

lemma merge_change:
  assumes "keys_unique key rs" and "\<And>r. key (f r) = key r" and "\<And>r. key (g r) = key r" and "\<And>r. mrg r r r = r"
  shows "merge_rows key mrg rs (change_row key k f rs) (change_row key k g rs) =
    change_row key k (\<lambda>r. mrg r (f r) (g r)) rs"
proof -
  have one: "by_key key (key r) rs = [r]" if "r \<in> set rs" for r
    by (rule by_key_unique [OF assms(1) that])
  have none: "filter (\<lambda>n. by_key key (key n) rs = []) (change_row key k f rs) = []"
    using assms(2) one by (force simp: filter_empty_conv change_row_map split: if_splits)
  have "(case (by_key key (key (if key r = k then g r else r)) rs,
        by_key key (key (if key r = k then g r else r)) (change_row key k f rs)) of
      (a # _, b # _) \<Rightarrow> mrg a b (if key r = k then g r else r) | _ \<Rightarrow> (if key r = k then g r else r)) =
    (if key r = k then mrg r (f r) (g r) else r)" if "r \<in> set rs" for r
    using one [OF that] assms(2-4) by (cases "key r = k") (simp_all add: by_key_change)
  then show ?thesis
    by (simp add: merge_rows_def none) (simp add: change_row_map)
qed

lemma change_row_id [simp]: "change_row key k (\<lambda>r. r) rs = rs"
  by (simp add: change_row_map)

lemma merge_unchanged:
  assumes "keys_unique key rs" and "\<And>r. key (g r) = key r" and "\<And>r c. mrg r r c = c"
  shows "merge_rows key mrg rs rs (change_row key k g rs) = change_row key k g rs"
  using merge_change [of key rs "\<lambda>r. r" g mrg k] assms by simp

lemmas merge_same = merge_unchanged [of _ _ "\<lambda>r. r", simplified]

section \<open>Failed logins\<close>

lemma commit_over_user:
  assumes "store_ok inet st" and "\<And>x. u_id (f x) = u_id x"
    and st': "st' = users_update (change_row u_id i f) st"
  shows "commit_over st st' st = st'" and "commit_over st st' st' = st'"
proof -
  note keys = store_ok_keys [OF assms(1)]
  have s: "merge_rows s_id merge_session (user_sessions st) (user_sessions st) (user_sessions st) = user_sessions st"
    by (rule merge_same [OF keys(3)]) simp
  have "merge_rows u_id merge_user (users st) (change_row u_id i f (users st)) (users st) = change_row u_id i f (users st)"
    using merge_change [OF keys(1), of f "\<lambda>r. r" merge_user i] assms(2) by simp
  then show "commit_over st st' st = st'" by (simp add: commit_over_def st' s)
  have "merge_rows u_id merge_user (users st) (change_row u_id i f (users st)) (change_row u_id i f (users st)) =
      change_row u_id i f (users st)"
    using merge_change [OF keys(1), of f f merge_user i] assms(2) by simp
  then show "commit_over st st' st' = st'" by (simp add: commit_over_def st' s)
qed

lemma overlapped_same:
  assumes "commit_over st st' st = st'" and "commit_over st st' st' = st'"
  shows "news \<noteq> [] \<Longrightarrow> \<forall>n \<in> set news. n = st' \<Longrightarrow> overlapped st news = st'"
proof -
  have again: "\<forall>n \<in> set ns. n = st' \<Longrightarrow> fold (commit_over st) ns st' = st'" for ns
    using assms(2) by (induction ns) auto
  assume "news \<noteq> []" "\<forall>n \<in> set news. n = st'"
  then show ?thesis using assms(1) again by (cases news) (simp_all add: overlapped_def)
qed

definition failed_login :: "'t env \<Rightarrow> string \<Rightarrow> string \<times> world \<Rightarrow> store" where
  "failed_login E email a = committed (snd (get_session E (authenticate E email (fst a) None None) (snd a)))"



section \<open>Refreshes\<close>

lemma commit_over_session:
  assumes "store_ok inet st" and "session_edit f" and "session_edit g"
    and "cur = user_sessions_update (change_row s_id i g) st" and "new = user_sessions_update (change_row s_id i f) st"
  shows "commit_over st new cur = user_sessions_update (change_row s_id i (\<lambda>s. merge_session s (f s) (g s))) st"
proof -
  note keys = store_ok_keys [OF assms(1)]
  have "merge_rows u_id merge_user (users st) (users st) (users st) = users st"
    by (rule merge_same [OF keys(1)]) simp
  moreover have "merge_rows s_id merge_session (user_sessions st) (change_row s_id i f (user_sessions st))
      (change_row s_id i g (user_sessions st)) =
      change_row s_id i (\<lambda>s. merge_session s (f s) (g s)) (user_sessions st)"
    using assms(2,3) by (intro merge_change [OF keys(3)]) (simp_all add: session_edit_def)
  ultimately show ?thesis using assms(4,5) by (simp add: commit_over_def)
qed

lemma overlapped_sessions:
  assumes "store_ok inet st" and "session_edit f" and "session_edit g"
    and "st1 = user_sessions_update (change_row s_id i g) st" and "st2 = user_sessions_update (change_row s_id i f) st"
  shows "overlapped st [st1, st2] = user_sessions_update (change_row s_id i (\<lambda>s. merge_session s (f s) (g s))) st"
proof -
  have "session_edit (\<lambda>s. s)" by (simp add: session_edit_def)
  from commit_over_session [OF assms(1,3) this, of st i st1] assms(3,4)
  have "commit_over st st1 st = st1" by (simp add: session_edit_def)
  with commit_over_session [OF assms] show ?thesis by (simp add: overlapped_def)
qed

lemma refresh_effect:
  assumes "get_session E (refresh_session E t ua ip) w = (Inr (a, r), w')"
  shows "\<exists>p s (u :: user). decode_token (crypt E) (cfg E) (clock E (reads w)) t = Inr p \<and>
    map_of p ''sid'' = Some (JStr (s_id s)) \<and> by_key s_id (s_id s) (user_sessions (committed w)) = [s] \<and>
    \<not> session_dead s (clock E (Suc (reads w))) \<and>
    r = create_refresh_token (crypt E) (cfg E) (clock E (reads w + 3)) (u_id u) (s_id s) (uuid_hex E (draws w)) None \<and>
    committed w' = user_sessions_update (change_row s_id (s_id s)
      (rotate E (clock E (Suc (reads w))) (uuid_hex E (draws w)) ua ip)) (committed w)"
  using assms
proof (rule refresh_request_runs)
  fix p s and u :: user
  assume a: "decode_token (crypt E) (cfg E) (clock E (reads w)) t = Inr p"
    "map_of p ''sid'' = Some (JStr (s_id s))" "by_key s_id (s_id s) (user_sessions (committed w)) = [s]"
    "\<not> session_dead s (clock E (Suc (reads w)))"
    "r = create_refresh_token (crypt E) (cfg E) (clock E (reads w + 3)) (u_id u) (s_id s) (uuid_hex E (draws w)) None"
    "committed w' = user_sessions_update (change_row s_id (s_id s)
      (rotate E (clock E (Suc (reads w))) (uuid_hex E (draws w)) ua ip)) (committed w)"
  show ?thesis
    by (rule exI [of _ p], rule exI [of _ s], rule exI [of _ u]) (intro conjI a)
qed



end
