(* ===== verification/Routing.thy ===== *)
theory Routing
  imports Api
begin

text \<open>
  The routing table of the application (the decorators of the five routers, \<open>app/api.py\<close> and
  \<open>create_app\<close> in \<open>app/main.py\<close>) and the way Starlette walks it: the first route whose path and
  method match; else 405 when some path matched; else a redirect when the path with its final slash
  toggled would match; else 404. An endpoint is named by its function.
\<close>

section \<open>Matching\<close>

datatype seg = Lit string | Param

type_synonym route = "string \<times> string \<times> string"

definition compile_seg :: "string \<Rightarrow> seg" where
  "compile_seg s = (if s \<noteq> [] \<and> hd s = CHR ''{'' \<and> last s = CHR ''}'' then Param else Lit s)"

definition compile_path :: "string \<Rightarrow> seg list" where
  "compile_path t = map compile_seg (split_on (CHR ''/'') t)"

text \<open>A parameter takes one non-empty segment.\<close>

fun match_segs :: "seg list \<Rightarrow> string list \<Rightarrow> string list option" where
  "match_segs [] [] = Some []"
| "match_segs (Lit l # ts) (s # ss) = (if s = l then match_segs ts ss else None)"
| "match_segs (Param # ts) (s # ss) = (if s = [] then None else map_option ((#) s) (match_segs ts ss))"
| "match_segs _ _ = None"

definition path_match :: "string \<Rightarrow> string \<Rightarrow> string list option" where
  "path_match t p = match_segs (compile_path t) (split_on (CHR ''/'') p)"

datatype outcome = Found string "string list" | MethodNotAllowed | Redirect string | PathNotFound

fun find_route :: "route list \<Rightarrow> string \<Rightarrow> string \<Rightarrow> (string \<times> string list) option" where
  "find_route [] m p = None"
| "find_route ((m', t, e) # rs) m p =
     (case path_match t p of
        Some ps \<Rightarrow> if m' = m then Some (e, ps) else find_route rs m p
      | None \<Rightarrow> find_route rs m p)"

definition toggle_slash :: "string \<Rightarrow> string" where
  "toggle_slash p = (if p \<noteq> [] \<and> last p = CHR ''/'' then rev (dropWhile (\<lambda>c. c = CHR ''/'') (rev p)) else p @ ''/'')"

definition resolve :: "route list \<Rightarrow> string \<Rightarrow> string \<Rightarrow> outcome" where
  "resolve rs m p =
     (case find_route rs m p of
        Some (e, ps) \<Rightarrow> Found e ps
      | None \<Rightarrow>
          if list_ex (\<lambda>(m', t, e). path_match t p \<noteq> None) rs then MethodNotAllowed
          else if p \<noteq> ''/'' \<and> list_ex (\<lambda>(m', t, e). path_match t (toggle_slash p) \<noteq> None) rs
          then Redirect (toggle_slash p)
          else PathNotFound)"

section \<open>The table\<close>

definition prefixed :: "string \<Rightarrow> route list \<Rightarrow> route list" where
  "prefixed pre rs = map (\<lambda>(m, t, e). (m, pre @ t, e)) rs"

definition meta_router :: "route list" where
  "meta_router =
     [(''GET'', ''/health'', ''health''), (''GET'', ''/health/ready'', ''readiness''),
      (''GET'', ''/dashboard/kpis'', ''dashboard_kpis'')]"

definition users_router :: "route list" where
  "users_router =
     [(''GET'', '''', ''list_users''), (''POST'', '''', ''create_user''), (''PATCH'', ''/{user_id}'', ''update_user'')]"

definition roles_router :: "route list" where
  "roles_router =
     [(''GET'', '''', ''list_roles''), (''PUT'', ''/{role_id}/permissions'', ''update_role_permissions''),
      (''POST'', '''', ''upsert_role'')]"

definition identity_router :: "route list" where
  "identity_router =
     [(''POST'', ''/auth/login'', ''login''), (''POST'', ''/auth/refresh'', ''refresh''),
      (''POST'', ''/auth/logout'', ''logout''), (''POST'', ''/auth/change-password'', ''change_password''),
      (''GET'', ''/auth/me'', ''me'')] @
     prefixed ''/users'' users_router @ prefixed ''/roles'' roles_router @
     prefixed ''/audit-logs'' [(''GET'', '''', ''list_audit'')]"

definition pipelines_router :: "route list" where
  "pipelines_router =
     [(''GET'', ''/stages'', ''stages''), (''GET'', ''/kpis'', ''kpis''), (''GET'', ''/runs'', ''runs''),
      (''GET'', ''/alerts'', ''alerts''), (''GET'', ''/retries'', ''retries''),
      (''POST'', ''/jobs/{job_id}/retry'', ''retry_job''), (''POST'', ''/jobs/{job_id}/replay'', ''replay_job''),
      (''POST'', ''/alerts/{alert_id}/ack'', ''ack_alert'')]"

definition operations_router :: "route list" where
  "operations_router =
     prefixed ''/pipelines'' pipelines_router @
     prefixed ''/decoders'' [(''GET'', '''', ''list_decoders''), (''POST'', '''', ''upsert_decoder'')] @
     prefixed ''/system'' [(''GET'', ''/config'', ''get_config''), (''PUT'', ''/config'', ''update_config'')]"

definition cases_router :: "route list" where
  "cases_router =
     [(''GET'', '''', ''list_cases''), (''POST'', '''', ''create_case''), (''GET'', ''/{case_id}'', ''get_case''),
      (''PATCH'', ''/{case_id}'', ''update_case''), (''POST'', ''/{case_id}/comments'', ''add_comment'')]"

definition workbench_router :: "route list" where
  "workbench_router =
     [(''GET'', ''/queries'', ''list_queries''), (''POST'', ''/queries'', ''create_query''), (''GET'', ''/stats'', ''stats'')]"

definition assurance_router :: "route list" where
  "assurance_router =
     prefixed ''/recon'' [(''GET'', ''/summary'', ''recon_summary''), (''GET'', ''/records'', ''recon_records'')] @
     prefixed ''/cases'' cases_router @ prefixed ''/workbench'' workbench_router"

definition reporting_router :: "route list" where
  "reporting_router =
     prefixed ''/reports''
       [(''GET'', '''', ''list_reports''), (''POST'', '''', ''create_report''),
        (''GET'', ''/{reference}/download'', ''download_report'')]"

definition api_router :: "route list" where
  "api_router = meta_router @ identity_router @ operations_router @ assurance_router @ reporting_router"

text \<open>FastAPI's own pages come first; they also answer HEAD.\<close>

definition documentation_routes :: "route list" where
  "documentation_routes =
     concat (map (\<lambda>(t, e). [(''GET'', t, e), (''HEAD'', t, e)])
       [(''/openapi.json'', ''openapi''), (''/docs'', ''swagger_ui_html''),
        (''/docs/oauth2-redirect'', ''swagger_ui_redirect''), (''/redoc'', ''redoc_html'')])"

definition app_routes :: "settings \<Rightarrow> route list" where
  "app_routes st =
     documentation_routes @ prefixed (api_prefix st) api_router @
     [(''GET'', ''/'', ''root''), (''GET'', ''/metrics'', ''metrics'')]"

text \<open>The answer of \<open>GET /\<close>.\<close>

definition root :: "settings \<Rightarrow> string dict" where
  "root st = [(''service'', project_name st), (''docs'', ''/docs''), (''api'', api_prefix st)]"

fun endpoint_of :: "'t request \<Rightarrow> string" where
  "endpoint_of Health = ''health''"
| "endpoint_of Ready = ''readiness''"
| "endpoint_of DashboardKpis = ''dashboard_kpis''"
| "endpoint_of (Login e pw) = ''login''"
| "endpoint_of (Refresh t) = ''refresh''"
| "endpoint_of Logout = ''logout''"
| "endpoint_of (ChangePassword c n) = ''change_password''"
| "endpoint_of Me = ''me''"
| "endpoint_of (ListUsers pg) = ''list_users''"
| "endpoint_of (CreateUser p) = ''create_user''"
| "endpoint_of (UpdateUser i p) = ''update_user''"
| "endpoint_of ListRoles = ''list_roles''"
| "endpoint_of (UpdateRolePermissions i m) = ''update_role_permissions''"
| "endpoint_of (UpsertRole p) = ''upsert_role''"
| "endpoint_of (ListAudit pg) = ''list_audit''"
| "endpoint_of Stages = ''stages''"
| "endpoint_of Kpis = ''kpis''"
| "endpoint_of (Runs n) = ''runs''"
| "endpoint_of Alerts = ''alerts''"
| "endpoint_of Retries = ''retries''"
| "endpoint_of (RetryJob j) = ''retry_job''"
| "endpoint_of (ReplayJob j) = ''replay_job''"
| "endpoint_of (AckAlert i) = ''ack_alert''"
| "endpoint_of ListDecoders = ''list_decoders''"
| "endpoint_of (UpsertDecoder p) = ''upsert_decoder''"
| "endpoint_of GetConfig = ''get_config''"
| "endpoint_of (UpdateConfig p) = ''update_config''"
| "endpoint_of (ReconSummary h) = ''recon_summary''"
| "endpoint_of (ReconRecords st pg) = ''recon_records''"
| "endpoint_of (ListCases st pg) = ''list_cases''"
| "endpoint_of (CreateCase p) = ''create_case''"
| "endpoint_of (GetCase i) = ''get_case''"
| "endpoint_of (UpdateCase i p) = ''update_case''"
| "endpoint_of (AddComment i b) = ''add_comment''"
| "endpoint_of ListQueries = ''list_queries''"
| "endpoint_of (CreateQuery p) = ''create_query''"
| "endpoint_of Stats = ''stats''"
| "endpoint_of (ListReports pg) = ''list_reports''"
| "endpoint_of (CreateReport p) = ''create_report''"
| "endpoint_of (DownloadReport i) = ''download_report''"

text \<open>The values of the path parameters a request carries.\<close>

definition path_args :: "'t request \<Rightarrow> string list" where
  "path_args req =
     (case req of
        UpdateUser i p \<Rightarrow> [i] | UpdateRolePermissions i m \<Rightarrow> [i] | RetryJob j \<Rightarrow> [j] | ReplayJob j \<Rightarrow> [j]
      | AckAlert i \<Rightarrow> [i] | GetCase i \<Rightarrow> [i] | UpdateCase i p \<Rightarrow> [i] | AddComment i b \<Rightarrow> [i]
      | DownloadReport i \<Rightarrow> [i] | _ \<Rightarrow> [])"

section \<open>No route hides another\<close>

text \<open>Two templates overlap if some path matches both.\<close>

fun overlaps :: "seg list \<Rightarrow> seg list \<Rightarrow> bool" where
  "overlaps [] [] = True"
| "overlaps (Lit l # ts) (Lit k # us) = (l = k \<and> overlaps ts us)"
| "overlaps (Lit l # ts) (Param # us) = (l \<noteq> [] \<and> overlaps ts us)"
| "overlaps (Param # ts) (Lit k # us) = (k \<noteq> [] \<and> overlaps ts us)"
| "overlaps (Param # ts) (Param # us) = overlaps ts us"
| "overlaps _ _ = False"

lemma match_overlaps:
  "match_segs ts ss \<noteq> None \<Longrightarrow> match_segs us ss \<noteq> None \<Longrightarrow> overlaps ts us"
  by (induction ts us arbitrary: ss rule: overlaps.induct; case_tac ss) (auto split: if_splits)

fun unambiguous :: "(string \<times> seg list) list \<Rightarrow> bool" where
  "unambiguous [] = True"
| "unambiguous ((m, t) # rs) \<longleftrightarrow> list_all (\<lambda>(m', t'). m' = m \<longrightarrow> \<not> overlaps t t') rs \<and> unambiguous rs"

abbreviation compiled :: "route list \<Rightarrow> (string \<times> seg list) list" where
  "compiled rs \<equiv> map (\<lambda>(m, t, e). (m, compile_path t)) rs"

lemma find_route_unambiguous:
  assumes "unambiguous (compiled rs)" and "(m, t, e) \<in> set rs" and "path_match t p = Some ps"
  shows "find_route rs m p = Some (e, ps)"
  using assms
proof (induction rs m p rule: find_route.induct)
  case (2 m' t' e' rs m p)
  show ?case
  proof (cases "(m, t, e) = (m', t', e')")
    case True
    with 2 show ?thesis by simp
  next
    case False
    with 2 have rest: "(m, t, e) \<in> set rs" "unambiguous (compiled rs)" by auto
    have "m' = m \<Longrightarrow> path_match t' p = None"
      using 2 rest(1) match_overlaps [of "compile_path t'" "split_on (CHR ''/'') p" "compile_path t"]
      by (fastforce simp: path_match_def list_all_iff)
    with 2 rest show ?thesis by (auto split: option.split)
  qed
qed simp

lemma routes_unambiguous: "unambiguous (compiled (app_routes default_settings))"
  by code_simp

section \<open>The address of a request\<close>

fun fill :: "seg list \<Rightarrow> string list \<Rightarrow> string list" where
  "fill [] xs = []"
| "fill (Lit l # ts) xs = l # fill ts xs"
| "fill (Param # ts) [] = [] # fill ts []"
| "fill (Param # ts) (x # xs) = x # fill ts xs"

fun join_path :: "string list \<Rightarrow> string" where
  "join_path [] = []"
| "join_path [s] = s"
| "join_path (s # t # ss) = s @ ''/'' @ join_path (t # ss)"

lemma match_fill:
  "length xs = length (filter (\<lambda>g. g = Param) ts) \<Longrightarrow> [] \<notin> set xs \<Longrightarrow> match_segs ts (fill ts xs) = Some xs"
  by (induction ts xs rule: fill.induct) auto

lemma split_on_nonempty [simp]: "split_on c s \<noteq> []"
  by (cases s) (auto split: list.split)

lemma split_on_plain: "c \<notin> set s \<Longrightarrow> split_on c s = [s]"
  by (induction s) auto

lemma split_on_append: "c \<notin> set s \<Longrightarrow> split_on c (s @ c # t) = s # split_on c t"
  by (induction s) auto

lemma split_on_parts: "s \<in> set (split_on c t) \<Longrightarrow> c \<notin> set s"
  by (induction t arbitrary: s) (auto split: if_splits list.splits)

lemma split_join:
  "ss \<noteq> [] \<Longrightarrow> \<forall>s \<in> set ss. CHR ''/'' \<notin> set s \<Longrightarrow> split_on (CHR ''/'') (join_path ss) = ss"
  by (induction ss rule: join_path.induct) (auto simp: split_on_plain split_on_append)

lemma fill_parts: "s \<in> set (fill ts xs) \<Longrightarrow> Lit s \<in> set ts \<or> s \<in> set xs \<or> s = []"
  by (induction ts xs rule: fill.induct) auto

lemma fill_nonempty: "ts \<noteq> [] \<Longrightarrow> fill ts xs \<noteq> []"
  by (cases ts; cases "hd ts"; cases xs) auto

definition route_of :: "settings \<Rightarrow> 't request \<Rightarrow> string \<times> string" where
  "route_of st req = the (map_of (map (\<lambda>(m, t, e). (e, m, t)) (app_routes st)) (endpoint_of req))"

definition url_of :: "settings \<Rightarrow> 't request \<Rightarrow> string" where
  "url_of st req = join_path (fill (compile_path (snd (route_of st req))) (path_args req))"

lemma path_match_url:
  assumes "length xs = length (filter (\<lambda>g. g = Param) (compile_path t))"
    and "\<forall>x \<in> set xs. x \<noteq> [] \<and> CHR ''/'' \<notin> set x"
  shows "path_match t (join_path (fill (compile_path t) xs)) = Some xs"
proof -
  have "\<forall>s \<in> set (fill (compile_path t) xs). CHR ''/'' \<notin> set s"
  proof
    fix s assume "s \<in> set (fill (compile_path t) xs)"
    from fill_parts [OF this] show "CHR ''/'' \<notin> set s"
      using assms(2) split_on_parts [of s "CHR ''/''" t]
      by (auto simp: compile_path_def compile_seg_def split: if_splits)
  qed
  moreover have "fill (compile_path t) xs \<noteq> []"
    by (rule fill_nonempty) (simp add: compile_path_def)
  ultimately show ?thesis
    using assms by (auto simp: path_match_def split_join match_fill)
qed

lemma app_routes_prefix: "api_prefix st = ''/api'' \<Longrightarrow> app_routes st = app_routes default_settings"
  by (simp add: app_routes_def default_settings_def)

text \<open>How many parameters the path of an endpoint has.\<close>

definition endpoint_arity :: "route list \<Rightarrow> string \<Rightarrow> nat option" where
  "endpoint_arity rs e =
     map_option (\<lambda>(m, t). length (filter (\<lambda>g. g = Param) (compile_path t)))
       (map_of (map (\<lambda>(m, t, e). (e, m, t)) rs) e)"

lemma request_arity: "endpoint_arity (app_routes default_settings) (endpoint_of req) = Some (length (path_args req))"
  by (cases req; simp add: path_args_def; thin_tac "req = _"; code_simp)

lemma request_routes:
  "(fst (route_of default_settings req), snd (route_of default_settings req), endpoint_of req)
     \<in> set (app_routes default_settings) \<and>
   length (path_args req) = length (filter (\<lambda>g. g = Param) (compile_path (snd (route_of default_settings req))))"
proof -
  obtain m t where mt: "map_of (map (\<lambda>(m, t, e). (e, m, t)) (app_routes default_settings)) (endpoint_of req) = Some (m, t)"
    and n: "length (path_args req) = length (filter (\<lambda>g. g = Param) (compile_path t))"
    using request_arity [of req] by (auto simp: endpoint_arity_def)
  from map_of_SomeD [OF mt] have "(m, t, endpoint_of req) \<in> set (app_routes default_settings)" by auto
  with mt n show ?thesis by (simp add: route_of_def)
qed

text \<open>
  C9: no route hides another. Under the prefix /api every request of every router, with any non-empty
  path parameters without a slash, is sent to its own endpoint with exactly these parameters, although
  the table is walked in order and the first match wins.
\<close>

theorem routes_reachable:
  assumes "api_prefix st = ''/api''" and "\<forall>x \<in> set (path_args req). x \<noteq> [] \<and> CHR ''/'' \<notin> set x"
  shows "resolve (app_routes st) (fst (route_of st req)) (url_of st req) = Found (endpoint_of req) (path_args req)"
proof -
  have st: "app_routes st = app_routes default_settings" "route_of st req = route_of default_settings req"
    using app_routes_prefix [OF assms(1)] by (simp_all add: route_of_def)
  note r = request_routes [of req]
  have "find_route (app_routes default_settings) (fst (route_of default_settings req)) (url_of st req) =
      Some (endpoint_of req, path_args req)"
    using find_route_unambiguous [OF routes_unambiguous conjunct1 [OF r]]
      path_match_url [OF conjunct2 [OF r] assms(2)] by (simp add: url_of_def st)
  then show ?thesis by (simp add: resolve_def st)
qed

theorem routes_reachable_witness:
  "resolve (app_routes default_settings) ''POST'' ''/api/cases/c1/comments'' = Found ''add_comment'' [''c1'']"
proof -
  have "fst (route_of default_settings (AddComment ''c1'' ''x'' :: demo_token request)) = ''POST''"
    "url_of default_settings (AddComment ''c1'' ''x'' :: demo_token request) = ''/api/cases/c1/comments''"
    by code_simp+
  then show ?thesis
    using routes_reachable [of default_settings "AddComment ''c1'' ''x'' :: demo_token request"]
    by (simp add: default_settings_def path_args_def)
qed

section \<open>What is open to everybody\<close>

lemma public_endpoints:
  "access_of req = Public \<longleftrightarrow> endpoint_of req \<in> {''health'', ''readiness'', ''login'', ''refresh''}"
  by (cases req) simp_all

lemma find_route_in: "find_route rs m p = Some (e, ps) \<Longrightarrow> \<exists>t. (m, t, e) \<in> set rs \<and> path_match t p = Some ps"
  by (induction rs m p rule: find_route.induct) (auto split: option.splits if_splits)

lemma join_split: "join_path (split_on (CHR ''/'') p) = p"
proof (induction p)
  case (Cons c p)
  obtain w ws where "split_on (CHR ''/'') p = w # ws" by (cases "split_on (CHR ''/'') p") auto
  with Cons show ?case by (cases ws) auto
qed simp

lemma match_literal: "Param \<notin> set ts \<Longrightarrow> match_segs ts ss = Some xs \<Longrightarrow> ts = map Lit ss"
  by (induction ts ss arbitrary: xs rule: match_segs.induct) (auto split: if_splits)

lemma compile_literal: "Param \<notin> set (compile_path t) \<Longrightarrow> compile_path t = map Lit (split_on (CHR ''/'') t)"
  by (force simp: compile_path_def compile_seg_def)

definition open_routes :: "route list" where
  "open_routes =
     [(''GET'', ''/api/health'', ''health''), (''GET'', ''/api/health/ready'', ''readiness''),
      (''POST'', ''/api/auth/login'', ''login''), (''POST'', ''/api/auth/refresh'', ''refresh'')]"

lemma open_routes_all:
  "filter (\<lambda>(m, t, e). e \<in> {''health'', ''readiness'', ''login'', ''refresh''}) (app_routes default_settings) = open_routes"
  by code_simp

lemma open_routes_literal:
  "list_all (\<lambda>(m, t, e). list_all (\<lambda>g. g \<noteq> Param) (compile_path t)) open_routes"
  by code_simp



end
