(* ===== verification/Export.thy ===== *)
theory Export
  imports Reporting_Props
begin

text \<open>
  The file of a certified export: the checksum loop reads every byte of it once, and a reader of the
  CSV format gets back the header and the cells that were written.
\<close>

section \<open>Reading a CSV file\<close>

text \<open>
  A reader of the format (RFC 4180): it is at the start of a field, inside a plain or a quoted one,
  or has just seen a quote inside a quoted one. \<open>f\<close> is the field read so far and \<open>r\<close> the fields of
  the record before it.
\<close>

datatype csv_state = FieldStart | InField | InQuotes | QuoteSeen

fun csv_read :: "csv_state \<Rightarrow> string \<Rightarrow> string list \<Rightarrow> string \<Rightarrow> string list list" where
  "csv_read st f r [] = (if r = [] \<and> f = [] then [] else [r @ [f]])"
| "csv_read InQuotes f r (c # cs) =
     (if c = CHR 0x22 then csv_read QuoteSeen f r cs else csv_read InQuotes (f @ [c]) r cs)"
| "csv_read QuoteSeen f r (c # cs) =
     (if c = CHR 0x22 then csv_read InQuotes (f @ [c]) r cs
      else if c = CHR '','' then csv_read FieldStart [] (r @ [f]) cs
      else if c = CHR 0x0D then csv_read QuoteSeen f r cs
      else if c = CHR 0x0A then (r @ [f]) # csv_read FieldStart [] [] cs
      else csv_read InField (f @ [c]) r cs)"
| "csv_read st f r (c # cs) =
     (if c = CHR 0x22 \<and> st = FieldStart then csv_read InQuotes f r cs
      else if c = CHR '','' then csv_read FieldStart [] (r @ [f]) cs
      else if c = CHR 0x0D then csv_read InField f r cs
      else if c = CHR 0x0A then (r @ [f]) # csv_read FieldStart [] [] cs
      else csv_read InField (f @ [c]) r cs)"

lemma read_plain:
  assumes "list_all (\<lambda>c. c \<notin> set [CHR '','', CHR 0x22, CHR 0x0D, CHR 0x0A]) s"
  shows "csv_read InField f r (s @ t) = csv_read InField (f @ s) r t"
  using assms by (induction s arbitrary: f) auto

lemma read_quoted:
  "csv_read InQuotes f r (str_replace_char (CHR 0x22) [CHR 0x22, CHR 0x22] s @ CHR 0x22 # t) =
   csv_read QuoteSeen (f @ s) r t"
  by (induction s arbitrary: f) (auto simp: str_replace_char_def)

lemma read_field:
  "csv_read FieldStart [] r (csv_field s @ CHR '','' # t) = csv_read FieldStart [] (r @ [s]) t"
  "csv_read FieldStart [] r (csv_field s @ CHR 0x0D # CHR 0x0A # t) = (r @ [s]) # csv_read FieldStart [] [] t"
proof -
  let ?special = "\<lambda>c. c \<in> set [CHR '','', CHR 0x22, CHR 0x0D, CHR 0x0A]"
  consider (quoted) "list_ex ?special s" | (empty) "s = []"
    | (plain) c cs where "s = c # cs" "\<not> ?special c" "list_all (\<lambda>c. \<not> ?special c) cs"
    by (cases s) (auto simp: list_all_iff list_ex_iff)
  then have "csv_read FieldStart [] r (csv_field s @ CHR '','' # t) = csv_read FieldStart [] (r @ [s]) t \<and>
    csv_read FieldStart [] r (csv_field s @ CHR 0x0D # CHR 0x0A # t) = (r @ [s]) # csv_read FieldStart [] [] t"
  proof cases
    case quoted
    then show ?thesis by (simp add: csv_field_def read_quoted)
  next
    case empty
    then show ?thesis by (simp add: csv_field_def)
  next
    case plain
    then have "csv_field s = s" by (auto simp: csv_field_def list_all_iff list_ex_iff)
    with plain read_plain [of cs "[c]"] show ?thesis by simp
  qed
  then show "csv_read FieldStart [] r (csv_field s @ CHR '','' # t) = csv_read FieldStart [] (r @ [s]) t"
    "csv_read FieldStart [] r (csv_field s @ CHR 0x0D # CHR 0x0A # t) = (r @ [s]) # csv_read FieldStart [] [] t"
    by blast+
qed

lemma read_fields:
  "xs \<noteq> [] \<Longrightarrow> csv_read FieldStart [] r (csv_join (map csv_field xs) @ CHR 0x0D # CHR 0x0A # t) =
     (r @ xs) # csv_read FieldStart [] [] t"
  by (induction xs arbitrary: r rule: csv_join.induct) (simp_all add: read_field)

lemma read_line:
  assumes "xs \<noteq> []"
  shows "csv_read FieldStart [] [] (csv_line xs @ t) = xs # csv_read FieldStart [] [] t"
  using read_fields [OF assms, of "[]" t] by (auto simp: csv_line_def)

lemma read_lines:
  "[] \<notin> set rows \<Longrightarrow> csv_read FieldStart [] [] (concat (map csv_line rows)) = rows"
  by (induction rows) (auto simp: read_line)

text \<open>
  C33: an export can be read back: whatever characters the cells hold (separators, quotes and line
  ends included), a CSV reader gets exactly the header and the texts of the cells, row by row.
\<close>

theorem export_reads_back:
  assumes "[] \<notin> set rows"
  shows "csv_read FieldStart [] [] (csv_text U rows RECON_COLUMNS) = RECON_COLUMNS # map (map (csv_cell U)) rows"
proof -
  have "csv_text U rows RECON_COLUMNS = concat (map csv_line (RECON_COLUMNS # map (map (csv_cell U)) rows))"
    by (simp add: csv_text_def comp_def)
  moreover have "[] \<notin> set (RECON_COLUMNS # map (map (csv_cell U)) rows)"
    using assms by (auto simp: RECON_COLUMNS_def)
  ultimately show ?thesis using read_lines by metis
qed

theorem export_reads_back_witness:
  "csv_read FieldStart [] [] (csv_text demo_upstream [[CStr ''a,\"b'', CNull]] RECON_COLUMNS) =
     [RECON_COLUMNS, [''a,\"b'', []]]"
  using export_reads_back [of "[[CStr ''a,\"b'', CNull]]" demo_upstream]
  by (simp add: csv_cell_def)

section \<open>The checksum\<close>

lemma concat_read_chunks: "0 < n \<Longrightarrow> concat (read_chunks n s) = s"
proof (induction n s rule: read_chunks.induct)
  case (1 n s)
  then show ?case by (subst read_chunks.simps) (auto simp: append_take_drop_id)
qed

lemma read_chunks_sizes: "c \<in> set (read_chunks n s) \<Longrightarrow> c \<noteq> [] \<and> length c \<le> n"
proof (induction n s rule: read_chunks.induct)
  case (1 n s)
  then show ?case by (subst (asm) (2) read_chunks.simps) (auto split: if_splits)
qed

lemma length_read_chunks: "0 < n \<Longrightarrow> length (read_chunks n s) = (length s + n - 1) div n"
proof (induction n s rule: read_chunks.induct)
  case (1 n s)
  show ?case
  proof (cases "s = []")
    case True
    then show ?thesis using 1(2) by (subst read_chunks.simps) simp
  next
    case False
    then have "take n s \<noteq> []" using 1(2) by simp
    then have len: "length (read_chunks n s) = Suc (length (read_chunks n (drop n s)))"
      by (subst read_chunks.simps) simp
    have "length (read_chunks n (drop n s)) = (length (drop n s) + n - 1) div n"
      using 1 \<open>take n s \<noteq> []\<close> by simp
    moreover have step: "(n + k) div n = Suc (k div n)" for k using 1(2) by simp
    moreover have "Suc ((length (drop n s) + n - 1) div n) = (length s + n - 1) div n"
    proof (cases "n \<le> length s")
      case True
      then have "length (drop n s) + n - 1 = length s - 1" by simp
      moreover have "length s + n - 1 = n + (length s - 1)" using True 1(2) by simp
      ultimately show ?thesis using step by (simp only:)
    next
      case less: False
      have "length s + n - 1 = n + (length s - 1)" using False 1(2) by (cases s) simp_all
      moreover have "(length s - 1) div n = 0" using less by simp
      ultimately show ?thesis using less 1(2) step [of "length s - 1"] by simp
    qed
    ultimately show ?thesis using len by simp
  qed
qed

text \<open>
  C32: the checksum loop ends after one read per started block of 65536 bytes (and the empty one that
  stops it), its blocks are non-empty, within the limit, and together exactly the file; so the stored
  checksum is the digest of the whole file.
\<close>

theorem checksum_of_whole_file:
  assumes "digest_law (services E)"
  shows "concat (read_chunks 65536 content) = content \<and>
    (\<forall>c \<in> set (read_chunks 65536 content). 0 < length c \<and> length c \<le> 65536) \<and>
    length (read_chunks 65536 content) = (length content + 65535) div 65536 \<and>
    rp_checksum_sha256 (complete_report E path content now r) = Some (sha256_hex (services E) [content])"
proof -
  have all: "concat (read_chunks 65536 content) = content" by (simp add: concat_read_chunks)
  then have "sha256 (services E) content = sha256_hex (services E) [content]"
    using assms by (simp add: sha256_def digest_law_def)
  moreover have "length (read_chunks 65536 content) = (length content + 65535) div 65536"
    by (simp add: length_read_chunks)
  ultimately show ?thesis
    using all by (auto simp: complete_report_def dest: read_chunks_sizes)
qed

theorem checksum_of_whole_file_witness:
  "length (read_chunks 65536 ''a,b'') = 1 \<and>
    rp_checksum_sha256 (complete_report demo_env ''out'' ''a,b'' 7 demo_report) = Some ''a,b''"
proof -
  have "digest_law (services demo_env)" by (simp add: digest_law_def demo_upstream_def)
  from checksum_of_whole_file [OF this, of "''a,b''" "''out''" 7 demo_report] show ?thesis
    by (simp add: demo_upstream_def)
qed

end
