(* ===== verification/Outside.thy ===== *)
theory Outside
  imports Privileges Reporting_Props
begin

text \<open>
  What reaches beyond the database: the files of the worker, the DAG runs Airflow has accepted and
  the tasks sent to the broker. The locale \<open>outside_view\<close> is the contract of a part of the world that
  no database work touches; its extensions say that it is none of Airflow's or the broker's business
  either. Each of the three parts is an interpretation, and a step of the system changes one of them
  only as the request or the task that is meant to.
\<close>

section \<open>Functions that leave a part of the world as it was\<close>

named_theorems still_intro \<open>rules for functions that leave a part of the world as it was\<close>

definition still :: "(world \<Rightarrow> 'b) \<Rightarrow> 'a act \<Rightarrow> bool" where
  "still v m = (\<forall>w. v (snd (m w)) = v w)"

lemma stillD: "still v m \<Longrightarrow> m w = (r, w') \<Longrightarrow> v w' = v w"
  by (metis still_def snd_conv)

lemma still_andthen [still_intro]:
  assumes "still v m" and "\<And>x. still v (k x)"
  shows "still v (andthen m k)"
  unfolding still_def
proof
  fix w :: world
  show "v (snd (andthen m k w)) = v w"
    using assms(1) [unfolded still_def, rule_format, of w] assms(2) [unfolded still_def, rule_format]
    by (cases "m w"; cases "fst (m w)") (simp_all add: andthen_def)
qed

lemma still_catch [still_intro]:
  assumes "still v m" and "\<And>e. still v (h e)"
  shows "still v (catch m h)"
  unfolding still_def
proof
  fix w :: world
  show "v (snd (catch m h w)) = v w"
    using assms(1) [unfolded still_def, rule_format, of w] assms(2) [unfolded still_def, rule_format]
    by (cases "m w"; cases "fst (m w)") (simp_all add: catch_def)
qed

lemma still_control [still_intro]:
  "still v a \<Longrightarrow> still v b \<Longrightarrow> still v (if c then a else b)"
  "still v a \<Longrightarrow> (\<And>x. still v (f x)) \<Longrightarrow> still v (case z of None \<Rightarrow> a | Some x \<Rightarrow> f x)"
  "(\<And>x. still v (h x)) \<Longrightarrow> (\<And>x. still v (k x)) \<Longrightarrow> still v (case s of Inl x \<Rightarrow> h x | Inr x \<Rightarrow> k x)"
  "(\<And>x y. still v (q x y)) \<Longrightarrow> still v (case pr of (x, y) \<Rightarrow> q x y)"
  "still v a \<Longrightarrow> (\<And>s. still v (f' s)) \<Longrightarrow> still v b \<Longrightarrow>
   still v (case z' of NoKey \<Rightarrow> a | KeyStr s \<Rightarrow> f' s | BadKey \<Rightarrow> b)"
  "still v a \<Longrightarrow> still v b \<Longrightarrow> (\<And>x. still v (g' x)) \<Longrightarrow>
   still v (case y of NoHeader \<Rightarrow> a | EmptyCredentials \<Rightarrow> b | Credentials x \<Rightarrow> g' x)"
  "still v a \<Longrightarrow> (\<And>m. still v (h' m)) \<Longrightarrow> still v (case e of ExpiredSignatureError \<Rightarrow> a | InvalidTokenError m \<Rightarrow> h' m)"
  "still v a \<Longrightarrow> (\<And>x xs. still v (kk x xs)) \<Longrightarrow> still v (case l of [] \<Rightarrow> a | x # xs \<Rightarrow> kk x xs)"
  "(\<And>m. still v (f1 m)) \<Longrightarrow> (\<And>m. still v (f2 m)) \<Longrightarrow> (\<And>st j. still v (f3 st j)) \<Longrightarrow>
   still v (case ans of HttpError m \<Rightarrow> f1 m | OtherHttpExn m \<Rightarrow> f2 m | HttpResponse st j \<Rightarrow> f3 st j)"
  by (auto split: option.splits sum.splits prod.splits key_claim.splits bearer.splits jwt_exn.splits list.splits
      http_answer.splits)

section \<open>Parts of the world outside the database\<close>

locale outside_view =
  fixes v :: "world \<Rightarrow> 'b"
  assumes database: "v (w\<lparr>committed := s\<rparr>) = v w" "v (w\<lparr>pending := s\<rparr>) = v w"
    and sources: "v (w\<lparr>reads := n\<rparr>) = v w" "v (w\<lparr>draws := n\<rparr>) = v w"
    and clients: "v (w\<lparr>ext_calls := n\<rparr>) = v w" "v (w\<lparr>ch_client := b\<rparr>) = v w" "v (w\<lparr>pg_engine := b\<rparr>) = v w"
begin

lemmas ignores = database sources clients

lemma primitives [still_intro]:
  "still v (ret x)" "still v (raise e)" "still v (now_utc E)" "still v (uuid4_hex E)" "still v (hash_act E p)"
  "still v (lib_call r)" "still v (query f)" "still v (modify g)" "still v (one_or_none rs)" "still v (flush E)"
  "still v publish" "still v ext_call" "still v has_ch_client" "still v (set_ch_client b)" "still v (set_pg_engine b)"
  "still v (lift_res res)" "still v (read_file path)" "still v (path_exists path)" "still v roll_back_act"
  by (auto simp: still_def prog flush_def publish_def roll_back_act_def rollback_def ignores
      split: list.split option.split sum.split)

lemma composed [still_intro]:
  "still v (select_one f)" "still v (uuid4_str E)" "still v (commit E)" "still v (select_key key tab c)"
  "still v (raise_if x)"
  unfolding select_one_def uuid4_str_def commit_def select_key_def raise_if_def by (intro still_intro)+

lemma after_session: "v (snd (get_session E m w)) = v (snd (m (rollback w)))"
proof -
  have start: "v (rollback w) = v w" for w by (simp add: rollback_def ignores)
  have "still v (commit E)" by (rule composed)
  then show ?thesis
    by (auto simp: get_session_def start split: prod.split sum.split dest: stillD)
qed

lemma session [still_intro]: "still v m \<Longrightarrow> still v (get_session E m)"
  by (simp add: still_def after_session) (simp add: rollback_def ignores)

lemma identity [still_intro]:
  "still v (record_audit E a b c d m)" "still v (change_user E i f)" "still v (get_user i)" "still v (require_role i)"
  "still v (create_user E uc)" "still v (update_user E i up)" "still v (change_role E i g)" "still v (upsert_role E ru)"
  "still v (update_role_permissions E i pm)" "still v (list_audit n k)" "still v (list_users n k)" "still v list_roles"
  unfolding identity_defs Let_def by (intro still_intro)+

lemma sign_in [still_intro]:
  "still v (authenticate E e pw ua ip)" "still v (refresh_session E t ua ip)" "still v (revoke_session E so)"
  "still v (change_password E i p q)" "still v (get_current_principal E cr)" "still v (require pk act pr)"
  unfolding authenticate_def login_failure_def refresh_session_def refresh_live_def kill_session_def
    rotate_session_def auth_defs Let_def
  by (intro still_intro)+

lemma upstream [still_intro]:
  "still v (ch_query E q ps)" "still v (pg_query E sql ps)" "still v (ch_ping E)" "still v (pg_ping E)"
  "still v (af_ping E)" "still v (close_clickhouse E)" "still v close_ra_postgres"
  unfolding ch_query_def query_sync_def get_client_def close_clickhouse_def pg_query_def
    get_engine_def ch_ping_def pg_ping_def af_ping_def close_ra_postgres_def Let_def
  by (intro still_intro)+

lemma services [still_intro]:
  "still v (get_kpis E)" "still v (get_stages E)" "still v (get_runs E nr)" "still v list_alerts"
  "still v (acknowledge_alert E i a)" "still v get_retries" "still v list_decoders" "still v (upsert_decoder E du)"
  "still v (get_system_config E)" "still v (update_system_config E cpatch)"
  "still v (recon_summary E h)" "still v (recon_records E st n k)" "still v (list_cases st n k)"
  "still v (create_case E cc j)" "still v (get_case i)" "still v (update_case E i cp)" "still v (add_comment E i b1 a)"
  "still v list_saved_queries" "still v (create_saved_query E q o1)" "still v (workbench_stats E)"
  "still v (list_reports n k)" "still v (get_report i)" "still v (download_report i)"
  "still v (readiness E)" "still v (dashboard_kpis E)" "still v (role_of u)" "still v (audit_by E p a t)"
  unfolding operations_defs assurance_defs reporting_defs on_upstream_down_def readiness_def ping_app_db_def
    dashboard_kpis_def role_of_def audit_by_def Let_def
  by (intro still_intro)+

lemma dependencies [still_intro]:
  "(\<And>p. still v (body p)) \<Longrightarrow> still v (parsed x body)"
  "(\<And>p y. still v (b p y)) \<Longrightarrow> still v (signed_in E creds x b)"
  "(\<And>p y. still v (b p y)) \<Longrightarrow> still v (guarded E creds k a x b)"
  unfolding parsed_def signed_in_def guarded_def by (intro still_intro; blast)+

end

text \<open>The three requests that hand something over to Airflow or to the broker.\<close>

definition hands_over :: "'t request \<Rightarrow> bool" where
  "hands_over req = (case req of RetryJob j \<Rightarrow> True | ReplayJob j \<Rightarrow> True | CreateReport p \<Rightarrow> True | _ \<Rightarrow> False)"

section \<open>The handlers\<close>

context outside_view
begin

lemma handler_still: "\<not> hands_over req \<Longrightarrow> still v (handler E hr creds req)"
  by (cases req)
     (simp_all only: hands_over_def request.case simp_thms handler.simps replying_def route_defs Let_def,
      (intro still_intro)+)

lemma serve_still:
  assumes "still v (handler E hr creds req)"
  shows "still v (serve E hr creds req)"
  using assms by (simp add: serve_def session)

text \<open>A caller who is not admitted reaches nothing.\<close>

lemma refused_still:
  assumes "access_of req \<noteq> Public" and "\<And>pr. \<not> admitted E creds (access_of req) w pr"
  shows "v (snd (serve E hr creds req w)) = v w"
proof -
  obtain e w' where "serve E hr creds req w = (Inl e, w')" "untouched w w'"
    using refused [OF assms] by metis
  then show ?thesis by (auto simp: untouched_def rollback_def ignores)
qed

end

text \<open>None of Airflow's business, none of the broker's, none of Redis'.\<close>

locale no_airflow = outside_view +
  assumes airflow: "v (w\<lparr>dag_runs := d\<rparr>) = v w"
begin

lemma trigger_still [still_intro]: "still v (retry_job_act E j)" "still v (replay_job E j)"
proof -
  have accept: "still v (accept_dag_run d conf)" for d conf by (simp add: still_def accept_dag_run_def airflow)
  then show "still v (retry_job_act E j)" "still v (replay_job E j)"
    unfolding retry_job_act_def replay_job_def trigger_def on_upstream_down_def trigger_dag_def Let_def
    by (intro still_intro accept)+
qed

end

locale no_broker = outside_view +
  assumes broker: "v (w\<lparr>tasks := ts\<rparr>) = v w"
begin

lemma create_report_still [still_intro]: "still v (create_report E rp a)"
proof -
  have send: "still v (send_task i)" for i by (simp add: still_def send_task_def broker)
  then show ?thesis
    unfolding create_report_def next_report_reference_def by (intro still_intro send)
qed

end

text \<open>What neither of them touches is out of reach of every request.\<close>

locale no_partner = no_airflow v + no_broker v for v :: "world \<Rightarrow> 'b"
begin

lemma request: "v (snd (serve E hr creds req w)) = v w"
proof -
  have "still v (handler E hr creds req)"
  proof (cases "hands_over req")
    case True
    then show ?thesis
      by (cases req)
         (simp_all only: hands_over_def request.case simp_thms handler.simps replying_def route_defs Let_def,
          (intro still_intro)+)
  qed (rule handler_still)
  from serve_still [OF this] show ?thesis by (simp add: still_def)
qed

end

locale no_redis = outside_view +
  assumes redis: "v (w\<lparr>redis_client := b\<rparr>) = v w"
begin

lemma shutdown_still [still_intro]: "still v (close_all_integrations E)"
proof -
  have client: "still v has_redis_client" "still v (set_redis_client b)" for b
    by (simp_all add: still_def has_redis_client_def set_redis_client_def redis)
  show ?thesis
    unfolding close_all_integrations_def close_redis_def by (intro still_intro client)
qed

end

interpretation disk: no_partner "\<lambda>w. files w path"
  by unfold_locales simp_all

interpretation disk_redis: no_redis "\<lambda>w. files w path"
  by unfold_locales simp_all

interpretation accepted_runs: no_broker dag_runs
  by unfold_locales simp_all

interpretation accepted_runs_redis: no_redis dag_runs
  by unfold_locales simp_all

interpretation sent_tasks: no_airflow tasks
  by unfold_locales simp_all

interpretation sent_tasks_redis: no_redis tasks
  by unfold_locales simp_all

interpretation cached_redis: no_partner redis_client
  by unfold_locales simp_all

lemma disk_request: "files (snd (serve E hr creds req w)) = files w"
  by (rule ext) (rule disk.request)

lemma runs_request: "\<nexists>j. req = RetryJob j \<or> req = ReplayJob j \<Longrightarrow> dag_runs (snd (serve E hr creds req w)) = dag_runs w"
proof -
  assume other: "\<nexists>j. req = RetryJob j \<or> req = ReplayJob j"
  have "still dag_runs (handler E hr creds req)"
  proof (cases "hands_over req")
    case True
    with other show ?thesis
      by (cases req)
         (simp_all only: hands_over_def request.case simp_thms handler.simps replying_def route_defs Let_def,
          auto, (intro still_intro)+)
  qed (rule accepted_runs.handler_still)
  from accepted_runs.serve_still [OF this] show ?thesis by (simp add: still_def)
qed

lemma tasks_request: "\<nexists>x. req = CreateReport x \<Longrightarrow> tasks (snd (serve E hr creds req w)) = tasks w"
proof -
  assume other: "\<nexists>x. req = CreateReport x"
  have "still tasks (handler E hr creds req)"
  proof (cases "hands_over req")
    case True
    with other show ?thesis
      by (cases req)
         (simp_all only: hands_over_def request.case simp_thms handler.simps replying_def route_defs Let_def,
          auto, (intro still_intro)+)
  qed (rule sent_tasks.handler_still)
  from sent_tasks.serve_still [OF this] show ?thesis by (simp add: still_def)
qed

section \<open>Requests that hand over at most one thing\<close>

definition adds :: "(world \<Rightarrow> 'x list) \<Rightarrow> 'x set \<Rightarrow> 'a act \<Rightarrow> bool" where
  "adds v A m = (\<forall>w. v (snd (m w)) = v w \<or> (\<exists>x\<in>A. v (snd (m w)) = v w @ [x]))"

lemma still_adds: "still v m \<Longrightarrow> adds v A m"
  by (simp add: still_def adds_def)

lemma adds_last:
  assumes "still v m" and "\<And>x. adds v A (k x)"
  shows "adds v A (andthen m k)"
  unfolding adds_def
proof
  fix w :: world
  show "v (snd (andthen m k w)) = v w \<or> (\<exists>x\<in>A. v (snd (andthen m k w)) = v w @ [x])"
    using assms(1) [unfolded still_def, rule_format, of w] assms(2) [unfolded adds_def, rule_format, of _ "snd (m w)"]
    by (cases "m w"; cases "fst (m w)") (simp_all add: andthen_def)
qed

lemma adds_first:
  assumes "adds v A m" and "\<And>x. still v (k x)"
  shows "adds v A (andthen m k)"
  unfolding adds_def
proof
  fix w :: world
  show "v (snd (andthen m k w)) = v w \<or> (\<exists>x\<in>A. v (snd (andthen m k w)) = v w @ [x])"
    using assms(1) [unfolded adds_def, rule_format, of w] assms(2) [unfolded still_def, rule_format]
    by (cases "m w"; cases "fst (m w)") (auto simp: andthen_def)
qed

lemma adds_control:
  "adds v A a \<Longrightarrow> (\<And>x. adds v A (f x)) \<Longrightarrow> adds v A (case z of None \<Rightarrow> a | Some x \<Rightarrow> f x)"
  by (simp split: option.split)

text \<open>A request behind the gate adds what its body adds.\<close>

lemma adds_serve:
  assumes "outside_view v" and "\<not> sessionless req" and "\<And>p y. adds v A (b p y)"
    and "handler E hr creds req = replying g (guarded E creds k a z b)"
  shows "v (snd (serve E hr creds req w)) = v w \<or> (\<exists>x\<in>A. v (snd (serve E hr creds req w)) = v w @ [x])"
proof -
  note * = outside_view.primitives [OF assms(1)] outside_view.sign_in [OF assms(1)] outside_view.ignores [OF assms(1)]
  have body: "adds v A (handler E hr creds req)"
    unfolding assms(4) replying_def guarded_def parsed_def
    by (intro adds_first adds_last adds_control assms(3) still_adds *)
  have "v (snd (serve E hr creds req w)) = v (snd (handler E hr creds req (rollback w)))"
    using assms(2) by (simp add: serve_def outside_view.after_session [OF assms(1)])
  moreover have "v (rollback w) = v w"
    by (simp add: rollback_def *)
  ultimately show ?thesis
    using body [unfolded adds_def, rule_format, of "rollback w"] by simp
qed

lemma trigger_adds: "adds dag_runs {(d, [(''job_id'', j), (''action'', x)])} (trigger E d j x)"
  by (simp add: adds_def trigger_def trigger_dag_def on_upstream_down_def prog split: http_answer.split)

lemma create_report_adds: "adds tasks UNIV (create_report E rp a)"
  by (auto simp: adds_def create_report_def next_report_reference_def prog flush_def split: option.split)

lemmas adds_runs = adds_serve [OF accepted_runs.outside_view_axioms]
lemmas adds_tasks = adds_serve [OF sent_tasks.outside_view_axioms]

lemma retry_adds:
  "dag_runs (snd (serve E hr creds (RetryJob j) w)) = dag_runs w \<or>
   dag_runs (snd (serve E hr creds (RetryJob j) w)) =
     dag_runs w @ [(''air_recon_dag'', [(''job_id'', j), (''action'', ''retry'')])]"
proof -
  have "handler E hr creds (RetryJob j) = replying ActionReply
      (guarded E creds PIPELINES Edit (Some ()) (\<lambda>_ _. trigger E ''air_recon_dag'' j ''retry''))"
    by (simp add: retry_job_route_def retry_job_act_def)
  from adds_runs [OF _ trigger_adds this] show ?thesis by (simp add: sessionless_def)
qed

lemma replay_adds:
  "dag_runs (snd (serve E hr creds (ReplayJob j) w)) = dag_runs w \<or>
   dag_runs (snd (serve E hr creds (ReplayJob j) w)) =
     dag_runs w @ [(''air_pipeline_dag'', [(''job_id'', j), (''action'', ''replay'')])]"
proof -
  have "handler E hr creds (ReplayJob j) = replying ActionReply
      (guarded E creds PIPELINES Edit (Some ()) (\<lambda>_ _. trigger E ''air_pipeline_dag'' j ''replay''))"
    by (simp add: replay_job_route_def replay_job_def)
  from adds_runs [OF _ trigger_adds this] show ?thesis by (simp add: sessionless_def)
qed

lemma report_adds:
  "tasks (snd (serve E hr creds (CreateReport x) w)) = tasks w \<or>
   (\<exists>i. tasks (snd (serve E hr creds (CreateReport x) w)) = tasks w @ [i])"
proof -
  have body: "adds tasks UNIV (andthen (create_report E y (p_email pr)) (\<lambda>r. ret (to_report_row r)))" for y pr
    by (intro adds_first create_report_adds sent_tasks.primitives)
  have "handler E hr creds (CreateReport x) = replying ReportReply
      (guarded E creds REPORTS Edit (parse_if report_create_valid x)
        (\<lambda>pr y. andthen (create_report E y (p_email pr)) (\<lambda>r. ret (to_report_row r))))"
    by (simp add: create_report_route_def)
  from adds_tasks [OF _ body this] show ?thesis by (simp add: sessionless_def)
qed

section \<open>The worker\<close>

lemma write_elsewhere [still_intro]: "path \<noteq> q \<Longrightarrow> still (\<lambda>w. files w path) (write_file E q txt)"
  by (simp add: still_def write_file_def split: option.split)

text \<open>A task writes to the file of its own report only.\<close>

lemma worker_writes:
  assumes "\<And>r. r \<in> set (reports (committed w)) \<Longrightarrow> rp_id r = i \<Longrightarrow> out_path (cfg E) r \<noteq> path"
  shows "files (snd (generate_report E i w)) path = files w path"
proof -
  have row: "still (\<lambda>w. files w path) (change_report E j f)" for j f
    unfolding change_report_def by (intro still_intro)
  have give: "still (\<lambda>w. files w path) (give_up E i e)" for e
    unfolding give_up_def by (intro still_intro row)
  have produce: "still (\<lambda>w. files w path) (produce_report E r)" if "out_path (cfg E) r \<noteq> path" for r
    using that unfolding produce_report_def fetch_rows_def by (intro still_intro row) auto
  have body: "still (\<lambda>w. files w path) (catch (andthen (produce_report E r) (\<lambda>(checksum, n). ret (ReportDone checksum n))) (give_up E i))"
    if "out_path (cfg E) r \<noteq> path" for r
    using that by (intro still_intro give produce)
  show ?thesis
  proof (cases "by_key rp_id i (reports (committed w))")
    case Nil
    then show ?thesis
      by (simp add: generate_report_def roll_back_act_def catch_def andthen_def query_def ret_def)
  next
    case (Cons r rs)
    then have "r \<in> set (by_key rp_id i (reports (committed w)))" by simp
    then have "out_path (cfg E) r \<noteq> path" using assms by (auto simp: by_key_def)
    then have "still (\<lambda>w. files w path) (catch (andthen (produce_report E r) (\<lambda>(checksum, n). ret (ReportDone checksum n))) (give_up E i))"
      (is "still _ ?m") by (rule body)
    then have "files (snd (?m (rollback w))) path = files w path" by (simp add: still_def)
    moreover have "generate_report E i w = (case ?m (rollback w) of (res, w') \<Rightarrow> (res, rollback w'))"
      using Cons by (simp add: generate_report_def roll_back_act_def catch_def andthen_def query_def)
    ultimately show ?thesis by (simp add: case_prod_beta)
  qed
qed

lemma worker_quiet:
  assumes v: "outside_view v" and put: "\<And>q txt. still v (write_file E q txt)"
  shows "v (snd (generate_report E i w)) = v w"
proof -
  note rules = still_andthen still_catch still_control outside_view.primitives [OF v] outside_view.composed [OF v]
  have row: "still v (change_report E j f)" for j f unfolding change_report_def by (intro rules)
  have give: "still v (give_up E i e)" for e unfolding give_up_def by (intro rules row)
  have produce: "still v (produce_report E r)" for r
    unfolding produce_report_def fetch_rows_def by (intro rules row put)
  have "still v (catch
      (andthen roll_back_act (\<lambda>_.
       andthen (query (\<lambda>s. by_key rp_id i (reports s))) (\<lambda>found.
       case found of
         [] \<Rightarrow> ret ReportNotFound
       | r # rs \<Rightarrow> andthen (produce_report E r) (\<lambda>(checksum, n). ret (ReportDone checksum n)))))
      (give_up E i))" (is "still _ ?m")
    by (intro rules give produce)
  moreover have "v (rollback w') = v w'" for w' by (simp add: rollback_def outside_view.ignores [OF v])
  ultimately show ?thesis by (simp add: generate_report_def still_def case_prod_beta)
qed

lemma write_file_keeps:
  "still dag_runs (write_file E q txt)" "still tasks (write_file E q txt)" "still redis_client (write_file E q txt)"
  by (simp_all add: still_def write_file_def split: option.split)

lemmas worker_hands_over_nothing =
  worker_quiet [OF accepted_runs.outside_view_axioms write_file_keeps(1)]
  worker_quiet [OF sent_tasks.outside_view_axioms write_file_keeps(2)]

lemmas worker_redis = worker_quiet [OF cached_redis.outside_view_axioms write_file_keeps(3)]

section \<open>The shutdown\<close>

text \<open>
  No request and no task opens the Redis client (nothing in the program uses the cache yet), so a
  shutdown does not depend on Redis. It drops the other two clients even when closing ClickHouse
  fails, makes at most that one call, and leaves the database alone.
\<close>

lemma step_redis: "step E render p e p' \<Longrightarrow> redis_client (app_state p) = False \<Longrightarrow> redis_client (app_state p') = False"
proof (induction rule: step.induct)
  case (request t up fresh hr creds req p resp p' out)
  then show ?case using application_serve [OF request(1)] by (simp add: cached_redis.request)
next
  case (worker i p t up out w')
  then have "w' = snd (generate_report (in_transaction E t up) i (app_state p))" by simp
  with worker show ?case by (simp add: worker_redis)
next
  case (shutdown p out w')
  then have "w' = snd (close_all_integrations E (app_state p))" by simp
  with shutdown(2) show ?case
    by (simp add: close_all_integrations_def close_redis_def close_ra_postgres_def close_clickhouse_def raise_if_def prog
        split: option.split)
qed

theorem shutdown_releases_clients:
  assumes "run E render p es p1" and "redis_client (app_state p) = False"
    and "step E render p1 Stopped p2"
  shows "ch_client (app_state p2) = False \<and> pg_engine (app_state p2) = False \<and>
    redis_client (app_state p2) = False \<and> stored p2 = stored p1 \<and>
    ext_calls (app_state p2) = ext_calls (app_state p1) + (if ch_client (app_state p1) then 1 else 0)"
proof -
  have "redis_client (app_state p1) = False"
    using assms(1,2) by (induction rule: run.induct) (auto dest: step_redis)
  moreover obtain out w' where "close_all_integrations E (app_state p1) = (out, w')" "p2 = p1\<lparr>app_state := w'\<rparr>"
    using assms(3) by cases auto
  ultimately show ?thesis
    by (auto simp: close_all_integrations_def close_redis_def close_ra_postgres_def close_clickhouse_def raise_if_def prog
        split: option.splits if_splits)
qed

theorem shutdown_releases_clients_witness:
  "\<exists>p2. step demo_env (\<lambda>a. JNull) (demo_process (demo_world\<lparr>ch_client := True, pg_engine := True\<rparr>)) Stopped p2 \<and>
     ch_client (app_state p2) = False \<and> pg_engine (app_state p2) = False \<and> ext_calls (app_state p2) = 1"
proof -
  let ?p = "demo_process (demo_world\<lparr>ch_client := True, pg_engine := True\<rparr>)"
  obtain out w' where "close_all_integrations demo_env (app_state ?p) = (out, w')" by (rule prod.exhaust)
  then have s: "step demo_env (\<lambda>a. JNull) ?p Stopped (?p\<lparr>app_state := w'\<rparr>)" by (rule step.shutdown)
  from shutdown_releases_clients [OF run.stay _ this] s show ?thesis
    by (intro exI [of _ "?p\<lparr>app_state := w'\<rparr>"]) (simp add: demo_process_def demo_world_def)
qed

section \<open>Properties\<close>

definition calls_for :: "'t event \<Rightarrow> 't request \<Rightarrow> bool" where
  "calls_for e req = (case e of Handled creds req' out resp \<Rightarrow> req' = req | _ \<Rightarrow> False)"

text \<open>The caller of the event is admitted to its request in the state before.\<close>

definition authorised :: "'t env \<Rightarrow> 't event \<Rightarrow> world \<Rightarrow> bool" where
  "authorised E e w =
     (case e of
        Handled creds req out resp \<Rightarrow> (\<exists>t up fresh hr pr. admitted (request_env E t up fresh hr) creds (access_of req) w pr)
      | _ \<Rightarrow> False)"

lemma unauthorised_still:
  assumes "outside_view v" and "access_of req \<noteq> Public" and "\<not> authorised E (Handled creds req out resp) w"
  shows "v (snd (serve (request_env E t up fresh hr) hr creds req w)) = v w"
  by (rule outside_view.refused_still [OF assms(1,2)]) (use assms(3) in \<open>auto simp: authorised_def\<close>)

text \<open>
  C6: nothing leaves the program on the side. A step of the running system writes no file unless it is
  a worker task, and then only that of its own report; it starts at most one Airflow run, and only
  as a retry or replay request for that job by a caller who may edit pipelines; it sends at most one
  task to the broker, and only as a request for a report by a caller who may edit reports.
\<close>

theorem outside_effects:
  assumes "step E render p e p'"
  shows "(files (app_state p') = files (app_state p) \<or>
      (\<exists>i. e = Worked i \<and>
        {path. files (app_state p') path \<noteq> files (app_state p) path} \<subseteq>
          out_path (cfg E) ` {r \<in> set (reports (stored p)). rp_id r = i})) \<and>
    (dag_runs (app_state p') = dag_runs (app_state p) \<or>
      authorised E e (app_state p) \<and>
      (\<exists>j. calls_for e (RetryJob j) \<and> dag_runs (app_state p') =
          dag_runs (app_state p) @ [(''air_recon_dag'', [(''job_id'', j), (''action'', ''retry'')])] \<or>
        calls_for e (ReplayJob j) \<and> dag_runs (app_state p') =
          dag_runs (app_state p) @ [(''air_pipeline_dag'', [(''job_id'', j), (''action'', ''replay'')])])) \<and>
    (tasks (app_state p') = tasks (app_state p) \<or>
      authorised E e (app_state p) \<and>
      (\<exists>x i. calls_for e (CreateReport x) \<and> tasks (app_state p') = tasks (app_state p) @ [i]))"
  using assms
proof cases
  case (request t up fresh hr creds req resp out)
  let ?E = "request_env E t up fresh hr" and ?w = "app_state p"
  have w': "app_state p' = snd (serve ?E hr creds req ?w)"
    using application_serve [OF request(2)] .
  have run: "calls_for e req" "authorised E e ?w = authorised E (Handled creds req out resp) ?w"
    using request(1) by (simp_all add: calls_for_def)
  have dag: "dag_runs (app_state p') = dag_runs ?w \<or> authorised E e ?w \<and>
      (\<exists>j. calls_for e (RetryJob j) \<and> dag_runs (app_state p') =
          dag_runs ?w @ [(''air_recon_dag'', [(''job_id'', j), (''action'', ''retry'')])] \<or>
        calls_for e (ReplayJob j) \<and> dag_runs (app_state p') =
          dag_runs ?w @ [(''air_pipeline_dag'', [(''job_id'', j), (''action'', ''replay'')])])"
  proof (cases "authorised E e ?w \<and> (\<exists>j. req = RetryJob j \<or> req = ReplayJob j)")
    case True
    with run(1) show ?thesis unfolding w' using retry_adds replay_adds by metis
  next
    case False
    then consider (other) "\<nexists>j. req = RetryJob j \<or> req = ReplayJob j"
      | (gated) "access_of req \<noteq> Public" "\<not> authorised E (Handled creds req out resp) ?w"
      using run(2) by (cases req) auto
    then have "dag_runs (snd (serve ?E hr creds req ?w)) = dag_runs ?w"
      by cases (rule runs_request, assumption, rule unauthorised_still [OF accepted_runs.outside_view_axioms])
    then show ?thesis unfolding w' by simp
  qed
  have task: "tasks (app_state p') = tasks ?w \<or> authorised E e ?w \<and>
      (\<exists>x i. calls_for e (CreateReport x) \<and> tasks (app_state p') = tasks ?w @ [i])"
  proof (cases "authorised E e ?w \<and> (\<exists>x. req = CreateReport x)")
    case True
    with run(1) show ?thesis unfolding w' using report_adds by metis
  next
    case False
    then consider (other) "\<nexists>x. req = CreateReport x"
      | (gated) "access_of req \<noteq> Public" "\<not> authorised E (Handled creds req out resp) ?w"
      using run(2) by (cases req) auto
    then have "tasks (snd (serve ?E hr creds req ?w)) = tasks ?w"
      by cases (rule tasks_request, assumption, rule unauthorised_still [OF sent_tasks.outside_view_axioms])
    then show ?thesis unfolding w' by simp
  qed
  from dag task show ?thesis unfolding w' by (simp add: disk_request)
next
  case (worker i t up out w')
  have w': "w' = snd (generate_report (in_transaction E t up) i (app_state p))" using worker by simp
  have "path \<in> out_path (cfg E) ` {r \<in> set (reports (stored p)). rp_id r = i}"
    if "files w' path \<noteq> files (app_state p) path" for path
  proof (rule ccontr)
    assume "path \<notin> out_path (cfg E) ` {r \<in> set (reports (stored p)). rp_id r = i}"
    then have "out_path (cfg (in_transaction E t up)) r \<noteq> path" if "r \<in> set (reports (stored p))" "rp_id r = i" for r
      using that by (auto simp: in_transaction_def)
    from worker_writes [OF this] that show False unfolding w' by simp
  qed
  then have "{path. files w' path \<noteq> files (app_state p) path} \<subseteq>
      out_path (cfg E) ` {r \<in> set (reports (stored p)). rp_id r = i}"
    by (intro subsetI) simp
  moreover have "dag_runs w' = dag_runs (app_state p)" "tasks w' = tasks (app_state p)"
    unfolding w' by (rule worker_hands_over_nothing)+
  ultimately show ?thesis using worker(1,2) by simp
next
  case (shutdown out w')
  have w': "w' = snd (close_all_integrations E (app_state p))" using shutdown by simp
  have "files w' = files (app_state p)"
    by (rule ext) (simp add: w' disk_redis.shutdown_still [unfolded still_def])
  moreover have "dag_runs w' = dag_runs (app_state p)" "tasks w' = tasks (app_state p)"
    by (simp_all add: w' accepted_runs_redis.shutdown_still [unfolded still_def] sent_tasks_redis.shutdown_still [unfolded still_def])
  ultimately show ?thesis using shutdown by simp
qed

text \<open>The task of the demonstration report.\<close>

definition task_world :: world where
  "task_world = report_world\<lparr>tasks := [''r1'']\<rparr>"

lemma task_world_simps [simp]:
  "committed task_world = demo_store\<lparr>reports := [demo_report]\<rparr>" "files task_world = (\<lambda>p. None)"
  "tasks task_world = [''r1'']"
  by (simp_all add: task_world_def)

lemma demo_task:
  obtains p' where "step demo_env render (demo_process task_world) (Worked ''r1'') p'"
    "app_state p' = snd (generate_report (in_transaction demo_env 1000 True) ''r1'' task_world)"
proof -
  have app: "app_state (demo_process task_world) = task_world" by (simp add: demo_process_def)
  obtain out w' where "generate_report (in_transaction demo_env 1000 True) ''r1'' task_world = (out, w')"
    by (rule prod.exhaust)
  then show ?thesis
    using that step.worker [of "''r1''" "demo_process task_world" demo_env 1000 True out w' render] by (simp add: app)
qed

theorem outside_effects_witness:
  "\<exists>p'. step demo_env (\<lambda>a. JNull) (demo_process task_world) (Worked ''r1'') p' \<and>
     {path. files (app_state p') path \<noteq> None} \<subseteq> {out_path default_settings demo_report} \<and>
     tasks (app_state p') = [''r1''] \<and> dag_runs (app_state p') = dag_runs task_world"
proof -
  have start: "app_state (demo_process task_world) = task_world" by (simp add: demo_process_def)
  obtain p' where s: "step demo_env (\<lambda>a. JNull) (demo_process task_world) (Worked ''r1'') p'"
    using demo_task by blast
  have id: "{r \<in> set (reports (committed task_world)). rp_id r = ''r1''} = {demo_report}"
    by (auto simp: demo_report_def new_report_def)
  from outside_effects [OF s] s show ?thesis
    by (intro exI [of _ p']) (auto simp: start id calls_for_def)
qed

end
