(* ===== verification/Certified.thy ===== *)
theory Certified
  imports Outside Export
begin

text \<open>
  The certified exports over whole runs: requests only ever add queued reports, a task completes its
  own report together with its own file, and so the recorded path, size and checksum of every completed
  report are those of the file on disk, whatever else happens, and a download hands out that file.
\<close>

section \<open>Requests only add queued reports\<close>

definition queued_more :: "store \<Rightarrow> store \<Rightarrow> bool" where
  "queued_more s t = (\<exists>new. reports t = reports s @ new \<and> (\<forall>r \<in> set new. rp_status r = ''Queued''))"

interpretation queue: daily_order queued_more
proof
  show "queued_more s u" if "queued_more s t" "queued_more t u" for s t u
    using that by (auto simp: queued_more_def)
qed (simp_all add: queued_more_def)

lemma queue_modifies [grows_intro]:
  "grows queued_more (modify (users_update f))" "grows queued_more (modify (roles_update g))"
  by (simp_all add: queue.grows_modify queued_more_def)

lemma queue_identity [grows_intro]:
  "grows queued_more (require_role i)" "grows queued_more (create_user E uc)" "grows queued_more (update_user E i up)"
  "grows queued_more (upsert_role E ru)" "grows queued_more (update_role_permissions E i pm)"
  "grows queued_more (change_password E i p q)" "grows queued_more (authenticate E e pw ua ip)"
  unfolding identity_defs change_password_def authenticate_def login_failure_def login_success_def Let_def
  by (intro grows_intro)+

lemma queue_create_report [grows_intro]: "grows queued_more (create_report E rp a)"
proof -
  have "grows queued_more (modify (reports_update (insert_row (new_report E rp a ref i))))" for ref i
    by (rule queue.grows_modify) (simp add: queued_more_def insert_row_def new_report_def)
  then show ?thesis
    unfolding create_report_def next_report_reference_def by (intro grows_intro)
qed

lemma queue_handler: "grows queued_more (handler E hr creds req)"
  by (cases req) (simp_all only: handler.simps replying_def route_defs Let_def, (intro grows_intro)+)

lemmas queue_serve = queue.serve_grows [OF queue_handler]

section \<open>Certified reports\<close>

text \<open>What is recorded of a completed report is true of its file on disk.\<close>

definition certified_report :: "'t env \<Rightarrow> (string \<rightharpoonup> string) \<Rightarrow> report \<Rightarrow> bool" where
  "certified_report E disk_files r =
     (case disk_files (out_path (cfg E) r) of
        None \<Rightarrow> False
      | Some content \<Rightarrow>
          rp_file_path r = Some (out_path (cfg E) r) \<and> rp_size_bytes r = Some (int (length content)) \<and>
          rp_checksum_sha256 r = Some (sha256 (services E) content))"

definition certified :: "'t env \<Rightarrow> world \<Rightarrow> bool" where
  "certified E w =
     list_all (\<lambda>r. rp_status r \<noteq> ''Completed'' \<or> certified_report E (files w) r) (reports (committed w))"

text \<open>Different references have different files, whatever the directory is.\<close>

lemma out_path_inject:
  assumes "out_path st r = out_path st r'"
    and "rp_reference r = report_reference m" and "rp_reference r' = report_reference n"
  shows "rp_reference r = rp_reference r'"
  using assms
  by (auto simp: out_path_def path_join_def report_reference_def starts_with_def split: if_splits)

lemma numbered_reference:
  "numbered report_reference rp_reference rs \<Longrightarrow> r \<in> set rs \<Longrightarrow> \<exists>n. rp_reference r = report_reference n"
  by (metis in_set_conv_nth report_refs.numbered_nth)

lemma with_report_rows:
  assumes "x \<in> set (reports (with_report E i f s))"
  obtains (other) "x \<in> set (reports s)" "rp_id x \<noteq> i"
  | (changed) y where "y \<in> set (reports s)" "rp_id y = i" "x = stamp (touch_report E) f y"
  using assms by (auto simp: with_report_def change_row_def update_where_def split: if_splits)

text \<open>The rows after a task: those of the other reports are the rows before, with their files.\<close>

lemma task_certified:
  assumes ok: "store_ok (inet_ok E) (committed w)" "numbered report_reference rp_reference (reports (committed w))"
    and cert: "certified E w"
  shows "certified E (snd (generate_report E i w))"
proof -
  have u: "keys_unique rp_id (reports (committed w))" "keys_unique rp_reference (reports (committed w))"
    using ok(1) by (simp_all add: store_ok_def uniques_ok_def)
  show ?thesis using u(1)
  proof (cases rule: by_key_cases [where k = i])
    case absent
    then show ?thesis
      using cert by (simp add: generate_report_def roll_back_act_def catch_def andthen_def query_def ret_def certified_def)
  next
    case (present r)
    then have r: "by_key rp_id i (reports (committed w)) = [r]" by simp
    have only: "y = r" if "y \<in> set (reports (committed w))" "rp_id y = i" for y
      using that r in_by_key [of y rp_id i "reports (committed w)"] by simp
    have rin: "r \<in> set (reports (committed w))" "rp_id r = i" using by_key_in [OF r] by simp_all
    let ?w' = "snd (generate_report E i w)"
    have disk_kept: "certified_report E (files ?w') x"
      if x: "x \<in> set (reports (committed w))" "rp_id x \<noteq> i" "certified_report E (files w) x" for x
    proof -
      have "out_path (cfg E) y \<noteq> out_path (cfg E) x" if y: "y \<in> set (reports (committed w))" "rp_id y = i" for y
      proof
        assume same: "out_path (cfg E) y = out_path (cfg E) x"
        obtain m n where "rp_reference y = report_reference m" "rp_reference x = report_reference n"
          using numbered_reference [OF ok(2)] x(1) y(1) by metis
        from out_path_inject [OF same this] have "y = x"
          using u(2) x(1) y(1) by (auto simp: keys_unique_def distinct_map dest: inj_onD)
        with x(2) y(2) show False by simp
      qed
      from worker_writes [OF this] x(3) show ?thesis by (simp add: certified_report_def)
    qed
    have old: "certified_report E (files ?w') x"
      if "x \<in> set (reports (committed w))" "rp_id x \<noteq> i" "rp_status x = ''Completed''" for x
      by (rule disk_kept) (use that cert in \<open>simp_all add: certified_def list_all_iff\<close>)
    from generate_report_cases [OF ok(1) r] show ?thesis
    proof (elim disjE exE conjE)
      fix e w'
      assume run: "generate_report E i w = (Inl e, w')" and
        now: "committed w' = with_report E i (fail_report (exn_text e)) (with_report E i start_report (committed w))"
      have "rp_status x \<noteq> ''Completed'' \<or> certified_report E (files ?w') x" if "x \<in> set (reports (committed w'))" for x
        using that unfolding now
        by (elim with_report_rows) (auto simp: fail_report_def start_report_def intro: old)
      then show ?thesis by (simp add: certified_def list_all_iff run)
    next
      fix content now w'
      assume run: "generate_report E i w = (Inr (ReportDone (sha256 (services E) content) (int (length content))), w')"
        and disk: "files w' (out_path (cfg E) r) = Some content"
        and now: "committed w' = with_report E i (complete_report E (out_path (cfg E) r) content now)
          (with_report E i start_report (committed w))"
      have "rp_status x \<noteq> ''Completed'' \<or> certified_report E (files ?w') x" if "x \<in> set (reports (committed w'))" for x
        using that unfolding now
      proof (elim with_report_rows)
        fix y z assume yz: "y \<in> set (reports (committed w))" "rp_id y = i" "z = stamp (touch_report E) start_report y"
          "x = stamp (touch_report E) (complete_report E (out_path (cfg E) r) content now) z"
        then have "y = r" using only by simp
        with yz have "out_path (cfg E) x = out_path (cfg E) r"
          by (simp add: out_path_def complete_report_def start_report_def)
        with yz disk show "rp_status x \<noteq> ''Completed'' \<or> certified_report E (files ?w') x"
          by (simp add: certified_report_def run complete_report_def)
      qed (use old run in \<open>auto simp: start_report_def\<close>)
      then show ?thesis by (simp add: certified_def list_all_iff run)
    qed
  qed
qed

lemma certified_request:
  assumes "certified E w"
  shows "certified E (snd (serve E' hr creds req w))"
proof -
  obtain new where "reports (committed (snd (serve E' hr creds req w))) = reports (committed w) @ new"
    "\<forall>r \<in> set new. rp_status r = ''Queued''"
    using queue_serve [of w E' hr creds req] unfolding queued_more_def by blast
  with assms show ?thesis by (auto simp: certified_def list_all_iff disk_request)
qed

section \<open>Over every run\<close>

definition export_state_ok :: "'t env \<Rightarrow> world \<Rightarrow> bool" where
  "export_state_ok E w = (store_ok (inet_ok E) (committed w) \<and> all_numbered (committed w) \<and> certified E w)"

lemma in_transaction_fields [simp]:
  "cfg (in_transaction E t up) = cfg E" "services (in_transaction E t up) = services E"
  "inet_ok (in_transaction E t up) = inet_ok E"
  by (simp_all add: in_transaction_def)

lemma step_export_state:
  assumes "step E render p e p'" and "export_state_ok E (app_state p)"
  shows "export_state_ok E (app_state p')"
proof -
  have "store_ok (inet_ok E) (stored p')" "all_numbered (stored p')"
    using assms step_store_ok [OF assms(1)] step_history [OF assms(1)]
    by (simp_all add: export_state_ok_def history_def keeps_def)
  moreover have "certified E (app_state p')"
    using assms(1)
  proof cases
    case (request t up fresh hr creds req resp out)
    then show ?thesis
      using assms(2) application_serve [OF request(2)] by (simp add: export_state_ok_def certified_request)
  next
    case (worker i t up out w')
    have same: "certified (in_transaction E t up) w = certified E w" for w
      by (simp add: certified_def certified_report_def cong: option.case_cong)
    have "certified (in_transaction E t up) (snd (generate_report (in_transaction E t up) i (app_state p)))"
      using assms(2) by (intro task_certified) (simp_all add: export_state_ok_def all_numbered_def same)
    then show ?thesis using worker by (simp add: same)
  next
    case (shutdown out w')
    then have w': "app_state p' = snd (close_all_integrations E (app_state p))" by simp
    have "stored p' = stored p"
      unfolding w' using silent_shutdown [of E, unfolded silent_def] by blast
    moreover have "files (app_state p') = files (app_state p)"
      by (rule ext) (simp add: w' disk_redis.shutdown_still [unfolded still_def])
    ultimately show ?thesis
      using assms(2) by (simp add: certified_def export_state_ok_def)
  qed
  ultimately show ?thesis by (simp add: export_state_ok_def)
qed

lemma run_export_state:
  "run E render p es p' \<Longrightarrow> export_state_ok E (app_state p) \<Longrightarrow> export_state_ok E (app_state p')"
  by (induction rule: run.induct) (auto intro: step_export_state)

text \<open>What a successful download has found.\<close>

lemma download_serves:
  assumes "serve E hr creds (DownloadReport reference) w = (Inr (FileReply f), w')"
  obtains r where "r \<in> set (reports (committed w))" "rp_reference r = reference" "rp_status r = ''Completed''"
    "rp_file_path r = Some (fr_path f)"
    "fr_headers f = (case rp_checksum_sha256 r of
       Some c \<Rightarrow> if c \<noteq> [] then [(''X-Checksum-SHA256'', c)] else [] | None \<Rightarrow> [])"
proof -
  obtain pr w1 where p: "get_current_principal E creds (rollback w) = (Inr pr, w1)"
    and d: "\<exists>w2. download_report reference w1 = (Inr f, w2)"
    using assms
    by (auto simp: serve_def sessionless_def get_session_runs replying_def download_report_route_def guarded_def
        parsed_def require_def runs split: if_splits)
  have "\<exists>n. w1 = (rollback w)\<lparr>reads := n\<rparr>"
    using peeks_principal [of E creds, unfolded peeks_def, rule_format, of "rollback w"] p by simp
  then have "pending w1 = committed w" by auto
  with d obtain r where "by_key rp_reference reference (reports (committed w)) = [r]"
    "rp_status r = ''Completed''" "rp_file_path r = Some (fr_path f)"
    "fr_headers f = (case rp_checksum_sha256 r of
       Some c \<Rightarrow> if c \<noteq> [] then [(''X-Checksum-SHA256'', c)] else [] | None \<Rightarrow> [])"
    by (auto simp: download_report_def get_report_def runs split: option.splits if_splits)
  with that by_key_in [of rp_reference reference "reports (committed w)" r] show ?thesis by blast
qed

section \<open>Properties\<close>

text \<open>
  C4: what is handed out is certified. Start from a store that satisfies the constraints, with
  numbered references and completed reports that agree with their files (a new deployment has none),
  and let any requests, tasks (repeated and failing ones too) and shutdowns follow: a download that
  succeeds then is of a completed report with the reference asked for, it serves the file at the path
  of that reference, and this file has the recorded size and the checksum the answer carries.
\<close>

theorem downloads_are_certified:
  assumes "run E render p es p1" and "export_state_ok E (app_state p)"
    and "step E render p1 (Handled creds (DownloadReport reference) (Inr (FileReply f)) resp) p2"
  shows "\<exists>r content. r \<in> set (reports (stored p1)) \<and> rp_reference r = reference \<and> rp_status r = ''Completed'' \<and>
    fr_path f = out_path (cfg E) r \<and> files (app_state p1) (fr_path f) = Some content \<and>
    rp_size_bytes r = Some (int (length content)) \<and>
    fr_headers f = (if sha256 (services E) content = [] then []
      else [(''X-Checksum-SHA256'', sha256 (services E) content)])"
proof -
  have ok: "certified E (app_state p1)"
    using run_export_state [OF assms(1,2)] by (simp add: export_state_ok_def)
  obtain t up fresh hr where
    "serve (request_env E t up fresh hr) hr creds (DownloadReport reference) (app_state p1) = (Inr (FileReply f), app_state p2)"
    using assms(3) by (cases rule: step_stored) auto
  then obtain r where r: "r \<in> set (reports (stored p1))" "rp_reference r = reference" "rp_status r = ''Completed''"
    "rp_file_path r = Some (fr_path f)"
    "fr_headers f = (case rp_checksum_sha256 r of
       Some c \<Rightarrow> if c \<noteq> [] then [(''X-Checksum-SHA256'', c)] else [] | None \<Rightarrow> [])"
    by (rule download_serves)
  with ok have "certified_report E (files (app_state p1)) r"
    by (simp add: certified_def list_all_iff)
  with r show ?thesis
    by (auto simp: certified_report_def intro!: exI [of _ r] split: option.splits)
qed

text \<open>A report that was completed with a file of three characters.\<close>

definition done_report :: report where
  "done_report = demo_report\<lparr>rp_status := ''Completed'', rp_file_path := Some (out_path default_settings demo_report),
     rp_size_bytes := Some 3, rp_checksum_sha256 := Some ''abc''\<rparr>"

definition done_world :: world where
  "done_world = (world_of (demo_store\<lparr>reports := [done_report]\<rparr>))
     \<lparr>files := [out_path default_settings demo_report \<mapsto> ''abc'']\<rparr>"

lemma demo_download:
  "case serve demo_request_env demo_http (Credentials demo_access) (DownloadReport ''RPT-9901'') done_world of
     (Inr (FileReply f), w2) \<Rightarrow> True | _ \<Rightarrow> False"
  by code_simp

lemma done_world_simps [simp]:
  "committed done_world = demo_store\<lparr>reports := [done_report]\<rparr>"
  "files done_world = [out_path default_settings demo_report \<mapsto> ''abc'']"
  "out_path st done_report = out_path st demo_report"
  by (simp_all add: done_world_def out_path_def done_report_def)

lemma done_checksum: "sha256 demo_upstream ''abc'' = ''abc''"
  by (simp add: sha256_def demo_upstream_def concat_read_chunks)

lemma done_world_ok: "export_state_ok demo_env done_world"
proof -
  have "store_ok inet demo_store" for inet by simp
  then have "store_ok inet (demo_store\<lparr>reports := [done_report]\<rparr>)" for inet
    by (simp add: store_ok_def constraint_defs keys_unique_def done_report_def demo_report_def new_report_def
        report_fits_def fits_def fits_opt_def out_path_def path_join_def default_settings_def cong: option.case_cong)
  moreover have "report_reference 0 = ''RPT-9901''"
    by (simp add: report_reference_def show_int_def show_nat.simps) code_simp
  then have "rp_reference done_report = report_reference 0"
    by (simp add: done_report_def demo_report_def new_report_def)
  then have "all_numbered (demo_store\<lparr>reports := [done_report]\<rparr>)"
    by (simp add: all_numbered_def numbered_def)
  moreover have "certified_report demo_env (files done_world) done_report"
    by (simp add: certified_report_def done_checksum) (simp add: done_report_def)
  ultimately show ?thesis
    by (simp add: export_state_ok_def certified_def)
qed

theorem downloads_are_certified_witness:
  "\<exists>f w2. serve demo_request_env demo_http (Credentials demo_access) (DownloadReport ''RPT-9901'') done_world =
       (Inr (FileReply f), w2) \<and> files done_world (fr_path f) = Some ''abc'' \<and>
     fr_headers f = [(''X-Checksum-SHA256'', ''abc'')]"
proof -
  obtain f w2 where out: "serve demo_request_env demo_http (Credentials demo_access) (DownloadReport ''RPT-9901'') done_world =
      (Inr (FileReply f), w2)"
    using demo_download by (auto split: prod.splits sum.splits reply.splits)
  obtain resp p' where r: "run demo_env (\<lambda>a. JNull) (demo_process done_world)
      [Handled (Credentials demo_access) (DownloadReport ''RPT-9901'') (Inr (FileReply f)) resp] p'" "app_state p' = w2"
    by (rule demo_run [OF out])
  have start: "app_state (demo_process done_world) = done_world" by (simp add: demo_process_def)
  have "step demo_env (\<lambda>a. JNull) (demo_process done_world)
      (Handled (Credentials demo_access) (DownloadReport ''RPT-9901'') (Inr (FileReply f)) resp) p'"
    using r(1) by (auto simp: run_Cons)
  from downloads_are_certified [OF run.stay _ this] done_world_ok
  have "fr_path f = out_path default_settings demo_report" "fr_headers f = [(''X-Checksum-SHA256'', ''abc'')]"
    by (auto simp: start done_checksum)
  with out show ?thesis by simp
qed

end
