(* ===== verification/Lifespan.thy ===== *)
theory Lifespan
  imports Outside
begin

text \<open>
  The lifetime of the application, \<open>lifespan\<close> of \<open>app/main.py\<close>: the line it logs when it starts, and the
  end, where the clients are closed, the engine of the application database is disposed of and a
  last line is logged, each only when what comes before it has not raised.
\<close>

fun environment_value :: "environment_name \<Rightarrow> string" where
  "environment_value Development = ''development''"
| "environment_value Staging = ''staging''"
| "environment_value Production = ''production''"

definition lifespan_startup :: "'t env \<Rightarrow> world process \<Rightarrow> world process" where
  "lifespan_startup E p =
     p\<lparr>log_lines := log_lines p @ [log_event (ctx p) ''startup''
        [(''environment'', JStr (environment_value (environment (cfg E)))),
         (''clickhouse'', JBool (clickhouse_enabled (cfg E))), (''ra_postgres'', JBool (ra_pg_enabled (cfg E))),
         (''airflow'', JBool (airflow_enabled (cfg E)))]]\<rparr>"

text \<open>The answer says whether the engine has been disposed of.\<close>

definition lifespan_shutdown :: "'t env \<Rightarrow> world process \<Rightarrow> (exn + unit) \<times> bool \<times> world process" where
  "lifespan_shutdown E p =
     (case close_all_integrations E (app_state p) of
        (Inl e, w) \<Rightarrow> (Inl e, False, p\<lparr>app_state := w\<rparr>)
      | (Inr u, w) \<Rightarrow>
          (Inr (), True, p\<lparr>app_state := w, log_lines := log_lines p @ [log_event (ctx p) ''shutdown'' []]\<rparr>))"

section \<open>Properties\<close>

lemma shutdown_closes:
  assumes "redis_client w = False"
  shows "close_all_integrations E w =
    (case (ch_client w, ch_close (services E) (ext_calls w)) of
       (True, Some m) \<Rightarrow> (Inl (driver_error m), w\<lparr>pg_engine := False, ch_client := False, ext_calls := Suc (ext_calls w)\<rparr>)
     | (True, None) \<Rightarrow> (Inr (), w\<lparr>pg_engine := False, ch_client := False, ext_calls := Suc (ext_calls w)\<rparr>)
     | (False, _) \<Rightarrow> (Inr (), w\<lparr>pg_engine := False\<rparr>))"
  using assms
  by (auto simp: close_all_integrations_def close_redis_def close_ra_postgres_def close_clickhouse_def raise_if_def
      prog split: option.split)

text \<open>
  C37: the end of a process that has served any requests and tasks. All three clients are released on
  every path and the database is left alone, Redis is not needed, and the one thing that can go wrong is
  the closing of a ClickHouse client that is open: then the exception leaves the hook before the engine
  is disposed of and before the last line is logged.
\<close>

theorem shutdown_ends_cleanly_unless_clickhouse_fails:
  assumes "run E render p es p1" and "redis_client (app_state p) = False"
  shows "case lifespan_shutdown E p1 of (out, disposed, p2) \<Rightarrow>
    ch_client (app_state p2) = False \<and> pg_engine (app_state p2) = False \<and> redis_client (app_state p2) = False \<and>
    stored p2 = stored p1 \<and> ext_calls (app_state p2) = ext_calls (app_state p1) + (if ch_client (app_state p1) then 1 else 0) \<and>
    (if ch_client (app_state p1) \<and> ch_close (services E) (ext_calls (app_state p1)) \<noteq> None
     then isl out \<and> \<not> disposed \<and> log_lines p2 = log_lines p1
     else out = Inr () \<and> disposed \<and> log_lines p2 = log_lines p1 @ [log_event (ctx p1) ''shutdown'' []])"
proof -
  have "redis_client (app_state p1) = False"
    using assms(1,2) by (induction rule: run.induct) (auto dest: step_redis)
  then show ?thesis
    by (cases "ch_client (app_state p1)"; cases "ch_close (services E) (ext_calls (app_state p1))")
       (simp_all add: lifespan_shutdown_def shutdown_closes)
qed

text \<open>A deployment whose ClickHouse client cannot be closed.\<close>

definition stuck_env :: "demo_token env" where
  "stuck_env = demo_env\<lparr>services := demo_upstream\<lparr>ch_close := (\<lambda>n. Some ''broken pipe'')\<rparr>\<rparr>"

theorem shutdown_ends_cleanly_unless_clickhouse_fails_witness:
  "\<exists>e p2. lifespan_shutdown stuck_env (demo_process (demo_world\<lparr>ch_client := True, pg_engine := True\<rparr>)) =
       (Inl e, False, p2) \<and>
     ch_client (app_state p2) = False \<and> pg_engine (app_state p2) = False \<and> log_lines p2 = []"
proof -
  let ?p = "demo_process (demo_world\<lparr>ch_client := True, pg_engine := True\<rparr>)"
  obtain out disposed p2 where r: "lifespan_shutdown stuck_env ?p = (out, disposed, p2)" by (rule prod_cases3)
  from shutdown_ends_cleanly_unless_clickhouse_fails [OF run.stay, of ?p stuck_env] r show ?thesis
    by (cases out) (auto simp: demo_process_def demo_world_def stuck_env_def)
qed

end
