(* ===== verification/Json.thy ===== *)
theory Json
  imports Errors
begin

text \<open>
  The texts \<open>json.dumps\<close> writes and \<open>json.loads\<close> reads, for values without floats, as the cache of
  \<open>app/core/redis.py\<close> uses them. The writer escapes everything outside printable ASCII; the reader
  accepts any white space, any escape and any order of keys, and answers \<open>None\<close> where Python raises (and
  for a number with a fraction or an exponent, or a character above 255, which have no value here).
\<close>

section \<open>Writing\<close>

definition hex_digit :: "nat \<Rightarrow> char" where
  "hex_digit n = ''0123456789abcdef'' ! n"

definition short_escapes :: "(char \<times> char) list" where
  "short_escapes = [(CHR 0x22, CHR 0x22), (CHR 0x5C, CHR 0x5C), (CHR 0x0A, CHR ''n''), (CHR 0x0D, CHR ''r''),
     (CHR 0x09, CHR ''t''), (CHR 0x0C, CHR ''f''), (CHR 0x08, CHR ''b'')]"

definition escape_char :: "char \<Rightarrow> string" where
  "escape_char c =
     (case map_of short_escapes c of
        Some e \<Rightarrow> [CHR 0x5C, e]
      | None \<Rightarrow>
          if CHR '' '' \<le> c \<and> c \<le> CHR ''~'' then [c]
          else [CHR 0x5C, CHR ''u'', CHR ''0'', CHR ''0'', hex_digit (of_char c div 16), hex_digit (of_char c mod 16)])"

definition dump_string :: "string \<Rightarrow> string" where
  "dump_string s = [CHR 0x22] @ concat (map escape_char s) @ [CHR 0x22]"

fun comma_join :: "string list \<Rightarrow> string" where
  "comma_join [] = []"
| "comma_join [x] = x"
| "comma_join (x # y # ys) = x @ '', '' @ comma_join (y # ys)"

fun dumps :: "json \<Rightarrow> string" where
  "dumps JNull = ''null''"
| "dumps (JBool b) = (if b then ''true'' else ''false'')"
| "dumps (JInt i) = show_int i"
| "dumps (JStr s) = dump_string s"
| "dumps (JArr xs) = ''['' @ comma_join (map dumps xs) @ '']''"
| "dumps (JObj ps) = ''{'' @ comma_join (map (\<lambda>(k, v). dump_string k @ '': '' @ dumps v) ps) @ ''}''"

section \<open>Reading\<close>

definition json_space :: "char \<Rightarrow> bool" where
  "json_space c = (c \<in> {CHR '' '', CHR 0x09, CHR 0x0A, CHR 0x0D})"

abbreviation skip_space :: "string \<Rightarrow> string" where
  "skip_space \<equiv> dropWhile json_space"

definition hex_val :: "char \<Rightarrow> nat option" where
  "hex_val c =
     (if CHR ''0'' \<le> c \<and> c \<le> CHR ''9'' then Some (of_char c - 48)
      else if CHR ''a'' \<le> c \<and> c \<le> CHR ''f'' then Some (of_char c - 87)
      else if CHR ''A'' \<le> c \<and> c \<le> CHR ''F'' then Some (of_char c - 55) else None)"

text \<open>The inside of a string, up to the closing quote.\<close>

definition cons_char :: "char \<Rightarrow> (string \<times> string) option \<Rightarrow> (string \<times> string) option" where
  "cons_char c r = map_option (\<lambda>(s, rest). (c # s, rest)) r"

definition unescape :: "(char \<times> char) list" where
  "unescape = (CHR ''/'', CHR ''/'') # map (\<lambda>(c, e). (e, c)) short_escapes"

fun scan_string :: "string \<Rightarrow> (string \<times> string) option" where
  "scan_string [] = None"
| "scan_string (c # cs) =
     (if c = CHR 0x22 then Some ([], cs)
      else if c = CHR 0x5C then
        (case cs of
           [] \<Rightarrow> None
         | d # ds \<Rightarrow>
             if d = CHR ''u'' then
               (case ds of
                  h1 # h2 # h3 # h4 # rest \<Rightarrow>
                    (case (hex_val h1, hex_val h2, hex_val h3, hex_val h4) of
                       (Some 0, Some 0, Some a, Some b) \<Rightarrow> cons_char (char_of (16 * a + b)) (scan_string rest)
                     | _ \<Rightarrow> None)
                | _ \<Rightarrow> None)
             else (case map_of unescape d of None \<Rightarrow> None | Some x \<Rightarrow> cons_char x (scan_string ds)))
      else if of_char c < (32 :: nat) then None
      else cons_char c (scan_string cs))"

definition is_digit :: "char \<Rightarrow> bool" where
  "is_digit c = (CHR ''0'' \<le> c \<and> c \<le> CHR ''9'')"

definition float_follows :: "string \<Rightarrow> bool" where
  "float_follows s =
     (case s of
        c # d # ds \<Rightarrow>
          c = CHR ''.'' \<and> is_digit d \<or>
          c \<in> {CHR ''e'', CHR ''E''} \<and>
            (is_digit d \<or> d \<in> {CHR ''+'', CHR ''-''} \<and> ds \<noteq> [] \<and> is_digit (hd ds))
      | _ \<Rightarrow> False)"

definition scan_digits :: "string \<Rightarrow> (nat \<times> string) option" where
  "scan_digits s =
     (let ds = (if s \<noteq> [] \<and> hd s = CHR ''0'' then ''0'' else takeWhile is_digit s); rest = drop (length ds) s in
      if ds = [] \<or> float_follows rest then None else Some (read_nat ds, rest))"

definition scan_number :: "string \<Rightarrow> (int \<times> string) option" where
  "scan_number s =
     (if s \<noteq> [] \<and> hd s = CHR ''-''
      then map_option (\<lambda>(n, rest). (- int n, rest)) (scan_digits (tl s))
      else map_option (\<lambda>(n, rest). (int n, rest)) (scan_digits s))"

definition scan_word :: "string \<Rightarrow> (json \<times> string) option" where
  "scan_word s =
     (if starts_with s ''null'' then Some (JNull, drop 4 s)
      else if starts_with s ''true'' then Some (JBool True, drop 4 s)
      else if starts_with s ''false'' then Some (JBool False, drop 5 s)
      else map_option (\<lambda>(i, rest). (JInt i, rest)) (scan_number s))"

text \<open>
  Values, the rest of an array after its bracket or comma, and the rest of an object. The counter bounds
  the depth of the calls; twice the length of the text is enough, because two calls in a row consume a
  character. \<open>dict(pairs)\<close> keeps the last value of a key.
\<close>

fun scan_value :: "nat \<Rightarrow> string \<Rightarrow> (json \<times> string) option"
  and scan_items :: "nat \<Rightarrow> string \<Rightarrow> (json list \<times> string) option"
  and scan_pairs :: "nat \<Rightarrow> string \<Rightarrow> (json dict \<times> string) option" where
  "scan_value 0 s = None"
| "scan_value (Suc k) s =
     (case s of
        [] \<Rightarrow> None
      | c # cs \<Rightarrow>
          if c = CHR 0x22 then map_option (\<lambda>(x, rest). (JStr x, rest)) (scan_string cs)
          else if c = CHR ''['' then
            (case skip_space cs of
               [] \<Rightarrow> None
             | d # ds \<Rightarrow> if d = CHR '']'' then Some (JArr [], ds)
                 else map_option (\<lambda>(xs, rest). (JArr xs, rest)) (scan_items k (d # ds)))
          else if c = CHR ''{'' then
            (case skip_space cs of
               [] \<Rightarrow> None
             | d # ds \<Rightarrow> if d = CHR ''}'' then Some (JObj [], ds)
                 else map_option (\<lambda>(ps, rest). (JObj (dict_update [] ps), rest)) (scan_pairs k (d # ds)))
          else scan_word s)"
| "scan_items 0 s = None"
| "scan_items (Suc k) s =
     (case scan_value k s of
        None \<Rightarrow> None
      | Some (x, r) \<Rightarrow>
          (case skip_space r of
             [] \<Rightarrow> None
           | d # ds \<Rightarrow>
               if d = CHR '']'' then Some ([x], ds)
               else if d = CHR '','' then map_option (\<lambda>(xs, rest). (x # xs, rest)) (scan_items k (skip_space ds))
               else None))"
| "scan_pairs 0 s = None"
| "scan_pairs (Suc k) s =
     (case s of
        [] \<Rightarrow> None
      | q # qs \<Rightarrow>
          if q \<noteq> CHR 0x22 then None
          else (case scan_string qs of
              None \<Rightarrow> None
            | Some (key, r) \<Rightarrow>
                (case skip_space r of
                   [] \<Rightarrow> None
                 | e # es \<Rightarrow>
                     if e \<noteq> CHR '':'' then None
                     else (case scan_value k (skip_space es) of
                         None \<Rightarrow> None
                       | Some (x, r2) \<Rightarrow>
                           (case skip_space r2 of
                              [] \<Rightarrow> None
                            | d # ds \<Rightarrow>
                                if d = CHR ''}'' then Some ([(key, x)], ds)
                                else if d = CHR '','' then
                                  map_option (\<lambda>(ps, rest). ((key, x) # ps, rest)) (scan_pairs k (skip_space ds))
                                else None)))))"

definition loads :: "string \<Rightarrow> json option" where
  "loads s =
     (case scan_value (2 * length s + 1) (skip_space s) of
        None \<Rightarrow> None
      | Some (x, rest) \<Rightarrow> if skip_space rest = [] then Some x else None)"

end
