(* ===== verification/Json_Props.thy ===== *)
theory Json_Props
  imports Json
begin

text \<open>
  What is written is read back, and the counter of the reader never decides an answer.
\<close>

section \<open>Strings and numbers\<close>

lemma hex_round: "n < 16 \<Longrightarrow> hex_val (hex_digit n) = Some n"
proof -
  have "list_all (\<lambda>n. hex_val (hex_digit n) = Some n) [0..<16]" by code_simp
  then show "n < 16 \<Longrightarrow> hex_val (hex_digit n) = Some n" by (simp add: list_all_iff)
qed

lemma scan_escape: "scan_string (escape_char c @ r) = cons_char c (scan_string r)"
proof (cases "map_of short_escapes c")
  case (Some e)
  then have "(c, e) \<in> set short_escapes" by (rule map_of_SomeD)
  then have "e \<noteq> CHR ''u''" "map_of unescape e = Some c"
    by (auto simp: short_escapes_def unescape_def)
  with Some show ?thesis by (simp add: escape_char_def)
next
  case None
  then have q: "c \<noteq> CHR 0x22" "c \<noteq> CHR 0x5C" by (auto simp: short_escapes_def split: if_splits)
  show ?thesis
  proof (cases "CHR '' '' \<le> c \<and> c \<le> CHR ''~''")
    case True
    then have "\<not> of_char c < (32 :: nat)" by (simp add: less_eq_char_def)
    with None q True show ?thesis by (simp add: escape_char_def)
  next
    case False
    have "of_char c < (256 :: nat)" by simp
    then have "of_char c div 16 < (16 :: nat)" "of_char c mod 16 < (16 :: nat)"
      by (simp_all add: less_mult_imp_div_less)
    then have h: "hex_val (hex_digit (of_char c div 16)) = Some (of_char c div 16)"
      "hex_val (hex_digit (of_char c mod 16)) = Some (of_char c mod 16)"
      by (simp_all only: hex_round)
    have z: "hex_val (CHR ''0'') = Some 0" by code_simp
    have "escape_char c = [CHR 0x5C, CHR ''u'', CHR ''0'', CHR ''0'', hex_digit (of_char c div 16), hex_digit (of_char c mod 16)]"
      by (simp only: escape_char_def None option.case False if_False)
    then show ?thesis by (simp add: h z)
  qed
qed

lemma scan_dumped_string: "scan_string (concat (map escape_char s) @ CHR 0x22 # r) = Some (s, r)"
  by (induction s) (simp_all add: scan_escape cons_char_def)

lemma show_nat_digits: "list_all is_digit (show_nat n)"
proof (induction n rule: show_nat.induct)
  case (1 n)
  have d: "is_digit (char_of (48 + m))" if "m < 10" for m :: nat
  proof -
    have "m \<in> {0,1,2,3,4,5,6,7,8,9}" using that by auto
    then show ?thesis by (auto simp: is_digit_def less_eq_char_def)
  qed
  with 1 show ?case by (simp add: show_nat.simps [of n])
qed

lemma show_nat_zero: "hd (show_nat n) = CHR ''0'' \<longleftrightarrow> n = 0"
proof (induction n rule: show_nat.induct)
  case (1 n)
  have z: "char_of (48 + m) = CHR ''0'' \<longleftrightarrow> m = 0" if "m < 10" for m :: nat
  proof -
    have "m \<in> {0,1,2,3,4,5,6,7,8,9}" using that by auto
    then show ?thesis by (auto simp: char_of_eq_iff)
  qed
  show ?case
  proof (cases "n < 10")
    case True
    then show ?thesis by (simp add: show_nat.simps [of n] z)
  next
    case False
    then have "hd (show_nat n) = hd (show_nat (n div 10))" by (simp add: show_nat.simps [of n])
    with 1 False show ?thesis by simp
  qed
qed

definition number_ends :: "string \<Rightarrow> bool" where
  "number_ends r = (r = [] \<or> \<not> is_digit (hd r) \<and> hd r \<notin> {CHR ''.'', CHR ''e'', CHR ''E''})"

lemma scan_shown_nat:
  assumes "number_ends r"
  shows "scan_digits (show_nat n @ r) = Some (n, r)"
proof -
  have f: "\<not> float_follows r" using assms by (auto simp: number_ends_def float_follows_def split: list.split)
  have "(if hd (show_nat n @ r) = CHR ''0'' then ''0'' else takeWhile is_digit (show_nat n @ r)) = show_nat n"
  proof (cases "n = 0")
    case True
    moreover have "show_nat 0 = ''0''" by (simp add: show_nat.simps char_of_eq_iff)
    ultimately show ?thesis by simp
  next
    case False
    have "takeWhile is_digit (show_nat n @ r) = show_nat n @ takeWhile is_digit r"
      using show_nat_digits [of n] by (simp add: list_all_iff)
    moreover have "takeWhile is_digit r = []" using assms by (cases r) (simp_all add: number_ends_def)
    ultimately show ?thesis using False show_nat_zero [of n] by simp
  qed
  with f show ?thesis by (simp add: scan_digits_def)
qed

lemma scan_shown_int:
  assumes "number_ends r"
  shows "scan_word (show_int i @ r) = Some (JInt i, r)"
proof -
  have dig: "is_digit (hd (show_nat n))" for n
    using show_nat_digits [of n] by (cases "show_nat n") simp_all
  have sh: "c = CHR ''-'' \<or> is_digit c" if "show_int i = c # cs" for c cs
    using that dig [of "nat i"] by (auto simp: show_int_def split: if_splits)
  obtain c cs where c: "show_int i = c # cs" by (cases "show_int i") (auto simp: show_int_def split: if_splits)
  have "c \<notin> {CHR ''n'', CHR ''t'', CHR ''f''}" using sh [OF c] by (auto simp: is_digit_def less_eq_char_def)
  then have "scan_word (show_int i @ r) = map_option (\<lambda>(i, rest). (JInt i, rest)) (scan_number (show_int i @ r))"
    by (simp add: scan_word_def c starts_with_def)
  moreover have "scan_number (show_int i @ r) = Some (i, r)"
  proof (cases "i < 0")
    case True
    then show ?thesis by (simp add: scan_number_def show_int_def scan_shown_nat [OF assms])
  next
    case False
    have "hd (show_nat (nat i)) \<noteq> CHR ''-''" using dig [of "nat i"] by (auto simp: is_digit_def less_eq_char_def)
    with False show ?thesis by (simp add: scan_number_def show_int_def scan_shown_nat [OF assms])
  qed
  ultimately show ?thesis by simp
qed

section \<open>Values\<close>

text \<open>A dictionary has one value for a key.\<close>

fun distinct_keys :: "json \<Rightarrow> bool" where
  "distinct_keys (JArr xs) = list_all distinct_keys xs"
| "distinct_keys (JObj ps) = (distinct (map fst ps) \<and> list_all (\<lambda>(k, v). distinct_keys v) ps)"
| "distinct_keys x = True"

lemma dict_set_new: "k \<notin> fst ` set d \<Longrightarrow> dict_set k v d = d @ [(k, v)]"
  by (induction k v d rule: dict_set.induct) auto

lemma dict_update_distinct: "distinct (map fst (d @ e)) \<Longrightarrow> dict_update d e = d @ e"
proof (induction e arbitrary: d)
  case Nil
  then show ?case by (simp add: dict_update_def)
next
  case (Cons p e)
  obtain k v where p: "p = (k, v)" by (cases p)
  have "dict_update d (p # e) = dict_update (d @ [p]) e"
    using Cons.prems by (simp add: dict_update_def p dict_set_new)
  with Cons show ?case by simp
qed

lemma show_int_start: "\<exists>c cs. show_int i = c # cs \<and> (c = CHR ''-'' \<or> is_digit c)"
proof -
  have dig: "is_digit (hd (show_nat n))" for n
    using show_nat_digits [of n] by (cases "show_nat n") simp_all
  show ?thesis
    using dig [of "nat i"] by (cases "show_nat (nat i)") (auto simp: show_int_def)
qed

lemma dumps_start: "\<exists>c cs. dumps v = c # cs \<and> \<not> json_space c \<and> c \<noteq> CHR '']'' \<and> c \<noteq> CHR ''}''"
proof (cases v)
  case (JInt i)
  obtain c cs where c: "show_int i = c # cs" "c = CHR ''-'' \<or> is_digit c" using show_int_start by blast
  then have "\<not> json_space c \<and> c \<noteq> CHR '']'' \<and> c \<noteq> CHR ''}''"
    by (auto simp: json_space_def is_digit_def less_eq_char_def)
  with c JInt show ?thesis by simp
qed (auto simp: json_space_def dump_string_def)

definition reads_back :: "json \<Rightarrow> bool" where
  "reads_back v = (\<forall>k r. length (dumps v) \<le> k \<longrightarrow> number_ends r \<longrightarrow> scan_value k (dumps v @ r) = Some (v, r))"

lemma reads_backD:
  "reads_back v \<Longrightarrow> length (dumps v) \<le> k \<Longrightarrow> number_ends r \<Longrightarrow> scan_value k (dumps v @ r) = Some (v, r)"
  by (simp add: reads_back_def)

lemma ends [simp]: "number_ends []" "number_ends (CHR '','' # r)" "number_ends (CHR '']'' # r)" "number_ends (CHR ''}'' # r)"
  by (simp_all add: number_ends_def is_digit_def less_eq_char_def)

lemma spaces [simp]: "\<not> json_space (CHR '','')" "\<not> json_space (CHR '']'')" "\<not> json_space (CHR ''}'')"
  "\<not> json_space (CHR '':'')" "json_space (CHR '' '')" "\<not> json_space (CHR 0x22)"
  by (simp_all add: json_space_def)

lemma skip_dumped [simp]: "skip_space (dumps v @ r) = dumps v @ r"
  using dumps_start [of v] by auto

lemma skip_joined [simp]: "xs \<noteq> [] \<Longrightarrow> skip_space (comma_join (map dumps xs) @ r) = comma_join (map dumps xs) @ r"
  by (cases xs rule: list.exhaust; cases "tl xs") simp_all

lemma scan_dumped_items:
  "xs \<noteq> [] \<Longrightarrow> list_all reads_back xs \<Longrightarrow> length (comma_join (map dumps xs)) < k \<Longrightarrow>
   scan_items k (comma_join (map dumps xs) @ CHR '']'' # r) = Some (xs, r)"
proof (induction xs arbitrary: k)
  case (Cons x xs)
  from Cons.prems(3) obtain j where k: "k = Suc j" by (cases k) auto
  show ?case
  proof (cases xs)
    case Nil
    with Cons.prems k reads_backD [of x j] show ?thesis by simp
  next
    case (Cons y ys)
    have "scan_items j (comma_join (map dumps xs) @ CHR '']'' # r) = Some (xs, r)"
      using Cons.IH Cons.prems k Cons by auto
    moreover have "scan_value j (dumps x @ '', '' @ comma_join (map dumps xs) @ CHR '']'' # r) =
        Some (x, '', '' @ comma_join (map dumps xs) @ CHR '']'' # r)"
      using Cons.prems k Cons by (intro reads_backD) auto
    moreover have "skip_space (comma_join (map dumps xs) @ CHR '']'' # r) = comma_join (map dumps xs) @ CHR '']'' # r"
      using Cons by (intro skip_joined) simp
    ultimately show ?thesis using k Cons by simp
  qed
qed simp

abbreviation pair_text :: "string \<times> json \<Rightarrow> string" where
  "pair_text \<equiv> \<lambda>(k, v). dump_string k @ '': '' @ dumps v"

lemma skip_pairs: "ps \<noteq> [] \<Longrightarrow> skip_space (comma_join (map pair_text ps) @ r) = comma_join (map pair_text ps) @ r"
  by (cases ps rule: list.exhaust; cases "tl ps") (auto simp: dump_string_def)

lemma scan_dumped_pairs:
  "ps \<noteq> [] \<Longrightarrow> list_all (\<lambda>(k, v). reads_back v) ps \<Longrightarrow> length (comma_join (map pair_text ps)) < k \<Longrightarrow>
   scan_pairs k (comma_join (map pair_text ps) @ CHR ''}'' # r) = Some (ps, r)"
proof (induction ps arbitrary: k)
  case (Cons p ps)
  obtain n v where p: "p = (n, v)" by (cases p)
  from Cons.prems(3) obtain j where k: "k = Suc j" by (cases k) auto
  have key: "scan_string (concat (map escape_char n) @ CHR 0x22 # s) = Some (n, s)" for s
    by (rule scan_dumped_string)
  show ?case
  proof (cases ps)
    case Nil
    with Cons.prems k reads_backD [of v j] show ?thesis by (simp add: p dump_string_def key)
  next
    case (Cons q qs)
    have "scan_pairs j (comma_join (map pair_text ps) @ CHR ''}'' # r) = Some (ps, r)"
      using Cons.IH Cons.prems k Cons by (auto simp: p)
    moreover have "scan_value j (dumps v @ '', '' @ comma_join (map pair_text ps) @ CHR ''}'' # r) =
        Some (v, '', '' @ comma_join (map pair_text ps) @ CHR ''}'' # r)"
      using Cons.prems k Cons by (intro reads_backD) (auto simp: p)
    moreover have "skip_space (comma_join (map pair_text ps) @ CHR ''}'' # r) = comma_join (map pair_text ps) @ CHR ''}'' # r"
      using Cons by (intro skip_pairs) simp
    ultimately show ?thesis using k Cons by (simp add: p dump_string_def key)
  qed
qed simp

lemma scan_word_literals:
  "scan_word (''null'' @ r) = Some (JNull, r)" "scan_word (''true'' @ r) = Some (JBool True, r)"
  "scan_word (''false'' @ r) = Some (JBool False, r)"
  by (simp_all add: scan_word_def starts_with_def)

lemma dumps_reads_back: "distinct_keys v \<Longrightarrow> reads_back v"
proof (induction v)
  case JNull
  have "scan_value k (''null'' @ r) = Some (JNull, r)" if "4 \<le> k" for k r
    using that scan_word_literals(1) [of r] by (cases k) simp_all
  then show ?case by (simp add: reads_back_def)
next
  case (JBool b)
  have "scan_value k ((if b then ''true'' else ''false'') @ r) = Some (JBool b, r)" if "1 \<le> k" for k r
    using that scan_word_literals(2,3) [of r] by (cases k) auto
  then show ?case by (auto simp: reads_back_def)
next
  case (JInt i)
  have "scan_value k (show_int i @ r) = Some (JInt i, r)" if "1 \<le> k" "number_ends r" for k r
  proof -
    obtain c cs where c: "show_int i = c # cs" "c = CHR ''-'' \<or> is_digit c" using show_int_start by blast
    then have "c \<noteq> CHR 0x22 \<and> c \<noteq> CHR ''['' \<and> c \<noteq> CHR ''{''" by (auto simp: is_digit_def less_eq_char_def)
    with that scan_shown_int [of r i] c(1) show ?thesis by (cases k) simp_all
  qed
  moreover have "1 \<le> length (show_int i)" by (metis show_int_start length_Cons le_add1 plus_1_eq_Suc)
  ultimately show ?case by (auto simp: reads_back_def)
next
  case (JStr s)
  have "scan_value k (dump_string s @ r) = Some (JStr s, r)" if "2 \<le> k" for k r
    using that scan_dumped_string [of s r] by (cases k) (simp_all add: dump_string_def)
  then show ?case by (auto simp: reads_back_def dump_string_def)
next
  case (JArr xs)
  then have all: "list_all reads_back xs" by (auto simp: list_all_iff)
  show ?case unfolding reads_back_def
  proof (intro allI impI)
    fix k r assume k: "length (dumps (JArr xs)) \<le> k" and "number_ends r"
    then obtain j where j: "k = Suc j" by (cases k) auto
    show "scan_value k (dumps (JArr xs) @ r) = Some (JArr xs, r)"
    proof (cases "xs = []")
      case True
      then show ?thesis using j by simp
    next
      case False
      obtain c cs where c: "comma_join (map dumps xs) = c # cs" "\<not> json_space c" "c \<noteq> CHR '']''"
        using False dumps_start [of "hd xs"] by (cases xs; cases "tl xs") auto
      have "scan_items j (comma_join (map dumps xs) @ CHR '']'' # r) = Some (xs, r)"
        using False all k j by (intro scan_dumped_items) auto
      with j c show ?thesis by simp
    qed
  qed
next
  case (JObj ps)
  then have all: "list_all (\<lambda>(k, v). reads_back v) ps" by (fastforce simp: list_all_iff)
  have d: "dict_update [] ps = ps" using JObj.prems dict_update_distinct [of "[]" ps] by simp
  show ?case unfolding reads_back_def
  proof (intro allI impI)
    fix k r assume k: "length (dumps (JObj ps)) \<le> k" and "number_ends r"
    then obtain j where j: "k = Suc j" by (cases k) auto
    show "scan_value k (dumps (JObj ps) @ r) = Some (JObj ps, r)"
    proof (cases "ps = []")
      case True
      then show ?thesis using j d by simp
    next
      case False
      obtain cs where c: "comma_join (map pair_text ps) = CHR 0x22 # cs"
        using False by (cases ps; cases "tl ps") (auto simp: dump_string_def)
      have "scan_pairs j (comma_join (map pair_text ps) @ CHR ''}'' # r) = Some (ps, r)"
        using False all k j by (intro scan_dumped_pairs) auto
      with j c d show ?thesis by simp
    qed
  qed
qed

lemma loads_dumped:
  assumes "distinct_keys v" and "list_all json_space before" and "list_all json_space after"
  shows "loads (before @ dumps v @ after) = Some v"
proof -
  have sk: "skip_space (before @ s) = skip_space s" for s using assms(2) by (simp add: list_all_iff)
  have e: "number_ends after" using assms(3)
    by (cases after) (auto simp: number_ends_def json_space_def is_digit_def less_eq_char_def)
  have "scan_value (2 * length (before @ dumps v @ after) + 1) (dumps v @ after) = Some (v, after)"
    using e by (intro reads_backD dumps_reads_back assms(1)) simp_all
  moreover have "skip_space after = []" using assms(3) by (simp add: list_all_iff)
  ultimately show ?thesis by (simp add: loads_def sk)
qed

lemmas dumps_loads = loads_dumped [of _ "[]" "[]", simplified]

section \<open>The counter is large enough\<close>

lemma scan_string_shorter: "scan_string s = Some (x, r) \<Longrightarrow> length r < length s"
proof (induction s arbitrary: x r rule: scan_string.induct)
  case (2 c cs)
  have step: "\<exists>y. t = Some (y, r)" if "cons_char d t = Some (x, r)" for d t
    using that by (auto simp: cons_char_def)
  consider "c = CHR 0x22" | "c = CHR 0x5C" | "c \<noteq> CHR 0x22" "c \<noteq> CHR 0x5C" by blast
  then show ?case
  proof cases
    case 2
    note esc = this
    show ?thesis
    proof (cases cs)
      case (Cons d ds)
      show ?thesis
      proof (cases "d = CHR ''u''")
        case True
        with 2 "2.prems" Cons obtain h1 h2 h3 h4 rest a b where
          u: "ds = h1 # h2 # h3 # h4 # rest" "hex_val h1 = Some 0" "hex_val h2 = Some 0"
             "hex_val h3 = Some a" "hex_val h4 = Some b"
             "cons_char (char_of (16 * a + b)) (scan_string rest) = Some (x, r)"
          by (auto split: list.splits option.splits nat.splits)
        from step [OF u(6)] obtain y where "scan_string rest = Some (y, r)" by blast
        from "2.IH"(1) [OF _ esc Cons True u(1) refl refl refl refl] this u show ?thesis using esc Cons by fastforce
      next
        case False
        with esc "2.prems" Cons obtain e where
          u: "map_of unescape d = Some e" "cons_char e (scan_string ds) = Some (x, r)"
          by (auto split: option.splits)
        from step [OF u(2)] obtain y where "scan_string ds = Some (y, r)" by blast
        from "2.IH"(2) [OF _ esc Cons False u(1) this] show ?thesis using esc Cons by simp
      qed
    qed (use 2 "2.prems" in simp)
  next
    case 3
    with "2.prems" have c: "\<not> of_char c < (32 :: nat)" "cons_char c (scan_string cs) = Some (x, r)"
      by (auto split: if_splits)
    from step [OF c(2)] obtain y where "scan_string cs = Some (y, r)" by blast
    from "2.IH"(3) [OF 3 c(1) this] show ?thesis by simp
  qed (use "2.prems" in simp)
qed simp

lemma scan_digits_shorter: "scan_digits s = Some (n, r) \<Longrightarrow> length r < length s"
  by (cases s) (auto simp: scan_digits_def Let_def split: if_splits)

lemma scan_word_shorter: "scan_word s = Some (v, r) \<Longrightarrow> length r < length s"
proof -
  assume w: "scan_word s = Some (v, r)"
  have p: "length (drop n s) < length s" if "starts_with s t" "t \<noteq> []" "n \<noteq> 0" for t n
    using that by (cases s) (auto simp: starts_with_def)
  have "length q < length s" if "scan_number s = Some (i, q)" for i q
    using that scan_digits_shorter [of s] scan_digits_shorter [of "tl s"]
    by (cases s) (fastforce simp: scan_number_def split: if_splits)+
  with w show ?thesis
    by (auto simp: scan_word_def intro: p split: if_splits)
qed

lemma skip_space_length: "length (skip_space s) \<le> length s"
  by (rule length_dropWhile_le)

lemma skip_space_Cons: "skip_space s = d # ds \<Longrightarrow> length ds < length s"
  using skip_space_length [of s] by simp

lemma scan_shorter:
  "scan_value k s = Some (v, r) \<Longrightarrow> length r < length s"
  "scan_items k s = Some (xs, r) \<Longrightarrow> length r < length s"
  "scan_pairs k s = Some (ps, r) \<Longrightarrow> length r < length s"
proof (induction k arbitrary: s v xs ps r)
  case (Suc k)
  {
    case 1
    note prem = 1
    obtain c cs where s: "s = c # cs" using prem by (cases s) auto
    consider "c = CHR 0x22" | "c = CHR ''[''" | "c = CHR ''{''" | "c \<noteq> CHR 0x22" "c \<noteq> CHR ''[''" "c \<noteq> CHR ''{''" by blast
    then show ?case
    proof cases
      case 1
      with prem s show ?thesis by (auto dest: scan_string_shorter)
    next
      case 2
      with prem s obtain d ds where d: "skip_space cs = d # ds"
        "r = ds \<or> (\<exists>ys. scan_items k (d # ds) = Some (ys, r))"
        by (auto split: list.splits if_splits)
      with Suc.IH(2) skip_space_length [of cs] s show ?thesis by fastforce
    next
      case 3
      with prem s obtain d ds where d: "skip_space cs = d # ds"
        "r = ds \<or> (\<exists>ys. scan_pairs k (d # ds) = Some (ys, r))"
        by (auto split: list.splits if_splits)
      with Suc.IH(3) skip_space_length [of cs] s show ?thesis by fastforce
    next
      case 4
      with prem s show ?thesis by (auto dest: scan_word_shorter)
    qed
  next
    case 2
    then obtain x q d ds where q: "scan_value k s = Some (x, q)" "skip_space q = d # ds"
      "r = ds \<or> (\<exists>ys. scan_items k (skip_space ds) = Some (ys, r))"
      by (auto split: option.splits list.splits if_splits)
    from Suc.IH(1) [OF q(1)] skip_space_Cons [OF q(2)] q(3) Suc.IH(2) skip_space_length [of ds] show ?case
      by (meson less_trans order.strict_trans2)
  next
    case 3
    then obtain qs key q es x r2 d ds where q: "s = CHR 0x22 # qs" "scan_string qs = Some (key, q)"
      "skip_space q = CHR '':'' # es" "scan_value k (skip_space es) = Some (x, r2)" "skip_space r2 = d # ds"
      "r = ds \<or> (\<exists>ys. scan_pairs k (skip_space ds) = Some (ys, r))"
      by (auto split: option.splits list.splits if_splits)
    have "length r \<le> length ds" using q(6) Suc.IH(3) skip_space_length [of ds] by (metis le_refl less_imp_le order.trans)
    with scan_string_shorter [OF q(2)] skip_space_Cons [OF q(3)] Suc.IH(1) [OF q(4)] skip_space_length [of es]
      skip_space_Cons [OF q(5)] show ?case by (simp add: q(1))
  }
qed simp_all

lemma scan_stable:
  "2 * length s < k \<Longrightarrow> k \<le> k' \<Longrightarrow> scan_value k' s = scan_value k s"
  "2 * length s + 1 < k \<Longrightarrow> k \<le> k' \<Longrightarrow> scan_items k' s = scan_items k s"
  "2 * length s + 1 < k \<Longrightarrow> k \<le> k' \<Longrightarrow> scan_pairs k' s = scan_pairs k s"
proof (induction k arbitrary: s k')
  case (Suc k)
  {
    case 1
    then obtain j where j: "k' = Suc j" "k \<le> j" by (cases k') auto
    show ?case
    proof (cases s)
      case (Cons c cs)
      have rest: "scan_items j (d # ds) = scan_items k (d # ds)" "scan_pairs j (d # ds) = scan_pairs k (d # ds)"
        if "skip_space cs = d # ds" for d ds
        using that Suc.IH(2,3) [of "d # ds" j] skip_space_length [of cs] 1 j(2) Cons by simp_all
      show ?thesis unfolding j(1) Cons by (cases "skip_space cs") (simp_all add: rest del: dropWhile_eq_Nil_conv)
    qed (simp add: j(1))
  next
    case 2
    then obtain j where j: "k' = Suc j" "k \<le> j" by (cases k') auto
    have v: "scan_value j s = scan_value k s" using Suc.IH(1) [of s j] 2 j(2) by simp
    have rest: "scan_items j (skip_space ds) = scan_items k (skip_space ds)"
      if "scan_value k s = Some (x, r)" "skip_space r = d # ds" for x r d ds
      using Suc.IH(2) [of "skip_space ds" j] scan_shorter(1) [OF that(1)] skip_space_Cons [OF that(2)]
        skip_space_length [of ds] 2 j(2) by simp
    show ?case unfolding j(1) by (auto simp: v rest simp del: dropWhile_eq_Nil_conv split: option.split list.split)
  next
    case 3
    then obtain j where j: "k' = Suc j" "k \<le> j" by (cases k') auto
    have v: "scan_value j (skip_space es) = scan_value k (skip_space es)"
      and rest: "scan_value k (skip_space es) = Some (x, r2) \<Longrightarrow> skip_space r2 = d # ds \<Longrightarrow>
        scan_pairs j (skip_space ds) = scan_pairs k (skip_space ds)"
      if "s = CHR 0x22 # qs" "scan_string qs = Some (key, r)" "skip_space r = e # es" for qs key r e es x r2 d ds
    proof -
      have l: "length (skip_space es) + 2 < length s"
        using scan_string_shorter [OF that(2)] skip_space_Cons [OF that(3)] skip_space_length [of es] that(1) by simp
      then show "scan_value j (skip_space es) = scan_value k (skip_space es)"
        using Suc.IH(1) [of "skip_space es" j] 3 j(2) by simp
      assume "scan_value k (skip_space es) = Some (x, r2)" "skip_space r2 = d # ds"
      then show "scan_pairs j (skip_space ds) = scan_pairs k (skip_space ds)"
        using Suc.IH(3) [of "skip_space ds" j] scan_shorter(1) skip_space_Cons skip_space_length [of ds] l 3 j(2)
        by fastforce
    qed
    show ?case
    proof (cases s)
      case (Cons q qs)
      show ?thesis unfolding j(1) Cons
        using v rest Cons by (auto simp del: dropWhile_eq_Nil_conv split: option.split list.split)
    qed (simp add: j(1))
  }
qed simp_all

section \<open>Properties\<close>

text \<open>
  A value that was written as JSON is read back as that value, whatever its strings hold and however
  deep it is, also when white space surrounds the text; so two values never have the same text.
\<close>

theorem json_reads_back:
  assumes "distinct_keys v" and "list_all json_space before" and "list_all json_space after"
  shows "loads (before @ dumps v @ after) = Some v \<and>
    (\<forall>v'. distinct_keys v' \<longrightarrow> dumps v' = dumps v \<longrightarrow> v' = v)"
  using loads_dumped [OF assms] dumps_loads assms(1) by (metis option.inject)

theorem json_reads_back_witness:
  "loads ('' '' @ dumps (JObj [(''a'', JArr [JInt (-7), JStr [CHR 0x22, CHR 0x0A], JNull]), (''b'', JObj [])]) @ '' '') =
     Some (JObj [(''a'', JArr [JInt (-7), JStr [CHR 0x22, CHR 0x0A], JNull]), (''b'', JObj [])])"
  by (rule json_reads_back [THEN conjunct1]) (simp_all add: json_space_def)

text \<open>
  Reading any text ends with an answer that does not depend on the counter: every one above twice
  the length of the text gives the same value and the same rest, so \<open>None\<close> always means a malformed text.
\<close>

theorem json_depth_suffices:
  assumes "2 * length s < k"
  shows "scan_value k s = scan_value (2 * length s + 1) s \<and>
    (case scan_value k s of None \<Rightarrow> True | Some (v, rest) \<Rightarrow> length rest < length s)"
proof
  show "scan_value k s = scan_value (2 * length s + 1) s"
    using assms by (intro scan_stable(1)) simp_all
  show "case scan_value k s of None \<Rightarrow> True | Some (v, rest) \<Rightarrow> length rest < length s"
    using scan_shorter(1) by (auto split: option.split)
qed

theorem json_depth_suffices_witness:
  "scan_value 50 ''[[1],2]'' = Some (JArr [JArr [JInt 1], JInt 2], []) \<and> scan_value 2 ''[[1],2]'' = None"
proof -
  have "scan_value 15 ''[[1],2]'' = Some (JArr [JArr [JInt 1], JInt 2], [])" "scan_value 2 ''[[1],2]'' = None"
    by code_simp+
  then show ?thesis using json_depth_suffices [of "''[[1],2]''" 50] by simp
qed

end
