(* ===== verification/Cache.thy ===== *)
theory Cache
  imports Integrations Demo Json_Props
begin

text \<open>
  The cache helpers of \<open>app/core/redis.py\<close>: values as JSON texts with a time to live, over the client of
  \<open>Integrations\<close>. The server is the parameter: what it answers to the n-th call.
\<close>

text \<open>No value, and a value that is the empty text, are \<open>None\<close>; a text that is not JSON raises.\<close>

definition cache_get_json :: "'t env \<Rightarrow> string \<Rightarrow> json act" where
  "cache_get_json E key =
     andthen (get_redis E) (\<lambda>_.
     andthen ext_call (\<lambda>n.
     case redis_get (services E) n key of
       Inl m \<Rightarrow> raise (driver_error m)
     | Inr raw \<Rightarrow>
         if truthy raw then
           (case loads (the raw) of
              None \<Rightarrow> raise (OtherExn ''JSONDecodeError'' ''Expecting value'')
            | Some v \<Rightarrow> ret v)
         else ret JNull))"

definition cache_set_json :: "'t env \<Rightarrow> string \<Rightarrow> json \<Rightarrow> int \<Rightarrow> unit act" where
  "cache_set_json E key v ttl_seconds =
     andthen (get_redis E) (\<lambda>_.
     andthen ext_call (\<lambda>n. raise_if (redis_set (services E) n key (dumps v) ttl_seconds)))"

lemma silent_cache [silent_intro]: "silent (cache_get_json E k)" "silent (cache_set_json E k v t)"
proof -
  have r: "silent (raise_if x)" for x unfolding raise_if_def by (intro silent_intro)
  show "silent (cache_get_json E k)" "silent (cache_set_json E k v t)"
    unfolding cache_get_json_def cache_set_json_def get_redis_def by (intro silent_intro r)+
qed



end
