(* ===== verification/Log_Setup.thy ===== *)
theory Log_Setup
  imports Middleware Config
begin

text \<open>
  The logging set-up of \<open>app/core/logging.py\<close>: what \<open>configure_logging\<close> leaves in structlog and in the
  hierarchy of the standard library's loggers, and which handlers a record then reaches.
\<close>

section \<open>The state of the two logging systems\<close>

datatype renderer = JSONRenderer | ConsoleRenderer

datatype log_handler = StdoutHandler renderer | ForeignHandler string

record std_logger =
  lg_handlers :: "log_handler list"
  lg_level :: int
  lg_propagate :: bool

datatype processor =
    MergeContextvars | AddRequestId | AddLogLevel | IsoUtcTimeStamper | StackInfoRenderer | FormatExcInfo
  | Render renderer

record log_state =
  std_loggers :: "string \<rightharpoonup> std_logger"
  processors :: "processor list"
  min_level :: int

text \<open>\<open>logging.getLogger\<close>: a logger that does not exist yet has no handlers, no level, and propagates.\<close>

definition std_logger_of :: "string \<Rightarrow> log_state \<Rightarrow> std_logger" where
  "std_logger_of n st =
     (case std_loggers st n of
        Some l \<Rightarrow> l | None \<Rightarrow> \<lparr>lg_handlers = [], lg_level = 0, lg_propagate = True\<rparr>)"

definition change_logger :: "string \<Rightarrow> (std_logger \<Rightarrow> std_logger) \<Rightarrow> log_state \<Rightarrow> log_state" where
  "change_logger n f st = st\<lparr>std_loggers := (std_loggers st)(n \<mapsto> f (std_logger_of n st))\<rparr>"

section \<open>Configuration\<close>

text \<open>
  \<open>getattr(logging, level.upper(), logging.INFO)\<close>: the names of the levels, any other name is INFO; the
  two upper-case attributes of the module that are not levels make \<open>make_filtering_bound_logger\<close> raise.
\<close>

definition log_level_of :: "string \<Rightarrow> int option" where
  "log_level_of level =
     (let name = str_upper level in
      if name \<in> {''BASIC_FORMAT'', ''_STYLES''} then None
      else case map_of [(''CRITICAL'', 50), (''FATAL'', 50), (''ERROR'', 40), (''WARNING'', 30), (''WARN'', 30),
          (''INFO'', 20), (''DEBUG'', 10), (''NOTSET'', 0)] name of
        Some n \<Rightarrow> Some n | None \<Rightarrow> Some 20)"

definition shared_processors :: "processor list" where
  "shared_processors = [MergeContextvars, AddRequestId, AddLogLevel, IsoUtcTimeStamper, StackInfoRenderer, FormatExcInfo]"

definition noisy_loggers :: "string list" where
  "noisy_loggers = [''uvicorn.access'', ''uvicorn.error'']"

definition renderer_for :: "bool \<Rightarrow> renderer" where
  "renderer_for json_logs = (if json_logs then JSONRenderer else ConsoleRenderer)"

definition configure_logging :: "string \<Rightarrow> bool \<Rightarrow> log_state \<Rightarrow> log_state option" where
  "configure_logging level json_logs st =
     (case log_level_of level of
        None \<Rightarrow> None
      | Some n \<Rightarrow>
          (let h = StdoutHandler (renderer_for json_logs);
               st1 = st\<lparr>processors := shared_processors @ [Render (renderer_for json_logs)], min_level := n\<rparr>;
               st2 = change_logger [] (\<lambda>l. l\<lparr>lg_handlers := [h], lg_level := n\<rparr>) st1 in
           Some (fold (\<lambda>noisy. change_logger noisy (\<lambda>l. l\<lparr>lg_handlers := [h], lg_propagate := False\<rparr>))
             noisy_loggers st2)))"

section \<open>Where a record goes\<close>

text \<open>The dotted names above a logger, the root (the empty name) last.\<close>

definition parent_name :: "string \<Rightarrow> string" where
  "parent_name n = rev (drop 1 (dropWhile (\<lambda>c. c \<noteq> CHR ''.'') (rev n)))"

lemma parent_name_shorter: "n \<noteq> [] \<Longrightarrow> length (parent_name n) < length n"
proof -
  assume "n \<noteq> []"
  then have "0 < length n" by simp
  moreover have "length (dropWhile (\<lambda>c. c \<noteq> CHR ''.'') (rev n)) \<le> length n"
    by (metis length_dropWhile_le length_rev)
  ultimately show ?thesis unfolding parent_name_def length_rev length_drop by linarith
qed

function ancestry :: "string \<Rightarrow> string list" where
  "ancestry n = (if n = [] then [[]] else n # ancestry (parent_name n))"
  by pat_completeness auto
termination
  by (relation "measure length") (auto simp: parent_name_shorter)

declare ancestry.simps [simp del]

text \<open>\<open>callHandlers\<close>: upwards until a logger that does not propagate. Missing names are skipped.\<close>

fun handlers_up :: "log_state \<Rightarrow> string list \<Rightarrow> log_handler list" where
  "handlers_up st [] = []"
| "handlers_up st (n # ns) =
     (case std_loggers st n of
        None \<Rightarrow> handlers_up st ns
      | Some l \<Rightarrow> lg_handlers l @ (if lg_propagate l then handlers_up st ns else []))"

text \<open>\<open>getEffectiveLevel\<close>: the first level that is set on the way up.\<close>

fun level_up :: "log_state \<Rightarrow> string list \<Rightarrow> int" where
  "level_up st [] = 0"
| "level_up st (n # ns) =
     (case std_loggers st n of
        None \<Rightarrow> level_up st ns
      | Some l \<Rightarrow> if lg_level l \<noteq> 0 then lg_level l else level_up st ns)"

definition std_record :: "log_state \<Rightarrow> string \<Rightarrow> int \<Rightarrow> log_handler list" where
  "std_record st n level = (if level_up st (ancestry n) \<le> level then handlers_up st (ancestry n) else [])"

section \<open>Properties\<close>

lemma ancestry_root: "\<exists>ns. ancestry n = ns @ [[]] \<and> [] \<notin> set ns"
proof (induction n rule: ancestry.induct)
  case (1 n)
  show ?case
  proof (cases "n = []")
    case True
    then show ?thesis by (intro exI [of _ "[]"]) (simp add: ancestry.simps)
  next
    case False
    with 1 obtain ns where "ancestry (parent_name n) = ns @ [[]]" "[] \<notin> set ns" by blast
    with False show ?thesis by (intro exI [of _ "n # ns"]) (simp add: ancestry.simps [of n])
  qed
qed

text \<open>A logger that adds nothing of its own and hands everything on.\<close>

definition plain_logger :: "log_state \<Rightarrow> string \<Rightarrow> bool" where
  "plain_logger st n = (case std_loggers st n of None \<Rightarrow> True | Some l \<Rightarrow> lg_handlers l = [] \<and> lg_propagate l)"

lemma configured:
  assumes "configure_logging level json_logs st = Some st'"
  shows "\<And>n. n \<in> set noisy_loggers \<Longrightarrow> \<exists>l. std_loggers st' n = Some l \<and> lg_handlers l = [StdoutHandler (renderer_for json_logs)] \<and> \<not> lg_propagate l"
    and "\<exists>l. std_loggers st' [] = Some l \<and> lg_handlers l = [StdoutHandler (renderer_for json_logs)] \<and>
      Some (lg_level l) = log_level_of level"
    and "\<And>n. n \<notin> set ([] # noisy_loggers) \<Longrightarrow> std_loggers st' n = std_loggers st n"
    and "Some (min_level st') = log_level_of level"
    and "processors st' = shared_processors @ [Render (renderer_for json_logs)]"
  using assms
  by (auto simp: configure_logging_def noisy_loggers_def change_logger_def std_logger_of_def Let_def
      split: option.splits)

lemma handlers_once:
  assumes c: "configure_logging level json_logs st = Some st'"
    and "[] \<notin> set ns" and "list_all (\<lambda>n. n \<in> set noisy_loggers \<or> plain_logger st n) ns"
  shows "handlers_up st' (ns @ [[]]) = [StdoutHandler (renderer_for json_logs)]"
  using assms(2,3)
proof (induction ns)
  case Nil
  then show ?case using configured(2) [OF c] by auto
next
  case (Cons n ns)
  show ?case
  proof (cases "n \<in> set noisy_loggers")
    case True
    with configured(1) [OF c True] show ?thesis by auto
  next
    case False
    with Cons.prems have "n \<notin> set ([] # noisy_loggers)" by auto
    then have "std_loggers st' n = std_loggers st n" by (rule configured(3) [OF c])
    with Cons False show ?thesis by (auto simp: plain_logger_def split: option.splits)
  qed
qed

lemma noisy_once:
  assumes c: "configure_logging level json_logs st = Some st'" and n: "n \<in> set noisy_loggers"
  shows "handlers_up st' (ancestry n) = [StdoutHandler (renderer_for json_logs)]"
proof -
  have "n \<noteq> []" using n by (auto simp: noisy_loggers_def)
  with configured(1) [OF c n] show ?thesis by (auto simp: ancestry.simps [of n])
qed

text \<open>
  C36: after the set-up every record is written once. Whatever handlers were there before (the server
  installs its own), a record of the server's access and error loggers, or of a logger with no
  handlers of its own between it and the root, goes to exactly the one handler with the chosen renderer,
  or nowhere when it is below the level in force; structlog filters at the level the setting names;
  and configuring again changes nothing.
\<close>

theorem logged_once:
  assumes "configure_logging level json_logs st = Some st'"
    and "n \<in> set noisy_loggers \<or> list_all (\<lambda>m. m \<in> set ([] # noisy_loggers) \<or> plain_logger st m) (ancestry n)"
  shows "std_record st' n severity =
      (if level_up st' (ancestry n) \<le> severity then [StdoutHandler (renderer_for json_logs)] else []) \<and>
    log_level_of level = Some (min_level st') \<and>
    configure_logging level json_logs st' = Some st'"
proof -
  have "handlers_up st' (ancestry n) = [StdoutHandler (renderer_for json_logs)]"
    using assms(2)
  proof
    assume "n \<in> set noisy_loggers"
    then show ?thesis by (rule noisy_once [OF assms(1)])
  next
    assume l: "list_all (\<lambda>m. m \<in> set ([] # noisy_loggers) \<or> plain_logger st m) (ancestry n)"
    obtain ns where ns: "ancestry n = ns @ [[]]" "[] \<notin> set ns" using ancestry_root by blast
    then have "m \<noteq> []" if "m \<in> set ns" for m using that by auto
    with l ns have "list_all (\<lambda>m. m \<in> set noisy_loggers \<or> plain_logger st m) ns" by (auto simp: list_all_iff)
    from handlers_once [OF assms(1) ns(2) this] ns show ?thesis by simp
  qed
  moreover have "configure_logging level json_logs st' = Some st'"
    using assms(1)
    by (auto simp: configure_logging_def noisy_loggers_def change_logger_def std_logger_of_def Let_def
        split: option.splits)
  ultimately show ?thesis
    using configured(4) [OF assms(1)] by (simp add: std_record_def)
qed

text \<open>The server's own handlers are in place, and the level is misspelt.\<close>

definition served_loggers :: log_state where
  "served_loggers = \<lparr>std_loggers = [
       [] \<mapsto> \<lparr>lg_handlers = [], lg_level = 30, lg_propagate = True\<rparr>,
       ''uvicorn'' \<mapsto> \<lparr>lg_handlers = [ForeignHandler ''default''], lg_level = 20, lg_propagate = False\<rparr>,
       ''uvicorn.access'' \<mapsto> \<lparr>lg_handlers = [ForeignHandler ''access''], lg_level = 20, lg_propagate = False\<rparr>],
     processors = [], min_level = 0\<rparr>"

theorem logged_once_witness:
  "\<exists>st'. configure_logging ''verbose'' True served_loggers = Some st' \<and> min_level st' = 20 \<and>
     std_record st' ''uvicorn.access'' 20 = [StdoutHandler JSONRenderer] \<and>
     std_record st' ''sqlalchemy.engine'' 40 = [StdoutHandler JSONRenderer]"
proof -
  have level: "log_level_of ''verbose'' = Some 20" by code_simp
  then obtain st' where c: "configure_logging ''verbose'' True served_loggers = Some st'"
    by (auto simp: configure_logging_def Let_def)
  have up: "ancestry ''uvicorn.access'' = [''uvicorn.access'', ''uvicorn'', []]"
    "ancestry ''sqlalchemy.engine'' = [''sqlalchemy.engine'', ''sqlalchemy'', []]"
    by (simp_all add: ancestry.simps parent_name_def)
  have low: "level_up st' (ancestry ''uvicorn.access'') \<le> 20" "level_up st' (ancestry ''sqlalchemy.engine'') \<le> 40"
    using c level unfolding up
    by (auto simp: configure_logging_def noisy_loggers_def change_logger_def std_logger_of_def Let_def served_loggers_def)
  have plain: "list_all (\<lambda>m. m \<in> set ([] # noisy_loggers) \<or> plain_logger served_loggers m) (ancestry ''sqlalchemy.engine'')"
    unfolding up by (simp add: plain_logger_def served_loggers_def)
  show ?thesis
    using logged_once [OF c disjI1, of "''uvicorn.access''" 20] logged_once [OF c disjI2 [OF plain], of 40] c level low
    by (simp add: noisy_loggers_def renderer_for_def)
qed

end
