(* ===== verification/Seed.thy ===== *)
theory Seed
  imports Operations Store_Lemmas Demo "HOL-Library.Sublist"
begin

text \<open>
  Seeding the database, \<open>app/seed.py\<close>: the four roles, the demonstration accounts, the decoders, the
  configuration row and the pipeline alerts, each added only when its key is not there. The password
  of the accounts other than the administrator's comes from the process environment.
\<close>

section \<open>The rows\<close>

definition SEED_ROLES :: "(role_slug \<times> string \<times> string) list" where
  "SEED_ROLES =
     [(ADMIN, ''Full platform access including user and role management.'', ''Active''),
      (RA_LEAD, ''Oversees assurance operations, pipelines, reports and cases.'', ''Active''),
      (ANALYST, ''Investigates leakage cases and works the assurance workbench.'', ''Active''),
      (VIEWER, ''Read-only access to dashboards, reports and pipelines.'', ''Active'')]"

record seed_user =
  su_full_name :: string
  su_email :: string
  su_phone :: string
  su_department :: string
  su_role :: role_slug
  su_status :: string

definition SEED_USERS :: "seed_user list" where
  "SEED_USERS =
     [\<lparr>su_full_name = ''Daniel Okafor'', su_email = ''admin@radonaix.io'', su_phone = ''+1 415 555 0100'',
       su_department = ''Platform Ops'', su_role = ADMIN, su_status = ''Active''\<rparr>,
      \<lparr>su_full_name = ''Aarav Mehta'', su_email = ''aarav.mehta@radonaix.io'', su_phone = ''+91 98765 43210'',
       su_department = ''Finance Operations'', su_role = RA_LEAD, su_status = ''Active''\<rparr>,
      \<lparr>su_full_name = ''Priya Shah'', su_email = ''priya.shah@radonaix.io'', su_phone = ''+91 99887 12345'',
       su_department = ''Assurance'', su_role = ANALYST, su_status = ''Active''\<rparr>,
      \<lparr>su_full_name = ''Mei Tanaka'', su_email = ''viewer@radonaix.io'', su_phone = ''+81 90 1234 5678'',
       su_department = ''Compliance'', su_role = VIEWER, su_status = ''Active''\<rparr>,
      \<lparr>su_full_name = ''Liam O'' @ [CHR 0x27] @ ''Connor'', su_email = ''liam.o@radonaix.io'',
       su_phone = ''+353 87 555 1212'', su_department = ''Engineering'', su_role = ANALYST, su_status = ''Disabled''\<rparr>]"

definition SEED_DECODERS :: "(string \<times> string \<times> string \<times> string \<times> string) list" where
  "SEED_DECODERS =
     [(''DEC-ASN1-v3'', ''ASN.1 CDR Decoder'', ''3.2.1'', ''Enabled'', ''12k/s''),
      (''DEC-JSON-v2'', ''JSON Event Decoder'', ''2.5.0'', ''Enabled'', ''28k/s''),
      (''DEC-CSV-v1'', ''Legacy CSV Decoder'', ''1.8.4'', ''Disabled'', em_dash)]"

definition SEED_ALERTS :: "(string \<times> string \<times> string \<times> string \<times> string) list" where
  "SEED_ALERTS =
     [(''ALT-2231'', ''high'', ''Validation'', ''Schema drift on field call_duration'', ''Open''),
      (''ALT-2230'', ''medium'', ''Reconciliation'', ''Latency above SLA (18m vs 15m)'', ''Acknowledged''),
      (''ALT-2229'', ''low'', ''Decoding'', ''Throughput degraded 4% on DEC-ASN1-v3'', ''Open''),
      (''ALT-2228'', ''critical'', ''File Collection'', ''Source MSC-EU-3 unreachable'', ''Open'')]"

text \<open>This \<open>_initials\<close> has no case for a name without words.\<close>

definition seed_initials :: "string \<Rightarrow> exn + string" where
  "seed_initials name =
     (case filter (\<lambda>p. p \<noteq> []) (str_split name) of
        [] \<Rightarrow> Inl (OtherExn ''IndexError'' ''list index out of range'')
      | p # ps \<Rightarrow>
          Inr (if ps \<noteq> [] then str_upper (take 1 p @ take 1 (last ps)) else str_upper (take 2 p)))"

section \<open>The script\<close>

text \<open>
  \<open>exists = ...scalar_one_or_none()\<close>, then \<open>db.add(...)\<close> if it is \<open>None\<close>. The session does not
  flush by itself, so a row that was only added is not seen by a later select; the keys of each list
  are distinct, so no select of the script asks for one.
\<close>

definition ensure :: "(store \<Rightarrow> 'r list) \<Rightarrow> (('r list \<Rightarrow> 'r list) \<Rightarrow> store \<Rightarrow> store) \<Rightarrow> 'r act \<Rightarrow> unit act" where
  "ensure found upd mk =
     andthen (select_one found) (\<lambda>exists.
     case exists of
       Some _ \<Rightarrow> ret ()
     | None \<Rightarrow> andthen mk (\<lambda>r. modify (upd (insert_row r))))"

fun for_each :: "('a \<Rightarrow> unit act) \<Rightarrow> 'a list \<Rightarrow> unit act" where
  "for_each f [] = ret ()"
| "for_each f (x # xs) = andthen (f x) (\<lambda>_. for_each f xs)"

definition seed_role :: "'t env \<Rightarrow> role_slug \<times> string \<times> string \<Rightarrow> unit act" where
  "seed_role E = (\<lambda>(slug, desc, status).
     ensure (\<lambda>s. by_key r_id (slug_value slug) (roles s)) roles_update
       (ret \<lparr>r_id = slug_value slug,
          r_name = (case map_of ROLE_LABELS (slug_value slug) of Some l \<Rightarrow> l | None \<Rightarrow> []),
          r_description = desc, r_status = status, r_permissions = default_permissions_for (slug_value slug),
          r_is_system = True, r_created_at = tx_now E, r_updated_at = tx_now E\<rparr>))"

definition seed_user_row :: "'t env \<Rightarrow> string \<Rightarrow> seed_user \<Rightarrow> unit act" where
  "seed_user_row E demo_password x =
     ensure (\<lambda>s. by_key u_email (su_email x) (users s)) users_update
       (andthen (lift_res (seed_initials (su_full_name x))) (\<lambda>avatar.
        andthen (hash_act E (if su_role x = ADMIN then bootstrap_admin_password (cfg E) else demo_password)) (\<lambda>h.
        andthen (uuid4_str E) (\<lambda>i.
        ret \<lparr>u_id = i, u_full_name = su_full_name x, u_email = su_email x, u_phone = Some (su_phone x),
             u_department = Some (su_department x), u_hashed_password = h, u_role_id = slug_value (su_role x),
             u_status = su_status x, u_avatar = Some avatar, u_last_login = None, u_failed_login_count = 0,
             u_locked_until = None, u_must_reset_password = False, u_password_changed_at = None,
             u_created_at = tx_now E, u_updated_at = tx_now E\<rparr>))))"

definition seed_decoder :: "'t env \<Rightarrow> string \<times> string \<times> string \<times> string \<times> string \<Rightarrow> unit act" where
  "seed_decoder E = (\<lambda>(did, name, version, status, throughput).
     ensure (\<lambda>s. by_key d_id did (decoders s)) decoders_update
       (ret \<lparr>d_id = did, d_name = name, d_version = version, d_status = status, d_throughput = Some throughput,
          d_config = JObj [], d_created_at = tx_now E, d_updated_at = tx_now E\<rparr>))"

definition seed_config :: "'t env \<Rightarrow> unit act" where
  "seed_config E =
     ensure (\<lambda>s. by_key sc_id ''system'' (configs s)) configs_update
       (ret \<lparr>sc_id = ''system'', sc_environment = ''production'', sc_retention_days = 365, sc_sla_minutes = 15,
          sc_alert_email = Some ''ops-alerts@radonaix.io'', sc_maintenance_mode = False, sc_extra = JObj [],
          sc_created_at = tx_now E, sc_updated_at = tx_now E\<rparr>)"

definition seed_alert :: "'t env \<Rightarrow> string \<times> string \<times> string \<times> string \<times> string \<Rightarrow> unit act" where
  "seed_alert E = (\<lambda>(aid, severity, stage, message, status).
     ensure (\<lambda>s. by_key al_id aid (alerts s)) alerts_update
       (andthen (now_utc E) (\<lambda>now.
        ret \<lparr>al_id = aid, al_severity = severity, al_stage = stage, al_message = message, al_status = status,
             al_acknowledged_by = None, al_created_at = now\<rparr>)))"

text \<open>The session of the script is closed at its end, which rolls back what was not committed.\<close>

definition seed_body :: "'t env \<Rightarrow> string \<Rightarrow> unit act" where
  "seed_body E demo_password =
     andthen (for_each (seed_role E) SEED_ROLES) (\<lambda>_.
     andthen (flush E) (\<lambda>_.
     andthen (for_each (seed_user_row E demo_password) SEED_USERS) (\<lambda>_.
     andthen (for_each (seed_decoder E) SEED_DECODERS) (\<lambda>_.
     andthen (seed_config E) (\<lambda>_.
     andthen (for_each (seed_alert E) SEED_ALERTS) (\<lambda>_.
     commit E))))))"

definition seed :: "'t env \<Rightarrow> string \<Rightarrow> unit act" where
  "seed E demo_password w = (case seed_body E demo_password (rollback w) of (r, w') \<Rightarrow> (r, rollback w'))"

section \<open>Rows are only added\<close>

definition seed_extends :: "store \<Rightarrow> store \<Rightarrow> bool" where
  "seed_extends s t =
     (prefix (roles s) (roles t) \<and> prefix (users s) (users t) \<and> prefix (decoders s) (decoders t) \<and>
      prefix (configs s) (configs t) \<and> prefix (alerts s) (alerts t) \<and>
      user_sessions t = user_sessions s \<and> audit_logs t = audit_logs s \<and> cases t = cases s \<and>
      case_comments t = case_comments s \<and> saved_queries t = saved_queries s \<and> reports t = reports s)"

interpretation seed_order: store_order seed_extends
  by unfold_locales (auto simp: seed_extends_def intro: prefix_order.trans)

lemma ensure_runs:
  assumes "ensure found upd mk w = (Inr u, w')"
  obtains (there) r where "found (pending w) = [r]" "w' = w"
  | (added) r w1 where "found (pending w) = []" "mk w = (Inr r, w1)" "w' = w1\<lparr>pending := upd (insert_row r) (pending w1)\<rparr>"
  using assms by (auto simp: ensure_def runs split: option.splits)

lemma ensure_there: "found (pending w) = [r] \<Longrightarrow> ensure found upd mk w = (Inr (), w)"
  by (simp add: ensure_def prog)

lemma for_each_runs:
  assumes "for_each f xs w = (Inr u, w')"
    and step: "\<And>x w w'. x \<in> set xs \<Longrightarrow> f x w = (Inr (), w') \<Longrightarrow>
      P x (pending w') \<and> seed_extends (pending w) (pending w')"
    and mono: "\<And>x s t. P x s \<Longrightarrow> seed_extends s t \<Longrightarrow> P x t"
  shows "(\<forall>x \<in> set xs. P x (pending w')) \<and> seed_extends (pending w) (pending w')"
  using assms(1) step
proof (induction xs arbitrary: w)
  case Nil
  then show ?case by (simp add: runs seed_order.R_refl)
next
  case (Cons x xs)
  then obtain w1 where 1: "f x w = (Inr (), w1)" "for_each f xs w1 = (Inr u, w')"
    by (auto simp: runs)
  from Cons.prems(2) [OF _ 1(1)] have x: "P x (pending w1)" "seed_extends (pending w) (pending w1)" by simp_all
  from Cons.IH [OF 1(2)] Cons.prems(2)
  have xs: "\<forall>x \<in> set xs. P x (pending w')" "seed_extends (pending w1) (pending w')"
    by (metis list.set_intros(2))+
  with x mono seed_order.R_trans show ?case by (metis set_ConsD)
qed

lemma for_each_there: "(\<And>x. x \<in> set xs \<Longrightarrow> f x w = (Inr (), w)) \<Longrightarrow> for_each f xs w = (Inr (), w)"
  by (induction xs) (simp_all add: prog)

section \<open>What a successful run leaves\<close>

definition seeded :: "store \<Rightarrow> bool" where
  "seeded s =
     ((\<forall>x \<in> set SEED_ROLES. slug_value (fst x) \<in> r_id ` set (roles s)) \<and>
      (\<forall>x \<in> set SEED_USERS. su_email x \<in> u_email ` set (users s)) \<and>
      (\<forall>x \<in> set SEED_DECODERS. fst x \<in> d_id ` set (decoders s)) \<and>
      ''system'' \<in> sc_id ` set (configs s) \<and>
      (\<forall>x \<in> set SEED_ALERTS. fst x \<in> al_id ` set (alerts s)))"

lemma prefix_keys: "prefix xs ys \<Longrightarrow> k \<in> f ` set xs \<Longrightarrow> k \<in> f ` set ys"
  by (meson image_mono in_mono set_mono_prefix)

lemma seed_extends_keys:
  "k \<in> f1 ` set (roles s) \<Longrightarrow> seed_extends s t \<Longrightarrow> k \<in> f1 ` set (roles t)"
  "k \<in> f2 ` set (users s) \<Longrightarrow> seed_extends s t \<Longrightarrow> k \<in> f2 ` set (users t)"
  "k \<in> f3 ` set (decoders s) \<Longrightarrow> seed_extends s t \<Longrightarrow> k \<in> f3 ` set (decoders t)"
  "k \<in> f4 ` set (configs s) \<Longrightarrow> seed_extends s t \<Longrightarrow> k \<in> f4 ` set (configs t)"
  "k \<in> f5 ` set (alerts s) \<Longrightarrow> seed_extends s t \<Longrightarrow> k \<in> f5 ` set (alerts t)"
  unfolding seed_extends_def by (elim conjE, erule (1) prefix_keys [rotated])+

lemma insert_row_prefix [simp]: "prefix xs (insert_row r xs)" "k \<in> f ` set (insert_row r xs) \<longleftrightarrow> k = f r \<or> k \<in> f ` set xs"
  by (auto simp: insert_row_def)

lemma by_key_present: "by_key key k rs = [r] \<Longrightarrow> k \<in> key ` set rs"
  using by_key_in by fastforce

lemma seed_role_step:
  "seed_role E x w = (Inr (), w') \<Longrightarrow>
   slug_value (fst x) \<in> r_id ` set (roles (pending w')) \<and> seed_extends (pending w) (pending w')"
  by (cases x)
     (auto simp: seed_role_def seed_extends_def runs elim!: ensure_runs dest: by_key_present)

lemma seed_user_step:
  "seed_user_row E pw x w = (Inr (), w') \<Longrightarrow>
   su_email x \<in> u_email ` set (users (pending w')) \<and> seed_extends (pending w) (pending w')"
  by (auto simp: seed_user_row_def seed_extends_def runs elim!: ensure_runs dest: by_key_present)

lemma seed_decoder_step:
  "seed_decoder E x w = (Inr (), w') \<Longrightarrow>
   fst x \<in> d_id ` set (decoders (pending w')) \<and> seed_extends (pending w) (pending w')"
  by (cases x)
     (auto simp: seed_decoder_def seed_extends_def runs elim!: ensure_runs dest: by_key_present)

lemma seed_config_step:
  "seed_config E w = (Inr (), w') \<Longrightarrow>
   ''system'' \<in> sc_id ` set (configs (pending w')) \<and> seed_extends (pending w) (pending w')"
  by (auto simp: seed_config_def seed_extends_def runs elim!: ensure_runs dest: by_key_present)

lemma seed_alert_step:
  "seed_alert E x w = (Inr (), w') \<Longrightarrow>
   fst x \<in> al_id ` set (alerts (pending w')) \<and> seed_extends (pending w) (pending w')"
  by (cases x)
     (auto simp: seed_alert_def seed_extends_def runs elim!: ensure_runs dest: by_key_present)

lemma seed_body_runs:
  assumes "seed_body E pw w = (Inr (), w')"
  shows "seeded (committed w') \<and> seed_extends (pending w) (committed w') \<and> store_ok (inet_ok E) (committed w')"
proof -
  from assms obtain w1 w2 w3 w4 w5 where
    r: "for_each (seed_role E) SEED_ROLES w = (Inr (), w1)"
    and u: "for_each (seed_user_row E pw) SEED_USERS w1 = (Inr (), w2)"
    and d: "for_each (seed_decoder E) SEED_DECODERS w2 = (Inr (), w3)"
    and c: "seed_config E w3 = (Inr (), w4)"
    and a: "for_each (seed_alert E) SEED_ALERTS w4 = (Inr (), w5)"
    and ok: "store_ok (inet_ok E) (pending w5)" and w': "committed w' = pending w5"
    by (auto simp: seed_body_def andthen_runs primitive_runs commit_runs)
  have R: "(\<forall>x \<in> set SEED_ROLES. slug_value (fst x) \<in> r_id ` set (roles (pending w1))) \<and>
      seed_extends (pending w) (pending w1)"
    by (rule for_each_runs [OF r]) (erule seed_role_step, erule seed_extends_keys, assumption)
  have U: "(\<forall>x \<in> set SEED_USERS. su_email x \<in> u_email ` set (users (pending w2))) \<and>
      seed_extends (pending w1) (pending w2)"
    by (rule for_each_runs [OF u]) (erule seed_user_step, erule seed_extends_keys, assumption)
  have D: "(\<forall>x \<in> set SEED_DECODERS. fst x \<in> d_id ` set (decoders (pending w3))) \<and>
      seed_extends (pending w2) (pending w3)"
    by (rule for_each_runs [OF d]) (erule seed_decoder_step, erule seed_extends_keys, assumption)
  note C = seed_config_step [OF c]
  have A: "(\<forall>x \<in> set SEED_ALERTS. fst x \<in> al_id ` set (alerts (pending w5))) \<and>
      seed_extends (pending w4) (pending w5)"
    by (rule for_each_runs [OF a]) (erule seed_alert_step, erule seed_extends_keys, assumption)
  have e3: "seed_extends (pending w3) (pending w5)" using C A seed_order.R_trans by blast
  have e2: "seed_extends (pending w2) (pending w5)" using D e3 seed_order.R_trans by blast
  have e1: "seed_extends (pending w1) (pending w5)" using U e2 seed_order.R_trans by blast
  have "seeded (pending w5)"
    unfolding seeded_def
  proof (intro conjI ballI)
    show "slug_value (fst x) \<in> r_id ` set (roles (pending w5))" if "x \<in> set SEED_ROLES" for x
      by (rule seed_extends_keys(1) [OF _ e1], rule bspec [OF conjunct1 [OF R] that])
    show "su_email x \<in> u_email ` set (users (pending w5))" if "x \<in> set SEED_USERS" for x
      by (rule seed_extends_keys(2) [OF _ e2], rule bspec [OF conjunct1 [OF U] that])
    show "fst x \<in> d_id ` set (decoders (pending w5))" if "x \<in> set SEED_DECODERS" for x
      by (rule seed_extends_keys(3) [OF _ e3], rule bspec [OF conjunct1 [OF D] that])
    show "''system'' \<in> sc_id ` set (configs (pending w5))"
      by (rule seed_extends_keys(4) [OF conjunct1 [OF C] conjunct2 [OF A]])
    show "fst x \<in> al_id ` set (alerts (pending w5))" if "x \<in> set SEED_ALERTS" for x
      by (rule bspec [OF conjunct1 [OF A] that])
  qed
  moreover have "seed_extends (pending w) (pending w5)"
    using R e1 seed_order.R_trans by blast
  ultimately show ?thesis using ok w' by simp
qed

lemma by_key_found:
  assumes "keys_unique key rs" and "k \<in> key ` set rs"
  obtains r where "by_key key k rs = [r]"
  using by_key_cases [OF assms(1)] assms(2) by blast

text \<open>A list whose keys are all there is passed without an effect.\<close>

lemma lists_there:
  "keys_unique r_id (roles (pending w)) \<Longrightarrow> \<forall>x \<in> set SEED_ROLES. slug_value (fst x) \<in> r_id ` set (roles (pending w)) \<Longrightarrow>
   for_each (seed_role E) SEED_ROLES w = (Inr (), w)"
  "keys_unique u_email (users (pending w)) \<Longrightarrow> \<forall>x \<in> set SEED_USERS. su_email x \<in> u_email ` set (users (pending w)) \<Longrightarrow>
   for_each (seed_user_row E pw) SEED_USERS w = (Inr (), w)"
  "keys_unique d_id (decoders (pending w)) \<Longrightarrow> \<forall>x \<in> set SEED_DECODERS. fst x \<in> d_id ` set (decoders (pending w)) \<Longrightarrow>
   for_each (seed_decoder E) SEED_DECODERS w = (Inr (), w)"
  "keys_unique al_id (alerts (pending w)) \<Longrightarrow> \<forall>x \<in> set SEED_ALERTS. fst x \<in> al_id ` set (alerts (pending w)) \<Longrightarrow>
   for_each (seed_alert E) SEED_ALERTS w = (Inr (), w)"
proof -
  show "for_each (seed_role E) SEED_ROLES w = (Inr (), w)"
    if "keys_unique r_id (roles (pending w))" "\<forall>x \<in> set SEED_ROLES. slug_value (fst x) \<in> r_id ` set (roles (pending w))"
  proof (rule for_each_there)
    fix x assume "x \<in> set SEED_ROLES"
    from by_key_found [OF that(1) bspec [OF that(2) this]]
    obtain r where "by_key r_id (slug_value (fst x)) (roles (pending w)) = [r]" .
    then show "seed_role E x w = (Inr (), w)" by (cases x) (simp add: seed_role_def ensure_there)
  qed
  show "for_each (seed_user_row E pw) SEED_USERS w = (Inr (), w)"
    if "keys_unique u_email (users (pending w))" "\<forall>x \<in> set SEED_USERS. su_email x \<in> u_email ` set (users (pending w))"
  proof (rule for_each_there)
    fix x assume "x \<in> set SEED_USERS"
    from by_key_found [OF that(1) bspec [OF that(2) this]]
    obtain r where "by_key u_email (su_email x) (users (pending w)) = [r]" .
    then show "seed_user_row E pw x w = (Inr (), w)" by (simp add: seed_user_row_def ensure_there)
  qed
  show "for_each (seed_decoder E) SEED_DECODERS w = (Inr (), w)"
    if "keys_unique d_id (decoders (pending w))" "\<forall>x \<in> set SEED_DECODERS. fst x \<in> d_id ` set (decoders (pending w))"
  proof (rule for_each_there)
    fix x assume "x \<in> set SEED_DECODERS"
    from by_key_found [OF that(1) bspec [OF that(2) this]]
    obtain r where "by_key d_id (fst x) (decoders (pending w)) = [r]" .
    then show "seed_decoder E x w = (Inr (), w)" by (cases x) (simp add: seed_decoder_def ensure_there)
  qed
  show "for_each (seed_alert E) SEED_ALERTS w = (Inr (), w)"
    if "keys_unique al_id (alerts (pending w))" "\<forall>x \<in> set SEED_ALERTS. fst x \<in> al_id ` set (alerts (pending w))"
  proof (rule for_each_there)
    fix x assume "x \<in> set SEED_ALERTS"
    from by_key_found [OF that(1) bspec [OF that(2) this]]
    obtain r where "by_key al_id (fst x) (alerts (pending w)) = [r]" .
    then show "seed_alert E x w = (Inr (), w)" by (cases x) (simp add: seed_alert_def ensure_there)
  qed
qed

lemma seed_body_seeded:
  assumes "seeded (pending w)" and ok: "store_ok (inet_ok E) (pending w)"
  shows "seed_body E pw w = (Inr (), w\<lparr>committed := pending w\<rparr>)"
proof -
  have unique: "keys_unique r_id (roles (pending w))" "keys_unique u_email (users (pending w))"
    "keys_unique d_id (decoders (pending w))" "keys_unique sc_id (configs (pending w))"
    "keys_unique al_id (alerts (pending w))"
    using ok by (simp_all add: store_ok_def uniques_ok_def)
  note there = assms(1) [unfolded seeded_def]
  from by_key_found [OF unique(4)] there obtain r where "by_key sc_id ''system'' (configs (pending w)) = [r]"
    by blast
  then have "seed_config E w = (Inr (), w)" by (simp add: seed_config_def ensure_there)
  with ok show ?thesis
    by (simp add: seed_body_def andthen_def flush_ok commit_ok
        lists_there(1) [OF unique(1) conjunct1 [OF there]]
        lists_there(2) [OF unique(2) conjunct1 [OF conjunct2 [OF there]]]
        lists_there(3) [OF unique(3) conjunct1 [OF conjunct2 [OF conjunct2 [OF there]]]]
        lists_there(4) [OF unique(5) conjunct2 [OF conjunct2 [OF conjunct2 [OF conjunct2 [OF there]]]]])
qed

section \<open>Properties\<close>

text \<open>
  C17: seeding is safe to repeat. A run that ends without an exception leaves every role, account,
  decoder, alert and the configuration row of its lists in the store, has only appended rows (no
  row that was there is changed or moved) and keeps the constraints; running it again, at any other
  time and with any other password, succeeds and changes nothing at all.
\<close>

theorem seed_safe_to_repeat:
  assumes "seed E pw w = (Inr (), w')" and "inet_ok E' = inet_ok E"
  shows "seeded (committed w') \<and> seed_extends (committed w) (committed w') \<and>
    store_ok (inet_ok E) (committed w') \<and>
    (\<exists>w2. seed E' pw' w' = (Inr (), w2) \<and> committed w2 = committed w' \<and>
       draws w2 = draws w' \<and> reads w2 = reads w')"
proof -
  from assms(1) obtain w1 where w1: "seed_body E pw (rollback w) = (Inr (), w1)" "w' = rollback w1"
    by (auto simp: seed_def split: prod.splits)
  from seed_body_runs [OF w1(1)] w1(2)
  have first: "seeded (committed w')" "seed_extends (committed w) (committed w')" "store_ok (inet_ok E) (committed w')"
    by simp_all
  then have "seed_body E' pw' (rollback w') = (Inr (), (rollback w')\<lparr>committed := pending (rollback w')\<rparr>)"
    using assms(2) by (intro seed_body_seeded) simp_all
  with first show ?thesis by (auto simp: seed_def)
qed

text \<open>A store that lacks the configuration row only: the first run adds it, the second nothing.\<close>

definition unconfigured_store :: store where
  "unconfigured_store =
     empty_store\<lparr>
       roles := map (\<lambda>x. demo_role\<lparr>r_id := slug_value (fst x)\<rparr>) SEED_ROLES,
       users := map (\<lambda>x. demo_user\<lparr>u_id := su_phone x, u_email := su_email x\<rparr>) SEED_USERS,
       decoders := map (\<lambda>(i, n, v, st, th). \<lparr>d_id = i, d_name = n, d_version = v, d_status = st,
           d_throughput = None, d_config = JNull, d_created_at = 0, d_updated_at = 0\<rparr>) SEED_DECODERS,
       alerts := map (\<lambda>(i, sv, sg, m, st). \<lparr>al_id = i, al_severity = sv, al_stage = sg, al_message = m,
           al_status = st, al_acknowledged_by = None, al_created_at = 0\<rparr>) SEED_ALERTS\<rparr>"

lemma unconfigured_seeded:
  "\<forall>x \<in> set SEED_ROLES. slug_value (fst x) \<in> r_id ` set (roles unconfigured_store)"
  "\<forall>x \<in> set SEED_USERS. su_email x \<in> u_email ` set (users unconfigured_store)"
  "\<forall>x \<in> set SEED_DECODERS. fst x \<in> d_id ` set (decoders unconfigured_store)"
  "\<forall>x \<in> set SEED_ALERTS. fst x \<in> al_id ` set (alerts unconfigured_store)"
  "configs unconfigured_store = []"
  by (auto simp: unconfigured_store_def empty_store_def image_image intro!: rev_image_eqI)

lemma unconfigured_ok: "store_ok inet unconfigured_store"
  by (simp add: store_ok_def constraint_defs unconfigured_store_def empty_store_def keys_unique_def
      SEED_ROLES_def SEED_USERS_def SEED_DECODERS_def SEED_ALERTS_def demo_role_def demo_user_def
      role_fits_def user_fits_def decoder_fits_def alert_fits_def fits_def fits_opt_def fits_int4_def refers_def)

theorem seed_safe_to_repeat_witness:
  "\<exists>w' w2. seed demo_env ''ChangeMe!123'' (world_of unconfigured_store) = (Inr (), w') \<and>
     seeded (committed w') \<and> seed demo_env ''other'' w' = (Inr (), w2) \<and> committed w2 = committed w'"
proof -
  let ?w = "rollback (world_of unconfigured_store)"
  have unique: "keys_unique r_id (roles unconfigured_store)" "keys_unique u_email (users unconfigured_store)"
    "keys_unique d_id (decoders unconfigured_store)" "keys_unique al_id (alerts unconfigured_store)"
    using unconfigured_ok by (simp_all add: store_ok_def uniques_ok_def)
  define row where "row = \<lparr>sc_id = ''system'', sc_environment = ''production'', sc_retention_days = 365,
    sc_sla_minutes = 15, sc_alert_email = Some ''ops-alerts@radonaix.io'', sc_maintenance_mode = False,
    sc_extra = JObj [], sc_created_at = 1000000000, sc_updated_at = 1000000000\<rparr>"
  let ?s = "configs_update (insert_row row) unconfigured_store"
  have ok: "store_ok inet ?s" for inet
    using unconfigured_ok [of inet]
    by (simp add: store_ok_def constraint_defs unconfigured_seeded(5) keys_unique_def insert_row_def row_def
        config_fits_def fits_def fits_opt_def fits_int4_def cong: option.case_cong)
  have cfg_row: "seed_config demo_env ?w = (Inr (), ?w\<lparr>pending := ?s\<rparr>)"
    by (simp add: seed_config_def ensure_def prog unconfigured_seeded(5) row_def)
  have "seed_body demo_env ''ChangeMe!123'' ?w = (Inr (), ?w\<lparr>pending := ?s, committed := ?s\<rparr>)"
    using unique unconfigured_seeded ok unconfigured_ok
    by (simp add: seed_body_def andthen_def flush_ok commit_ok lists_there cfg_row)
  then obtain w' where run: "seed demo_env ''ChangeMe!123'' (world_of unconfigured_store) = (Inr (), w')"
    by (simp add: seed_def)
  from seed_safe_to_repeat [OF run refl, of "''other''"] run show ?thesis by blast
qed

end
