(* ===== verification/Migrations.thy ===== *)
theory Migrations
  imports Prelude
begin

text \<open>
  The schema of the application database: the ORM models as table declarations, the two Alembic
  revisions as the lists of operations they execute, and the operations as partial functions on a
  schema, failing where PostgreSQL refuses them.
\<close>

section \<open>Schemas\<close>

datatype coltype = VarChar nat | TextT | JsonB | BoolT | TimestampTz | Int4 | Int8 | Float8 | Inet

record column =
  col_name :: string
  col_type :: coltype
  col_nullable :: bool
  col_default :: "string option"
  col_primary :: bool

record foreign_key =
  fk_column :: string
  fk_table :: string
  fk_target :: string
  fk_cascade :: bool

record table =
  t_name :: string
  t_columns :: "column list"
  t_fks :: "(string \<times> foreign_key) list"
  t_checks :: "(string \<times> string \<times> string list) list"

record index_def =
  ix_name :: string
  ix_table :: string
  ix_column :: string
  ix_unique :: bool

record schema =
  sch_tables :: "table list"
  sch_indexes :: "index_def list"

definition empty_schema :: schema where
  "empty_schema = \<lparr>sch_tables = [], sch_indexes = []\<rparr>"

definition find_table :: "string \<Rightarrow> schema \<Rightarrow> table option" where
  "find_table n s = find (\<lambda>t. t_name t = n) (sch_tables s)"

definition find_column :: "string \<Rightarrow> table \<Rightarrow> column option" where
  "find_column n t = find (\<lambda>c. col_name c = n) (t_columns t)"

text \<open>A reference is accepted when its target is the primary key of a table and has the same type.\<close>

definition fk_ok :: "schema \<Rightarrow> table \<Rightarrow> foreign_key \<Rightarrow> bool" where
  "fk_ok s t fk =
     (case (find_column (fk_column fk) t, find_table (fk_table fk) s) of
        (Some c, Some target) \<Rightarrow>
          (case find_column (fk_target fk) target of
             Some d \<Rightarrow> col_primary d \<and> col_type d = col_type c | None \<Rightarrow> False)
      | _ \<Rightarrow> False)"

definition map_table :: "string \<Rightarrow> (table \<Rightarrow> table) \<Rightarrow> schema \<Rightarrow> schema" where
  "map_table n f s = s\<lparr>sch_tables := map (\<lambda>t. if t_name t = n then f t else t) (sch_tables s)\<rparr>"

section \<open>Operations\<close>

datatype op =
    CreateTable table
  | DropTable string
  | CreateIndex index_def
  | DropIndex string
  | AddColumn string column
  | DropColumn string string
  | CreateForeignKey string string foreign_key
  | DropForeignKey string string
  | AddCheck string string string "string list"
  | DropCheck string string

fun apply_op :: "op \<Rightarrow> schema \<Rightarrow> schema option" where
  "apply_op (CreateTable t) s =
     (if find_table (t_name t) s = None \<and> distinct (map col_name (t_columns t)) \<and>
         list_all (\<lambda>(n, fk). fk_ok s t fk) (t_fks t)
      then Some (s\<lparr>sch_tables := sch_tables s @ [t]\<rparr>) else None)"
| "apply_op (DropTable n) s =
     (if find_table n s \<noteq> None \<and>
         list_all (\<lambda>t. t_name t = n \<or> list_all (\<lambda>(m, fk). fk_table fk \<noteq> n) (t_fks t)) (sch_tables s)
      then Some \<lparr>sch_tables = filter (\<lambda>t. t_name t \<noteq> n) (sch_tables s),
                 sch_indexes = filter (\<lambda>i. ix_table i \<noteq> n) (sch_indexes s)\<rparr>
      else None)"
| "apply_op (CreateIndex i) s =
     (case find_table (ix_table i) s of
        None \<Rightarrow> None
      | Some t \<Rightarrow>
          if find_column (ix_column i) t \<noteq> None \<and> ix_name i \<notin> ix_name ` set (sch_indexes s)
          then Some (s\<lparr>sch_indexes := sch_indexes s @ [i]\<rparr>) else None)"
| "apply_op (DropIndex n) s =
     (if n \<in> ix_name ` set (sch_indexes s)
      then Some (s\<lparr>sch_indexes := filter (\<lambda>i. ix_name i \<noteq> n) (sch_indexes s)\<rparr>) else None)"
| "apply_op (AddColumn n c) s =
     (case find_table n s of
        None \<Rightarrow> None
      | Some t \<Rightarrow>
          if find_column (col_name c) t = None
          then Some (map_table n (\<lambda>t. t\<lparr>t_columns := t_columns t @ [c]\<rparr>) s) else None)"
| "apply_op (DropColumn n c) s =
     (case find_table n s of
        None \<Rightarrow> None
      | Some t \<Rightarrow>
          if find_column c t \<noteq> None
          then Some (map_table n (\<lambda>t. t\<lparr>t_columns := filter (\<lambda>x. col_name x \<noteq> c) (t_columns t),
                   t_fks := filter (\<lambda>(m, fk). fk_column fk \<noteq> c) (t_fks t)\<rparr>)
                 (s\<lparr>sch_indexes := filter (\<lambda>i. \<not> (ix_table i = n \<and> ix_column i = c)) (sch_indexes s)\<rparr>))
          else None)"
| "apply_op (CreateForeignKey m n fk) s =
     (case find_table n s of
        None \<Rightarrow> None
      | Some t \<Rightarrow>
          if fk_ok s t fk \<and> m \<notin> fst ` set (t_fks t)
          then Some (map_table n (\<lambda>t. t\<lparr>t_fks := t_fks t @ [(m, fk)]\<rparr>) s) else None)"
| "apply_op (DropForeignKey m n) s =
     (case find_table n s of
        None \<Rightarrow> None
      | Some t \<Rightarrow>
          if m \<in> fst ` set (t_fks t)
          then Some (map_table n (\<lambda>t. t\<lparr>t_fks := filter (\<lambda>x. fst x \<noteq> m) (t_fks t)\<rparr>) s) else None)"
| "apply_op (AddCheck n m c vs) s =
     (case find_table n s of
        None \<Rightarrow> None
      | Some t \<Rightarrow>
          if find_column c t \<noteq> None \<and> m \<notin> fst ` set (t_checks t)
          then Some (map_table n (\<lambda>t. t\<lparr>t_checks := t_checks t @ [(m, c, vs)]\<rparr>) s) else None)"
| "apply_op (DropCheck n m) s =
     (case find_table n s of
        None \<Rightarrow> None
      | Some t \<Rightarrow>
          if m \<in> fst ` set (t_checks t)
          then Some (map_table n (\<lambda>t. t\<lparr>t_checks := filter (\<lambda>x. fst x \<noteq> m) (t_checks t)\<rparr>) s) else None)"

fun run_ops :: "op list \<Rightarrow> schema \<Rightarrow> schema option" where
  "run_ops [] s = Some s"
| "run_ops (p # ps) s = (case apply_op p s of None \<Rightarrow> None | Some t \<Rightarrow> run_ops ps t)"

section \<open>Declarations\<close>

definition pk :: "string \<Rightarrow> nat \<Rightarrow> column" where
  "pk n w = \<lparr>col_name = n, col_type = VarChar w, col_nullable = False, col_default = None, col_primary = True\<rparr>"

definition req :: "string \<Rightarrow> coltype \<Rightarrow> column" where
  "req n ty = \<lparr>col_name = n, col_type = ty, col_nullable = False, col_default = None, col_primary = False\<rparr>"

definition opt :: "string \<Rightarrow> coltype \<Rightarrow> column" where
  "opt n ty = \<lparr>col_name = n, col_type = ty, col_nullable = True, col_default = None, col_primary = False\<rparr>"

definition dflt :: "string \<Rightarrow> coltype \<Rightarrow> string \<Rightarrow> column" where
  "dflt n ty d = \<lparr>col_name = n, col_type = ty, col_nullable = False, col_default = Some d, col_primary = False\<rparr>"

definition stamps :: "column list" where
  "stamps = [dflt ''created_at'' TimestampTz ''now()'', dflt ''updated_at'' TimestampTz ''now()'']"

definition to_key :: "string \<Rightarrow> string \<Rightarrow> bool \<Rightarrow> foreign_key" where
  "to_key c t casc = \<lparr>fk_column = c, fk_table = t, fk_target = ''id'', fk_cascade = casc\<rparr>"

definition plain :: "string \<Rightarrow> column list \<Rightarrow> table" where
  "plain n cs = \<lparr>t_name = n, t_columns = cs, t_fks = [], t_checks = []\<rparr>"

definition index_on :: "string \<Rightarrow> string \<Rightarrow> bool \<Rightarrow> index_def" where
  "index_on t c u = \<lparr>ix_name = ''ix_'' @ t @ ''_'' @ c, ix_table = t, ix_column = c, ix_unique = u\<rparr>"

section \<open>Revision 0001\<close>

definition upgrade_0001 :: "op list" where
  "upgrade_0001 =
     [CreateTable (plain ''roles''
        ([pk ''id'' 64, req ''name'' (VarChar 128), dflt ''description'' TextT '''',
          dflt ''status'' (VarChar 32) ''Active'', dflt ''permissions'' JsonB ''{}'',
          dflt ''is_system'' BoolT ''false''] @ stamps)),
      CreateTable \<lparr>t_name = ''users'',
        t_columns = [pk ''id'' 36, req ''full_name'' (VarChar 255), req ''email'' (VarChar 255),
          opt ''phone'' (VarChar 64), opt ''department'' (VarChar 128), req ''hashed_password'' (VarChar 255),
          req ''role_id'' (VarChar 64), dflt ''status'' (VarChar 32) ''Active'', opt ''avatar'' (VarChar 16),
          opt ''last_login'' TimestampTz] @ stamps,
        t_fks = [(''fk_users_role_id_roles'', to_key ''role_id'' ''roles'' False)], t_checks = []\<rparr>,
      CreateIndex (index_on ''users'' ''email'' True),
      CreateIndex (index_on ''users'' ''role_id'' False),
      CreateTable (plain ''audit_logs''
         [pk ''id'' 36, req ''actor'' (VarChar 128), req ''action'' (VarChar 255), opt ''target'' (VarChar 255),
          dflt ''meta'' JsonB ''{}'', req ''at'' TimestampTz]),
      CreateIndex (index_on ''audit_logs'' ''actor'' False),
      CreateIndex (index_on ''audit_logs'' ''at'' False),
      CreateTable (plain ''cases''
        ([pk ''id'' 36, req ''reference'' (VarChar 32), req ''title'' (VarChar 512), dflt ''description'' TextT '''',
          dflt ''severity'' (VarChar 16) ''medium'', dflt ''status'' (VarChar 32) ''Open'',
          opt ''owner'' (VarChar 128), opt ''owner_id'' (VarChar 36), opt ''linked_txn_id'' (VarChar 128),
          opt ''estimated_impact'' Float8] @ stamps)),
      CreateIndex (index_on ''cases'' ''reference'' True),
      CreateIndex (index_on ''cases'' ''status'' False),
      CreateTable \<lparr>t_name = ''case_comments'',
        t_columns = [pk ''id'' 36, req ''case_id'' (VarChar 36), req ''author'' (VarChar 128), req ''body'' TextT,
          req ''created_at'' TimestampTz],
        t_fks = [(''fk_case_comments_case_id_cases'', to_key ''case_id'' ''cases'' True)], t_checks = []\<rparr>,
      CreateIndex (index_on ''case_comments'' ''case_id'' False),
      CreateTable (plain ''saved_queries''
        ([pk ''id'' 36, req ''reference'' (VarChar 32), req ''name'' (VarChar 512), opt ''owner'' (VarChar 128),
          dflt ''definition'' JsonB ''{}'', dflt ''last_count'' Int4 ''0''] @ stamps)),
      CreateIndex (index_on ''saved_queries'' ''reference'' True),
      CreateTable (plain ''decoders''
        ([pk ''id'' 64, req ''name'' (VarChar 255), req ''version'' (VarChar 32),
          dflt ''status'' (VarChar 32) ''Enabled'', opt ''throughput'' (VarChar 32),
          dflt ''config'' JsonB ''{}''] @ stamps)),
      CreateTable (plain ''system_config''
        ([pk ''id'' 32, dflt ''environment'' (VarChar 32) ''production'', dflt ''retention_days'' Int4 ''365'',
          dflt ''sla_minutes'' Int4 ''15'', opt ''alert_email'' (VarChar 255),
          dflt ''maintenance_mode'' BoolT ''false'', dflt ''extra'' JsonB ''{}''] @ stamps)),
      CreateTable (plain ''pipeline_alerts''
         [pk ''id'' 64, dflt ''severity'' (VarChar 16) ''medium'', req ''stage'' (VarChar 64), req ''message'' TextT,
          dflt ''status'' (VarChar 32) ''Open'', opt ''acknowledged_by'' (VarChar 128), req ''created_at'' TimestampTz]),
      CreateTable (plain ''reports''
        ([pk ''id'' 36, req ''reference'' (VarChar 32), req ''name'' (VarChar 255),
          dflt ''report_type'' (VarChar 64) ''reconciliation'', opt ''period'' (VarChar 32),
          dflt ''status'' (VarChar 32) ''Queued'', opt ''size_bytes'' Int8, opt ''file_path'' (VarChar 1024),
          opt ''checksum_sha256'' (VarChar 64), opt ''requested_by'' (VarChar 128),
          dflt ''params'' JsonB ''{}'', opt ''error'' TextT, opt ''completed_at'' TimestampTz] @ stamps)),
      CreateIndex (index_on ''reports'' ''reference'' True),
      CreateIndex (index_on ''reports'' ''status'' False)]"

definition downgrade_0001 :: "op list" where
  "downgrade_0001 =
     map DropTable [''reports'', ''pipeline_alerts'', ''system_config'', ''decoders'', ''saved_queries'',
       ''case_comments'', ''cases'', ''audit_logs'', ''users'', ''roles'']"

section \<open>Revision 0002\<close>

definition upgrade_0002 :: "op list" where
  "upgrade_0002 =
     [AddColumn ''users'' (dflt ''failed_login_count'' Int4 ''0''),
      AddColumn ''users'' (opt ''locked_until'' TimestampTz),
      AddColumn ''users'' (dflt ''must_reset_password'' BoolT ''false''),
      AddColumn ''users'' (opt ''password_changed_at'' TimestampTz),
      CreateTable \<lparr>t_name = ''user_sessions'',
        t_columns = [pk ''id'' 36, req ''user_id'' (VarChar 36), req ''refresh_jti'' (VarChar 64),
          opt ''user_agent'' (VarChar 512), opt ''ip_address'' Inet, req ''issued_at'' TimestampTz,
          req ''expires_at'' TimestampTz, opt ''revoked_at'' TimestampTz, opt ''last_seen_at'' TimestampTz],
        t_fks = [(''fk_user_sessions_user_id'', to_key ''user_id'' ''users'' True)], t_checks = []\<rparr>,
      CreateIndex (index_on ''user_sessions'' ''refresh_jti'' True),
      CreateIndex (index_on ''user_sessions'' ''user_id'' False),
      CreateIndex (index_on ''user_sessions'' ''expires_at'' False),
      AddColumn ''audit_logs'' (opt ''actor_id'' (VarChar 36)),
      AddColumn ''audit_logs'' (opt ''ip_address'' Inet),
      AddColumn ''audit_logs'' (opt ''user_agent'' (VarChar 512)),
      AddColumn ''audit_logs'' (opt ''request_id'' (VarChar 64)),
      CreateForeignKey ''fk_audit_logs_actor_id'' ''audit_logs'' (to_key ''actor_id'' ''users'' False),
      CreateIndex (index_on ''audit_logs'' ''actor_id'' False),
      CreateIndex (index_on ''audit_logs'' ''request_id'' False),
      CreateTable \<lparr>t_name = ''rules'',
        t_columns = [pk ''id'' 36, opt ''parent_id'' (VarChar 36), req ''name'' (VarChar 255),
          dflt ''description'' TextT '''', dflt ''severity'' (VarChar 16) ''medium'',
          dflt ''status'' (VarChar 32) ''Draft'', dflt ''version'' Int4 ''1'', req ''definition'' JsonB,
          opt ''schedule'' (VarChar 64), req ''created_by'' (VarChar 36), opt ''approved_by'' (VarChar 36),
          opt ''approved_at'' TimestampTz, opt ''rejected_reason'' TextT, opt ''disabled_at'' TimestampTz] @ stamps,
        t_fks = [(''fk_rules_created_by'', to_key ''created_by'' ''users'' False),
          (''fk_rules_approved_by'', to_key ''approved_by'' ''users'' False)], t_checks = []\<rparr>,
      CreateIndex (index_on ''rules'' ''parent_id'' False),
      CreateIndex (index_on ''rules'' ''status'' False),
      CreateTable \<lparr>t_name = ''rule_runs'',
        t_columns = [pk ''id'' 36, req ''rule_id'' (VarChar 36), opt ''dag_run_id'' (VarChar 128),
          opt ''triggered_by'' (VarChar 36), dflt ''status'' (VarChar 32) ''Triggered'',
          dflt ''params'' JsonB ''{}'', opt ''started_at'' TimestampTz, opt ''ended_at'' TimestampTz,
          opt ''row_count'' Int8, opt ''summary'' JsonB, opt ''output_table'' (VarChar 255), opt ''error'' TextT,
          dflt ''created_at'' TimestampTz ''now()''],
        t_fks = [(''fk_rule_runs_rule_id'', to_key ''rule_id'' ''rules'' False),
          (''fk_rule_runs_triggered_by'', to_key ''triggered_by'' ''users'' False)], t_checks = []\<rparr>,
      CreateIndex (index_on ''rule_runs'' ''rule_id'' False),
      CreateIndex (index_on ''rule_runs'' ''status'' False),
      AddCheck ''cases'' ''chk_cases_severity'' ''severity'' [''low'', ''medium'', ''high'', ''critical''],
      AddCheck ''cases'' ''chk_cases_status'' ''status'' [''Open'', ''In Progress'', ''Resolved'', ''Closed'', ''Cancelled'']]"

definition downgrade_0002 :: "op list" where
  "downgrade_0002 =
     [DropCheck ''cases'' ''chk_cases_status'', DropCheck ''cases'' ''chk_cases_severity'',
      DropTable ''rule_runs'', DropTable ''rules'',
      DropIndex ''ix_audit_logs_request_id'', DropIndex ''ix_audit_logs_actor_id'',
      DropForeignKey ''fk_audit_logs_actor_id'' ''audit_logs'',
      DropColumn ''audit_logs'' ''request_id'', DropColumn ''audit_logs'' ''user_agent'',
      DropColumn ''audit_logs'' ''ip_address'', DropColumn ''audit_logs'' ''actor_id'',
      DropTable ''user_sessions'',
      DropColumn ''users'' ''password_changed_at'', DropColumn ''users'' ''must_reset_password'',
      DropColumn ''users'' ''locked_until'', DropColumn ''users'' ''failed_login_count'']"

section \<open>The ORM models\<close>

text \<open>
  What \<open>Base.metadata\<close> says of each mapped class: its columns with type, nullability and server
  default, its foreign keys, checks and indexes. A \<open>unique=True, index=True\<close> column is a unique
  index; a foreign key column without a type takes the type of its target. Names follow the naming
  convention of the metadata, which also prefixes the name a check constraint is declared with.
\<close>

definition index_name :: "string \<Rightarrow> string \<Rightarrow> string" where
  "index_name t c = ''ix_'' @ t @ ''_'' @ c"

definition check_name :: "string \<Rightarrow> string \<Rightarrow> string" where
  "check_name t n = ''ck_'' @ t @ ''_'' @ n"

definition key_name :: "string \<Rightarrow> foreign_key \<Rightarrow> string" where
  "key_name t fk = ''fk_'' @ t @ ''_'' @ fk_column fk @ ''_'' @ fk_table fk"

record orm_table =
  orm_table :: table
  orm_indexes :: "index_def list"

definition mixin_stamps :: "column list" where
  "mixin_stamps = [dflt ''created_at'' TimestampTz ''now()'', dflt ''updated_at'' TimestampTz ''now()'']"

definition role_orm :: orm_table where
  "role_orm = \<lparr>orm_table = plain ''roles''
     ([pk ''id'' 64, req ''name'' (VarChar 128), req ''description'' TextT, req ''status'' (VarChar 32),
       req ''permissions'' JsonB, req ''is_system'' BoolT] @ mixin_stamps), orm_indexes = []\<rparr>"

definition user_orm :: orm_table where
  "user_orm = \<lparr>orm_table = \<lparr>t_name = ''users'',
     t_columns = [pk ''id'' 36, req ''full_name'' (VarChar 255), req ''email'' (VarChar 255), opt ''phone'' (VarChar 64),
       opt ''department'' (VarChar 128), req ''hashed_password'' (VarChar 255), req ''role_id'' (VarChar 64),
       req ''status'' (VarChar 32), opt ''avatar'' (VarChar 16), opt ''last_login'' TimestampTz,
       dflt ''failed_login_count'' Int4 ''0'', opt ''locked_until'' TimestampTz,
       dflt ''must_reset_password'' BoolT ''false'', opt ''password_changed_at'' TimestampTz] @ mixin_stamps,
     t_fks = [(''fk_users_role_id_roles'', to_key ''role_id'' ''roles'' False)], t_checks = []\<rparr>,
     orm_indexes = [index_on ''users'' ''email'' True, index_on ''users'' ''role_id'' False]\<rparr>"

definition user_session_orm :: orm_table where
  "user_session_orm = \<lparr>orm_table = \<lparr>t_name = ''user_sessions'',
     t_columns = [pk ''id'' 36, req ''user_id'' (VarChar 36), req ''refresh_jti'' (VarChar 64),
       opt ''user_agent'' (VarChar 512), opt ''ip_address'' Inet, req ''issued_at'' TimestampTz,
       req ''expires_at'' TimestampTz, opt ''revoked_at'' TimestampTz, opt ''last_seen_at'' TimestampTz],
     t_fks = [(''fk_user_sessions_user_id_users'', to_key ''user_id'' ''users'' True)], t_checks = []\<rparr>,
     orm_indexes = [index_on ''user_sessions'' ''refresh_jti'' True, index_on ''user_sessions'' ''user_id'' False,
       index_on ''user_sessions'' ''expires_at'' False]\<rparr>"

definition audit_log_orm :: orm_table where
  "audit_log_orm = \<lparr>orm_table = \<lparr>t_name = ''audit_logs'',
     t_columns = [pk ''id'' 36, req ''actor'' (VarChar 128), opt ''actor_id'' (VarChar 36), req ''action'' (VarChar 255),
       opt ''target'' (VarChar 255), opt ''ip_address'' Inet, opt ''user_agent'' (VarChar 512),
       opt ''request_id'' (VarChar 64), req ''meta'' JsonB, req ''at'' TimestampTz],
     t_fks = [(''fk_audit_logs_actor_id_users'', to_key ''actor_id'' ''users'' False)], t_checks = []\<rparr>,
     orm_indexes = [index_on ''audit_logs'' ''actor'' False, index_on ''audit_logs'' ''actor_id'' False,
       index_on ''audit_logs'' ''request_id'' False, index_on ''audit_logs'' ''at'' False]\<rparr>"

definition case_orm :: orm_table where
  "case_orm = \<lparr>orm_table = \<lparr>t_name = ''cases'',
     t_columns = [pk ''id'' 36, req ''reference'' (VarChar 32), req ''title'' (VarChar 512), req ''description'' TextT,
       req ''severity'' (VarChar 16), req ''status'' (VarChar 32), opt ''owner'' (VarChar 128),
       opt ''owner_id'' (VarChar 36), opt ''linked_txn_id'' (VarChar 128), opt ''estimated_impact'' Float8] @ mixin_stamps,
     t_fks = [],
     t_checks = [(check_name ''cases'' ''chk_cases_severity'', ''severity'', [''low'', ''medium'', ''high'', ''critical'']),
       (check_name ''cases'' ''chk_cases_status'', ''status'', [''Open'', ''In Progress'', ''Resolved'', ''Closed'', ''Cancelled''])]\<rparr>,
     orm_indexes = [index_on ''cases'' ''reference'' True, index_on ''cases'' ''status'' False]\<rparr>"

definition case_comment_orm :: orm_table where
  "case_comment_orm = \<lparr>orm_table = \<lparr>t_name = ''case_comments'',
     t_columns = [pk ''id'' 36, req ''case_id'' (VarChar 36), req ''author'' (VarChar 128), req ''body'' TextT,
       req ''created_at'' TimestampTz],
     t_fks = [(''fk_case_comments_case_id_cases'', to_key ''case_id'' ''cases'' True)], t_checks = []\<rparr>,
     orm_indexes = [index_on ''case_comments'' ''case_id'' False]\<rparr>"

definition saved_query_orm :: orm_table where
  "saved_query_orm = \<lparr>orm_table = plain ''saved_queries''
     ([pk ''id'' 36, req ''reference'' (VarChar 32), req ''name'' (VarChar 512), opt ''owner'' (VarChar 128),
       req ''definition'' JsonB, req ''last_count'' Int4] @ mixin_stamps),
     orm_indexes = [index_on ''saved_queries'' ''reference'' True]\<rparr>"

definition decoder_orm :: orm_table where
  "decoder_orm = \<lparr>orm_table = plain ''decoders''
     ([pk ''id'' 64, req ''name'' (VarChar 255), req ''version'' (VarChar 32), req ''status'' (VarChar 32),
       opt ''throughput'' (VarChar 32), req ''config'' JsonB] @ mixin_stamps), orm_indexes = []\<rparr>"

definition system_config_orm :: orm_table where
  "system_config_orm = \<lparr>orm_table = plain ''system_config''
     ([pk ''id'' 32, req ''environment'' (VarChar 32), req ''retention_days'' Int4, req ''sla_minutes'' Int4,
       opt ''alert_email'' (VarChar 255), req ''maintenance_mode'' BoolT, req ''extra'' JsonB] @ mixin_stamps),
     orm_indexes = []\<rparr>"

definition pipeline_alert_orm :: orm_table where
  "pipeline_alert_orm = \<lparr>orm_table = plain ''pipeline_alerts''
     [pk ''id'' 64, req ''severity'' (VarChar 16), req ''stage'' (VarChar 64), req ''message'' TextT,
       req ''status'' (VarChar 32), opt ''acknowledged_by'' (VarChar 128), req ''created_at'' TimestampTz],
     orm_indexes = []\<rparr>"

definition report_orm :: orm_table where
  "report_orm = \<lparr>orm_table = plain ''reports''
     ([pk ''id'' 36, req ''reference'' (VarChar 32), req ''name'' (VarChar 255), req ''report_type'' (VarChar 64),
       opt ''period'' (VarChar 32), req ''status'' (VarChar 32), opt ''size_bytes'' Int8, opt ''file_path'' (VarChar 1024),
       opt ''checksum_sha256'' (VarChar 64), opt ''requested_by'' (VarChar 128), req ''params'' JsonB,
       opt ''error'' TextT, opt ''completed_at'' TimestampTz] @ mixin_stamps),
     orm_indexes = [index_on ''reports'' ''reference'' True, index_on ''reports'' ''status'' False]\<rparr>"

definition rule_orm :: orm_table where
  "rule_orm = \<lparr>orm_table = \<lparr>t_name = ''rules'',
     t_columns = [pk ''id'' 36, opt ''parent_id'' (VarChar 36), req ''name'' (VarChar 255), dflt ''description'' TextT '''',
       dflt ''severity'' (VarChar 16) ''medium'', dflt ''status'' (VarChar 32) ''Draft'', dflt ''version'' Int4 ''1'',
       req ''definition'' JsonB, opt ''schedule'' (VarChar 64), req ''created_by'' (VarChar 36),
       opt ''approved_by'' (VarChar 36), opt ''approved_at'' TimestampTz, opt ''rejected_reason'' TextT,
       opt ''disabled_at'' TimestampTz] @ mixin_stamps,
     t_fks = [(''fk_rules_created_by_users'', to_key ''created_by'' ''users'' False),
       (''fk_rules_approved_by_users'', to_key ''approved_by'' ''users'' False)], t_checks = []\<rparr>,
     orm_indexes = [index_on ''rules'' ''parent_id'' False, index_on ''rules'' ''status'' False]\<rparr>"

definition rule_run_orm :: orm_table where
  "rule_run_orm = \<lparr>orm_table = \<lparr>t_name = ''rule_runs'',
     t_columns = [pk ''id'' 36, req ''rule_id'' (VarChar 36), opt ''dag_run_id'' (VarChar 128),
       opt ''triggered_by'' (VarChar 36), dflt ''status'' (VarChar 32) ''Triggered'', dflt ''params'' JsonB ''{}'',
       opt ''started_at'' TimestampTz, opt ''ended_at'' TimestampTz, opt ''row_count'' Int8, opt ''summary'' JsonB,
       opt ''output_table'' (VarChar 255), opt ''error'' TextT, dflt ''created_at'' TimestampTz ''now()''],
     t_fks = [(''fk_rule_runs_rule_id_rules'', to_key ''rule_id'' ''rules'' False),
       (''fk_rule_runs_triggered_by_users'', to_key ''triggered_by'' ''users'' False)], t_checks = []\<rparr>,
     orm_indexes = [index_on ''rule_runs'' ''rule_id'' False, index_on ''rule_runs'' ''status'' False]\<rparr>"

definition metadata :: "orm_table list" where
  "metadata =
     [case_orm, case_comment_orm, saved_query_orm, audit_log_orm, role_orm, user_orm, user_session_orm,
      decoder_orm, pipeline_alert_orm, system_config_orm, report_orm, rule_orm, rule_run_orm]"

section \<open>Agreement\<close>

definition same_members :: "'a list \<Rightarrow> 'a list \<Rightarrow> bool" where
  "same_members xs ys = (list_all (\<lambda>x. x \<in> set ys) xs \<and> list_all (\<lambda>y. y \<in> set xs) ys)"

text \<open>
  Column by column: the names, types, nullability and key; a server default the model declares is the
  one of the schema. Names of foreign keys and checks may differ, what they constrain may not.
\<close>

definition column_shape :: "column \<Rightarrow> string \<times> coltype \<times> bool \<times> bool" where
  "column_shape c = (col_name c, col_type c, col_nullable c, col_primary c)"

definition defaults_agree :: "table \<Rightarrow> table \<Rightarrow> bool" where
  "defaults_agree model real =
     list_all (\<lambda>c. col_default c = None \<or> map_option col_default (find_column (col_name c) real) = Some (col_default c))
       (t_columns model)"

definition table_agrees :: "schema \<Rightarrow> orm_table \<Rightarrow> bool" where
  "table_agrees s m =
     (case find_table (t_name (orm_table m)) s of
        None \<Rightarrow> False
      | Some t \<Rightarrow>
          same_members (map column_shape (t_columns (orm_table m))) (map column_shape (t_columns t)) \<and>
          defaults_agree (orm_table m) t \<and>
          same_members (map snd (t_fks (orm_table m))) (map snd (t_fks t)) \<and>
          same_members (map snd (t_checks (orm_table m))) (map snd (t_checks t)) \<and>
          same_members (orm_indexes m) (filter (\<lambda>i. ix_table i = t_name t) (sch_indexes s)))"

text \<open>The two revisions one after the other, and back.\<close>

definition head_schema :: "schema option" where
  "head_schema = run_ops (upgrade_0001 @ upgrade_0002) empty_schema"

lemma run_ops_append: "run_ops (ps @ qs) s = (case run_ops ps s of None \<Rightarrow> None | Some t \<Rightarrow> run_ops qs t)"
  by (induction ps arbitrary: s) (auto split: option.split)

section \<open>Properties\<close>



text \<open>
  Which names the migrated schema shares with the models. The models, and every index of the
  schema, follow the naming convention; so do the foreign keys of revision 0001. Those of revision 0002
  leave out the target table, and the two checks keep the name they are declared with, while the
  convention prefixes it in the models: a later revision that drops these by the name the models give
  would not find them.
\<close>

theorem constraint_names_diverge:
  "list_all (\<lambda>m. list_all (\<lambda>(n, fk). n = key_name (t_name (orm_table m)) fk) (t_fks (orm_table m)) \<and>
      list_all (\<lambda>i. ix_name i = index_name (ix_table i) (ix_column i)) (orm_indexes m)) metadata \<and>
   (case (run_ops upgrade_0001 empty_schema, head_schema) of
      (Some s1, Some s) \<Rightarrow>
        list_all (\<lambda>t. list_all (\<lambda>(n, fk). n = key_name (t_name t) fk) (t_fks t)) (sch_tables s1) \<and>
        list_all (\<lambda>i. ix_name i = index_name (ix_table i) (ix_column i)) (sch_indexes s) \<and>
        concat (map (\<lambda>t. map fst (filter (\<lambda>(n, fk). n \<noteq> key_name (t_name t) fk) (t_fks t))) (sch_tables s)) =
          [''fk_audit_logs_actor_id'', ''fk_user_sessions_user_id'', ''fk_rules_created_by'',
           ''fk_rules_approved_by'', ''fk_rule_runs_rule_id'', ''fk_rule_runs_triggered_by''] \<and>
        concat (map (\<lambda>t. map fst (t_checks t)) (sch_tables s)) = [''chk_cases_severity'', ''chk_cases_status''] \<and>
        concat (map (\<lambda>m. map fst (t_checks (orm_table m))) metadata) =
          [''ck_cases_chk_cases_severity'', ''ck_cases_chk_cases_status'']
    | _ \<Rightarrow> False)"
  by code_simp

end
