(* ===== verification/Alembic_Env.thy ===== *)
theory Alembic_Env
  imports Migrations Config
begin

text \<open>
  How the revisions are applied, \<open>src/migrations/env.py\<close>: one connection, on which the environment
  first makes the application schema and the search path, commits, and then hands the connection to
  Alembic, which runs the operations of the pending revisions. SQLAlchemy's connection begins a
  transaction with the first statement and throws away what is not committed when it is closed.
  Alembic is a parameter: \<open>within\<close> is \<open>context.begin_transaction()\<close> around a block.
\<close>

section \<open>Connections\<close>

text \<open>The namespaces of the database and the search path of the session.\<close>

record pg_state =
  namespaces :: "string \<rightharpoonup> schema"
  search_path :: "string list"

record connection =
  durable :: pg_state
  working :: pg_state
  busy :: bool

text \<open>
  How PostgreSQL reads a text as one quoted identifier: a quote inside is doubled, and the empty name is
  refused. A text that is anything else is an error here.
\<close>

fun quoted_body :: "string \<Rightarrow> string option" where
  "quoted_body [] = None"
| "quoted_body (c # cs) =
     (if c = CHR 0x22 then
        (case cs of
           [] \<Rightarrow> Some []
         | d # ds \<Rightarrow> if d = CHR 0x22 then map_option (\<lambda>r. d # r) (quoted_body ds) else None)
      else map_option (\<lambda>r. c # r) (quoted_body cs))"

definition pg_ident :: "string \<Rightarrow> string option" where
  "pg_ident txt =
     (case txt of
        [] \<Rightarrow> None
      | c # cs \<Rightarrow>
          if c = CHR 0x22 then (case quoted_body cs of None \<Rightarrow> None | Some n \<Rightarrow> if n = [] then None else Some n)
          else None)"

definition in_quotes :: "string \<Rightarrow> string" where
  "in_quotes n = [CHR 0x22] @ n @ [CHR 0x22]"

lemma quoted_body_plain: "CHR 0x22 \<notin> set n \<Longrightarrow> quoted_body (n @ [CHR 0x22]) = Some n"
  by (induction n) auto

lemma pg_ident_plain: "n \<noteq> [] \<Longrightarrow> CHR 0x22 \<notin> set n \<Longrightarrow> pg_ident (in_quotes n) = Some n"
  by (simp add: pg_ident_def in_quotes_def quoted_body_plain)

text \<open>
  The two statements of the environment, with the text spliced into them. Names that begin with
  \<open>pg_\<close> are reserved.
\<close>

datatype statement = CreateSchemaIfNotExists string | SetSearchPathAndPublic string

fun pg_exec :: "statement \<Rightarrow> pg_state \<Rightarrow> pg_state option" where
  "pg_exec (CreateSchemaIfNotExists txt) s =
     (case pg_ident txt of
        None \<Rightarrow> None
      | Some n \<Rightarrow>
          if starts_with n ''pg_'' then None
          else Some (if namespaces s n = None then s\<lparr>namespaces := (namespaces s)(n \<mapsto> empty_schema)\<rparr> else s))"
| "pg_exec (SetSearchPathAndPublic txt) s =
     (case pg_ident txt of None \<Rightarrow> None | Some n \<Rightarrow> Some (s\<lparr>search_path := [n, ''public'']\<rparr>))"

type_synonym block = "connection \<Rightarrow> bool \<times> connection"

definition exec_driver_sql :: "statement \<Rightarrow> block" where
  "exec_driver_sql q c =
     (case pg_exec q (working c) of
        None \<Rightarrow> (False, c\<lparr>busy := True\<rparr>)
      | Some s \<Rightarrow> (True, c\<lparr>working := s, busy := True\<rparr>))"

definition conn_commit :: "connection \<Rightarrow> connection" where
  "conn_commit c = c\<lparr>durable := working c, busy := False\<rparr>"

definition conn_rollback :: "connection \<Rightarrow> connection" where
  "conn_rollback c = c\<lparr>working := durable c, busy := False\<rparr>"

section \<open>The environment\<close>

text \<open>Unqualified operations act on the first namespace of the path that exists.\<close>

definition current_namespace :: "pg_state \<Rightarrow> string option" where
  "current_namespace s = find (\<lambda>n. namespaces s n \<noteq> None) (search_path s)"

text \<open>The operations of the revisions Alembic has found pending; a refused one raises.\<close>

definition apply_revisions :: "op list \<Rightarrow> connection \<Rightarrow> bool \<times> connection" where
  "apply_revisions ops c =
     (case current_namespace (working c) of
        None \<Rightarrow> (False, c\<lparr>busy := True\<rparr>)
      | Some n \<Rightarrow>
          (case run_ops ops (the (namespaces (working c) n)) of
             None \<Rightarrow> (False, c\<lparr>busy := True\<rparr>)
           | Some s \<Rightarrow>
               (True, c\<lparr>working := (working c)\<lparr>namespaces := (namespaces (working c))(n \<mapsto> s)\<rparr>,
                  busy := True\<rparr>)))"

text \<open>A step that raises skips the rest; leaving the \<open>with\<close> block closes the connection on every path.\<close>

definition and_then :: "block \<Rightarrow> block \<Rightarrow> block" where
  "and_then f g c = (case f c of (ok, c') \<Rightarrow> if ok then g c' else (False, c'))"

definition run_migrations_online :: "(block \<Rightarrow> block) \<Rightarrow> settings \<Rightarrow> op list \<Rightarrow> block" where
  "run_migrations_online within st ops c =
     (case and_then (exec_driver_sql (CreateSchemaIfNotExists (in_quotes (app_db_schema st))))
           (and_then (exec_driver_sql (SetSearchPathAndPublic (in_quotes (app_db_schema st))))
           (\<lambda>c2. within (apply_revisions ops) (conn_commit c2))) c of
        (ok, c') \<Rightarrow> (ok, conn_rollback c'))"

text \<open>The filter of the comparison between the models and the database.\<close>

definition include_object :: "string option \<Rightarrow> string \<Rightarrow> bool" where
  "include_object name kind = (\<not> (kind = ''table'' \<and> name = Some ''alembic_version''))"

text \<open>
  What Alembic documents of \<open>begin_transaction\<close>: on an idle connection it begins a transaction and
  commits it at the end of the block, or rolls it back when the block raises; a transaction that was
  already open is left to its owner.
\<close>

definition alembic_law :: "(block \<Rightarrow> block) \<Rightarrow> bool" where
  "alembic_law within =
     (\<forall>body c. within body c =
        (if busy c then body c
         else case body (c\<lparr>busy := True\<rparr>) of
             (True, c') \<Rightarrow> (True, conn_commit c')
           | (False, c') \<Rightarrow> (False, conn_rollback c')))"

section \<open>Properties\<close>

definition schema_at :: "string \<Rightarrow> connection \<Rightarrow> schema" where
  "schema_at n c = (case namespaces (durable c) n of None \<Rightarrow> empty_schema | Some s \<Rightarrow> s)"

text \<open>
  A name that stands for itself between the quotes: it has none, is not reserved, is not cut off at the 63
  bytes of a PostgreSQL name, and is not the placeholder for the user in a search path.
\<close>

definition schema_named :: "settings \<Rightarrow> bool" where
  "schema_named st =
     (app_db_schema st \<noteq> [] \<and> CHR 0x22 \<notin> set (app_db_schema st) \<and> \<not> starts_with (app_db_schema st) ''pg_'' \<and>
      length (app_db_schema st) \<le> 63 \<and> app_db_schema st \<noteq> ''$user'')"

text \<open>The connection as the environment hands it over.\<close>

definition prepared :: "settings \<Rightarrow> connection \<Rightarrow> connection" where
  "prepared st c = (let s = (durable c)\<lparr>namespaces := (namespaces (durable c))(app_db_schema st \<mapsto> schema_at (app_db_schema st) c),
     search_path := [app_db_schema st, ''public'']\<rparr> in \<lparr>durable = s, working = s, busy = False\<rparr>)"

lemma handed_over:
  assumes "schema_named st" and "working c = durable c"
  shows "run_migrations_online within st ops c =
    (case within (apply_revisions ops) (prepared st c) of (ok, c') \<Rightarrow> (ok, conn_rollback c'))"
proof -
  have n: "pg_ident (in_quotes (app_db_schema st)) = Some (app_db_schema st)"
    using assms(1) by (intro pg_ident_plain) (simp_all add: schema_named_def)
  have free: "\<not> starts_with (app_db_schema st) ''pg_''" using assms(1) by (simp add: schema_named_def)
  obtain d k b where c: "c = \<lparr>durable = d, working = d, busy = b\<rparr>"
    using assms(2) by (cases c) simp
  show ?thesis
    by (cases "namespaces d (app_db_schema st)")
       (simp_all add: run_migrations_online_def and_then_def exec_driver_sql_def n free conn_commit_def prepared_def
         schema_at_def c Let_def map_upd_triv)
qed

lemma apply_prepared:
  "apply_revisions ops ((prepared st c)\<lparr>busy := True\<rparr>) =
     (case run_ops ops (schema_at (app_db_schema st) c) of
        None \<Rightarrow> (False, (prepared st c)\<lparr>busy := True\<rparr>)
      | Some s \<Rightarrow> (True, (prepared st c)\<lparr>busy := True,
          working := (working (prepared st c))\<lparr>namespaces := (namespaces (durable c))(app_db_schema st \<mapsto> s)\<rparr>\<rparr>))"
  by (simp add: apply_revisions_def prepared_def current_namespace_def Let_def split: option.split)

text \<open>The connection at the end, closed.\<close>

definition migrated :: "settings \<Rightarrow> schema \<Rightarrow> connection \<Rightarrow> connection" where
  "migrated st s c =
     (let d = (durable (prepared st c))\<lparr>namespaces := (namespaces (durable c))(app_db_schema st \<mapsto> s)\<rparr> in
      \<lparr>durable = d, working = d, busy = False\<rparr>)"

lemma migrates:
  assumes "alembic_law within" and "schema_named st" and "working c = durable c"
  shows "run_migrations_online within st ops c =
    (case run_ops ops (schema_at (app_db_schema st) c) of
       None \<Rightarrow> (False, prepared st c) | Some s \<Rightarrow> (True, migrated st s c))"
proof -
  have "busy (prepared st c) = False" by (simp add: prepared_def Let_def)
  then have "within (apply_revisions ops) (prepared st c) =
      (case apply_revisions ops ((prepared st c)\<lparr>busy := True\<rparr>) of
          (True, c') \<Rightarrow> (True, conn_commit c') | (False, c') \<Rightarrow> (False, conn_rollback c'))"
    using assms(1) by (simp add: alembic_law_def)
  then show ?thesis
    by (cases "run_ops ops (schema_at (app_db_schema st) c)")
       (simp_all add: handed_over [OF assms(2,3)] apply_prepared conn_commit_def conn_rollback_def,
        simp_all add: prepared_def migrated_def Let_def)
qed

text \<open>
  C20: a migration is all or nothing, and it lasts. Whatever the database holds, running the environment
  with the operations of the pending revisions leaves, after the connection is closed, the application
  schema as these operations make it (starting from an empty one when it was not there), or, when one
  of them is refused, as it was; no other namespace changes. This rests on the commit before Alembic
  takes over.
\<close>

theorem migration_is_atomic_and_kept:
  assumes "alembic_law within" and "schema_named st" and "working c = durable c"
  shows "case run_migrations_online within st ops c of (ok, c') \<Rightarrow>
    busy c' = False \<and> working c' = durable c' \<and>
    ok = (run_ops ops (schema_at (app_db_schema st) c) \<noteq> None) \<and>
    namespaces (durable c') = (namespaces (durable c))(app_db_schema st \<mapsto>
      (case run_ops ops (schema_at (app_db_schema st) c) of
         None \<Rightarrow> schema_at (app_db_schema st) c | Some s \<Rightarrow> s))"
  by (simp add: migrates [OF assms] prepared_def migrated_def Let_def split: option.split)

text \<open>A database without the schema: both revisions are applied and stay.\<close>

definition documented_block :: "block \<Rightarrow> block" where
  "documented_block body c =
     (if busy c then body c
      else case body (c\<lparr>busy := True\<rparr>) of
          (True, c') \<Rightarrow> (True, conn_commit c') | (False, c') \<Rightarrow> (False, conn_rollback c'))"

definition new_database :: connection where
  "new_database = (let s = \<lparr>namespaces = [''public'' \<mapsto> empty_schema], search_path = [''public'']\<rparr> in
     \<lparr>durable = s, working = s, busy = False\<rparr>)"

theorem migration_is_atomic_and_kept_witness:
  "\<exists>c' s. run_migrations_online documented_block default_settings (upgrade_0001 @ upgrade_0002) new_database = (True, c') \<and>
     namespaces (durable c') ''administration'' = Some s \<and> head_schema = Some s \<and>
     namespaces (durable c') ''public'' = Some empty_schema"
proof -
  have law: "alembic_law documented_block" by (simp add: alembic_law_def documented_block_def)
  have name: "app_db_schema default_settings = ''administration''" by (simp add: default_settings_def)
  have "head_schema \<noteq> None" by code_simp
  then obtain s where s: "head_schema = Some s" by blast
  have start: "schema_at ''administration'' new_database = empty_schema" "working new_database = durable new_database"
    "namespaces (durable new_database) ''public'' = Some empty_schema"
    by (simp_all add: new_database_def schema_at_def Let_def)
  have "schema_named default_settings" by (simp add: schema_named_def name starts_with_def)
  from migration_is_atomic_and_kept [OF law this start(2), of "upgrade_0001 @ upgrade_0002"] show ?thesis
    using s start by (simp add: name head_schema_def split: prod.splits)
qed

text \<open>
  Without the commit the transaction of the two statements is still open when Alembic takes over, and
  all of the migration is lost when the connection is closed.
\<close>

lemma without_the_commit:
  assumes "alembic_law within" and "working c = durable c" and "busy c'" and "durable c' = durable c"
  shows "durable (conn_rollback (snd (within (apply_revisions ops) c'))) = durable c"
  using assms by (simp add: alembic_law_def apply_revisions_def conn_rollback_def split: option.split)

end
