(* ===== verification/Engines.thy ===== *)
theory Engines
  imports Alembic_Env
begin

text \<open>
  The three places that connect to the application database, and whether they look at the same tables:
  the engine of the application (\<open>app/core/database.py\<close>), the engine of the worker (\<open>app/workers/db.py\<close>)
  and the environment of the migrations (\<open>migrations/env.py\<close>), whose URL goes through the
  configuration file. The two engines only name the schema in the search path of their sessions.
\<close>

section \<open>Engines\<close>

text \<open>What is not given is left to SQLAlchemy (\<open>None\<close>).\<close>

datatype connect_args = ServerSettings "(string \<times> string) list" | LibpqOptions string

record engine_options =
  eng_url :: string
  eng_echo :: "bool option"
  eng_pool_size :: "int option"
  eng_max_overflow :: "int option"
  eng_pre_ping :: bool
  eng_connect :: connect_args

definition app_engine :: "dsn_build \<Rightarrow> settings \<Rightarrow> engine_options" where
  "app_engine build st =
     \<lparr>eng_url = app_database_url build st, eng_echo = Some (db_echo st), eng_pool_size = Some (db_pool_size st),
      eng_max_overflow = Some (db_max_overflow st), eng_pre_ping = True,
      eng_connect = ServerSettings [(''search_path'', app_db_schema st)]\<rparr>"

definition worker_engine :: "dsn_build \<Rightarrow> settings \<Rightarrow> engine_options" where
  "worker_engine build st =
     \<lparr>eng_url = app_database_url_sync build st, eng_echo = None, eng_pool_size = None,
      eng_max_overflow = None, eng_pre_ping = True,
      eng_connect = LibpqOptions (''-csearch_path='' @ app_db_schema st)\<rparr>"

text \<open>
  The search path of a new session. How PostgreSQL reads a list of names (\<open>guc\<close>) and the options of a
  connection (\<open>opts\<close>) is a parameter.
\<close>

definition session_settings :: "(string \<Rightarrow> (string \<times> string) list) \<Rightarrow> connect_args \<Rightarrow> (string \<times> string) list" where
  "session_settings opts a = (case a of ServerSettings ps \<Rightarrow> ps | LibpqOptions t \<Rightarrow> opts t)"

definition session_path ::
  "(string \<Rightarrow> string list option) \<Rightarrow> (string \<Rightarrow> (string \<times> string) list) \<Rightarrow> engine_options \<Rightarrow> string list option" where
  "session_path guc opts e =
     (case map_of (session_settings opts (eng_connect e)) ''search_path'' of None \<Rightarrow> None | Some v \<Rightarrow> guc v)"

section \<open>The URL of the migrations\<close>

text \<open>
  \<open>set_main_option\<close> stores the URL in a \<open>ConfigParser\<close> and the engine reads it from there: \<open>%%\<close> is a
  percent sign and a single one is an error. (A reference \<open>%(name)s\<close> to another option is taken to be
  an error, as it is for a name that is no option.)
\<close>

fun interpolated :: "string \<Rightarrow> string option" where
  "interpolated [] = Some []"
| "interpolated (c # cs) =
     (if c = CHR ''%'' then
        (case cs of
           [] \<Rightarrow> None
         | d # ds \<Rightarrow> if d = CHR ''%'' then map_option (\<lambda>r. CHR ''%'' # r) (interpolated ds) else None)
      else map_option (\<lambda>r. c # r) (interpolated cs))"

definition main_url :: "dsn_build \<Rightarrow> settings \<Rightarrow> string option" where
  "main_url build st = interpolated (app_database_url_sync build st)"

text \<open>The script, online: an answer of \<open>None\<close> is the \<open>ValueError\<close>. What a connection finds is a parameter.\<close>

definition migrate ::
  "dsn_build \<Rightarrow> (block \<Rightarrow> block) \<Rightarrow> (string \<Rightarrow> connection) \<Rightarrow> settings \<Rightarrow> op list \<Rightarrow> (bool \<times> connection) option" where
  "migrate build within connect st ops =
     (case main_url build st of
        None \<Rightarrow> None
      | Some url \<Rightarrow> Some (run_migrations_online within st ops (connect url)))"

section \<open>Documented behaviour of PostgreSQL\<close>

text \<open>A word of letters, digits and underscores: in a search path it is folded to lower case.\<close>

definition word_char :: "char \<Rightarrow> bool" where
  "word_char c =
     (c \<in> set ''abcdefghijklmnopqrstuvwxyzABCDEFGHIJKLMNOPQRSTUVWXYZ_0123456789'')"

definition plain_word :: "string \<Rightarrow> bool" where
  "plain_word s =
     (s \<noteq> [] \<and> list_all word_char s \<and> hd s \<notin> set ''0123456789'' \<and> length s \<le> 63)"

definition path_law :: "(string \<Rightarrow> string list option) \<Rightarrow> bool" where
  "path_law guc = (\<forall>s. plain_word s \<longrightarrow> guc s = Some [str_lower s])"

definition options_law :: "(string \<Rightarrow> (string \<times> string) list) \<Rightarrow> bool" where
  "options_law opts = (\<forall>k v. plain_word k \<and> plain_word v \<longrightarrow> opts (''-c'' @ k @ ''='' @ v) = [(k, v)])"

section \<open>Properties\<close>

lemma plain_schema:
  assumes "plain_word (app_db_schema st)" and "\<not> starts_with (app_db_schema st) ''pg_''"
  shows "schema_named st"
proof -
  have "\<not> word_char (CHR 0x22)" "\<not> word_char (CHR ''$'')" by code_simp+
  with assms show ?thesis by (auto simp: schema_named_def plain_word_def list_all_iff)
qed

lemma session_path_folded:
  assumes "path_law guc" and "options_law opts" and "plain_word (app_db_schema st)"
    and "e \<in> {app_engine build st, worker_engine build st}"
  shows "session_path guc opts e = Some [str_lower (app_db_schema st)]"
proof -
  have "plain_word ''search_path''" by code_simp
  with assms(2,3) have "opts (''-c'' @ ''search_path'' @ ''='' @ app_db_schema st) = [(''search_path'', app_db_schema st)]"
    unfolding options_law_def by blast
  with assms(1,3,4) show ?thesis
    by (auto simp: session_path_def session_settings_def app_engine_def worker_engine_def path_law_def)
qed

text \<open>
  C21: do the application and the worker see the tables the migrations have made? After a migration
  that ended well, on a schema name of letters, digits and underscores, the sessions of both look only
  at the name in lower case. When the setting is in lower case this is the migrated schema; with a
  capital letter in it, it is another schema, or none: the migration quotes the name, the engines do not.
\<close>

theorem engines_meet_the_migrations:
  assumes "alembic_law within" and "path_law guc" and "options_law opts"
    and "plain_word (app_db_schema st)" and "\<not> starts_with (app_db_schema st) ''pg_''"
    and "working c = durable c" and "run_migrations_online within st ops c = (True, c')"
    and "e \<in> {app_engine build st, worker_engine build st}"
  shows "namespaces (durable c') (app_db_schema st) = run_ops ops (schema_at (app_db_schema st) c) \<and>
    (\<exists>path. session_path guc opts e = Some path \<and>
       current_namespace ((durable c')\<lparr>search_path := path\<rparr>) =
         (if str_lower (app_db_schema st) = app_db_schema st then Some (app_db_schema st)
          else if namespaces (durable c) (str_lower (app_db_schema st)) = None then None
          else Some (str_lower (app_db_schema st))))"
proof -
  have "schema_named st" using assms(4,5) by (rule plain_schema)
  from migrates [OF assms(1) this assms(6), of ops] assms(7)
  obtain s where s: "run_ops ops (schema_at (app_db_schema st) c) = Some s" "c' = migrated st s c"
    by (auto split: option.splits)
  then have n: "namespaces (durable c') = (namespaces (durable c))(app_db_schema st \<mapsto> s)"
    by (simp add: migrated_def Let_def)
  show ?thesis
    using session_path_folded [OF assms(2,3,4,8)] s(1) by (simp add: n current_namespace_def)
qed

text \<open>A PostgreSQL that reads single words only.\<close>

definition word_path :: "string \<Rightarrow> string list option" where
  "word_path s = Some [str_lower s]"

definition word_options :: "string \<Rightarrow> (string \<times> string) list" where
  "word_options t =
     (let body = drop 2 t in [(takeWhile (\<lambda>c. c \<noteq> CHR ''='') body, drop 1 (dropWhile (\<lambda>c. c \<noteq> CHR ''='') body))])"

lemma word_laws: "path_law word_path" "options_law word_options"
proof -
  show "path_law word_path" by (simp add: path_law_def word_path_def)
  have "\<not> word_char (CHR ''='')" by code_simp
  then have "takeWhile (\<lambda>c. c \<noteq> CHR ''='') (k @ CHR ''='' # v) = k \<and> dropWhile (\<lambda>c. c \<noteq> CHR ''='') (k @ CHR ''='' # v) = CHR ''='' # v"
    if "list_all word_char k" for k v
    using that by (induction k) auto
  then show "options_law word_options" by (simp add: options_law_def word_options_def plain_word_def Let_def)
qed

text \<open>The name of the schema is written with a capital letter: both engines find no schema at all.\<close>

theorem engines_meet_the_migrations_witness:
  "let st = default_settings\<lparr>app_db_schema := ''Administration''\<rparr> in
   \<exists>c' path. run_migrations_online documented_block st (upgrade_0001 @ upgrade_0002) new_database = (True, c') \<and>
     namespaces (durable c') ''Administration'' = head_schema \<and>
     session_path word_path word_options (worker_engine (\<lambda>s u p h n d. s) st) = Some path \<and>
     current_namespace ((durable c')\<lparr>search_path := path\<rparr>) = None"
proof -
  let ?st = "default_settings\<lparr>app_db_schema := ''Administration''\<rparr>"
  have w: "plain_word (app_db_schema ?st)" "\<not> starts_with (app_db_schema ?st) ''pg_''"
    by (simp_all, code_simp+)
  have law: "alembic_law documented_block" by (simp add: alembic_law_def documented_block_def)
  have start: "working new_database = durable new_database" "schema_at (app_db_schema ?st) new_database = empty_schema"
    "namespaces (durable new_database) ''administration'' = None"
    by (simp_all add: new_database_def schema_at_def Let_def)
  have low: "str_lower ''Administration'' = ''administration''" by code_simp
  have "head_schema \<noteq> None" by code_simp
  then obtain c' where r: "run_migrations_online documented_block ?st (upgrade_0001 @ upgrade_0002) new_database = (True, c')"
    using migrates [OF law plain_schema [OF w] start(1), of "upgrade_0001 @ upgrade_0002"] start(2)
    by (auto simp: head_schema_def)
  from engines_meet_the_migrations [OF law word_laws w start(1) r, of "worker_engine (\<lambda>s u p h n d. s) ?st"]
  show ?thesis using r start low by (auto simp: Let_def head_schema_def)
qed

lemma interpolated_plain: "CHR ''%'' \<notin> set s \<Longrightarrow> interpolated s = Some s"
  by (induction s) auto

lemma interpolated_stray: "CHR ''%'' \<notin> set a \<Longrightarrow> h \<noteq> CHR ''%'' \<Longrightarrow> interpolated (a @ CHR ''%'' # h # b) = None"
  by (induction a) auto

text \<open>
  Whether the migrations run at all depends on the URL: without a percent sign they run against the
  very database the worker uses; a percent sign that is not doubled, as in a password that holds one or in
  a reserved character the URL builder has encoded, makes the script fail before it connects.
\<close>

theorem stray_percent_stops_the_migrations:
  "(CHR ''%'' \<notin> set (app_database_url_sync build st) \<longrightarrow>
      migrate build within connect st ops =
        Some (run_migrations_online within st ops (connect (eng_url (worker_engine build st))))) \<and>
    (\<forall>a h b. app_database_url_sync build st = a @ CHR ''%'' # h # b \<longrightarrow> CHR ''%'' \<notin> set a \<longrightarrow> h \<notin> {CHR ''%'', CHR ''(''} \<longrightarrow>
      migrate build within connect st ops = None)"
  by (auto simp: migrate_def main_url_def worker_engine_def interpolated_plain interpolated_stray)

theorem stray_percent_stops_the_migrations_witness:
  "migrate (\<lambda>s u p h n d. s @ ''://'' @ u @ '':'' @ p @ ''@'' @ h @ ''/'' @ d) within connect
     (default_settings\<lparr>app_db_password := ''p%40ss''\<rparr>) ops = None"
proof -
  have "app_database_url_sync (\<lambda>s u p h n d. s @ ''://'' @ u @ '':'' @ p @ ''@'' @ h @ ''/'' @ d)
      (default_settings\<lparr>app_db_password := ''p%40ss''\<rparr>) =
    ''postgresql+psycopg2://radonaix:p'' @ CHR ''%'' # CHR ''4'' # ''0ss@localhost/radonaix_app''"
    by (simp add: app_database_url_sync_def default_settings_def)
  then show ?thesis
    by (rule stray_percent_stops_the_migrations [THEN conjunct2, rule_format]) simp_all
qed

end
