(* ===== verification/Spec2Isabelle.thy ===== *)
theory Spec2Isabelle
  imports Auth_Props Rotation Identity_Props Operations_Props Assurance_Props Reporting_Props Meta
    Privileges Lockout Overlap Routing Export Certified Lifespan Cache Log_Setup Seed Engines
begin

text \<open>
  Verification of the RADONAIX revenue-assurance backend (FastAPI, SQLAlchemy, PostgreSQL; Python
  sources under \<open>src/app\<close> and \<open>src/migrations\<close>).

  \<^bold>\<open>The program.\<close> The backend signs users in (Argon2id and legacy bcrypt hashes, short access tokens,
  refresh tokens rotated per use and bound to a server-side session, lockout after failed logins),
  checks a permission matrix per role in front of every endpoint, and serves five modules: identity
  (users, roles, audit), operations (pipelines, alerts, decoders, system configuration), assurance
  (reconciliation reads, leakage cases, saved queries), reporting (CSV exports written by a Celery
  worker) and meta (probes and the dashboard). ClickHouse, another Postgres and Airflow are read and
  triggered through guarded clients that may be disabled or fail. A middleware gives every request an
  id and an address, which the audit trail records; exceptions become answers in one place.

  \<^bold>\<open>How the model is built.\<close> A service function is an \<open>act\<close>: from a \<open>world\<close> to a value or an exception
  and a new world. The world has the committed store and the store the open transaction sees, the
  counters that stand for the clock and for random draws, the tasks sent to the broker, the cached
  clients, and the report files. What the process only reads is the record \<open>env\<close>: settings, libraries,
  clock, random source, upstream services, request context. The order of reads, writes, flushes and
  explicit commits is the order of the source, so which effects survive a failed request is a matter
  of computation: a failure rolls back to the committed store, and the three places where the code
  commits on its own (counting a failed login, upgrading a hash, revoking a replayed session) are visible.

  \<^bold>\<open>Theories and sources.\<close>
  \<^item> \<open>Prelude\<close>: Python strings and integers as text, dictionaries, keyed lists. \<open>Floats\<close>: doubles as
    rationals with the rounding \<open>dbl\<close>.
  \<^item> \<open>Config\<close> (\<open>core/config.py\<close>), \<open>Errors\<close> (\<open>core/errors.py\<close>: exceptions, envelope, handlers),
    \<open>Rbac\<close> (\<open>core/rbac.py\<close>), \<open>Security\<close> (\<open>core/security.py\<close>; argon2, bcrypt and PyJWT are the record
    \<open>crypto\<close>, and the laws they are documented to obey are named hypotheses), \<open>Middleware\<close>
    (\<open>core/middleware.py\<close> with the context variables of \<open>core/logging.py\<close>).
  \<^item> \<open>Tables\<close>, \<open>Models\<close> (\<open>modules/*/models.py\<close>): rows as records, the store, every declared constraint.
    \<open>Migrations\<close>: both Alembic revisions and the ORM metadata as declarations of the same kind.
    \<open>Alembic_Env\<close> (\<open>migrations/env.py\<close>): the connection on which revisions are applied. \<open>Engines\<close>
    (\<open>core/database.py\<close>, \<open>workers/db.py\<close>): where the application, the worker and the migrations look.
  \<^item> \<open>Log_Setup\<close> (\<open>core/logging.py\<close>): what \<open>configure_logging\<close> leaves and where a record goes. \<open>Json\<close>,
    \<open>Json_Props\<close>: the JSON texts of \<open>json.dumps\<close> and \<open>json.loads\<close>. \<open>Cache\<close> (\<open>core/redis.py\<close>): the cache helpers.
    \<open>Lifespan\<close> (\<open>main.py\<close>): start-up and shutdown of the application.
  \<^item> \<open>Session\<close> (\<open>core/database.py\<close>): \<open>get_session\<close>, flush, commit, rollback, exceptions. \<open>Frames\<close>: what a
    service may do to the store, as rules per primitive and per sequencing.
  \<^item> \<open>Identity\<close>, \<open>Auth\<close> (\<open>modules/identity/service.py\<close>, \<open>core/deps.py\<close>), \<open>Upstream\<close> and \<open>Integrations\<close>
    (\<open>integrations/*.py\<close>), \<open>Operations\<close>, \<open>Assurance\<close>, \<open>Reporting\<close> (with \<open>workers/tasks.py\<close>) and \<open>Meta\<close>: one
    definition per function of each service. \<open>Numbering\<close>: the references CASE-n, Q-n and RPT-n.
    \<open>Seed\<close> (\<open>app/seed.py\<close>).
  \<^item> \<open>Routers\<close> (the five \<open>router.py\<close> files and the dependencies they declare), \<open>Api\<close> (\<open>api.py\<close>,
    \<open>main.py\<close>): every route, its status code, and the path of a request through middleware, session,
    handler and exception handlers.
    \<open>Routing\<close>: the table of all addresses and the way it is searched.
  \<^item> \<open>History\<close>, \<open>System\<close>: the running system as a step relation (requests, worker tasks, shutdown) and
    its runs. \<open>Guard\<close>: the gate in front of the handlers. \<open>Privileges\<close>: who can change
    roles and assignments. \<open>Lockout\<close>: the abstract lockout policy. \<open>Sign_In\<close>: signing in from end to end.
    \<open>Overlap\<close>: requests that overlap, and what their commits write. \<open>Outside\<close>: what reaches beyond the
    database, and the shutdown. \<open>Export\<close>: the exported file. \<open>Certified\<close>: reports and their files over runs.
  \<^item> \<open>Demo\<close>, \<open>Store_Lemmas\<close>, the \<open>_Props\<close> theories and \<open>Rotation\<close>: a concrete deployment for the
    witnesses, shared facts, and the properties of each module.

  \<^bold>\<open>Interfaces.\<close> \<open>keyed_table\<close> (a component of the store with a key; one interpretation per table),
  \<open>numbering\<close> (references by counting rows; cases, queries, reports), \<open>guarded_source\<close> (a client that
  is disabled, fails cleanly or answers; ClickHouse and the other Postgres), \<open>store_order\<close> and
  \<open>store_invariant\<close> (a relation on stores no primitive breaks, carried through whole services; the
  audit trail, revoked sessions, users, the histories of a run, the numbering, the seed), its extension
  \<open>daily_order\<close> (an order that changes of the tables of the daily work respect; the list of reports) and
  \<open>quiet_view\<close> (a view of the store that the daily work does not touch; the privileges), \<open>outside_view\<close> with
  its extensions \<open>no_airflow\<close>, \<open>no_broker\<close>, \<open>no_partner\<close> and \<open>no_redis\<close> (a part of the world that database work
  and these partners do not touch; the files, the Airflow runs, the tasks, the Redis client).

  \<^bold>\<open>What is shown.\<close>
  \<^item> Whole runs: the constraints of the schema always hold; audit records, comments, queries, users,
    roles, revocations and the identity of cases and reports are never taken back; references stay
    numbered and distinct; after a logout the session never serves again; roles, assignments and
    statuses change only by the administration routes and only for callers who hold their permission;
    files, Airflow runs and broker tasks come only from the task or the permitted request meant to make
    them; a completed report always agrees with its file, and a download hands out that file; the shutdown
    releases every client without depending on Redis.
  \<^item> Every request: nothing happens for a caller who is not identified or not permitted; a failed
    request other than login and refresh leaves the committed store alone; a successful one writes
    exactly its audit record; it is counted once, and the context variables are restored. No route
    hides another, and the addresses open to everybody are the probes, login and refresh.
  \<^item> Sign-in: each login moves the account as the abstract policy says (refinement); failures are
    counted past the rollback; the limit locks; a success proves the password, and the right password
    gets in with tokens that work until they expire; rotation and replay; the two kinds of token are
    not interchangeable.
  \<^item> Modules: creation and uniqueness of users, what saving a role grants, the exact fields PATCH
    changes, degradation when an integration is down, quoting of identifiers and parameters, the
    worker's outcomes, the checksum loop, the CSV file and a reader of it, downloads, numbering.
  \<^item> Where the code falls short of its intent, the theorem says what it does: two users whose emails
    differ in case, the race for a reference, parallel wrong passwords that count once, parallel
    refreshes that end in a sign-out, names of constraints that leave the convention, a database URL with a
    percent sign, a task enqueued before its report is committed, the failure of
    the KPI view on an idle day, the 500 and the access log line without a request id.
  \<^item> Deployment: seeding again changes nothing; each downgrade inverts its upgrade; the migrated
    schema is the one the models declare; a migration is all or nothing and lasts, in the schema the
    engines look at unless its name has a capital letter; every log record is written once; the shutdown
    releases the clients and can only be cut short by ClickHouse.
  \<^item> Cache: a stored value comes back whatever it holds; the JSON reader needs no more than its counter.

  \<^bold>\<open>Bounds and approximations.\<close> Strings are lists of bytes; case folding and white space follow Python on
  ASCII. Times are integers; integer columns have the bounds of the database type. Every loop of
  the program is bounded, so definitions are total (the checksum loop by the length of
  what is left of the file) and a result is always reached. Only the JSON reader has a counter, one more
  than twice the length of the text: two calls in a row consume a character, so a larger one changes no
  answer (\<open>json_depth_suffices\<close>); JSON values have no floats, and Python's limit on the depth of calls is left out. In a run, requests follow one another, each
  with its own transaction time and broker state; requests that overlap are the subject of \<open>Overlap\<close> (all
  read, then commit in turn, writing the columns they changed) and of the theorems on the reference race
  and on the early task, which name the interleaving. Upstream services answer by the
  number of the call, so they may fail and recover at any point. The order of dependencies is FastAPI's
  (session, bearer, permission, then parameters and payload), and the transaction is committed before the
  response is sent, as in the FastAPI versions the project requires. A malformed JSON body, which is
  rejected before any dependency runs, is not modelled, nor are the field lists of a 422 and the
  validation of response models. The rendering of an answer as JSON is a parameter of the application.

  \<^bold>\<open>Not modelled.\<close> The log lines outside the middleware and the application's lifetime (no decision
  depends on them), and how structlog renders a line; \<open>workers/celery_app.py\<close> (configuration of Celery; that
  a task may be delivered again is a step of the system); the offline mode of the migrations and the
  table in which Alembic keeps the revision; CORS, the contents of the documentation and metrics pages (FastAPI
  and Prometheus), a path that ends in a line feed; the reading of settings from the environment
  (pydantic).
\<close>

end
